(* ===== verification/Prelude.thy ===== *)
theory Prelude
  imports Main "HOL-Library.List_Lexorder" "HOL-Library.Char_ord" "HOL-Library.Product_Lexorder"
begin

text \<open>
  What every component of the chain shares.

  \<^item> The result of a Go function that can fail: \<open>Ok\<close> with its value, \<open>Err\<close> with the error it
    returns, or \<open>Panic\<close>.  A message handler that returns an error or panics leaves no state behind
    (the transaction is rolled back), so \<open>Err\<close> and \<open>Panic\<close> carry no state.
  \<^item> The key-value store of a module, one section per key prefix: an association list sorted by
    key, so that an iterator is a walk of the list.  The interface the keepers use is the locale
    \<open>kv_store\<close>.
  \<^item> Sums over a store section, which the accounting invariants are stated with.
  \<^item> Unsigned 64-bit arithmetic, with its wrap-around, and the splitting of strings.
\<close>

section \<open>Results\<close>

named_theorems res_simps \<open>elimination of the result monad\<close>
named_theorems sdk_simps \<open>behaviour of the operations the SDK provides\<close>
named_theorems store_simps \<open>getters and setters of the module stores\<close>

text \<open>
  The errors: a registered error is a codespace (the module) and a code of it, from
  \<open>x/*/types/errors.go\<close>; \<open>sdk_err\<close> has the SDK's errors the code returns, and \<open>ErrOther\<close> any error of
  a component that is a parameter here.
\<close>

datatype maker_err =
    ErrGridPriceTooLow | ErrGridPriceTooHigh
  | ErrBackingParamsInvalid | ErrCollateralParamsInvalid
  | ErrBackingCoinDisabled | ErrCollateralCoinDisabled
  | ErrBackingCoinAlreadyExists | ErrCollateralCoinAlreadyExists
  | ErrBackingCoinNotFound | ErrCollateralCoinNotFound
  | ErrGridSlippage | ErrBackingCeiling | ErrCollateralCeiling | ErrGridCeiling
  | ErrBackingCoinInsufficient | ErrCollateralCoinInsufficient | ErrIronCoinInsufficient
  | ErrAccountNoCollateral | ErrAccountInsufficientCollateral | ErrAccountNoDebt
  | ErrNotUndercollateralized | ErrLTVOutOfRange | ErrOverSlippage

datatype oracle_err =
    ErrInvalidExchangeRate | ErrNoVotingPermission | ErrInvalidHash | ErrInvalidHashLength
  | ErrVerificationFailed | ErrRevealPeriodMissMatch | ErrInvalidSaltLength
  | ErrNoAggregatePrevote | ErrNoAggregateVote | ErrNoVoteTarget | ErrUnknownDenom
  | ErrExistingTarget

datatype ve_err =
    ErrInvalidLockDenom | ErrInvalidVeID | ErrPastLockTime | ErrTooLongLockTime
  | ErrNotIncreasedLockTime | ErrLockNotExpired | ErrLockExpired | ErrAmountNotPositive
  | ErrSameVeID | ErrVeAttached

datatype gauge_err =
    ErrInvalidDepositDenom | ErrInvalidAmount | ErrTooSmallRewardAmount | ErrTooLargeAmount

datatype erc20_err =
    ErrInternalTokenPair | ErrTokenPairNotFound | ErrTokenPairAlreadyExists | ErrABIPack | ErrABIUnpack
  | ErrEVMDenom | ErrVMExecution

datatype sdk_err =
    ErrInvalidAddress | ErrInvalidCoins | ErrInvalidRequest | ErrUnknownRequest | ErrUnauthorized | ErrInvalidType
  | ErrInsufficientFunds | ErrNotFound | ErrInvalidPubKey | ErrNoValidatorFound
  | ErrOther string

datatype err =
    MakerErr maker_err | OracleErr oracle_err | VeErr ve_err | GaugeErr gauge_err | Erc20Err erc20_err
  | SdkErr sdk_err

datatype 'a res = Ok 'a | Err err | Panic

fun rbind :: "'a res \<Rightarrow> ('a \<Rightarrow> 'b res) \<Rightarrow> 'b res" where
  "rbind (Ok x) f = f x"
| "rbind (Err e) f = Err e"
| "rbind Panic f = Panic"

definition ensure :: "bool \<Rightarrow> err \<Rightarrow> 'a res \<Rightarrow> 'a res" where
  "ensure b e m = (if b then m else Err e)"

definition is_ok :: "'a res \<Rightarrow> bool" where
  "is_ok m = (case m of Ok _ \<Rightarrow> True | _ \<Rightarrow> False)"

lemma rbind_Ok_iff [res_simps]: "(rbind m f = Ok y) = (\<exists>x. m = Ok x \<and> f x = Ok y)"
  by (cases m) auto

lemma rbind_Err_iff: "(rbind m f = Err e) = (m = Err e \<or> (\<exists>x. m = Ok x \<and> f x = Err e))"
  by (cases m) auto

lemma rbind_Panic_iff: "(rbind m f = Panic) = (m = Panic \<or> (\<exists>x. m = Ok x \<and> f x = Panic))"
  by (cases m) auto

lemma ensure_Ok_iff [res_simps]: "(ensure b e m = Ok y) = (b \<and> m = Ok y)"
  by (simp add: ensure_def)

lemma ensure_True [simp]: "ensure True e m = m"
  by (simp add: ensure_def)

lemma ensure_False [simp]: "ensure False e m = Err e"
  by (simp add: ensure_def)

lemma ensure_Panic_iff: "(ensure b e m = Panic) = (b \<and> m = Panic)"
  by (simp add: ensure_def)

lemma ex_unit: "(\<exists>x::unit. P x) = P ()"
  by (metis unit.exhaust)

text \<open>The rules that turn the success of a monadic body into the existence of its intermediate values.\<close>

lemmas res_inv = rbind_Ok_iff ensure_Ok_iff Let_def split_paired_Ex case_prod_conv res.inject
  prod.inject ex_unit

lemma case_Ok_or_Panic:
  "(case r of Ok x \<Rightarrow> f x | Err e \<Rightarrow> Panic | Panic \<Rightarrow> Panic) = Ok y \<longleftrightarrow> (\<exists>x. r = Ok x \<and> f x = Ok y)"
  by (cases r) auto

text \<open>A call whose error makes the caller panic.\<close>

definition must :: "'a res \<Rightarrow> 'a res" where
  "must r = (case r of Ok x \<Rightarrow> Ok x | _ \<Rightarrow> Panic)"

lemma must_Ok [res_simps]: "must r = Ok x \<longleftrightarrow> r = Ok x"
  by (cases r) (simp_all add: must_def)

text \<open>
  A loop that may run forever is an option, \<open>None\<close> when it does.  The loops in question read the store in
  every round, so in a transaction one that does not end uses up the gas, which panics.
\<close>

definition ended :: "'a option \<Rightarrow> 'a res" where
  "ended r = (case r of None \<Rightarrow> Panic | Some x \<Rightarrow> Ok x)"

lemma ended_Ok [res_simps]: "ended r = Ok x \<longleftrightarrow> r = Some x"
  by (cases r) (simp_all add: ended_def)

lemma ended_Some [simp]: "ended (Some x) = Ok x"
  by (simp add: ended_def)

lemma is_ok_simps [simp]: "is_ok (Ok x)" "\<not> is_ok (Err e)" "\<not> is_ok Panic"
  by (simp_all add: is_ok_def)

lemma is_ok_iff: "is_ok m = (\<exists>x. m = Ok x)"
  by (cases m) auto

section \<open>Store sections\<close>

text \<open>One section of a module's key-value store: the entries in ascending key order.\<close>

type_synonym ('k, 'v) kv = "('k \<times> 'v) list"

definition kv_get :: "('k, 'v) kv \<Rightarrow> 'k \<Rightarrow> 'v option" where
  "kv_get s k = map_of s k"

fun kv_set :: "'k::linorder \<Rightarrow> 'v \<Rightarrow> ('k, 'v) kv \<Rightarrow> ('k, 'v) kv" where
  "kv_set k v [] = [(k, v)]"
| "kv_set k v ((k', v') # s) =
     (if k < k' then (k, v) # (k', v') # s
      else if k = k' then (k, v) # s
      else (k', v') # kv_set k v s)"

definition kv_delete :: "'k \<Rightarrow> ('k, 'v) kv \<Rightarrow> ('k, 'v) kv" where
  "kv_delete k s = filter (\<lambda>e. fst e \<noteq> k) s"

definition kv_has :: "('k, 'v) kv \<Rightarrow> 'k \<Rightarrow> bool" where
  "kv_has s k = (kv_get s k \<noteq> None)"

definition kv_wf :: "('k::linorder, 'v) kv \<Rightarrow> bool" where
  "kv_wf s = sorted_wrt (<) (map fst s)"

text \<open>The sum of a numeric attribute over the entries of a section.\<close>

definition kv_sum :: "('k \<Rightarrow> 'v \<Rightarrow> int) \<Rightarrow> ('k, 'v) kv \<Rightarrow> int" where
  "kv_sum f s = sum_list (map (\<lambda>e. f (fst e) (snd e)) s)"

text \<open>The contribution of one key: zero when the section has no entry for it.\<close>

definition kv_at :: "('k \<Rightarrow> 'v \<Rightarrow> int) \<Rightarrow> ('k, 'v) kv \<Rightarrow> 'k \<Rightarrow> int" where
  "kv_at f s k = (case kv_get s k of None \<Rightarrow> 0 | Some v \<Rightarrow> f k v)"

lemma kv_get_Nil [simp]: "kv_get [] k = None"
  by (simp add: kv_get_def)

lemma kv_get_Cons [simp]: "kv_get ((k', v) # s) k = (if k = k' then Some v else kv_get s k)"
  by (simp add: kv_get_def)

lemma kv_get_set [simp]: "kv_get (kv_set k v s) j = (if j = k then Some v else kv_get s j)"
  by (induction k v s rule: kv_set.induct) auto

lemma kv_get_delete [simp]: "kv_get (kv_delete k s) j = (if j = k then None else kv_get s j)"
  by (induction s) (auto simp: kv_delete_def)

lemma kv_has_set [simp]: "kv_has (kv_set k v s) j = (j = k \<or> kv_has s j)"
  by (simp add: kv_has_def)

lemma kv_keys_set: "set (map fst (kv_set k v s)) = insert k (set (map fst s))"
  by (induction k v s rule: kv_set.induct) auto

lemma kv_wf_Nil [simp]: "kv_wf []"
  by (simp add: kv_wf_def)

lemma kv_wf_Cons: "kv_wf ((k, v) # s) = ((\<forall>j\<in>set (map fst s). k < j) \<and> kv_wf s)"
  by (simp add: kv_wf_def)

lemma kv_wf_set [simp, intro]: "kv_wf s \<Longrightarrow> kv_wf (kv_set k v s)"
proof (induction k v s rule: kv_set.induct)
  case (2 k v k' v' s)
  show ?case
  proof (cases "k < k'")
    case True
    with 2(2) show ?thesis by (auto simp: kv_wf_Cons)
  next
    case False
    with 2 kv_keys_set [of k v s] show ?thesis by (auto simp: kv_wf_Cons)
  qed
qed (simp add: kv_wf_def)

lemma kv_wf_delete [simp, intro]: "kv_wf s \<Longrightarrow> kv_wf (kv_delete k s)"
  by (induction s) (auto simp: kv_wf_def kv_delete_def)

lemma kv_wf_distinct: "kv_wf s \<Longrightarrow> distinct (map fst s)"
  unfolding kv_wf_def by (simp add: strict_sorted_iff)

lemma kv_get_mem: "kv_wf s \<Longrightarrow> (kv_get s k = Some v) = ((k, v) \<in> set s)"
  by (simp add: kv_get_def kv_wf_distinct)

lemma kv_get_notin: "k \<notin> set (map fst s) \<Longrightarrow> kv_get s k = None"
  by (simp add: kv_get_def map_of_eq_None_iff)

lemma kv_sum_Nil [simp]: "kv_sum f [] = 0"
  by (simp add: kv_sum_def)

lemma kv_sum_Cons [simp]: "kv_sum f ((k, v) # s) = f k v + kv_sum f s"
  by (simp add: kv_sum_def)

lemma kv_at_Cons: "kv_at f ((k', v) # s) k = (if k = k' then f k v else kv_at f s k)"
  by (simp add: kv_at_def)

text \<open>Writing one key changes a sum by the difference of that key's contributions.\<close>

lemma kv_sum_set:
  "kv_wf s \<Longrightarrow> kv_sum f (kv_set k v s) = kv_sum f s - kv_at f s k + f k v"
proof (induction k v s rule: kv_set.induct)
  case (1 k v)
  show ?case by (simp add: kv_at_def)
next
  case (2 k v k' v' s)
  show ?case
  proof (cases "k \<le> k'")
    case True
    have "kv_get s k = None" if "k < k'"
      using that 2(2) by (intro kv_get_notin) (force simp: kv_wf_Cons)
    with True show ?thesis by (auto simp: kv_at_def)
  next
    case False
    with 2 show ?thesis by (auto simp: kv_wf_Cons kv_at_Cons)
  qed
qed

lemma kv_sum_delete:
  "kv_wf s \<Longrightarrow> kv_sum f (kv_delete k s) = kv_sum f s - kv_at f s k"
proof (induction s)
  case (Cons e s)
  obtain k' v' where e: "e = (k', v')" by (cases e)
  have IH: "kv_sum f (kv_delete k s) = kv_sum f s - kv_at f s k"
    using Cons e by (simp add: kv_wf_Cons)
  have "kv_get s k = None" if "k = k'"
    using that Cons(2) e by (intro kv_get_notin) (force simp: kv_wf_Cons)
  with IH e show ?case by (auto simp: kv_delete_def kv_at_def)
qed (simp add: kv_delete_def kv_at_def)

lemma kv_sum_nonneg: "(\<And>k v. (k, v) \<in> set s \<Longrightarrow> 0 \<le> f k v) \<Longrightarrow> 0 \<le> kv_sum f s"
  unfolding kv_sum_def by (rule sum_list_nonneg) auto

text \<open>
  What the keepers rely on: reading after writing or deleting, and that an iterator visits each
  entry once, in key order.
\<close>

locale kv_store =
  fixes get :: "'s \<Rightarrow> 'k::linorder \<Rightarrow> 'v option"
    and put :: "'k \<Rightarrow> 'v \<Rightarrow> 's \<Rightarrow> 's"
    and remove :: "'k \<Rightarrow> 's \<Rightarrow> 's"
    and entries :: "'s \<Rightarrow> ('k \<times> 'v) list"
    and valid :: "'s \<Rightarrow> bool"
  assumes get_put: "get (put k v s) j = (if j = k then Some v else get s j)"
    and get_remove: "get (remove k s) j = (if j = k then None else get s j)"
    and valid_put: "valid s \<Longrightarrow> valid (put k v s)"
    and valid_remove: "valid s \<Longrightarrow> valid (remove k s)"
    and entries_get: "valid s \<Longrightarrow> ((k, v) \<in> set (entries s)) = (get s k = Some v)"
    and entries_sorted: "valid s \<Longrightarrow> sorted_wrt (<) (map fst (entries s))"
begin

lemma put_same: "get (put k v s) k = Some v"
  by (simp add: get_put)

lemma remove_put: "get (remove k (put k v s)) = get (remove k s)"
  by (rule ext) (simp add: get_remove get_put)

lemma put_put: "get (put k v (put k w s)) = get (put k v s)"
  by (rule ext) (simp add: get_put)

lemma entries_once: "valid s \<Longrightarrow> distinct (map fst (entries s))"
  using entries_sorted by (simp add: strict_sorted_iff)

lemma entries_put:
  assumes "valid s"
  shows "set (entries (put k v s)) = insert (k, v) {e \<in> set (entries s). fst e \<noteq> k}"
  using assms by (auto simp: entries_get valid_put get_put split: if_splits)

lemma entries_remove:
  assumes "valid s"
  shows "set (entries (remove k s)) = {e \<in> set (entries s). fst e \<noteq> k}"
  using assms by (auto simp: entries_get valid_remove get_remove split: if_splits)

end

interpretation kvs: kv_store kv_get kv_set kv_delete "\<lambda>s. s" kv_wf
  by unfold_locales (auto simp: kv_get_mem, simp add: kv_wf_def)

section \<open>Unsigned 64-bit arithmetic\<close>

text \<open>A \<open>uint64\<close> of the source is a natural number below \<open>2 ^ 64\<close>; addition and subtraction wrap.\<close>

definition u64_mod :: nat where
  "u64_mod = 2 ^ 64"

definition u64_add :: "nat \<Rightarrow> nat \<Rightarrow> nat" where
  "u64_add a b = (a + b) mod u64_mod"

definition u64_sub :: "nat \<Rightarrow> nat \<Rightarrow> nat" where
  "u64_sub a b = (a + u64_mod - b) mod u64_mod"

definition u64_mul :: "nat \<Rightarrow> nat \<Rightarrow> nat" where
  "u64_mul a b = (a * b) mod u64_mod"

text \<open>The conversion \<open>int64(x)\<close> of a \<open>uint64\<close>, in two's complement, and its inverse.\<close>

definition i64_of_u64 :: "nat \<Rightarrow> int" where
  "i64_of_u64 n = (if n < 2 ^ 63 then int n else int n - 2 ^ 64)"

definition u64_of_int :: "int \<Rightarrow> nat" where
  "u64_of_int i = nat (i mod 2 ^ 64)"

lemma u64_add_less [simp]: "a + b < u64_mod \<Longrightarrow> u64_add a b = a + b"
  by (simp add: u64_add_def)

lemma u64_sub_le [simp]: "b \<le> a \<Longrightarrow> a < u64_mod \<Longrightarrow> u64_sub a b = a - b"
  by (simp add: u64_sub_def mod_if [of "a + u64_mod - b"])

lemma u64_mul_less [simp]: "a * b < u64_mod \<Longrightarrow> u64_mul a b = a * b"
  by (simp add: u64_mul_def)

lemma u64_bound [simp]: "u64_add a b < u64_mod" "u64_sub a b < u64_mod" "u64_mul a b < u64_mod"
  by (simp_all add: u64_add_def u64_sub_def u64_mul_def u64_mod_def)

lemma u64_of_int_nonneg [simp]: "0 \<le> i \<Longrightarrow> i < 2 ^ 64 \<Longrightarrow> u64_of_int i = nat i"
  by (simp add: u64_of_int_def)

lemma i64_u64_roundtrip:
  assumes "- (2 ^ 63) \<le> i" "i < 2 ^ 63"
  shows "i64_of_u64 (u64_of_int i) = i"
proof (cases "0 \<le> i")
  case True
  with assms show ?thesis by (simp add: i64_of_u64_def u64_of_int_def)
next
  case False
  with assms have "i mod 2 ^ 64 = i + 2 ^ 64"
    using int_mod_pos_eq [of i "2 ^ 64" "-1" "i + 2 ^ 64"] by simp
  with False assms show ?thesis by (simp add: i64_of_u64_def u64_of_int_def)
qed

section \<open>Strings\<close>

text \<open>\<open>strings.Split\<close> at a one-character separator.\<close>

fun Split :: "string \<Rightarrow> char \<Rightarrow> string list" where
  "Split [] sep = [[]]"
| "Split (c # cs) sep =
     (if c = sep then [] # Split cs sep
      else (case Split cs sep of [] \<Rightarrow> [[c]] | p # ps \<Rightarrow> (c # p) # ps))"

lemma Split_nonempty: "Split s sep \<noteq> []"
  by (cases s) (auto split: list.splits)

lemma Split_append: "sep \<notin> set x \<Longrightarrow> Split (x @ sep # y) sep = x # Split y sep"
  by (induction x) auto

lemma Split_single: "sep \<notin> set x \<Longrightarrow> Split x sep = [x]"
  by (induction x) auto

end
