(* ===== verification/Sdk.thy ===== *)
theory Sdk
  imports Prelude "HOL-Library.Signed_Division"
begin

text \<open>
  The part of the Cosmos SDK the modules are written against.  It is not code of this repository, so
  it is a parameter of every definition that uses it: the record \<open>sdk\<close> holds the operations of
  \<open>sdk.Dec\<close>, \<open>sdk.Coin\<close> and \<open>sdk.Coins\<close> and the address codec, and the record \<open>bank\<close> the operations
  of the bank keeper on an abstract bank state.  The application wires the wrapper of
  \<open>x/bank/keeper\<close> in as that keeper, whose transfers go on to the SDK's bank and to the \<open>erc20\<close> module's
  contracts; the wrapper is not modelled, and the laws are what the other modules rely on of it: a transfer
  of native coins that succeeds does what the SDK's own does.  The locales \<open>sdk_laws\<close> and \<open>bank_laws\<close> state the
  documented behaviour the modules rely on; the properties take \<open>sdk_laws S\<close> or \<open>bank_laws B\<close> as a
  hypothesis.  \<open>cosmos_sdk\<close> and \<open>ledger\<close> are executable instances that satisfy the laws.

  \<open>sdk.Int\<close> is \<open>int\<close> and \<open>sdk.Dec\<close> is the integer it is represented by, scaled by \<open>10 ^ 18\<close>; addition,
  subtraction, negation and comparison of either, and \<open>MulInt\<close>, are exact and are written directly.
  The panic of the SDK on an integer or a decimal too wide for it is modelled where the code recovers from
  it, in \<open>StandardDeviation\<close> of the oracle's ballots, with the field \<open>Dec_Wide\<close>.  Elsewhere it turns a success
  into an aborted transaction and is left out.
\<close>

section \<open>Value types\<close>

type_synonym denom = string
type_synonym addr = string
type_synonym dec = int

record coin =
  Denom :: denom
  Amount :: int

text \<open>\<open>sdk.DecCoins\<close>: a decimal amount per denomination; an absent denomination has amount zero.\<close>

type_synonym deccoins = "(denom, dec) kv"

definition dcs_amt :: "deccoins \<Rightarrow> denom \<Rightarrow> dec" where
  "dcs_amt cs d = (case kv_get cs d of None \<Rightarrow> 0 | Some x \<Rightarrow> x)"

definition dec_one :: int where
  "dec_one = 10 ^ 18"

definition ToDec :: "int \<Rightarrow> dec" where
  "ToDec i = i * dec_one"

definition coin_IsPositive :: "coin \<Rightarrow> bool" where
  "coin_IsPositive c = (0 < Amount c)"

definition coin_IsZero :: "coin \<Rightarrow> bool" where
  "coin_IsZero c = (Amount c = 0)"

definition coin_AddAmount :: "coin \<Rightarrow> int \<Rightarrow> coin" where
  "coin_AddAmount c i = \<lparr>Denom = Denom c, Amount = Amount c + i\<rparr>"

text \<open>The amount of one denomination in a list of coins.\<close>

definition cs_amt :: "coin list \<Rightarrow> denom \<Rightarrow> int" where
  "cs_amt cs d = sum_list (map Amount (filter (\<lambda>c. Denom c = d) cs))"

text \<open>Dereferencing a pointer: a nil pointer panics.\<close>

definition deref :: "'a option \<Rightarrow> 'a res" where
  "deref p = (case p of Some x \<Rightarrow> Ok x | None \<Rightarrow> Panic)"

text \<open>What a block's context gives the handlers: its height and its time in seconds.\<close>

record ctx =
  BlockHeight :: int
  BlockTime :: int

lemma int_div_mult_le: "0 < b \<Longrightarrow> a div b * b \<le> (a::int)"
  using div_mult_mod_eq [of a b] pos_mod_sign [of b a] by linarith

lemma int_le_divI: "0 < b \<Longrightarrow> y * b \<le> a \<Longrightarrow> y \<le> a div (b::int)"
  using zdiv_mono1 [of "y * b" a b] by simp

lemma dec_one_pos [simp]: "0 < dec_one" "0 \<le> dec_one" "dec_one \<noteq> 0"
  by (simp_all add: dec_one_def)

section \<open>The SDK's operations\<close>

record sdk =
  Dec_Mul :: "dec \<Rightarrow> dec \<Rightarrow> dec"
  Dec_Quo :: "dec \<Rightarrow> dec \<Rightarrow> dec res"
  Dec_QuoRoundUp :: "dec \<Rightarrow> dec \<Rightarrow> dec res"
  Dec_QuoTruncate :: "dec \<Rightarrow> dec \<Rightarrow> dec res"
  Dec_QuoInt :: "dec \<Rightarrow> int \<Rightarrow> dec res"
  Dec_RoundInt :: "dec \<Rightarrow> int"
  Dec_TruncateInt :: "dec \<Rightarrow> int"
  Dec_Ceil :: "dec \<Rightarrow> dec"
  Dec_Wide :: "dec \<Rightarrow> bool"
  ValidateDenom :: "string \<Rightarrow> bool"
  NewCoin :: "denom \<Rightarrow> int \<Rightarrow> coin res"
  Coin_Add :: "coin \<Rightarrow> coin \<Rightarrow> coin res"
  Coin_Sub :: "coin \<Rightarrow> coin \<Rightarrow> coin res"
  Coin_IsLT :: "coin \<Rightarrow> coin \<Rightarrow> bool res"
  NewCoins :: "coin list \<Rightarrow> coin list res"
  AccAddressFromBech32 :: "string \<Rightarrow> addr option"
  AccAddress_String :: "addr \<Rightarrow> string"
  ValAddressFromBech32 :: "string \<Rightarrow> addr option"
  ValAddress_String :: "addr \<Rightarrow> string"
  NewDecFromStr :: "string \<Rightarrow> dec option"
  TokensToConsensusPower :: "int \<Rightarrow> int \<Rightarrow> int res"
  NewDecCoinFromDec :: "denom \<Rightarrow> dec \<Rightarrow> (denom \<times> dec) res"
  DecCoins_Add :: "deccoins \<Rightarrow> denom \<times> dec \<Rightarrow> deccoins"
  DecCoins_MulDec :: "deccoins \<Rightarrow> dec \<Rightarrow> deccoins"
  DecCoins_TruncateDecimal :: "deccoins \<Rightarrow> coin list"
  NewDecCoinsFromCoins :: "coin list \<Rightarrow> deccoins"
  Coins_Add :: "coin list \<Rightarrow> coin list \<Rightarrow> coin list"

text \<open>
  The documented behaviour.  \<open>Mul\<close> and \<open>RoundInt\<close> round to a nearest value, \<open>Quo\<close> and \<open>QuoRoundUp\<close>
  are within one unit of the last place of the quotient, \<open>Quo\<close> is exact where the quotient is
  representable, \<open>QuoTruncate\<close> and \<open>TruncateInt\<close> cut off, and a division by zero panics.  Adding or
  comparing coins of different denominations panics, as does a negative result.
\<close>

locale sdk_laws =
  fixes S :: sdk
  assumes Mul_near: "2 * \<bar>Dec_Mul S a b * dec_one - a * b\<bar> \<le> dec_one"
    and Quo_zero: "Dec_Quo S a 0 = Panic"
    and Quo_near: "b \<noteq> 0 \<Longrightarrow> \<exists>q. Dec_Quo S a b = Ok q \<and> \<bar>q * b - a * dec_one\<bar> \<le> \<bar>b\<bar>"
    and Quo_exact: "b \<noteq> 0 \<Longrightarrow> a * dec_one = q * b \<Longrightarrow> Dec_Quo S a b = Ok q"
    and QuoRoundUp_zero: "Dec_QuoRoundUp S a 0 = Panic"
    and QuoRoundUp_near: "0 \<le> a \<Longrightarrow> 0 < b \<Longrightarrow>
          \<exists>q. Dec_QuoRoundUp S a b = Ok q \<and> a * dec_one div b \<le> q \<and> q * b - a * dec_one \<le> b"
    and QuoTruncate_zero: "Dec_QuoTruncate S a 0 = Panic"
    and QuoTruncate_div: "0 \<le> a \<Longrightarrow> 0 < b \<Longrightarrow> Dec_QuoTruncate S a b = Ok (a * dec_one div b)"
    and QuoInt_sdiv: "Dec_QuoInt S a i = (if i = 0 then Panic else Ok (a sdiv i))"
    and RoundInt_near: "2 * \<bar>Dec_RoundInt S a * dec_one - a\<bar> \<le> dec_one"
    and TruncateInt_sdiv: "Dec_TruncateInt S a = a sdiv dec_one"
    and Ceil_least: "Dec_Ceil S a = - ((- a) div dec_one) * dec_one"
    and NewCoin_eq [sdk_simps]: "NewCoin S d i =
          (if ValidateDenom S d \<and> 0 \<le> i then Ok \<lparr>Denom = d, Amount = i\<rparr> else Panic)"
    and Coin_Add_eq [sdk_simps]: "Coin_Add S c e =
          (if Denom c = Denom e then Ok \<lparr>Denom = Denom c, Amount = Amount c + Amount e\<rparr> else Panic)"
    and Coin_Sub_eq [sdk_simps]: "Coin_Sub S c e =
          (if Denom c = Denom e \<and> Amount e \<le> Amount c
           then Ok \<lparr>Denom = Denom c, Amount = Amount c - Amount e\<rparr> else Panic)"
    and Coin_IsLT_eq [sdk_simps]: "Coin_IsLT S c e =
          (if Denom c = Denom e then Ok (Amount c < Amount e) else Panic)"
    and NewCoins_amt: "NewCoins S cs = Ok cs' \<Longrightarrow> cs_amt cs' d = cs_amt cs d"
    and NewCoins_pos: "NewCoins S cs = Ok cs' \<Longrightarrow> c \<in> set cs \<Longrightarrow> 0 \<le> Amount c"
begin

lemma Mul_exact: "a * b = c * dec_one \<Longrightarrow> Dec_Mul S a b = c"
proof -
  assume "a * b = c * dec_one"
  then have "2 * \<bar>(Dec_Mul S a b - c) * dec_one\<bar> \<le> dec_one"
    using Mul_near [of a b] by (simp add: left_diff_distrib)
  then have "2 * \<bar>Dec_Mul S a b - c\<bar> \<le> 1"
    by (simp add: abs_mult dec_one_def)
  then show ?thesis by arith
qed

lemma Mul_one [simp, sdk_simps]: "Dec_Mul S a dec_one = a"
  by (rule Mul_exact) simp

lemma Mul_ToDec [sdk_simps]: "Dec_Mul S (ToDec i) b = i * b"
  by (rule Mul_exact) (simp add: ToDec_def)

lemma Mul_zero [simp]: "Dec_Mul S 0 b = 0" "Dec_Mul S a 0 = 0"
  by (rule Mul_exact, simp)+

lemma Mul_nonneg: "0 \<le> a * b \<Longrightarrow> 0 \<le> Dec_Mul S a b"
proof -
  assume "0 \<le> a * b"
  then have "- dec_one \<le> 2 * (Dec_Mul S a b * dec_one)"
    using Mul_near [of a b] by arith
  then show ?thesis by (simp add: dec_one_def)
qed

lemma Mul_le: "a * b \<le> c * dec_one \<Longrightarrow> Dec_Mul S a b \<le> c"
proof -
  assume "a * b \<le> c * dec_one"
  then have "2 * (Dec_Mul S a b * dec_one) \<le> 2 * (c * dec_one) + dec_one"
    using Mul_near [of a b] by arith
  then show ?thesis by (simp add: dec_one_def)
qed

lemma Mul_ge: "c * dec_one \<le> a * b \<Longrightarrow> c \<le> Dec_Mul S a b"
proof -
  assume "c * dec_one \<le> a * b"
  then have "2 * (c * dec_one) - dec_one \<le> 2 * (Dec_Mul S a b * dec_one)"
    using Mul_near [of a b] by arith
  then show ?thesis by (simp add: dec_one_def)
qed

lemma Mul_strict: "a * b + dec_one < c * d \<Longrightarrow> Dec_Mul S a b < Dec_Mul S c d"
proof -
  assume "a * b + dec_one < c * d"
  then have "Dec_Mul S a b * dec_one < Dec_Mul S c d * dec_one"
    using Mul_near [of a b] Mul_near [of c d] by arith
  then show ?thesis by (simp add: dec_one_def)
qed

lemma Quo_one [simp, sdk_simps]: "Dec_Quo S a dec_one = Ok a"
  by (rule Quo_exact) (simp_all add: dec_one_def)

lemma Quo_Ok_iff: "(\<exists>q. Dec_Quo S a b = Ok q) = (b \<noteq> 0)"
  using Quo_near [of b a] Quo_zero [of a] by auto

lemma Quo_OkD: "Dec_Quo S a b = Ok q \<Longrightarrow> b \<noteq> 0 \<and> \<bar>q * b - a * dec_one\<bar> \<le> \<bar>b\<bar>"
  using Quo_near [of b a] Quo_zero [of a] by (cases "b = 0") auto

lemma QuoTruncate_OkD:
  "Dec_QuoTruncate S a b = Ok q \<Longrightarrow> 0 \<le> a \<Longrightarrow> 0 \<le> b \<Longrightarrow> 0 < b \<and> q = a * dec_one div b"
  using QuoTruncate_div [of a b] QuoTruncate_zero [of a] by (cases "b = 0") auto

lemma QuoTruncate_le:
  "Dec_QuoTruncate S a b = Ok q \<Longrightarrow> 0 \<le> a \<Longrightarrow> 0 \<le> b \<Longrightarrow> q * b \<le> a * dec_one"
  using QuoTruncate_OkD [of a b q] int_div_mult_le [of b "a * dec_one"] by simp

lemma RoundInt_exact: "Dec_RoundInt S (i * dec_one) = i"
proof -
  have "2 * \<bar>(Dec_RoundInt S (i * dec_one) - i) * dec_one\<bar> \<le> dec_one"
    using RoundInt_near [of "i * dec_one"] by (simp add: left_diff_distrib)
  then have "2 * \<bar>Dec_RoundInt S (i * dec_one) - i\<bar> \<le> 1"
    by (simp add: abs_mult dec_one_def)
  then show ?thesis by arith
qed

lemma RoundInt_nonneg: "0 \<le> a \<Longrightarrow> 0 \<le> Dec_RoundInt S a"
proof -
  assume "0 \<le> a"
  then have "- dec_one \<le> 2 * (Dec_RoundInt S a * dec_one)"
    using RoundInt_near [of a] by arith
  then show ?thesis by (simp add: dec_one_def)
qed

lemma RoundInt_le: "a \<le> i * dec_one \<Longrightarrow> Dec_RoundInt S a \<le> i"
proof -
  assume "a \<le> i * dec_one"
  then have "2 * (Dec_RoundInt S a * dec_one) \<le> 2 * (i * dec_one) + dec_one"
    using RoundInt_near [of a] by arith
  then show ?thesis by (simp add: dec_one_def)
qed

lemma TruncateInt_div: "0 \<le> a \<Longrightarrow> Dec_TruncateInt S a = a div dec_one"
  by (simp add: TruncateInt_sdiv signed_divide_int_def dec_one_def sgn_if)

lemma TruncateInt_le: "0 \<le> a \<Longrightarrow> Dec_TruncateInt S a * dec_one \<le> a"
  using int_div_mult_le [of dec_one a] by (simp add: TruncateInt_div dec_one_def)

lemma TruncateInt_nonneg: "0 \<le> a \<Longrightarrow> 0 \<le> Dec_TruncateInt S a"
  by (simp add: TruncateInt_div dec_one_def)

end

lemma cs_amt_single: "cs_amt [c] d = (if Denom c = d then Amount c else 0)"
  by (simp add: cs_amt_def)

section \<open>The bank keeper\<close>

record 'b bank =
  GetBalance :: "'b \<Rightarrow> addr \<Rightarrow> denom \<Rightarrow> coin"
  GetSupply :: "'b \<Rightarrow> denom \<Rightarrow> coin"
  HasSupply :: "'b \<Rightarrow> denom \<Rightarrow> bool"
  SendCoins :: "'b \<Rightarrow> addr \<Rightarrow> addr \<Rightarrow> coin list \<Rightarrow> 'b res"
  SendCoinsFromAccountToModule :: "'b \<Rightarrow> addr \<Rightarrow> string \<Rightarrow> coin list \<Rightarrow> 'b res"
  SendCoinsFromModuleToAccount :: "'b \<Rightarrow> string \<Rightarrow> addr \<Rightarrow> coin list \<Rightarrow> 'b res"
  SendCoinsFromModuleToModule :: "'b \<Rightarrow> string \<Rightarrow> string \<Rightarrow> coin list \<Rightarrow> 'b res"
  MintCoins :: "'b \<Rightarrow> string \<Rightarrow> coin list \<Rightarrow> 'b res"
  BurnCoins :: "'b \<Rightarrow> string \<Rightarrow> coin list \<Rightarrow> 'b res"
  GetModuleAddress :: "string \<Rightarrow> addr"

definition bal :: "'b bank \<Rightarrow> 'b \<Rightarrow> addr \<Rightarrow> denom \<Rightarrow> int" where
  "bal B b a d = Amount (GetBalance B b a d)"

definition supply_of :: "'b bank \<Rightarrow> 'b \<Rightarrow> denom \<Rightarrow> int" where
  "supply_of B b d = Amount (GetSupply B b d)"

text \<open>The effect of a transfer, and of a change of one account's balance that changes the supply.\<close>

definition moved :: "'b bank \<Rightarrow> 'b \<Rightarrow> 'b \<Rightarrow> addr \<Rightarrow> addr \<Rightarrow> coin list \<Rightarrow> bool" where
  "moved B b b' x y cs \<longleftrightarrow>
     (\<forall>a d. bal B b' a d = bal B b a d - (if a = x then cs_amt cs d else 0)
                                      + (if a = y then cs_amt cs d else 0)) \<and>
     (\<forall>d. supply_of B b' d = supply_of B b d)"

definition issued :: "'b bank \<Rightarrow> 'b \<Rightarrow> 'b \<Rightarrow> addr \<Rightarrow> (denom \<Rightarrow> int) \<Rightarrow> bool" where
  "issued B b b' x amt \<longleftrightarrow>
     (\<forall>a d. bal B b' a d = bal B b a d + (if a = x then amt d else 0)) \<and>
     (\<forall>d. supply_of B b' d = supply_of B b d + amt d)"

text \<open>
  \<open>GetModuleAddress\<close> is the address the name of an account is hashed to, \<open>authtypes.NewModuleAddress\<close>: it is
  what \<open>accountKeeper.GetModuleAddress\<close> returns for the names the application registers, the only ones it is
  called with here, and the gauge and vesting modules hash the names of their pools themselves.  The names
  in question: the registered ones of these modules, the team's vesting pool, and the escrow pools of
  the gauges and of the bribes.
\<close>

definition pool_account :: "string \<Rightarrow> bool" where
  "pool_account m \<longleftrightarrow>
     m \<in> {''maker'', ''oracle'', ''ve'', ''ve_emission_pool'', ''ve_distribution_pool'', ''voter'', ''vesting'', ''team_vesting''} \<or>
     take 6 m = ''gauge_'' \<or> take 6 m = ''bribe_''"

text \<open>
  What the modules rely on: a transfer that succeeds moves exactly the coins named and keeps the
  supply, minting and burning change the module account and the supply by the same amount, no
  balance is negative, and the hash does not map two of the names above to one account.
\<close>

locale bank_laws =
  fixes B :: "'b bank"
  assumes GetBalance_denom: "Denom (GetBalance B b a d) = d"
    and bal_nonneg: "0 \<le> bal B b a d"
    and SendCoins_moved: "SendCoins B b x y cs = Ok b' \<Longrightarrow> moved B b b' x y cs"
    and SendA2M_moved: "SendCoinsFromAccountToModule B b x m cs = Ok b' \<Longrightarrow>
          moved B b b' x (GetModuleAddress B m) cs"
    and SendM2A_moved: "SendCoinsFromModuleToAccount B b m y cs = Ok b' \<Longrightarrow>
          moved B b b' (GetModuleAddress B m) y cs"
    and SendM2M_moved: "SendCoinsFromModuleToModule B b m n cs = Ok b' \<Longrightarrow>
          moved B b b' (GetModuleAddress B m) (GetModuleAddress B n) cs"
    and Mint_issued: "MintCoins B b m cs = Ok b' \<Longrightarrow>
          issued B b b' (GetModuleAddress B m) (cs_amt cs)"
    and Burn_issued: "BurnCoins B b m cs = Ok b' \<Longrightarrow>
          issued B b b' (GetModuleAddress B m) (\<lambda>d. - cs_amt cs d)"
    and GetModuleAddress_inj:
      "pool_account m \<Longrightarrow> pool_account n \<Longrightarrow> GetModuleAddress B m = GetModuleAddress B n \<Longrightarrow> m = n"
begin

lemmas moved_bal =
  SendCoins_moved [unfolded moved_def, THEN conjunct1, rule_format]
  SendA2M_moved [unfolded moved_def, THEN conjunct1, rule_format]
  SendM2A_moved [unfolded moved_def, THEN conjunct1, rule_format]
  SendM2M_moved [unfolded moved_def, THEN conjunct1, rule_format]
  Mint_issued [unfolded issued_def, THEN conjunct1, rule_format]
  Burn_issued [unfolded issued_def, THEN conjunct1, rule_format]

lemmas moved_supply =
  SendCoins_moved [unfolded moved_def, THEN conjunct2, rule_format]
  SendA2M_moved [unfolded moved_def, THEN conjunct2, rule_format]
  SendM2A_moved [unfolded moved_def, THEN conjunct2, rule_format]
  SendM2M_moved [unfolded moved_def, THEN conjunct2, rule_format]
  Mint_issued [unfolded issued_def, THEN conjunct2, rule_format]
  Burn_issued [unfolded issued_def, THEN conjunct2, rule_format]

end

text \<open>Both interfaces together, which the handlers of the modules need.\<close>

locale chain_laws = sdk_laws S + bank_laws B for S :: sdk and B :: "'b bank"

section \<open>Executable instances\<close>

text \<open>
  The fixed-point algorithms: \<open>chop_round\<close> cuts 18 digits off with banker's rounding, \<open>chop_up\<close>
  rounds up.
\<close>

definition chop_round_nat :: "int \<Rightarrow> int" where
  "chop_round_nat x =
     (let q = x div dec_one; r = x mod dec_one in
      if 2 * r < dec_one then q
      else if dec_one < 2 * r then q + 1
      else if even q then q else q + 1)"

definition chop_round :: "int \<Rightarrow> int" where
  "chop_round x = (if x < 0 then - chop_round_nat (- x) else chop_round_nat x)"

definition chop_up :: "int \<Rightarrow> int" where
  "chop_up x = - ((- x) div dec_one)"

definition alpha_char :: "char \<Rightarrow> bool" where
  "alpha_char c \<longleftrightarrow> (let n = (of_char c :: nat) in 65 \<le> n \<and> n \<le> 90 \<or> 97 \<le> n \<and> n \<le> 122)"

definition denom_char :: "char \<Rightarrow> bool" where
  "denom_char c \<longleftrightarrow> (let n = (of_char c :: nat) in
     alpha_char c \<or> n = 45 \<or> 47 \<le> n \<and> n \<le> 57)"

definition denom_ok :: "string \<Rightarrow> bool" where
  "denom_ok d \<longleftrightarrow> 3 \<le> length d \<and> length d \<le> 128 \<and> alpha_char (hd d) \<and> list_all denom_char d"

definition coins_new :: "coin list \<Rightarrow> coin list res" where
  "coins_new cs =
     (let cs' = sort_key Denom (filter (\<lambda>c. Amount c \<noteq> 0) cs) in
      if list_all (\<lambda>c. denom_ok (Denom c) \<and> 0 < Amount c) cs' \<and> distinct (map Denom cs')
      then Ok cs' else Panic)"

definition decimal_char :: "char \<Rightarrow> bool" where
  "decimal_char c = (c \<in> set ''+-.0123456789'')"

fun digits_value :: "int \<Rightarrow> string \<Rightarrow> int option" where
  "digits_value n [] = Some n"
| "digits_value n (c # cs) =
     (if c \<in> set ''0123456789'' then digits_value (10 * n + (of_char c - 48)) cs else None)"

definition unsigned_dec :: "string \<Rightarrow> dec option" where
  "unsigned_dec s =
     (let whole = takeWhile (\<lambda>c. c \<noteq> CHR ''.'') s; frac = drop (length whole + 1) s in
      if whole = [] \<or> whole \<noteq> s \<and> frac = [] \<or> length frac > 18 then None
      else map_option (\<lambda>n. n * 10 ^ (18 - length frac)) (digits_value 0 (whole @ frac)))"

definition dec_of_string :: "string \<Rightarrow> dec option" where
  "dec_of_string s = (case s of
       [] \<Rightarrow> None
     | c # cs \<Rightarrow> if c = CHR ''-'' then map_option uminus (unsigned_dec cs) else unsigned_dec s)"

definition coins_truncate :: "deccoins \<Rightarrow> coin list" where
  "coins_truncate cs =
     map (\<lambda>d. \<lparr>Denom = d, Amount = dcs_amt cs d sdiv dec_one\<rparr>) (remdups (map fst cs))"

definition cosmos_sdk :: sdk where
  "cosmos_sdk =
   \<lparr>Dec_Mul = (\<lambda>a b. chop_round (a * b)),
    Dec_Quo = (\<lambda>a b. if b = 0 then Panic else Ok (chop_round ((a * dec_one * dec_one) sdiv b))),
    Dec_QuoRoundUp = (\<lambda>a b. if b = 0 then Panic else Ok (chop_up ((a * dec_one * dec_one) sdiv b))),
    Dec_QuoTruncate = (\<lambda>a b. if b = 0 then Panic
                            else Ok (((a * dec_one * dec_one) sdiv b) sdiv dec_one)),
    Dec_QuoInt = (\<lambda>a i. if i = 0 then Panic else Ok (a sdiv i)),
    Dec_RoundInt = chop_round,
    Dec_TruncateInt = (\<lambda>a. a sdiv dec_one),
    Dec_Ceil = (\<lambda>a. - ((- a) div dec_one) * dec_one),
    Dec_Wide = (\<lambda>a. 2 ^ 315 \<le> \<bar>a\<bar>),
    ValidateDenom = denom_ok,
    NewCoin = (\<lambda>d i. if denom_ok d \<and> 0 \<le> i then Ok \<lparr>Denom = d, Amount = i\<rparr> else Panic),
    Coin_Add = (\<lambda>c e. if Denom c = Denom e
                     then Ok \<lparr>Denom = Denom c, Amount = Amount c + Amount e\<rparr> else Panic),
    Coin_Sub = (\<lambda>c e. if Denom c = Denom e \<and> Amount e \<le> Amount c
                     then Ok \<lparr>Denom = Denom c, Amount = Amount c - Amount e\<rparr> else Panic),
    Coin_IsLT = (\<lambda>c e. if Denom c = Denom e then Ok (Amount c < Amount e) else Panic),
    NewCoins = coins_new,
    AccAddressFromBech32 = (\<lambda>s. if s = [] then None else Some s),
    AccAddress_String = (\<lambda>a. a),
    ValAddressFromBech32 = (\<lambda>s. if s = [] then None else Some s),
    ValAddress_String = (\<lambda>a. a),
    NewDecFromStr = dec_of_string,
    TokensToConsensusPower = (\<lambda>t r. if r = 0 then Panic else Ok (t sdiv r)),
    NewDecCoinFromDec = (\<lambda>d x. if denom_ok d \<and> 0 \<le> x then Ok (d, x) else Panic),
    DecCoins_Add = (\<lambda>cs (d, x). map (\<lambda>e. (e, dcs_amt cs e + (if e = d then x else 0)))
       (sorted_list_of_set (insert d (fst ` set cs)))),
    DecCoins_MulDec = (\<lambda>cs r. map (\<lambda>(d, x). (d, chop_round (x * r))) cs),
    DecCoins_TruncateDecimal = coins_truncate,
    NewDecCoinsFromCoins = map (\<lambda>c. (Denom c, ToDec (Amount c))),
    Coins_Add = (\<lambda>as bs. map (\<lambda>d. \<lparr>Denom = d, Amount = cs_amt as d + cs_amt bs d\<rparr>)
       (sorted_list_of_set (Denom ` set as \<union> Denom ` set bs)))\<rparr>"

lemma chop_round_near: "2 * \<bar>chop_round x * dec_one - x\<bar> \<le> dec_one"
proof -
  have nat: "2 * \<bar>chop_round_nat y * dec_one - y\<bar> \<le> dec_one" for y
  proof -
    define q r where "q = y div dec_one" and "r = y mod dec_one"
    have y: "y = q * dec_one + r" and r: "0 \<le> r" "r < dec_one"
      by (simp_all add: q_def r_def)
    have "chop_round_nat y = (if 2 * r < dec_one \<or> 2 * r = dec_one \<and> even q then q else q + 1)"
      by (auto simp: chop_round_nat_def Let_def q_def r_def)
    with y r show ?thesis by (auto simp: distrib_right)
  qed
  show ?thesis
    using nat [of x] nat [of "- x"] by (auto simp: chop_round_def abs_minus_commute add.commute)
qed

lemma chop_round_exact: "chop_round (q * dec_one) = q"
proof -
  have "2 * \<bar>(chop_round (q * dec_one) - q) * dec_one\<bar> \<le> dec_one"
    using chop_round_near [of "q * dec_one"] by (simp add: left_diff_distrib)
  then have "2 * \<bar>chop_round (q * dec_one) - q\<bar> \<le> 1"
    by (simp add: abs_mult dec_one_def)
  then show ?thesis by arith
qed

lemma sdiv_near: "b \<noteq> 0 \<Longrightarrow> \<bar>(a sdiv b) * b - a\<bar> < \<bar>b\<bar>" for a b :: int
proof -
  assume b: "b \<noteq> 0"
  have eq: "(a sdiv b) * b = sgn a * (\<bar>a\<bar> div \<bar>b\<bar> * \<bar>b\<bar>)"
    by (simp add: signed_divide_int_def abs_sgn [of b] ac_simps)
  have "\<bar>a\<bar> div \<bar>b\<bar> * \<bar>b\<bar> \<le> \<bar>a\<bar>" "\<bar>a\<bar> - \<bar>a\<bar> div \<bar>b\<bar> * \<bar>b\<bar> < \<bar>b\<bar>"
    using b int_div_mult_le [of "\<bar>b\<bar>" "\<bar>a\<bar>"] div_mult_mod_eq [of "\<bar>a\<bar>" "\<bar>b\<bar>"]
      pos_mod_bound [of "\<bar>b\<bar>" "\<bar>a\<bar>"] by linarith+
  then show ?thesis unfolding eq by (cases a "0::int" rule: linorder_cases) (auto simp: sgn_if)
qed

lemma sdiv_exact: "b \<noteq> 0 \<Longrightarrow> (q * b) sdiv b = q" for q b :: int
proof -
  assume b: "b \<noteq> 0"
  then have "\<bar>((q * b) sdiv b - q) * b\<bar> < \<bar>b\<bar>"
    using sdiv_near [of b "q * b"] by (simp add: left_diff_distrib)
  then have "\<bar>(q * b) sdiv b - q\<bar> * \<bar>b\<bar> < 1 * \<bar>b\<bar>"
    by (simp add: abs_mult)
  then have "\<bar>(q * b) sdiv b - q\<bar> < 1"
    by (rule mult_right_less_imp_less) simp
  then show ?thesis by arith
qed

lemma sdiv_div: "0 \<le> a \<Longrightarrow> 0 < b \<Longrightarrow> a sdiv b = a div b" for a b :: int
  by (auto simp: signed_divide_int_def sgn_if)

lemma quo_near:
  assumes "b \<noteq> 0"
  shows "\<bar>chop_round ((a * dec_one * dec_one) sdiv b) * b - a * dec_one\<bar> \<le> \<bar>b\<bar>"
proof -
  define x where "x = (a * dec_one * dec_one) sdiv b"
  define r where "r = chop_round x"
  have "\<bar>x * b - a * dec_one * dec_one\<bar> < \<bar>b\<bar>"
    unfolding x_def using assms by (rule sdiv_near)
  moreover have "2 * \<bar>(r * dec_one - x) * b\<bar> \<le> dec_one * \<bar>b\<bar>"
    using mult_right_mono [OF chop_round_near [of x], of "\<bar>b\<bar>"] by (simp add: r_def abs_mult)
  moreover have "\<bar>r * b - a * dec_one\<bar> * dec_one
      = \<bar>(r * dec_one - x) * b + (x * b - a * dec_one * dec_one)\<bar>"
    by (subst abs_mult_pos) (simp_all add: algebra_simps less_imp_le)
  ultimately have "2 * (\<bar>r * b - a * dec_one\<bar> * dec_one) \<le> dec_one * \<bar>b\<bar> + 2 * \<bar>b\<bar>"
    by linarith
  also have "\<dots> \<le> 2 * (\<bar>b\<bar> * dec_one)"
    by (simp add: dec_one_def)
  finally show ?thesis by (simp add: r_def x_def)
qed

lemma quo_up_near:
  assumes "0 \<le> a" "0 < b"
  defines "q \<equiv> chop_up ((a * dec_one * dec_one) sdiv b)"
  shows "a * dec_one div b \<le> q" "q * b - a * dec_one \<le> b"
proof -
  define x where "x = a * dec_one * dec_one div b"
  have x: "x * b \<le> a * dec_one * dec_one"
    unfolding x_def using assms(2) by (rule int_div_mult_le)
  have "(a * dec_one * dec_one) sdiv b = x"
    unfolding x_def using assms(1,2) by (simp add: sdiv_div)
  then have q: "q = - ((- x) div dec_one)"
    by (simp add: q_def chop_up_def)
  have qx: "x \<le> q * dec_one" "q * dec_one < x + dec_one"
    using div_mult_mod_eq [of "- x" dec_one] pos_mod_sign [of dec_one "- x", OF dec_one_pos(1)]
      pos_mod_bound [of dec_one "- x", OF dec_one_pos(1)] unfolding q mult_minus_left by linarith+
  have "(a * dec_one div b) * dec_one * b \<le> a * dec_one * dec_one"
    using mult_right_mono [OF int_div_mult_le [OF assms(2), of "a * dec_one"], of dec_one]
    by (simp add: ac_simps)
  then have "(a * dec_one div b) * dec_one \<le> x"
    unfolding x_def using assms(2) by (intro int_le_divI)
  with qx(1) have "(a * dec_one div b) * dec_one \<le> q * dec_one"
    by (rule order_trans [rotated])
  then show "a * dec_one div b \<le> q"
    by (rule mult_right_le_imp_le) simp
  have "q * dec_one * b \<le> (x + dec_one) * b"
    using qx(2) assms(2) by (intro mult_right_mono) simp_all
  also have "\<dots> \<le> a * dec_one * dec_one + dec_one * b"
    using x by (simp add: distrib_right)
  finally have "(q * b) * dec_one \<le> (a * dec_one + b) * dec_one"
    by (simp only: distrib_right distrib_left ac_simps)
  then have "q * b \<le> a * dec_one + b"
    by (rule mult_right_le_imp_le) simp
  then show "q * b - a * dec_one \<le> b" by simp
qed

lemma coins_new_amt: "coins_new cs = Ok cs' \<Longrightarrow> cs_amt cs' d = cs_amt cs d"
proof -
  have insort: "cs_amt (insort_key Denom x xs) d = cs_amt (x # xs) d" for x xs
    by (induction xs) (auto simp: cs_amt_def)
  have sort: "cs_amt (sort_key Denom xs) d = cs_amt xs d" for xs
  proof (induction xs)
    case (Cons x xs)
    then show ?case by (simp add: insort) (simp add: cs_amt_def)
  qed simp
  have drop: "cs_amt (filter (\<lambda>c. Amount c \<noteq> 0) xs) d = cs_amt xs d" for xs
    by (induction xs) (auto simp: cs_amt_def)
  assume "coins_new cs = Ok cs'"
  then have "cs' = sort_key Denom (filter (\<lambda>c. Amount c \<noteq> 0) cs)"
    by (simp add: coins_new_def Let_def split: if_splits)
  then show ?thesis by (simp only: sort drop)
qed

lemma coins_new_pos: "coins_new cs = Ok cs' \<Longrightarrow> c \<in> set cs \<Longrightarrow> 0 \<le> Amount c"
  by (cases "Amount c = 0")
     (auto simp: coins_new_def Let_def list_all_iff less_imp_le split: if_splits)

interpretation cosmos: sdk_laws cosmos_sdk
proof (unfold_locales, goal_cases)
  case (4 b a q)
  have "a * dec_one * dec_one = (q * dec_one) * b"
    unfolding 4(2) by (simp only: ac_simps)
  then have "chop_round ((a * dec_one * dec_one) sdiv b) = q"
    by (simp only: sdiv_exact [OF 4(1)] chop_round_exact)
  with 4(1) show ?case by (simp add: cosmos_sdk_def)
next
  case (6 a b)
  then show ?case using quo_up_near [of a b] by (simp add: cosmos_sdk_def)
next
  case (8 a b)
  then have "a * dec_one * dec_one div b div dec_one = a * dec_one div b"
    by (simp add: zdiv_zmult2_eq [symmetric] less_imp_le)
  with 8 show ?case
    by (simp add: cosmos_sdk_def sdiv_div pos_imp_zdiv_nonneg_iff)
qed (auto simp: cosmos_sdk_def chop_round_near quo_near coins_new_amt coins_new_pos)

section \<open>Texts and decimal coins\<close>

text \<open>
  What the oracle relies on beyond the arithmetic: the characters of the denominations and decimals
  the SDK accepts, that an address survives being printed and read, and that the operations on
  decimal coins work on each denomination by itself and do not depend on the order of the summands.
\<close>

locale text_laws =
  fixes S :: sdk
  assumes ValAddress_round: "a \<noteq> [] \<Longrightarrow> length a \<le> 255 \<Longrightarrow>
      ValAddressFromBech32 S (ValAddress_String S a) = Some a"
    and AccAddress_round: "a \<noteq> [] \<Longrightarrow> length a \<le> 255 \<Longrightarrow>
      AccAddressFromBech32 S (AccAddress_String S a) = Some a"
    and AccAddress_nonempty: "AccAddressFromBech32 S s = Some a \<Longrightarrow> a \<noteq> []"
    and NewDecFromStr_chars: "NewDecFromStr S s = Some r \<Longrightarrow> list_all decimal_char s"
    and ValidateDenom_chars: "ValidateDenom S d \<Longrightarrow> list_all denom_char d"

locale deccoin_laws = sdk_laws +
  assumes NewDecCoinFromDec_eq: "NewDecCoinFromDec S d x =
      (if ValidateDenom S d \<and> 0 \<le> x then Ok (d, x) else Panic)"
    and DecCoins_Add_amt: "dcs_amt (DecCoins_Add S cs (d, x)) e = dcs_amt cs e + (if e = d then x else 0)"
    and DecCoins_MulDec_amt: "dcs_amt (DecCoins_MulDec S cs r) d = Dec_Mul S (dcs_amt cs d) r"
    and DecCoins_Truncate_amt: "cs_amt (DecCoins_TruncateDecimal S cs) d = Dec_TruncateInt S (dcs_amt cs d)"
    and Coins_Add_amt: "cs_amt (Coins_Add S as bs) d = cs_amt as d + cs_amt bs d"
    and DecCoins_Add_comm: "DecCoins_Add S (DecCoins_Add S cs a) b = DecCoins_Add S (DecCoins_Add S cs b) a"
    and Coins_Add_comm: "Coins_Add S (Coins_Add S xs as) bs = Coins_Add S (Coins_Add S xs bs) as"

lemma digits_value_chars: "digits_value n s = Some r \<Longrightarrow> list_all decimal_char s"
  by (induction n s rule: digits_value.induct) (auto simp: decimal_char_def split: if_splits)

lemma unsigned_dec_chars:
  assumes "unsigned_dec s = Some r"
  shows "list_all decimal_char s"
proof -
  let ?w = "takeWhile (\<lambda>c. c \<noteq> CHR ''.'') s" and ?d = "dropWhile (\<lambda>c. c \<noteq> CHR ''.'') s"
  from assms have "list_all decimal_char ?w" "list_all decimal_char (drop (length ?w + 1) s)"
    using digits_value_chars [of 0 "?w @ drop (length ?w + 1) s"]
    by (auto simp: unsigned_dec_def Let_def split: if_splits)
  moreover have "drop (length ?w + 1) s = tl ?d"
    by (simp only: dropWhile_eq_drop drop_Suc tl_drop Suc_eq_plus1 [symmetric])
  ultimately have w: "list_all decimal_char ?w" and t: "list_all decimal_char (tl ?d)" by simp_all
  have "list_all decimal_char ?d"
  proof (cases ?d)
    case (Cons c cs)
    with hd_dropWhile [of "\<lambda>c. c \<noteq> CHR ''.''" s] have "c = CHR ''.''" by simp
    with Cons t show ?thesis by (simp add: decimal_char_def)
  next
    case Nil
    then show ?thesis by (simp only: list.pred_inject)
  qed
  with w have "list_all decimal_char (?w @ ?d)" by (simp only: list_all_append)
  then show ?thesis by simp
qed

interpretation cosmos_text: text_laws cosmos_sdk
proof
  fix s r
  assume "NewDecFromStr cosmos_sdk s = Some r"
  then show "list_all decimal_char s"
    by (cases s) (auto simp: cosmos_sdk_def dec_of_string_def decimal_char_def
        dest!: unsigned_dec_chars split: if_splits)
qed (auto simp: cosmos_sdk_def denom_ok_def split: if_splits)

lemma kv_get_map_snd: "kv_get (map (\<lambda>(k, v). (k, f v)) s) d = map_option f (kv_get s d)"
  by (induction s) (auto simp: kv_get_def)

lemma chop_round_0 [simp]: "chop_round 0 = 0"
  using cosmos.Mul_zero(1) [of 0] by (simp add: cosmos_sdk_def)

lemma cs_amt_map:
  "distinct ds \<Longrightarrow> cs_amt (map (\<lambda>d. \<lparr>Denom = d, Amount = f d\<rparr>) ds) d = (if d \<in> set ds then f d else 0)"
  by (induction ds) (auto simp: cs_amt_def)

lemma dcs_amt_map: "dcs_amt (map (\<lambda>d. (d, f d)) ds) d = (if d \<in> set ds then f d else 0)"
  by (induction ds) (auto simp: dcs_amt_def kv_get_def)

lemma dcs_amt_absent: "d \<notin> fst ` set cs \<Longrightarrow> dcs_amt cs d = 0"
  by (simp add: dcs_amt_def kv_get_def map_of_eq_None_iff [THEN iffD2])

lemma cs_amt_absent: "d \<notin> Denom ` set cs \<Longrightarrow> cs_amt cs d = 0"
  unfolding cs_amt_def by (induction cs) auto

lemma cs_amt_truncate: "cs_amt (coins_truncate cs) d = dcs_amt cs d sdiv dec_one"
  by (auto simp: coins_truncate_def cs_amt_map dcs_amt_absent)

interpretation cosmos_coins: deccoin_laws cosmos_sdk
proof (unfold_locales, goal_cases)
  case (2 cs d x e)
  then show ?case by (auto simp: cosmos_sdk_def dcs_amt_map dcs_amt_absent simp del: sorted_list_of_set_insert_remove)
next
  case (3 cs r d)
  then show ?case by (auto simp: cosmos_sdk_def dcs_amt_def kv_get_map_snd split: option.splits)
next
  case (4 cs d)
  then show ?case by (simp add: cosmos_sdk_def cs_amt_truncate)
next
  case (5 as bs d)
  then show ?case by (auto simp: cosmos_sdk_def cs_amt_map cs_amt_absent)
next
  case (6 cs a b)
  then show ?case
    by (cases a; cases b) (auto simp: cosmos_sdk_def dcs_amt_map dcs_amt_absent insert_commute image_image
        simp del: sorted_list_of_set_insert_remove)
next
  case (7 cs as bs)
  then show ?case
    by (simp add: cosmos_sdk_def cs_amt_map cs_amt_absent image_image Un_ac)
qed (simp_all add: cosmos_sdk_def)

text \<open>A ledger: balances and supplies as sections, transfers that check the payer's funds.\<close>

record ledger_state =
  balances :: "(addr \<times> denom, nat) kv"
  supplies :: "(denom, int) kv"

definition ledger_bal :: "ledger_state \<Rightarrow> addr \<Rightarrow> denom \<Rightarrow> nat" where
  "ledger_bal b a d = (case kv_get (balances b) (a, d) of None \<Rightarrow> 0 | Some n \<Rightarrow> n)"

definition ledger_supply :: "ledger_state \<Rightarrow> denom \<Rightarrow> int" where
  "ledger_supply b d = (case kv_get (supplies b) d of None \<Rightarrow> 0 | Some n \<Rightarrow> n)"

primrec ledger_debit :: "addr \<Rightarrow> coin list \<Rightarrow> ledger_state \<Rightarrow> ledger_state res" where
  "ledger_debit a [] b = Ok b"
| "ledger_debit a (c # cs) b =
     ensure (0 \<le> Amount c \<and> Amount c \<le> int (ledger_bal b a (Denom c))) (SdkErr ErrInsufficientFunds)
       (ledger_debit a cs
          (b\<lparr>balances := kv_set (a, Denom c) (nat (int (ledger_bal b a (Denom c)) - Amount c)) (balances b)\<rparr>))"

primrec ledger_credit :: "addr \<Rightarrow> coin list \<Rightarrow> ledger_state \<Rightarrow> ledger_state res" where
  "ledger_credit a [] b = Ok b"
| "ledger_credit a (c # cs) b =
     ensure (0 \<le> Amount c) (SdkErr ErrInvalidCoins)
       (ledger_credit a cs
          (b\<lparr>balances := kv_set (a, Denom c) (nat (int (ledger_bal b a (Denom c)) + Amount c)) (balances b)\<rparr>))"

primrec ledger_issue :: "int \<Rightarrow> coin list \<Rightarrow> ledger_state \<Rightarrow> ledger_state" where
  "ledger_issue k [] b = b"
| "ledger_issue k (c # cs) b =
     ledger_issue k cs
       (b\<lparr>supplies := kv_set (Denom c) (ledger_supply b (Denom c) + k * Amount c) (supplies b)\<rparr>)"

definition ledger_send :: "ledger_state \<Rightarrow> addr \<Rightarrow> addr \<Rightarrow> coin list \<Rightarrow> ledger_state res" where
  "ledger_send b x y cs = rbind (ledger_debit x cs b) (ledger_credit y cs)"

definition ledger_mod :: "string \<Rightarrow> addr" where
  "ledger_mod m = ''module/'' @ m"

definition ledger :: "ledger_state bank" where
  "ledger =
   \<lparr>GetBalance = (\<lambda>b a d. \<lparr>Denom = d, Amount = int (ledger_bal b a d)\<rparr>),
    GetSupply = (\<lambda>b d. \<lparr>Denom = d, Amount = ledger_supply b d\<rparr>),
    HasSupply = (\<lambda>b d. 0 < ledger_supply b d),
    SendCoins = ledger_send,
    SendCoinsFromAccountToModule = (\<lambda>b x m. ledger_send b x (ledger_mod m)),
    SendCoinsFromModuleToAccount = (\<lambda>b m. ledger_send b (ledger_mod m)),
    SendCoinsFromModuleToModule = (\<lambda>b m n. ledger_send b (ledger_mod m) (ledger_mod n)),
    MintCoins = (\<lambda>b m cs. ledger_credit (ledger_mod m) cs (ledger_issue 1 cs b)),
    BurnCoins = (\<lambda>b m cs. ledger_debit (ledger_mod m) cs (ledger_issue (- 1) cs b)),
    GetModuleAddress = ledger_mod\<rparr>"

lemma ledger_bal_set [simp]:
  "ledger_bal (b\<lparr>balances := kv_set (a, d) n (balances b)\<rparr>) x e
     = (if x = a \<and> e = d then n else ledger_bal b x e)"
  by (simp add: ledger_bal_def)

lemma ledger_supply_set [simp]:
  "ledger_supply (b\<lparr>supplies := kv_set d n (supplies b)\<rparr>) e = (if e = d then n else ledger_supply b e)"
  "ledger_supply (b\<lparr>balances := kv\<rparr>) e = ledger_supply b e"
  "ledger_bal (b\<lparr>supplies := sv\<rparr>) a e = ledger_bal b a e"
  by (simp_all add: ledger_supply_def ledger_bal_def)

lemma ledger_debit_ok:
  "ledger_debit a cs b = Ok b' \<Longrightarrow>
     int (ledger_bal b' x d) = int (ledger_bal b x d) - (if x = a then cs_amt cs d else 0) \<and>
     ledger_supply b' d = ledger_supply b d"
proof (induction cs arbitrary: b)
  case (Cons c cs)
  then show ?case by (auto simp: res_simps cs_amt_def dest!: Cons.IH split: if_splits)
qed (simp add: cs_amt_def)

lemma ledger_credit_ok:
  "ledger_credit a cs b = Ok b' \<Longrightarrow>
     int (ledger_bal b' x d) = int (ledger_bal b x d) + (if x = a then cs_amt cs d else 0) \<and>
     ledger_supply b' d = ledger_supply b d"
proof (induction cs arbitrary: b)
  case (Cons c cs)
  then show ?case by (auto simp: res_simps cs_amt_def dest!: Cons.IH split: if_splits)
qed (simp add: cs_amt_def)

lemma ledger_issue_ok:
  "ledger_bal (ledger_issue k cs b) x d = ledger_bal b x d"
  "ledger_supply (ledger_issue k cs b) d = ledger_supply b d + k * cs_amt cs d"
  by (induction cs arbitrary: b) (auto simp: cs_amt_def algebra_simps)

lemma ledger_send_moved: "ledger_send b x y cs = Ok b' \<Longrightarrow> moved ledger b b' x y cs"
proof -
  assume "ledger_send b x y cs = Ok b'"
  then obtain m where m: "ledger_debit x cs b = Ok m" and b': "ledger_credit y cs m = Ok b'"
    by (auto simp: ledger_send_def res_simps)
  show ?thesis
    unfolding moved_def bal_def supply_of_def
    using ledger_debit_ok [OF m] ledger_credit_ok [OF b']
    by (auto simp: ledger_def)
qed

interpretation ledger_bank: bank_laws ledger
proof (unfold_locales, goal_cases)
  case (3 b x y cs b')
  then show ?case by (intro ledger_send_moved) (simp add: ledger_def)
next
  case (4 b x m cs b')
  then show ?case by (intro ledger_send_moved) (simp add: ledger_def)
next
  case (5 b m y cs b')
  then show ?case by (intro ledger_send_moved) (simp add: ledger_def)
next
  case (6 b m n cs b')
  then show ?case by (intro ledger_send_moved) (simp add: ledger_def)
next
  case (7 b m cs b')
  then have "ledger_credit (ledger_mod m) cs (ledger_issue 1 cs b) = Ok b'"
    by (simp add: ledger_def)
  from ledger_credit_ok [OF this] show ?case
    by (auto simp: issued_def bal_def supply_of_def ledger_def ledger_issue_ok)
next
  case (8 b m cs b')
  then have "ledger_debit (ledger_mod m) cs (ledger_issue (- 1) cs b) = Ok b'"
    by (simp add: ledger_def)
  from ledger_debit_ok [OF this] show ?case
    by (auto simp: issued_def bal_def supply_of_def ledger_def ledger_issue_ok)
qed (auto simp: ledger_def bal_def ledger_mod_def)

interpretation plain_chain: chain_laws cosmos_sdk ledger
  by unfold_locales

end
