(* ===== verification/Chain.thy ===== *)
theory Chain
  imports Sdk
begin

text \<open>
  The constants and helpers of \<open>src/types\<close> every module uses: the denominations, the block and time
  units, the test for the last block of a period, and the decoding of a message's sender and
  receiver, which the message servers share.
\<close>

section \<open>Denominations (assets.go)\<close>

definition AttoIronDenom :: denom where
  "AttoIronDenom = ''airon''"

definition BaseDenom :: denom where
  "BaseDenom = AttoIronDenom"

definition DisplayDenom :: denom where
  "DisplayDenom = ''iron''"

definition MicroUSMDenom :: denom where
  "MicroUSMDenom = ''uusm''"

definition MicroUSMTarget :: dec where
  "MicroUSMTarget = dec_one"

lemma USM_neq_Iron [simp]:
  "MicroUSMDenom \<noteq> AttoIronDenom" "AttoIronDenom \<noteq> MicroUSMDenom"
  by (simp_all add: MicroUSMDenom_def AttoIronDenom_def)

section \<open>Blocks (blocks.go)\<close>

definition BlocksPerMinute :: nat where
  "BlocksPerMinute = 10"

definition BlocksPerHour :: nat where
  "BlocksPerHour = BlocksPerMinute * 60"

definition BlocksPerDay :: nat where
  "BlocksPerDay = BlocksPerHour * 24"

definition BlocksPerWeek :: nat where
  "BlocksPerWeek = BlocksPerDay * 7"

definition BlocksPerMonth :: nat where
  "BlocksPerMonth = BlocksPerDay * 30"

definition BlocksPerYear :: nat where
  "BlocksPerYear = BlocksPerDay * 365"

lemmas blocks_defs = BlocksPerMinute_def BlocksPerHour_def BlocksPerDay_def BlocksPerWeek_def
  BlocksPerMonth_def BlocksPerYear_def

text \<open>The remainder by a period of zero panics, as Go's integer division does.\<close>

definition IsPeriodLastBlock :: "ctx \<Rightarrow> nat \<Rightarrow> bool res" where
  "IsPeriodLastBlock ctx blocksPerPeriod =
     (if blocksPerPeriod = 0 then Panic
      else Ok (u64_add (u64_of_int (BlockHeight ctx)) 1 mod blocksPerPeriod = 0))"

section \<open>Times (times.go)\<close>

definition SecondsPerDay :: nat where
  "SecondsPerDay = 24 * (60 * 60)"

definition SecondsPerWeek :: nat where
  "SecondsPerWeek = 7 * SecondsPerDay"

definition DaysPer4Years :: nat where
  "DaysPer4Years = 365 * 4 + 1"

definition SecondsPer4Years :: nat where
  "SecondsPer4Years = DaysPer4Years * SecondsPerDay"

lemmas times_defs = SecondsPerDay_def SecondsPerWeek_def DaysPer4Years_def SecondsPer4Years_def

section \<open>Sender and receiver\<close>

text \<open>
  \<open>getSenderReceiver\<close> of the message servers: the receiver is the sender unless the message names
  one.  The codec's error is passed on.
\<close>

definition accAddress :: "sdk \<Rightarrow> string \<Rightarrow> addr res" where
  "accAddress S s = (case AccAddressFromBech32 S s of
       None \<Rightarrow> Err (SdkErr ErrInvalidAddress) | Some a \<Rightarrow> Ok a)"

definition getSenderReceiver :: "sdk \<Rightarrow> string \<Rightarrow> string \<Rightarrow> (addr \<times> addr) res" where
  "getSenderReceiver S senderStr toStr =
     rbind (accAddress S senderStr) (\<lambda>sender.
     if toStr = [] then Ok (sender, sender)
     else rbind (accAddress S toStr) (\<lambda>receiver. Ok (sender, receiver)))"

lemma getSenderReceiver_self:
  "getSenderReceiver S s [] = Ok (a, b) \<Longrightarrow> a = b"
  by (auto simp: getSenderReceiver_def res_simps)

end
