(* ===== verification/OracleStore.thy ===== *)
theory OracleStore
  imports Chain
begin

text \<open>
  The store of the oracle module and its keeper (\<open>x/oracle/keeper/keeper.go\<close>, \<open>keeper/params.go\<close>,
  \<open>types/keys.go\<close>, \<open>types/params.go\<close>): one section per key prefix, read and written by the keeper's
  methods.  An iteration with a callback is the walk of the section's entries.  A validator's
  address keys its sections; the length byte in front of it is not represented.
\<close>

section \<open>Data\<close>

record OracleParams =
  op_VotePeriod :: nat
  op_VoteThreshold :: dec
  op_RewardBand :: dec
  op_RewardDistributionWindow :: nat
  op_SlashFraction :: dec
  op_SlashWindow :: nat
  op_MinValidPerWindow :: dec

record AggregateExchangeRatePrevote =
  apv_Hash :: string
  apv_Voter :: string
  apv_SubmitBlock :: nat

record ExchangeRateTuple =
  ert_Denom :: denom
  ert_ExchangeRate :: dec

record AggregateExchangeRateVote =
  av_ExchangeRateTuples :: "ExchangeRateTuple list"
  av_Voter :: string

record oracle_store =
  exchange_rates :: "(denom, dec) kv"
  feeder_delegations :: "(addr, addr) kv"
  miss_counters :: "(addr, nat) kv"
  prevotes :: "(addr, AggregateExchangeRatePrevote) kv"
  votes :: "(addr, AggregateExchangeRateVote) kv"
  vote_targets :: "(denom, denom) kv"
  targets :: "(denom, denom) kv"
  oracle_params :: OracleParams

definition oracle_wf :: "oracle_store \<Rightarrow> bool" where
  "oracle_wf os \<longleftrightarrow> kv_wf (exchange_rates os) \<and> kv_wf (feeder_delegations os) \<and> kv_wf (miss_counters os) \<and>
     kv_wf (prevotes os) \<and> kv_wf (votes os) \<and> kv_wf (vote_targets os) \<and> kv_wf (targets os)"

section \<open>Exchange rates\<close>

definition GetExchangeRate :: "oracle_store \<Rightarrow> denom \<Rightarrow> dec res" where
  "GetExchangeRate os denom = (case kv_get (exchange_rates os) denom of
       None \<Rightarrow> Err (OracleErr ErrUnknownDenom) | Some r \<Rightarrow> Ok r)"

definition SetExchangeRate :: "denom \<Rightarrow> dec \<Rightarrow> oracle_store \<Rightarrow> oracle_store" where
  "SetExchangeRate denom exchangeRate os =
     os\<lparr>exchange_rates := kv_set denom exchangeRate (exchange_rates os)\<rparr>"

definition DeleteExchangeRate :: "denom \<Rightarrow> oracle_store \<Rightarrow> oracle_store" where
  "DeleteExchangeRate denom os = os\<lparr>exchange_rates := kv_delete denom (exchange_rates os)\<rparr>"

section \<open>Feeder delegations and miss counters\<close>

definition GetFeederDelegation :: "oracle_store \<Rightarrow> addr \<Rightarrow> addr" where
  "GetFeederDelegation os operator = (case kv_get (feeder_delegations os) operator of
       None \<Rightarrow> operator | Some a \<Rightarrow> a)"

definition SetFeederDelegation :: "addr \<Rightarrow> addr \<Rightarrow> oracle_store \<Rightarrow> oracle_store" where
  "SetFeederDelegation operator delegatedFeeder os =
     os\<lparr>feeder_delegations := kv_set operator delegatedFeeder (feeder_delegations os)\<rparr>"

definition GetMissCounter :: "oracle_store \<Rightarrow> addr \<Rightarrow> nat" where
  "GetMissCounter os operator = (case kv_get (miss_counters os) operator of
       None \<Rightarrow> 0 | Some n \<Rightarrow> n)"

definition SetMissCounter :: "addr \<Rightarrow> nat \<Rightarrow> oracle_store \<Rightarrow> oracle_store" where
  "SetMissCounter operator missCounter os =
     os\<lparr>miss_counters := kv_set operator missCounter (miss_counters os)\<rparr>"

definition DeleteMissCounter :: "addr \<Rightarrow> oracle_store \<Rightarrow> oracle_store" where
  "DeleteMissCounter operator os = os\<lparr>miss_counters := kv_delete operator (miss_counters os)\<rparr>"

section \<open>Prevotes and votes\<close>

definition GetAggregateExchangeRatePrevote ::
  "oracle_store \<Rightarrow> addr \<Rightarrow> AggregateExchangeRatePrevote res" where
  "GetAggregateExchangeRatePrevote os voter = (case kv_get (prevotes os) voter of
       None \<Rightarrow> Err (OracleErr ErrNoAggregatePrevote) | Some p \<Rightarrow> Ok p)"

definition SetAggregateExchangeRatePrevote ::
  "addr \<Rightarrow> AggregateExchangeRatePrevote \<Rightarrow> oracle_store \<Rightarrow> oracle_store" where
  "SetAggregateExchangeRatePrevote voter prevote os =
     os\<lparr>prevotes := kv_set voter prevote (prevotes os)\<rparr>"

definition DeleteAggregateExchangeRatePrevote :: "addr \<Rightarrow> oracle_store \<Rightarrow> oracle_store" where
  "DeleteAggregateExchangeRatePrevote voter os = os\<lparr>prevotes := kv_delete voter (prevotes os)\<rparr>"

definition GetAggregateExchangeRateVote ::
  "oracle_store \<Rightarrow> addr \<Rightarrow> AggregateExchangeRateVote res" where
  "GetAggregateExchangeRateVote os voter = (case kv_get (votes os) voter of
       None \<Rightarrow> Err (OracleErr ErrNoAggregateVote) | Some v \<Rightarrow> Ok v)"

definition SetAggregateExchangeRateVote ::
  "addr \<Rightarrow> AggregateExchangeRateVote \<Rightarrow> oracle_store \<Rightarrow> oracle_store" where
  "SetAggregateExchangeRateVote voter vote os = os\<lparr>votes := kv_set voter vote (votes os)\<rparr>"

definition DeleteAggregateExchangeRateVote :: "addr \<Rightarrow> oracle_store \<Rightarrow> oracle_store" where
  "DeleteAggregateExchangeRateVote voter os = os\<lparr>votes := kv_delete voter (votes os)\<rparr>"

section \<open>Vote targets and targets\<close>

definition IsVoteTarget :: "oracle_store \<Rightarrow> denom \<Rightarrow> bool" where
  "IsVoteTarget os denom = kv_has (vote_targets os) denom"

definition SetVoteTarget :: "denom \<Rightarrow> oracle_store \<Rightarrow> oracle_store" where
  "SetVoteTarget denom os = os\<lparr>vote_targets := kv_set denom denom (vote_targets os)\<rparr>"

definition GetVoteTargets :: "oracle_store \<Rightarrow> denom list" where
  "GetVoteTargets os = map fst (vote_targets os)"

definition ClearVoteTargets :: "oracle_store \<Rightarrow> oracle_store" where
  "ClearVoteTargets os =
     fold (\<lambda>d s. s\<lparr>vote_targets := kv_delete d (vote_targets s)\<rparr>) (map fst (vote_targets os)) os"

definition IsTarget :: "oracle_store \<Rightarrow> denom \<Rightarrow> bool" where
  "IsTarget os denom = kv_has (targets os) denom"

definition SetTarget :: "denom \<Rightarrow> oracle_store \<Rightarrow> oracle_store" where
  "SetTarget denom os = os\<lparr>targets := kv_set denom denom (targets os)\<rparr>"

definition GetTargets :: "oracle_store \<Rightarrow> denom list" where
  "GetTargets os = map fst (targets os)"

section \<open>Parameters (types/params.go)\<close>

definition OracleDefaultParams :: OracleParams where
  "OracleDefaultParams =
   \<lparr>op_VotePeriod = BlocksPerMinute,
    op_VoteThreshold = 50 * 10 ^ 16,
    op_RewardBand = 2 * 10 ^ 16,
    op_RewardDistributionWindow = BlocksPerYear,
    op_SlashFraction = 1 * 10 ^ 14,
    op_SlashWindow = BlocksPerWeek,
    op_MinValidPerWindow = 5 * 10 ^ 16\<rparr>"

definition OracleParams_Validate :: "OracleParams \<Rightarrow> bool" where
  "OracleParams_Validate p \<longleftrightarrow>
     op_VotePeriod p \<noteq> 0 \<and>
     \<not> op_VoteThreshold p \<le> 33 * 10 ^ 16 \<and>
     \<not> (op_RewardBand p > dec_one \<or> op_RewardBand p < 0) \<and>
     \<not> op_RewardDistributionWindow p < op_VotePeriod p \<and>
     \<not> (op_SlashFraction p > dec_one \<or> op_SlashFraction p < 0) \<and>
     \<not> op_SlashWindow p < op_VotePeriod p \<and>
     \<not> (op_MinValidPerWindow p > dec_one \<or> op_MinValidPerWindow p < 0)"

lemma OracleDefaultParams_valid: "OracleParams_Validate OracleDefaultParams"
  by (simp add: OracleParams_Validate_def OracleDefaultParams_def blocks_defs dec_one_def)

section \<open>The price interface\<close>

text \<open>
  What the modules that read prices rely on: the rate read is the one last set, a deleted rate is an
  error, and writing one denomination's rate leaves the others.
\<close>

locale price_feed =
  fixes rate :: "'s \<Rightarrow> denom \<Rightarrow> dec res"
    and set_rate :: "denom \<Rightarrow> dec \<Rightarrow> 's \<Rightarrow> 's"
    and del_rate :: "denom \<Rightarrow> 's \<Rightarrow> 's"
  assumes rate_set: "rate (set_rate d r s) e = (if e = d then Ok r else rate s e)"
    and rate_del: "rate (del_rate d s) e = (if e = d then Err (OracleErr ErrUnknownDenom) else rate s e)"
    and rate_no_panic: "rate s d \<noteq> Panic"
begin

lemma rate_fold_del:
  "e \<in> set ds \<Longrightarrow> rate (fold del_rate ds s) e = Err (OracleErr ErrUnknownDenom)"
proof (induction ds rule: rev_induct)
  case (snoc d ds)
  then show ?case by (auto simp: rate_del)
qed simp

lemma rate_fold_del_other: "e \<notin> set ds \<Longrightarrow> rate (fold del_rate ds s) e = rate s e"
  by (induction ds rule: rev_induct) (simp_all add: rate_del)

lemma rate_reset: "rate (set_rate d r (del_rate d s)) = rate (set_rate d r s)"
  by (rule ext) (simp add: rate_set rate_del)

end

interpretation oracle_prices: price_feed GetExchangeRate SetExchangeRate DeleteExchangeRate
  by unfold_locales
     (auto simp: GetExchangeRate_def SetExchangeRate_def DeleteExchangeRate_def split: option.splits)

lemma ClearVoteTargets_empty: "vote_targets (ClearVoteTargets os) = []"
proof -
  have gen: "vote_targets (fold (\<lambda>d s. s\<lparr>vote_targets := kv_delete d (vote_targets s)\<rparr>) ds s)
      = filter (\<lambda>e. fst e \<notin> set ds) (vote_targets s)" for ds s
    by (induction ds arbitrary: s) (auto simp: kv_delete_def intro: filter_cong)
  show ?thesis unfolding ClearVoteTargets_def gen by (auto simp: filter_empty_conv image_iff)
qed

end
