(* ===== verification/OracleVote.thy ===== *)
theory OracleVote
  imports OracleStore
begin

text \<open>
  How validators feed prices: the staking and distribution keepers as the oracle sees them
  (\<open>types/expected_keepers.go\<close>), the notation of the exchange rates (\<open>types/vote.go\<close>), the hash that
  commits to them (\<open>types/hash.go\<close>), the messages and their stateless checks (\<open>types/msgs.go\<close>), the
  message server (\<open>keeper/msg_server.go\<close>) and the proposal that registers a target
  (\<open>types/proposal.go\<close>, \<open>keeper/proposal_handler.go\<close>).

  The hash function is an argument: it is Tendermint's.  Strings are byte strings; white space is
  that of ASCII.
\<close>

section \<open>Validators\<close>

record validator =
  val_Operator :: addr
  val_IsBonded :: bool
  val_IsJailed :: bool
  val_ConsensusPower :: "int \<Rightarrow> int"
  val_ConsAddr :: "addr res"

record 'k staking =
  Validator :: "'k \<Rightarrow> addr \<Rightarrow> validator option"
  TotalBondedTokens :: "'k \<Rightarrow> int"
  Slash :: "'k \<Rightarrow> addr \<Rightarrow> int \<Rightarrow> int \<Rightarrow> dec \<Rightarrow> 'k res"
  Jail :: "'k \<Rightarrow> addr \<Rightarrow> 'k res"
  ValidatorsByPower :: "'k \<Rightarrow> addr list"
  MaxValidators :: "'k \<Rightarrow> nat"
  PowerReduction :: "'k \<Rightarrow> int"

section \<open>Exchange rates as text (vote.go)\<close>

definition is_space :: "char \<Rightarrow> bool" where
  "is_space c \<longleftrightarrow> c \<in> {CHR 0x09, CHR 0x0A, CHR 0x0B, CHR 0x0C, CHR 0x0D, CHR '' ''}"

definition TrimSpace :: "string \<Rightarrow> string" where
  "TrimSpace s = rev (dropWhile is_space (rev (dropWhile is_space s)))"

text \<open>
  One element of the list.  The decimal is read from the second part as it stands, although a trimmed
  copy of it is made for the error message.
\<close>

definition parseTuple :: "sdk \<Rightarrow> string \<Rightarrow> denom list \<Rightarrow> ExchangeRateTuple option" where
  "parseTuple S tupleStr seen =
     (case Split (TrimSpace tupleStr) CHR '':'' of
        [s0, s1] \<Rightarrow>
          let denom = TrimSpace s0 in
          if \<not> ValidateDenom S denom then None
          else (case NewDecFromStr S s1 of
                  None \<Rightarrow> None
                | Some amount \<Rightarrow>
                    if denom \<in> set seen then None
                    else Some \<lparr>ert_Denom = denom, ert_ExchangeRate = amount\<rparr>)
      | _ \<Rightarrow> None)"

fun parseTuples :: "sdk \<Rightarrow> string list \<Rightarrow> denom list \<Rightarrow> ExchangeRateTuple list option" where
  "parseTuples S [] seen = Some []"
| "parseTuples S (t # ts) seen =
     (case parseTuple S t seen of
        None \<Rightarrow> None
      | Some e \<Rightarrow> map_option (\<lambda>es. e # es) (parseTuples S ts (ert_Denom e # seen)))"

definition ParseExchangeRateTuples :: "sdk \<Rightarrow> string \<Rightarrow> ExchangeRateTuple list option" where
  "ParseExchangeRateTuples S tuplesStr =
     (let s = TrimSpace tuplesStr in if s = [] then Some [] else parseTuples S (Split s CHR '','') [])"

section \<open>The vote hash (hash.go)\<close>

type_synonym AggregateVoteHash = string

definition hex_char :: "nat \<Rightarrow> char" where
  "hex_char n = (if n < 10 then char_of (48 + n) else char_of (87 + n))"

definition hex_value :: "char \<Rightarrow> nat option" where
  "hex_value c = (let n = of_char c :: nat in
     if 48 \<le> n \<and> n \<le> 57 then Some (n - 48)
     else if 97 \<le> n \<and> n \<le> 102 then Some (n - 87)
     else if 65 \<le> n \<and> n \<le> 70 then Some (n - 55)
     else None)"

definition VoteHash_String :: "AggregateVoteHash \<Rightarrow> string" where
  "VoteHash_String h =
     concat (map (\<lambda>b. [hex_char (of_char b div 16), hex_char (of_char b mod 16)]) h)"

fun AggregateVoteHashFromHexString :: "string \<Rightarrow> AggregateVoteHash option" where
  "AggregateVoteHashFromHexString [] = Some []"
| "AggregateVoteHashFromHexString [c] = None"
| "AggregateVoteHashFromHexString (a # b # s) =
     (case (hex_value a, hex_value b, AggregateVoteHashFromHexString s) of
        (Some x, Some y, Some h) \<Rightarrow> Some (char_of (16 * x + y) # h)
      | _ \<Rightarrow> None)"

definition voteSource :: "sdk \<Rightarrow> string \<Rightarrow> string \<Rightarrow> addr \<Rightarrow> string" where
  "voteSource S salt exchangeRatesStr voter =
     salt @ '';'' @ exchangeRatesStr @ '';'' @ ValAddress_String S voter"

definition GetAggregateVoteHash ::
  "(string \<Rightarrow> string) \<Rightarrow> sdk \<Rightarrow> string \<Rightarrow> string \<Rightarrow> addr \<Rightarrow> AggregateVoteHash" where
  "GetAggregateVoteHash tmhash S salt exchangeRatesStr voter =
     tmhash (voteSource S salt exchangeRatesStr voter)"

definition NewAggregateExchangeRatePrevote ::
  "sdk \<Rightarrow> AggregateVoteHash \<Rightarrow> addr \<Rightarrow> nat \<Rightarrow> AggregateExchangeRatePrevote" where
  "NewAggregateExchangeRatePrevote S hash voter submitBlock =
     \<lparr>apv_Hash = VoteHash_String hash, apv_Voter = ValAddress_String S voter,
      apv_SubmitBlock = submitBlock\<rparr>"

definition NewAggregateExchangeRateVote ::
  "sdk \<Rightarrow> ExchangeRateTuple list \<Rightarrow> addr \<Rightarrow> AggregateExchangeRateVote" where
  "NewAggregateExchangeRateVote S exchangeRateTuples voter =
     \<lparr>av_ExchangeRateTuples = exchangeRateTuples, av_Voter = ValAddress_String S voter\<rparr>"

section \<open>Messages (msgs.go)\<close>

record MsgAggregateExchangeRatePrevote =
  mpv_Hash :: string
  mpv_Feeder :: string
  mpv_Validator :: string

record MsgAggregateExchangeRateVote =
  mv_Salt :: string
  mv_ExchangeRates :: string
  mv_Feeder :: string
  mv_Validator :: string

record MsgDelegateFeedConsent =
  mdf_Operator :: string
  mdf_Delegate :: string

definition TruncatedSize :: nat where
  "TruncatedSize = 20"

definition MsgAggregateExchangeRatePrevote_ValidateBasic ::
  "sdk \<Rightarrow> MsgAggregateExchangeRatePrevote \<Rightarrow> unit res" where
  "MsgAggregateExchangeRatePrevote_ValidateBasic S msg =
     ensure (AggregateVoteHashFromHexString (mpv_Hash msg) \<noteq> None) (OracleErr ErrInvalidHash) (
     ensure (length (mpv_Hash msg) = TruncatedSize * 2) (OracleErr ErrInvalidHashLength) (
     ensure (AccAddressFromBech32 S (mpv_Feeder msg) \<noteq> None) (SdkErr ErrInvalidAddress) (
     ensure (ValAddressFromBech32 S (mpv_Validator msg) \<noteq> None) (SdkErr ErrInvalidAddress) (Ok ()))))"

text \<open>A decimal's integer wider than 256 + 60 bits is rejected.\<close>

definition MsgAggregateExchangeRateVote_ValidateBasic ::
  "sdk \<Rightarrow> MsgAggregateExchangeRateVote \<Rightarrow> unit res" where
  "MsgAggregateExchangeRateVote_ValidateBasic S msg =
     ensure (AccAddressFromBech32 S (mv_Feeder msg) \<noteq> None) (SdkErr ErrInvalidAddress) (
     ensure (ValAddressFromBech32 S (mv_Validator msg) \<noteq> None) (SdkErr ErrInvalidAddress) (
     ensure (mv_ExchangeRates msg \<noteq> []) (SdkErr ErrUnknownRequest) (
     ensure (\<not> length (mv_ExchangeRates msg) > 4096) (SdkErr ErrInvalidRequest) (
     case ParseExchangeRateTuples S (mv_ExchangeRates msg) of
       None \<Rightarrow> Err (SdkErr ErrInvalidCoins)
     | Some exchangeRates \<Rightarrow>
         ensure (list_all (\<lambda>t. \<bar>ert_ExchangeRate t\<bar> < 2 ^ (256 + 60)) exchangeRates)
           (OracleErr ErrInvalidExchangeRate) (
         ensure (\<not> (length (mv_Salt msg) > 4 \<or> length (mv_Salt msg) < 1))
           (OracleErr ErrInvalidSaltLength) (Ok ()))))))"

definition MsgDelegateFeedConsent_ValidateBasic :: "sdk \<Rightarrow> MsgDelegateFeedConsent \<Rightarrow> unit res" where
  "MsgDelegateFeedConsent_ValidateBasic S msg =
     ensure (ValAddressFromBech32 S (mdf_Operator msg) \<noteq> None) (SdkErr ErrInvalidAddress) (
     ensure (AccAddressFromBech32 S (mdf_Delegate msg) \<noteq> None) (SdkErr ErrInvalidAddress) (Ok ()))"

section \<open>The message server (msg_server.go)\<close>

definition valAddress :: "sdk \<Rightarrow> string \<Rightarrow> addr res" where
  "valAddress S s = (case ValAddressFromBech32 S s of
       None \<Rightarrow> Err (SdkErr ErrInvalidAddress) | Some a \<Rightarrow> Ok a)"

definition ValidateFeeder :: "'k staking \<Rightarrow> 'k \<Rightarrow> oracle_store \<Rightarrow> addr \<Rightarrow> addr \<Rightarrow> unit res" where
  "ValidateFeeder K k os feederAddr validatorAddr =
     ensure (feederAddr = validatorAddr \<or> GetFeederDelegation os validatorAddr = feederAddr)
       (OracleErr ErrNoVotingPermission) (
     ensure (case Validator K k validatorAddr of None \<Rightarrow> False | Some val \<Rightarrow> val_IsBonded val)
       (SdkErr ErrNoValidatorFound) (Ok ()))"

definition AggregateExchangeRatePrevote_msg ::
  "sdk \<Rightarrow> 'k staking \<Rightarrow> 'k \<Rightarrow> ctx \<Rightarrow> MsgAggregateExchangeRatePrevote \<Rightarrow> oracle_store \<Rightarrow> oracle_store res" where
  "AggregateExchangeRatePrevote_msg S K k ctx msg os =
     rbind (valAddress S (mpv_Validator msg)) (\<lambda>valAddr.
     rbind (accAddress S (mpv_Feeder msg)) (\<lambda>feederAddr.
     rbind (ValidateFeeder K k os feederAddr valAddr) (\<lambda>_.
     case AggregateVoteHashFromHexString (mpv_Hash msg) of
       None \<Rightarrow> Err (OracleErr ErrInvalidHash)
     | Some voteHash \<Rightarrow>
         Ok (SetAggregateExchangeRatePrevote valAddr
               (NewAggregateExchangeRatePrevote S voteHash valAddr (u64_of_int (BlockHeight ctx))) os))))"

definition AggregateExchangeRateVote_msg ::
  "(string \<Rightarrow> string) \<Rightarrow> sdk \<Rightarrow> 'k staking \<Rightarrow> 'k \<Rightarrow> ctx \<Rightarrow> MsgAggregateExchangeRateVote \<Rightarrow> oracle_store \<Rightarrow>
   oracle_store res" where
  "AggregateExchangeRateVote_msg tmhash S K k ctx msg os =
     rbind (valAddress S (mv_Validator msg)) (\<lambda>valAddr.
     rbind (accAddress S (mv_Feeder msg)) (\<lambda>feederAddr.
     rbind (ValidateFeeder K k os feederAddr valAddr) (\<lambda>_.
     let votePeriod = op_VotePeriod (oracle_params os) in
     rbind (GetAggregateExchangeRatePrevote os valAddr) (\<lambda>aggregatePrevote.
     if votePeriod = 0 then Panic
     else
     ensure (u64_sub (u64_of_int (BlockHeight ctx) div votePeriod)
                (apv_SubmitBlock aggregatePrevote div votePeriod) = 1)
       (OracleErr ErrRevealPeriodMissMatch) (
     case ParseExchangeRateTuples S (mv_ExchangeRates msg) of
       None \<Rightarrow> Err (SdkErr ErrInvalidCoins)
     | Some exchangeRateTuples \<Rightarrow>
         ensure (list_all (\<lambda>t. IsVoteTarget os (ert_Denom t)) exchangeRateTuples) (OracleErr ErrUnknownDenom) (
         ensure (apv_Hash aggregatePrevote
                 = VoteHash_String (GetAggregateVoteHash tmhash S (mv_Salt msg) (mv_ExchangeRates msg) valAddr))
           (OracleErr ErrVerificationFailed) (
         Ok (DeleteAggregateExchangeRatePrevote valAddr
               (SetAggregateExchangeRateVote valAddr
                  (NewAggregateExchangeRateVote S exchangeRateTuples valAddr) os)))))))))"

definition DelegateFeedConsent ::
  "sdk \<Rightarrow> 'k staking \<Rightarrow> 'k \<Rightarrow> MsgDelegateFeedConsent \<Rightarrow> oracle_store \<Rightarrow> oracle_store res" where
  "DelegateFeedConsent S K k msg os =
     rbind (valAddress S (mdf_Operator msg)) (\<lambda>operatorAddr.
     rbind (accAddress S (mdf_Delegate msg)) (\<lambda>delegateAddr.
     ensure (Validator K k operatorAddr \<noteq> None) (SdkErr ErrNoValidatorFound) (
     Ok (SetFeederDelegation operatorAddr delegateAddr os))))"

section \<open>Registering a target (proposal.go, proposal_handler.go)\<close>

datatype TargetSource =
    TARGET_SOURCE_UNSPECIFIED | TARGET_SOURCE_VALIDATORS | TARGET_SOURCE_DEX | TARGET_SOURCE_INTERCHAIN_DEX
  | TARGET_SOURCE_INTERCHAIN_ORACLE

record TargetParams =
  tp_Denom :: denom
  tp_Source :: TargetSource
  tp_SourceDexContract :: string

definition validateTargetParams :: "sdk \<Rightarrow> TargetParams \<Rightarrow> bool" where
  "validateTargetParams S p \<longleftrightarrow>
     ValidateDenom S (tp_Denom p) \<and> tp_Source p \<noteq> TARGET_SOURCE_UNSPECIFIED"

definition HandleRegisterTargetProposal ::
  "'b bank \<Rightarrow> 'b \<Rightarrow> TargetParams \<Rightarrow> oracle_store \<Rightarrow> oracle_store res" where
  "HandleRegisterTargetProposal B b p os =
     ensure (\<not> IsTarget os (tp_Denom p)) (OracleErr ErrExistingTarget) (
     ensure (\<not> (\<not> HasSupply B b (tp_Denom p) \<and> tp_Denom p \<noteq> MicroUSMDenom)) (SdkErr ErrInvalidCoins) (
     let os1 = SetTarget (tp_Denom p) os in
     Ok (if tp_Source p = TARGET_SOURCE_VALIDATORS then SetVoteTarget (tp_Denom p) os1 else os1)))"

end
