(* ===== verification/OracleBallot.thy ===== *)
theory OracleBallot
  imports OracleVote
begin

text \<open>
  Ballots and their tally: \<open>types/ballot.go\<close>, \<open>tally.go\<close> and \<open>keeper/ballot.go\<close>.

  A Go map is a section sorted by key, and where the code ranges over a map the order it visits the
  keys in is an argument (a list of keys): Go chooses it at random.  \<open>sort.Sort\<close> is a stable sort
  here; that the order of votes with equal rates does not matter is proved for the median.
  Voting powers are \<open>int64\<close> in the code; their sum is bounded by the total power of the validator
  set, which Tendermint keeps below \<open>2 ^ 60\<close>, so no sum here wraps.

  The square root in \<open>StandardDeviation\<close> goes through a 64-bit float printed with six decimals; that
  conversion of a variance to its root is the argument \<open>fsqrt\<close>, with \<open>None\<close> where the printed number
  is not a decimal.  The function recovers from a panic, of the division or of a decimal that is too wide,
  and returns zero then.
\<close>

section \<open>Ballots (ballot.go)\<close>

record VoteForTally =
  vt_Denom :: denom
  vt_ExchangeRate :: dec
  vt_Voter :: addr
  vt_Power :: int

type_synonym ExchangeRateBallot = "VoteForTally list"

definition NewVoteForTally :: "dec \<Rightarrow> denom \<Rightarrow> addr \<Rightarrow> int \<Rightarrow> VoteForTally" where
  "NewVoteForTally rate denom voter pwr =
     \<lparr>vt_Denom = denom, vt_ExchangeRate = rate, vt_Voter = voter, vt_Power = pwr\<rparr>"

definition Ballot_ToMap :: "ExchangeRateBallot \<Rightarrow> (addr, dec) kv" where
  "Ballot_ToMap pb =
     fold (\<lambda>vote m. if 0 < vt_ExchangeRate vote then kv_set (vt_Voter vote) (vt_ExchangeRate vote) m else m) pb []"

fun ToCrossRate :: "sdk \<Rightarrow> ExchangeRateBallot \<Rightarrow> (addr, dec) kv \<Rightarrow> ExchangeRateBallot res" where
  "ToCrossRate S [] bases = Ok []"
| "ToCrossRate S (vote # pb) bases =
     rbind (case kv_get bases (vt_Voter vote) of
              Some exchangeRateRM \<Rightarrow>
                if 0 < vt_ExchangeRate vote then
                  rbind (Dec_Quo S exchangeRateRM (vt_ExchangeRate vote)) (\<lambda>q. Ok (vote\<lparr>vt_ExchangeRate := q\<rparr>))
                else Ok (vote\<lparr>vt_ExchangeRate := 0, vt_Power := 0\<rparr>)
            | None \<Rightarrow> Ok (vote\<lparr>vt_ExchangeRate := 0, vt_Power := 0\<rparr>)) (\<lambda>v.
     rbind (ToCrossRate S pb bases) (\<lambda>cb. Ok (v # cb)))"

definition Ballot_Sort :: "ExchangeRateBallot \<Rightarrow> ExchangeRateBallot" where
  "Ballot_Sort pb = sort_key vt_ExchangeRate pb"

definition Ballot_IsSorted :: "ExchangeRateBallot \<Rightarrow> bool" where
  "Ballot_IsSorted pb = sorted (map vt_ExchangeRate pb)"

definition ToCrossRateWithSort :: "sdk \<Rightarrow> ExchangeRateBallot \<Rightarrow> (addr, dec) kv \<Rightarrow> ExchangeRateBallot res" where
  "ToCrossRateWithSort S pb bases = rbind (ToCrossRate S pb bases) (\<lambda>cb. Ok (Ballot_Sort cb))"

definition Ballot_Power :: "ExchangeRateBallot \<Rightarrow> int" where
  "Ballot_Power pb = sum_list (map vt_Power pb)"

text \<open>The loop of \<open>WeightedMedian\<close>: \<open>totalPower / 2\<close> is Go's integer division.\<close>

fun medianLoop :: "int \<Rightarrow> int \<Rightarrow> ExchangeRateBallot \<Rightarrow> dec" where
  "medianLoop half pivot [] = 0"
| "medianLoop half pivot (v # pb) =
     (if pivot + vt_Power v \<ge> half then vt_ExchangeRate v else medianLoop half (pivot + vt_Power v) pb)"

definition WeightedMedian :: "ExchangeRateBallot \<Rightarrow> dec" where
  "WeightedMedian pb = medianLoop (Ballot_Power pb sdiv 2) 0 pb"

definition WeightedMedianWithAssertion :: "ExchangeRateBallot \<Rightarrow> dec res" where
  "WeightedMedianWithAssertion pb = (if Ballot_IsSorted pb then Ok (WeightedMedian pb) else Panic)"

fun sumOfSquares :: "sdk \<Rightarrow> dec \<Rightarrow> dec \<Rightarrow> ExchangeRateBallot \<Rightarrow> dec res" where
  "sumOfSquares S median sum0 [] = Ok sum0"
| "sumOfSquares S median sum0 (v # pb) =
     (let deviation = vt_ExchangeRate v - median;
          square = Dec_Mul S deviation deviation in
      if Dec_Wide S deviation \<or> Dec_Wide S square \<or> Dec_Wide S (sum0 + square) then Panic
      else sumOfSquares S median (sum0 + square) pb)"

definition StandardDeviation :: "sdk \<Rightarrow> (dec \<Rightarrow> dec option) \<Rightarrow> ExchangeRateBallot \<Rightarrow> dec \<Rightarrow> dec option res" where
  "StandardDeviation S fsqrt pb median =
     (if pb = [] then Ok (Some 0)
      else
        case rbind (sumOfSquares S median 0 pb) (\<lambda>total. Dec_QuoInt S total (int (length pb))) of
          Ok variance \<Rightarrow> Ok (fsqrt variance)
        | _ \<Rightarrow> Ok (Some 0))"

record Claim =
  cl_Power :: int
  cl_Weight :: int
  cl_WinCount :: int
  cl_Recipient :: addr

definition NewClaim :: "int \<Rightarrow> int \<Rightarrow> int \<Rightarrow> addr \<Rightarrow> Claim" where
  "NewClaim pwr weight winCount recipient =
     \<lparr>cl_Power = pwr, cl_Weight = weight, cl_WinCount = winCount, cl_Recipient = recipient\<rparr>"

type_synonym claims = "(string, Claim) kv"

section \<open>Tally (tally.go)\<close>

definition claimOf :: "claims \<Rightarrow> string \<Rightarrow> Claim" where
  "claimOf m key = (case kv_get m key of Some c \<Rightarrow> c | None \<Rightarrow> NewClaim 0 0 0 [])"

definition tallyVote :: "sdk \<Rightarrow> dec \<Rightarrow> dec \<Rightarrow> VoteForTally \<Rightarrow> claims \<Rightarrow> claims" where
  "tallyVote S weightedMedian rewardSpread vote m =
     (if vt_ExchangeRate vote \<ge> weightedMedian - rewardSpread \<and>
         vt_ExchangeRate vote \<le> weightedMedian + rewardSpread \<or> \<not> 0 < vt_ExchangeRate vote then
        let key = ValAddress_String S (vt_Voter vote); claim = claimOf m key in
        kv_set key (claim\<lparr>cl_Weight := cl_Weight claim + vt_Power vote, cl_WinCount := cl_WinCount claim + 1\<rparr>) m
      else m)"

text \<open>A failed conversion leaves a nil deviation, and comparing it panics.\<close>

definition Tally ::
  "sdk \<Rightarrow> (dec \<Rightarrow> dec option) \<Rightarrow> ExchangeRateBallot \<Rightarrow> dec \<Rightarrow> claims \<Rightarrow> (dec \<times> claims) res" where
  "Tally S fsqrt pb rewardBand m =
     rbind (WeightedMedianWithAssertion pb) (\<lambda>weightedMedian.
     rbind (StandardDeviation S fsqrt pb weightedMedian) (\<lambda>deviation.
     rbind (Dec_QuoInt S rewardBand 2) (\<lambda>half.
     rbind (deref deviation) (\<lambda>standardDeviation.
     let spread = Dec_Mul S weightedMedian half;
         rewardSpread = (if standardDeviation > spread then standardDeviation else spread) in
     Ok (weightedMedian, fold (tallyVote S weightedMedian rewardSpread) pb m)))))"

definition ballotIsPassing :: "ExchangeRateBallot \<Rightarrow> int \<Rightarrow> int \<times> bool" where
  "ballotIsPassing ballot thresholdVotes =
     (let ballotPower = Ballot_Power ballot in (ballotPower, ballotPower \<noteq> 0 \<and> ballotPower \<ge> thresholdVotes))"

text \<open>
  The loop of \<open>PickReferenceGridb\<close> over the keys of the vote map: the remaining vote targets, the
  remaining vote map, the largest power so far and the reference so far.
\<close>

fun pickLoop :: "int \<Rightarrow> denom list \<Rightarrow> denom list \<Rightarrow> (denom, ExchangeRateBallot) kv \<Rightarrow> int \<Rightarrow> denom \<Rightarrow>
    denom list \<times> (denom, ExchangeRateBallot) kv \<times> denom" where
  "pickLoop thresholdVotes [] voteTargets voteMap largest ref = (voteTargets, voteMap, ref)"
| "pickLoop thresholdVotes (denom # ds) voteTargets voteMap largest ref =
     (case kv_get voteMap denom of
        None \<Rightarrow> pickLoop thresholdVotes ds voteTargets voteMap largest ref
      | Some ballot \<Rightarrow>
          if denom \<notin> set voteTargets then
            pickLoop thresholdVotes ds voteTargets (kv_delete denom voteMap) largest ref
          else (case ballotIsPassing ballot thresholdVotes of (pwr, passing) \<Rightarrow>
            if \<not> passing then
              pickLoop thresholdVotes ds (filter (\<lambda>t. t \<noteq> denom) voteTargets) (kv_delete denom voteMap) largest ref
            else if pwr > largest \<or> largest = 0 then
              pickLoop thresholdVotes ds voteTargets voteMap pwr denom
            else if largest = pwr \<and> ref > denom then
              pickLoop thresholdVotes ds voteTargets voteMap largest denom
            else pickLoop thresholdVotes ds voteTargets voteMap largest ref))"

definition PickReferenceGridb ::
  "sdk \<Rightarrow> 'k staking \<Rightarrow> 'k \<Rightarrow> dec \<Rightarrow> denom list \<Rightarrow> denom list \<Rightarrow> (denom, ExchangeRateBallot) kv \<Rightarrow>
   (denom list \<times> (denom, ExchangeRateBallot) kv \<times> denom) res" where
  "PickReferenceGridb S K k voteThreshold order voteTargets voteMap =
     rbind (TokensToConsensusPower S (TotalBondedTokens K k) (PowerReduction K k)) (\<lambda>totalBondedPower.
     let thresholdVotes = Dec_RoundInt S (voteThreshold * totalBondedPower) in
     Ok (pickLoop thresholdVotes order voteTargets voteMap 0 []))"

section \<open>Ballots of the store (keeper/ballot.go)\<close>

definition addVote :: "addr \<Rightarrow> int \<Rightarrow> ExchangeRateTuple \<Rightarrow> (denom, ExchangeRateBallot) kv \<Rightarrow>
    (denom, ExchangeRateBallot) kv" where
  "addVote voterAddr pwr tuple vs =
     (let tmpPower = (if \<not> 0 < ert_ExchangeRate tuple then 0 else pwr);
          ballot = (case kv_get vs (ert_Denom tuple) of None \<Rightarrow> [] | Some b \<Rightarrow> b) in
      kv_set (ert_Denom tuple)
        (ballot @ [NewVoteForTally (ert_ExchangeRate tuple) (ert_Denom tuple) voterAddr tmpPower]) vs)"

definition aggregateHandler :: "claims \<Rightarrow> addr \<times> AggregateExchangeRateVote \<Rightarrow> (denom, ExchangeRateBallot) kv \<Rightarrow>
    (denom, ExchangeRateBallot) kv" where
  "aggregateHandler validatorClaimMap e vs =
     (case kv_get validatorClaimMap (av_Voter (snd e)) of
        None \<Rightarrow> vs
      | Some claim \<Rightarrow> fold (addVote (fst e) (cl_Power claim)) (av_ExchangeRateTuples (snd e)) vs)"

definition OrganizeBallotByDenom :: "claims \<Rightarrow> oracle_store \<Rightarrow> (denom, ExchangeRateBallot) kv" where
  "OrganizeBallotByDenom validatorClaimMap os =
     map (\<lambda>(d, b). (d, Ballot_Sort b)) (fold (aggregateHandler validatorClaimMap) (votes os) [])"

definition clearPrevote :: "ctx \<Rightarrow> nat \<Rightarrow> addr \<times> AggregateExchangeRatePrevote \<Rightarrow> oracle_store \<Rightarrow> oracle_store" where
  "clearPrevote ctx votePeriod e os =
     (if BlockHeight ctx > i64_of_u64 (u64_add (apv_SubmitBlock (snd e)) votePeriod)
      then DeleteAggregateExchangeRatePrevote (fst e) os else os)"

definition ClearBallots :: "ctx \<Rightarrow> nat \<Rightarrow> oracle_store \<Rightarrow> oracle_store" where
  "ClearBallots ctx votePeriod os =
     (let os1 = fold (clearPrevote ctx votePeriod) (prevotes os) os in
      fold (\<lambda>e. DeleteAggregateExchangeRateVote (fst e)) (votes os1) os1)"

end
