(* ===== verification/OracleEnd.thy ===== *)
theory OracleEnd
  imports OracleBallot
begin

text \<open>
  The end of a block in the oracle: \<open>abci.go\<close>, \<open>keeper/reward.go\<close> and \<open>keeper/slash.go\<close>, and the
  genesis of the module (\<open>genesis.go\<close>).

  The state is the oracle's store with the states of the staking, distribution and bank keepers.
  Every loop over a Go map takes the order of its keys from \<open>orders\<close>.
\<close>

record 'd distribution =
  AllocateTokensToValidator :: "'d \<Rightarrow> addr \<Rightarrow> deccoins \<Rightarrow> 'd"

record ('b, 'k, 'd) oracle_world =
  ost :: oracle_store
  stk :: 'k
  dst :: 'd
  obk :: 'b

record orders =
  ord_pick :: "denom list \<Rightarrow> denom list"
  ord_rates :: "denom list \<Rightarrow> denom list"
  ord_miss :: "string list \<Rightarrow> string list"
  ord_denoms :: "denom list \<Rightarrow> denom list"
  ord_winners :: "string list \<Rightarrow> string list"

section \<open>Claims of the active validators (abci.go)\<close>

fun claimLoop :: "sdk \<Rightarrow> 'k staking \<Rightarrow> 'k \<Rightarrow> nat \<Rightarrow> addr list \<Rightarrow> nat \<Rightarrow> claims \<Rightarrow> claims res" where
  "claimLoop S K k maxValidators [] i m = Ok m"
| "claimLoop S K k maxValidators (a # as) i m =
     (if i < maxValidators then
        (case Validator K k a of
           None \<Rightarrow> Panic
         | Some validator \<Rightarrow>
             if val_IsBonded validator then
               let valAddr = val_Operator validator in
               claimLoop S K k maxValidators as (i + 1)
                 (kv_set (ValAddress_String S valAddr)
                    (NewClaim (val_ConsensusPower validator (PowerReduction K k)) 0 0 valAddr) m)
             else claimLoop S K k maxValidators as i m)
      else Ok m)"

section \<open>Setting the rates (abci.go)\<close>

definition clearRates :: "oracle_store \<Rightarrow> oracle_store" where
  "clearRates os = fold DeleteExchangeRate (map fst (exchange_rates os)) os"

definition rateStep ::
  "sdk \<Rightarrow> (dec \<Rightarrow> dec option) \<Rightarrow> dec \<Rightarrow> denom \<Rightarrow> dec \<Rightarrow> (addr, dec) kv \<Rightarrow> (denom, ExchangeRateBallot) kv \<Rightarrow>
   denom \<Rightarrow> claims \<times> oracle_store \<Rightarrow> (claims \<times> oracle_store) res" where
  "rateStep S fsqrt rewardBand reference exchangeRateRM voteMapRM voteMap denom st =
     (case st of (m, os) \<Rightarrow>
      case kv_get voteMap denom of
        None \<Rightarrow> Ok (m, os)
      | Some ballot0 \<Rightarrow>
          rbind (if denom \<noteq> reference then ToCrossRateWithSort S ballot0 voteMapRM else Ok ballot0) (\<lambda>ballot.
          rbind (Tally S fsqrt ballot rewardBand m) (\<lambda>(exchangeRate, m').
          if denom \<noteq> reference then
            (if exchangeRate = 0 then Ok (m', os)
             else rbind (Dec_Quo S exchangeRateRM exchangeRate) (\<lambda>r. Ok (m', SetExchangeRate denom r os)))
          else Ok (m', SetExchangeRate denom exchangeRate os))))"

fun rateLoop ::
  "sdk \<Rightarrow> (dec \<Rightarrow> dec option) \<Rightarrow> dec \<Rightarrow> denom \<Rightarrow> dec \<Rightarrow> (addr, dec) kv \<Rightarrow> (denom, ExchangeRateBallot) kv \<Rightarrow>
   denom list \<Rightarrow> claims \<times> oracle_store \<Rightarrow> (claims \<times> oracle_store) res" where
  "rateLoop S fsqrt rewardBand reference rm voteMapRM voteMap [] st = Ok st"
| "rateLoop S fsqrt rewardBand reference rm voteMapRM voteMap (denom # ds) st =
     rbind (rateStep S fsqrt rewardBand reference rm voteMapRM voteMap denom st)
       (rateLoop S fsqrt rewardBand reference rm voteMapRM voteMap ds)"

definition setRates ::
  "sdk \<Rightarrow> (dec \<Rightarrow> dec option) \<Rightarrow> orders \<Rightarrow> dec \<Rightarrow> denom \<Rightarrow> (denom, ExchangeRateBallot) kv \<Rightarrow>
   claims \<times> oracle_store \<Rightarrow> (claims \<times> oracle_store) res" where
  "setRates S fsqrt ords rewardBand reference voteMap st =
     (if reference = [] then Ok st
      else
        let ballotRM = (case kv_get voteMap reference of None \<Rightarrow> [] | Some b \<Rightarrow> b);
            voteMapRM = Ballot_ToMap ballotRM in
        rbind (WeightedMedianWithAssertion ballotRM) (\<lambda>exchangeRateRM.
        rateLoop S fsqrt rewardBand reference exchangeRateRM voteMapRM voteMap
          (ord_rates ords (map fst voteMap)) st))"

section \<open>Miss counting (abci.go)\<close>

definition missStep :: "claims \<Rightarrow> nat \<Rightarrow> string \<Rightarrow> oracle_store \<Rightarrow> oracle_store" where
  "missStep m voteTargetsLen key os =
     (let claim = claimOf m key in
      if cl_WinCount claim = int voteTargetsLen then os
      else SetMissCounter (cl_Recipient claim) (u64_add (GetMissCounter os (cl_Recipient claim)) 1) os)"

section \<open>Rewards (reward.go)\<close>

definition GetRewardPool :: "'b bank \<Rightarrow> 'b \<Rightarrow> denom \<Rightarrow> coin" where
  "GetRewardPool B b denom = GetBalance B b (GetModuleAddress B ''oracle'') denom"

fun periodRewards :: "sdk \<Rightarrow> 'b bank \<Rightarrow> 'b \<Rightarrow> dec \<Rightarrow> denom list \<Rightarrow> deccoins \<Rightarrow> deccoins res" where
  "periodRewards S B b ratio [] acc = Ok acc"
| "periodRewards S B b ratio (denom # ds) acc =
     (let rewardPool = GetRewardPool B b denom in
      if coin_IsZero rewardPool then periodRewards S B b ratio ds acc
      else
        rbind (NewDecCoinFromDec S denom (Dec_Mul S (ToDec (Amount rewardPool)) ratio)) (\<lambda>c.
        periodRewards S B b ratio ds (DecCoins_Add S acc c)))"

definition coins_IsZero :: "coin list \<Rightarrow> bool" where
  "coins_IsZero cs = list_all coin_IsZero cs"

definition rewardStep ::
  "sdk \<Rightarrow> 'k staking \<Rightarrow> 'k \<Rightarrow> 'd distribution \<Rightarrow> claims \<Rightarrow> int \<Rightarrow> deccoins \<Rightarrow> string \<Rightarrow> 'd \<times> coin list \<Rightarrow>
   ('d \<times> coin list) res" where
  "rewardStep S K k D winners ballotPowerSum rewards key st =
     (case st of (d, distributed) \<Rightarrow>
      let winner = claimOf winners key in
      rbind (Dec_QuoInt S (ToDec (cl_Weight winner)) ballotPowerSum) (\<lambda>share.
      let rewardCoins = DecCoins_TruncateDecimal S (DecCoins_MulDec S rewards share) in
      case Validator K k (cl_Recipient winner) of
        None \<Rightarrow> Ok (d, distributed)
      | Some receiverVal \<Rightarrow>
          if coins_IsZero rewardCoins then Ok (d, distributed)
          else Ok (AllocateTokensToValidator D d (val_Operator receiverVal) (NewDecCoinsFromCoins S rewardCoins),
                   Coins_Add S distributed rewardCoins)))"

fun rewardLoop ::
  "sdk \<Rightarrow> 'k staking \<Rightarrow> 'k \<Rightarrow> 'd distribution \<Rightarrow> claims \<Rightarrow> int \<Rightarrow> deccoins \<Rightarrow> string list \<Rightarrow> 'd \<times> coin list \<Rightarrow>
   ('d \<times> coin list) res" where
  "rewardLoop S K k D winners tot rewards [] st = Ok st"
| "rewardLoop S K k D winners tot rewards (key # keys) st =
     rbind (rewardStep S K k D winners tot rewards key st) (rewardLoop S K k D winners tot rewards keys)"

definition RewardBallotWinners ::
  "sdk \<Rightarrow> 'b bank \<Rightarrow> 'k staking \<Rightarrow> 'd distribution \<Rightarrow> orders \<Rightarrow> int \<Rightarrow> int \<Rightarrow> denom list \<Rightarrow> claims \<Rightarrow>
   ('b, 'k, 'd) oracle_world \<Rightarrow> ('b, 'k, 'd) oracle_world res" where
  "RewardBallotWinners S B K D ords votePeriod rewardDistributionWindow voteTargets ballotWinners w =
     (let rewardDenoms = ord_denoms ords voteTargets;
          ballotPowerSum = sum_list (map (cl_Weight \<circ> snd) ballotWinners) in
      if ballotPowerSum = 0 then Ok w
      else
        rbind (Dec_QuoInt S (ToDec votePeriod) rewardDistributionWindow) (\<lambda>distributionRatio.
        rbind (periodRewards S B (obk w) distributionRatio rewardDenoms []) (\<lambda>rewards.
        rbind (rewardLoop S K (stk w) D ballotWinners ballotPowerSum rewards
                 (ord_winners ords (map fst ballotWinners)) (dst w, [])) (\<lambda>(d, distributedReward).
        case SendCoinsFromModuleToModule B (obk w) ''oracle'' ''distribution'' distributedReward of
          Ok b \<Rightarrow> Ok (w\<lparr>dst := d, obk := b\<rparr>)
        | _ \<Rightarrow> Panic))))"

section \<open>Slashing (slash.go)\<close>

definition ValidatorUpdateDelay :: int where
  "ValidatorUpdateDelay = 1"

definition slashStep ::
  "sdk \<Rightarrow> 'k staking \<Rightarrow> OracleParams \<Rightarrow> int \<Rightarrow> nat \<Rightarrow> addr \<times> nat \<Rightarrow> 'k \<times> oracle_store \<Rightarrow> ('k \<times> oracle_store) res" where
  "slashStep S K params distributionHeight votePeriodsPerWindow e st =
     (case st of (k, os) \<Rightarrow>
      rbind (Dec_QuoInt S (ToDec (i64_of_u64 (u64_sub votePeriodsPerWindow (snd e))))
               (i64_of_u64 votePeriodsPerWindow)) (\<lambda>validVoteRate.
      rbind (if validVoteRate < op_MinValidPerWindow params then
               (case Validator K k (fst e) of
                  None \<Rightarrow> Panic
                | Some validator \<Rightarrow>
                    if val_IsBonded validator \<and> \<not> val_IsJailed validator then
                      (case val_ConsAddr validator of
                         Ok consAddr \<Rightarrow>
                           rbind (Slash K k consAddr distributionHeight
                                    (val_ConsensusPower validator (PowerReduction K k)) (op_SlashFraction params))
                             (\<lambda>k'. Jail K k' consAddr)
                       | _ \<Rightarrow> Panic)
                    else Ok k)
             else Ok k) (\<lambda>k'.
      Ok (k', DeleteMissCounter (fst e) os))))"

fun slashLoop ::
  "sdk \<Rightarrow> 'k staking \<Rightarrow> OracleParams \<Rightarrow> int \<Rightarrow> nat \<Rightarrow> (addr \<times> nat) list \<Rightarrow> 'k \<times> oracle_store \<Rightarrow>
   ('k \<times> oracle_store) res" where
  "slashLoop S K params h n [] st = Ok st"
| "slashLoop S K params h n (e # es) st = rbind (slashStep S K params h n e st) (slashLoop S K params h n es)"

definition SlashAndResetMissCounters ::
  "sdk \<Rightarrow> 'k staking \<Rightarrow> ctx \<Rightarrow> ('b, 'k, 'd) oracle_world \<Rightarrow> ('b, 'k, 'd) oracle_world res" where
  "SlashAndResetMissCounters S K ctx w =
     (let params = oracle_params (ost w);
          distributionHeight = BlockHeight ctx - ValidatorUpdateDelay - 1 in
      rbind (Dec_QuoInt S (ToDec (i64_of_u64 (op_SlashWindow params))) (i64_of_u64 (op_VotePeriod params))) (\<lambda>q.
      let votePeriodsPerWindow = u64_of_int (Dec_TruncateInt S q) in
      rbind (slashLoop S K params distributionHeight votePeriodsPerWindow (miss_counters (ost w)) (stk w, ost w))
        (\<lambda>(k, os). Ok (w\<lparr>stk := k, ost := os\<rparr>))))"

section \<open>The end of a block (abci.go)\<close>

definition endVotePeriod ::
  "sdk \<Rightarrow> 'b bank \<Rightarrow> 'k staking \<Rightarrow> 'd distribution \<Rightarrow> (dec \<Rightarrow> dec option) \<Rightarrow> orders \<Rightarrow> ctx \<Rightarrow>
   ('b, 'k, 'd) oracle_world \<Rightarrow> ('b, 'k, 'd) oracle_world res" where
  "endVotePeriod S B K D fsqrt ords ctx w =
     (let params = oracle_params (ost w) in
      rbind (claimLoop S K (stk w) (MaxValidators K (stk w)) (ValidatorsByPower K (stk w)) 0 []) (\<lambda>claims0.
      let voteTargets0 = GetVoteTargets (ost w);
          os1 = clearRates (ost w);
          voteMap0 = OrganizeBallotByDenom claims0 os1 in
      rbind (PickReferenceGridb S K (stk w) (op_VoteThreshold params) (ord_pick ords (map fst voteMap0))
               voteTargets0 voteMap0) (\<lambda>(voteTargets, voteMap, reference).
      rbind (setRates S fsqrt ords (op_RewardBand params) reference voteMap (claims0, os1)) (\<lambda>(claims1, os2).
      let os3 = fold (missStep claims1 (length voteTargets)) (ord_miss ords (map fst claims1)) os2 in
      rbind (RewardBallotWinners S B K D ords (i64_of_u64 (op_VotePeriod params))
               (i64_of_u64 (op_RewardDistributionWindow params)) voteTargets claims1 (w\<lparr>ost := os3\<rparr>)) (\<lambda>w4.
      Ok (w4\<lparr>ost := ClearBallots ctx (op_VotePeriod params) (ost w4)\<rparr>))))))"

definition oracle_EndBlocker ::
  "sdk \<Rightarrow> 'b bank \<Rightarrow> 'k staking \<Rightarrow> 'd distribution \<Rightarrow> (dec \<Rightarrow> dec option) \<Rightarrow> orders \<Rightarrow> ctx \<Rightarrow>
   ('b, 'k, 'd) oracle_world \<Rightarrow> ('b, 'k, 'd) oracle_world res" where
  "oracle_EndBlocker S B K D fsqrt ords ctx w =
     (let params = oracle_params (ost w) in
      rbind (IsPeriodLastBlock ctx (op_VotePeriod params)) (\<lambda>votePeriodEnds.
      rbind (if votePeriodEnds then endVotePeriod S B K D fsqrt ords ctx w else Ok w) (\<lambda>w1.
      rbind (IsPeriodLastBlock ctx (op_SlashWindow params)) (\<lambda>slashWindowEnds.
      if slashWindowEnds then SlashAndResetMissCounters S K ctx w1 else Ok w1))))"

section \<open>Genesis (genesis.go)\<close>

record FeederDelegation =
  fd_FeederAddress :: string
  fd_ValidatorAddress :: string

record MissCounter =
  mc_ValidatorAddress :: string
  mc_MissCounter :: nat

record OracleGenesis =
  og_Params :: OracleParams
  og_ExchangeRates :: "ExchangeRateTuple list"
  og_FeederDelegations :: "FeederDelegation list"
  og_MissCounters :: "MissCounter list"
  og_Prevotes :: "AggregateExchangeRatePrevote list"
  og_Votes :: "AggregateExchangeRateVote list"

text \<open>A failure to read an address panics, and so does the whole initialisation.\<close>

definition orPanic :: "'a option \<Rightarrow> 'a res" where
  "orPanic r = (case r of None \<Rightarrow> Panic | Some x \<Rightarrow> Ok x)"

fun foldRes :: "('a \<Rightarrow> 's \<Rightarrow> 's res) \<Rightarrow> 'a list \<Rightarrow> 's \<Rightarrow> 's res" where
  "foldRes f [] s = Ok s"
| "foldRes f (x # xs) s = rbind (f x s) (foldRes f xs)"

definition oracle_InitGenesis :: "sdk \<Rightarrow> OracleGenesis \<Rightarrow> oracle_store \<Rightarrow> oracle_store res" where
  "oracle_InitGenesis S g os =
     rbind (foldRes (\<lambda>d s.
       rbind (orPanic (ValAddressFromBech32 S (fd_ValidatorAddress d))) (\<lambda>voter.
       rbind (orPanic (AccAddressFromBech32 S (fd_FeederAddress d))) (\<lambda>feeder.
       Ok (SetFeederDelegation voter feeder s)))) (og_FeederDelegations g) os) (\<lambda>s1.
     let s2 = fold (\<lambda>ex. SetExchangeRate (ert_Denom ex) (ert_ExchangeRate ex)) (og_ExchangeRates g) s1 in
     rbind (foldRes (\<lambda>mc s.
       rbind (orPanic (ValAddressFromBech32 S (mc_ValidatorAddress mc))) (\<lambda>operator.
       Ok (SetMissCounter operator (mc_MissCounter mc) s))) (og_MissCounters g) s2) (\<lambda>s3.
     rbind (foldRes (\<lambda>ap s.
       rbind (orPanic (ValAddressFromBech32 S (apv_Voter ap))) (\<lambda>valAddr.
       Ok (SetAggregateExchangeRatePrevote valAddr ap s))) (og_Prevotes g) s3) (\<lambda>s4.
     rbind (foldRes (\<lambda>av s.
       rbind (orPanic (ValAddressFromBech32 S (av_Voter av))) (\<lambda>valAddr.
       Ok (SetAggregateExchangeRateVote valAddr av s))) (og_Votes g) s4) (\<lambda>s5.
     Ok (s5\<lparr>oracle_params := og_Params g\<rparr>)))))"

definition oracle_ExportGenesis :: "sdk \<Rightarrow> oracle_store \<Rightarrow> OracleGenesis" where
  "oracle_ExportGenesis S os =
     \<lparr>og_Params = oracle_params os,
      og_ExchangeRates = map (\<lambda>(d, r). \<lparr>ert_Denom = d, ert_ExchangeRate = r\<rparr>) (exchange_rates os),
      og_FeederDelegations = map (\<lambda>(v, f). \<lparr>fd_FeederAddress = AccAddress_String S f,
         fd_ValidatorAddress = ValAddress_String S v\<rparr>) (feeder_delegations os),
      og_MissCounters = map (\<lambda>(v, n). \<lparr>mc_ValidatorAddress = ValAddress_String S v, mc_MissCounter = n\<rparr>)
         (miss_counters os),
      og_Prevotes = map snd (prevotes os),
      og_Votes = map snd (votes os)\<rparr>"

definition oracle_empty :: "OracleParams \<Rightarrow> oracle_store" where
  "oracle_empty p = \<lparr>exchange_rates = [], feeder_delegations = [], miss_counters = [], prevotes = [],
     votes = [], vote_targets = [], targets = [], oracle_params = p\<rparr>"

end
