(* ===== verification/OracleMedian.thy ===== *)
theory OracleMedian
  imports OracleEnd "HOL-Library.Multiset"
begin

text \<open>
  The weighted median of a ballot: it is the least rate such that the votes up to it hold half of the
  power, so it does not depend on the order of equal votes, and votes that hold less than half of the
  power cannot move it out of the range of the others.
\<close>

lemma Ballot_Power_simps [simp]:
  "Ballot_Power [] = 0" "Ballot_Power (v # pb) = vt_Power v + Ballot_Power pb"
  "Ballot_Power (xs @ ys) = Ballot_Power xs + Ballot_Power ys"
  by (simp_all add: Ballot_Power_def)

abbreviation powers_ok :: "ExchangeRateBallot \<Rightarrow> bool" where
  "powers_ok pb \<equiv> (\<forall>v \<in> set pb. 0 \<le> vt_Power v)"

lemma Ballot_Power_nonneg: "powers_ok pb \<Longrightarrow> 0 \<le> Ballot_Power pb"
  by (induction pb) auto

lemma Ballot_Power_filter_mono:
  assumes "powers_ok pb" "\<And>v. v \<in> set pb \<Longrightarrow> P v \<Longrightarrow> Q v"
  shows "Ballot_Power (filter P pb) \<le> Ballot_Power (filter Q pb)"
  using assms by (induction pb) (auto simp: add_increasing)

lemma Ballot_Power_split: "Ballot_Power (filter P pb) + Ballot_Power (filter (\<lambda>v. \<not> P v) pb) = Ballot_Power pb"
  by (induction pb) auto

lemma Ballot_Power_mset: "mset pb = mset pb' \<Longrightarrow> Ballot_Power pb = Ballot_Power pb'"
  unfolding Ballot_Power_def by (metis mset_map sum_mset_sum_list)

lemma medianLoop_split:
  assumes "pb \<noteq> []" "half \<le> p + Ballot_Power pb"
  obtains xs v ys where "pb = xs @ v # ys" "medianLoop half p pb = vt_ExchangeRate v"
    "half \<le> p + Ballot_Power xs + vt_Power v" "xs \<noteq> [] \<Longrightarrow> p + Ballot_Power xs < half"
proof -
  have "\<exists>xs v ys. pb = xs @ v # ys \<and> medianLoop half p pb = vt_ExchangeRate v \<and>
      half \<le> p + Ballot_Power xs + vt_Power v \<and> (xs \<noteq> [] \<longrightarrow> p + Ballot_Power xs < half)"
    using assms
  proof (induction half p pb rule: medianLoop.induct)
    case (2 half pivot v pb)
    show ?case
    proof (cases "half \<le> pivot + vt_Power v")
      case True
      then show ?thesis by (intro exI [of _ "[]"] exI [of _ v] exI [of _ pb]) simp
    next
      case False
      with 2(3) have "pb \<noteq> []" by (cases pb) auto
      with False 2 obtain xs u ys where "pb = xs @ u # ys"
        "medianLoop half (pivot + vt_Power v) pb = vt_ExchangeRate u"
        "half \<le> pivot + vt_Power v + Ballot_Power xs + vt_Power u"
        "xs \<noteq> [] \<longrightarrow> pivot + vt_Power v + Ballot_Power xs < half"
        by (auto simp: add.assoc)
      with False show ?thesis by (intro exI [of _ "v # xs"] exI [of _ u] exI [of _ ys]) auto
    qed
  qed simp
  with that show ?thesis by blast
qed

text \<open>The position of the median in a sorted ballot.\<close>

lemma median_split:
  assumes "Ballot_IsSorted pb" "pb \<noteq> []" "powers_ok pb"
  obtains xs v ys where "pb = xs @ v # ys" "WeightedMedian pb = vt_ExchangeRate v"
    "Ballot_Power pb div 2 \<le> Ballot_Power xs + vt_Power v" "xs \<noteq> [] \<Longrightarrow> Ballot_Power xs < Ballot_Power pb div 2"
    "\<forall>u \<in> set xs. vt_ExchangeRate u \<le> vt_ExchangeRate v" "\<forall>u \<in> set ys. vt_ExchangeRate v \<le> vt_ExchangeRate u"
proof -
  have nn: "0 \<le> Ballot_Power pb" by (rule Ballot_Power_nonneg [OF assms(3)])
  then have "Ballot_Power pb sdiv 2 \<le> 0 + Ballot_Power pb" by (simp add: sdiv_div)
  then obtain xs v ys where "pb = xs @ v # ys" "WeightedMedian pb = vt_ExchangeRate v"
    "Ballot_Power pb sdiv 2 \<le> Ballot_Power xs + vt_Power v" "xs \<noteq> [] \<Longrightarrow> Ballot_Power xs < Ballot_Power pb sdiv 2"
    using medianLoop_split [OF assms(2), of "Ballot_Power pb sdiv 2" 0] unfolding WeightedMedian_def
    by (metis add_0)
  with nn assms(1) that show thesis by (auto simp: sdiv_div Ballot_IsSorted_def sorted_append)
qed

definition power_upto :: "ExchangeRateBallot \<Rightarrow> dec \<Rightarrow> int" where
  "power_upto pb r = Ballot_Power (filter (\<lambda>v. vt_ExchangeRate v \<le> r) pb)"

lemma median_is_least:
  assumes "Ballot_IsSorted pb" "pb \<noteq> []" "powers_ok pb"
  shows "WeightedMedian pb \<in> vt_ExchangeRate ` set pb"
    and "Ballot_Power pb div 2 \<le> power_upto pb (WeightedMedian pb)"
    and "r \<in> vt_ExchangeRate ` set pb \<Longrightarrow> r < WeightedMedian pb \<Longrightarrow> power_upto pb r < Ballot_Power pb div 2"
proof -
  obtain xs v ys where d: "pb = xs @ v # ys" "WeightedMedian pb = vt_ExchangeRate v"
    "Ballot_Power pb div 2 \<le> Ballot_Power xs + vt_Power v" "xs \<noteq> [] \<Longrightarrow> Ballot_Power xs < Ballot_Power pb div 2"
    "\<forall>u \<in> set xs. vt_ExchangeRate u \<le> vt_ExchangeRate v" "\<forall>u \<in> set ys. vt_ExchangeRate v \<le> vt_ExchangeRate u"
    using assms by (rule median_split) (rule that)
  show "WeightedMedian pb \<in> vt_ExchangeRate ` set pb" using d by auto
  have "filter (\<lambda>u. vt_ExchangeRate u \<le> vt_ExchangeRate v) pb
      = xs @ v # filter (\<lambda>u. vt_ExchangeRate u \<le> vt_ExchangeRate v) ys"
    using d(1,5) by (simp add: filter_id_conv [THEN iffD2])
  moreover have "0 \<le> Ballot_Power (filter (\<lambda>u. vt_ExchangeRate u \<le> vt_ExchangeRate v) ys)"
    using assms(3) d(1) by (intro Ballot_Power_nonneg) auto
  ultimately show "Ballot_Power pb div 2 \<le> power_upto pb (WeightedMedian pb)"
    using d(2,3) by (simp add: power_upto_def)
  assume r: "r \<in> vt_ExchangeRate ` set pb" "r < WeightedMedian pb"
  with d have "xs \<noteq> []" by (cases xs) force+
  have "filter (\<lambda>u. vt_ExchangeRate u \<le> r) pb = filter (\<lambda>u. vt_ExchangeRate u \<le> r) xs"
    using d(1,2,6) r(2) by (force simp: filter_empty_conv)
  moreover have "Ballot_Power (filter (\<lambda>u. vt_ExchangeRate u \<le> r) xs) \<le> Ballot_Power (filter (\<lambda>_. True) xs)"
    using assms(3) d(1) by (intro Ballot_Power_filter_mono) auto
  ultimately show "power_upto pb r < Ballot_Power pb div 2"
    using d(4) \<open>xs \<noteq> []\<close> by (simp add: power_upto_def)
qed

lemma median_Min:
  assumes "Ballot_IsSorted pb" "pb \<noteq> []" "powers_ok pb"
  shows "WeightedMedian pb = Min {r \<in> vt_ExchangeRate ` set pb. Ballot_Power pb div 2 \<le> power_upto pb r}"
  by (rule Min_eqI [symmetric])
    (use median_is_least [OF assms] in \<open>auto simp: not_less [symmetric]\<close>)

text \<open>
  C16: the weighted median of a sorted ballot is the least of its rates such that the votes up to it
  hold at least half, rounded down, of the ballot's power.
\<close>

theorem weighted_median_spec:
  assumes "Ballot_IsSorted pb" "pb \<noteq> []" "\<forall>v \<in> set pb. 0 \<le> vt_Power v"
  shows "WeightedMedian pb = Min {r \<in> vt_ExchangeRate ` set pb. Ballot_Power pb div 2 \<le> power_upto pb r}"
  using assms by (rule median_Min)

theorem weighted_median_spec_witness:
  "WeightedMedian [NewVoteForTally 3 ''ueth'' ''v1'' 2, NewVoteForTally 5 ''ueth'' ''v2'' 4] = 5 \<and>
   Min {r \<in> {3, 5 :: int}. 3 \<le> (if r = 3 then 2 else 6 :: int)} = 5"
proof -
  let ?pb = "[NewVoteForTally 3 ''ueth'' ''v1'' 2, NewVoteForTally 5 ''ueth'' ''v2'' 4]"
  have "{r \<in> {3, 5 :: int}. 3 \<le> (if r = 3 then 2 else 6 :: int)} = {5}" by auto
  moreover have "{r \<in> vt_ExchangeRate ` set ?pb. Ballot_Power ?pb div 2 \<le> power_upto ?pb r} = {5}"
    by (auto simp: NewVoteForTally_def power_upto_def)
  moreover have "WeightedMedian ?pb
      = Min {r \<in> vt_ExchangeRate ` set ?pb. Ballot_Power ?pb div 2 \<le> power_upto ?pb r}"
    by (rule weighted_median_spec) (simp_all add: Ballot_IsSorted_def NewVoteForTally_def)
  ultimately show ?thesis by simp
qed

text \<open>
  C17: a minority cannot move the median.  If the votes outside a range of rates hold less than half,
  rounded down, of the ballot's power, the median lies in that range.
\<close>

theorem weighted_median_resists:
  assumes "Ballot_IsSorted pb" "\<forall>v \<in> set pb. 0 \<le> vt_Power v"
    and "Ballot_Power (filter (\<lambda>v. \<not> (lo \<le> vt_ExchangeRate v \<and> vt_ExchangeRate v \<le> hi)) pb) < Ballot_Power pb div 2"
  shows "lo \<le> WeightedMedian pb \<and> WeightedMedian pb \<le> hi"
proof -
  let ?out = "\<lambda>v. \<not> (lo \<le> vt_ExchangeRate v \<and> vt_ExchangeRate v \<le> hi)"
  have ne: "pb \<noteq> []" using assms(3) by auto
  obtain xs v ys where d: "pb = xs @ v # ys" "WeightedMedian pb = vt_ExchangeRate v"
    "Ballot_Power pb div 2 \<le> Ballot_Power xs + vt_Power v" "xs \<noteq> [] \<Longrightarrow> Ballot_Power xs < Ballot_Power pb div 2"
    "\<forall>u \<in> set xs. vt_ExchangeRate u \<le> vt_ExchangeRate v" "\<forall>u \<in> set ys. vt_ExchangeRate v \<le> vt_ExchangeRate u"
    using assms(1) ne assms(2) by (rule median_split) (rule that)
  have nn: "0 \<le> Ballot_Power xs" "0 \<le> Ballot_Power ys" "0 \<le> vt_Power v"
    "0 \<le> Ballot_Power (filter ?out xs)" "0 \<le> Ballot_Power (filter ?out ys)"
    using assms(2) d(1) by (auto intro!: Ballot_Power_nonneg)
  have "lo \<le> vt_ExchangeRate v"
  proof (rule ccontr)
    assume low: "\<not> lo \<le> vt_ExchangeRate v"
    with d(5) have "filter ?out xs = xs" by (auto simp: filter_id_conv)
    with low d(1,3) nn assms(3) show False by simp
  qed
  moreover have "vt_ExchangeRate v \<le> hi"
  proof (rule ccontr)
    assume high: "\<not> vt_ExchangeRate v \<le> hi"
    with d(6) have "filter ?out ys = ys" by (auto simp: filter_id_conv)
    with high d(1,4) nn assms(3) show False by (cases "xs = []") auto
  qed
  ultimately show ?thesis using d(2) by simp
qed

theorem weighted_median_resists_witness:
  "WeightedMedian [NewVoteForTally 1 ''ueth'' ''v0'' 1, NewVoteForTally 100 ''ueth'' ''v1'' 2,
     NewVoteForTally 101 ''ueth'' ''v2'' 2] \<in> {100..101}"
  using weighted_median_resists [of "[NewVoteForTally 1 ''ueth'' ''v0'' 1, NewVoteForTally 100 ''ueth'' ''v1'' 2,
     NewVoteForTally 101 ''ueth'' ''v2'' 2]" 100 101]
  by (simp add: Ballot_IsSorted_def NewVoteForTally_def)

text \<open>The bound is sharp: one vote of three moves the median of an odd total power.\<close>

lemma median_minority: 
  "WeightedMedian [NewVoteForTally 1 ''ueth'' ''v0'' 1, NewVoteForTally 100 ''ueth'' ''v1'' 2] = 1"
  by (simp add: WeightedMedian_def NewVoteForTally_def sdiv_div)

lemma median_order_irrelevant:
  assumes "Ballot_IsSorted pb" "Ballot_IsSorted pb'" "mset pb = mset pb'" "powers_ok pb"
  shows "WeightedMedian pb = WeightedMedian pb'"
proof (cases "pb = []")
  case False
  have s: "set pb = set pb'" by (metis assms(3) set_mset_mset)
  have "power_upto pb r = power_upto pb' r" for r
    unfolding power_upto_def by (rule Ballot_Power_mset) (simp add: assms(3))
  moreover have "Ballot_Power pb = Ballot_Power pb'" by (rule Ballot_Power_mset [OF assms(3)])
  moreover have "pb' \<noteq> []" using False s by auto
  ultimately show ?thesis
    using median_Min [OF assms(1) False assms(4)] median_Min [OF assms(2) \<open>pb' \<noteq> []\<close>] assms(4) s by simp
qed (use assms(3) in simp)

text \<open>A ballot of at least two units of power has a positive median when the abstaining votes have no power.\<close>

lemma median_positive:
  assumes "Ballot_IsSorted pb" "powers_ok pb" "2 \<le> Ballot_Power pb"
    and "\<forall>v \<in> set pb. 0 < vt_Power v \<longrightarrow> 0 < vt_ExchangeRate v"
  shows "0 < WeightedMedian pb"
proof -
  have ne: "pb \<noteq> []" using assms(3) by auto
  obtain xs v ys where d: "pb = xs @ v # ys" "WeightedMedian pb = vt_ExchangeRate v"
    "Ballot_Power pb div 2 \<le> Ballot_Power xs + vt_Power v" "xs \<noteq> [] \<Longrightarrow> Ballot_Power xs < Ballot_Power pb div 2"
    using assms(1) ne assms(2) by (rule median_split) (rule that)
  then have "0 < vt_Power v" using assms(3) by (cases "xs = []") auto
  with d assms(4) show ?thesis by simp
qed

end
