(* ===== verification/OracleDemo.thy ===== *)
theory OracleDemo
  imports OracleEnd
begin

text \<open>
  Executable keepers and a small store, on which the properties of the oracle are evaluated.
\<close>

text \<open>
  Validators for the examples: an association list from addresses, in the order of their power.
\<close>

definition demo_val :: "addr \<Rightarrow> int \<Rightarrow> validator" where
  "demo_val a p = \<lparr>val_Operator = a, val_IsBonded = True, val_IsJailed = False, val_ConsensusPower = (\<lambda>_. p),
     val_ConsAddr = Ok a\<rparr>"

definition demo_staking :: "(addr \<times> validator) list staking" where
  "demo_staking =
   \<lparr>Validator = map_of,
    TotalBondedTokens = (\<lambda>k. sum_list (map (\<lambda>(a, v). val_ConsensusPower v 1) k)),
    Slash = (\<lambda>k a h p f. Ok k),
    Jail = (\<lambda>k a. Ok (map (\<lambda>(b, v). (b, if b = a then v\<lparr>val_IsJailed := True\<rparr> else v)) k)),
    ValidatorsByPower = map fst,
    MaxValidators = (\<lambda>_. 100),
    PowerReduction = (\<lambda>_. 1)\<rparr>"

text \<open>A distribution keeper that records what each validator has outstanding.\<close>

definition demo_distr :: "(addr \<Rightarrow> denom \<Rightarrow> dec) distribution" where
  "demo_distr = \<lparr>AllocateTokensToValidator = (\<lambda>d a x b e. d b e + (if b = a then dcs_amt x e else 0))\<rparr>"

text \<open>Every loop over a map walks its keys the same way.\<close>

definition walk :: "(string list \<Rightarrow> string list) \<Rightarrow> orders" where
  "walk f = \<lparr>ord_pick = f, ord_rates = f, ord_miss = f, ord_denoms = f, ord_winners = f\<rparr>"

text \<open>Two validators voted, one of them for one of the two targets.\<close>

definition demo_votes :: oracle_store where
  "demo_votes = (oracle_empty OracleDefaultParams)
     \<lparr>vote_targets := [(''ueth'', ''ueth''), (''uusm'', ''uusm'')],
      votes := [(''val1'', \<lparr>av_ExchangeRateTuples = [\<lparr>ert_Denom = ''ueth'', ert_ExchangeRate = 2 * 10 ^ 18\<rparr>,
                   \<lparr>ert_Denom = ''uusm'', ert_ExchangeRate = 10 ^ 18\<rparr>], av_Voter = ''val1''\<rparr>),
                (''val2'', \<lparr>av_ExchangeRateTuples = [\<lparr>ert_Denom = ''uusm'', ert_ExchangeRate = 10 ^ 18\<rparr>],
                   av_Voter = ''val2''\<rparr>)]\<rparr>"

end
