(* ===== verification/OracleOrder.thy ===== *)
theory OracleOrder
  imports OracleMedian OracleDemo
begin

text \<open>
  The end of a block does not depend on the order in which Go walks the maps: the loops of the oracle
  commute, so that every node computes the same state.
\<close>

section \<open>Loops in any order\<close>

lemma kv_eqI:
  assumes "kv_wf s" "kv_wf t" "\<And>k. kv_get s k = kv_get t k"
  shows "s = t"
proof -
  have "set s = set t" using kv_get_mem [OF assms(1)] kv_get_mem [OF assms(2)] assms(3) by auto
  moreover have "inj_on fst (set s)" using kv_wf_distinct [OF assms(1)] by (simp add: distinct_map)
  ultimately show ?thesis
    using assms(1,2) by (intro map_sorted_distinct_set_unique [of fst])
      (auto simp: kv_wf_def strict_sorted_iff)
qed

lemma kv_set_comm:
  "kv_wf s \<Longrightarrow> k \<noteq> j \<Longrightarrow> kv_set k v (kv_set j u s) = kv_set j u (kv_set k v s)"
  by (rule kv_eqI) auto

lemma kv_set_set [simp]: "kv_wf s \<Longrightarrow> kv_set k v (kv_set k u s) = kv_set k v s"
  by (rule kv_eqI) auto

lemma foldRes_append: "foldRes f (xs @ ys) s = rbind (foldRes f xs s) (foldRes f ys)"
proof (induction xs arbitrary: s)
  case (Cons x xs)
  then show ?case by (cases "f x s") simp_all
qed simp

lemma foldRes_perm:
  assumes "mset xs = mset ys" "P s"
    and inv: "\<And>x s s'. x \<in> set xs \<Longrightarrow> P s \<Longrightarrow> f x s = Ok s' \<Longrightarrow> P s'"
    and comm: "\<And>x y s. x \<in> set xs \<Longrightarrow> y \<in> set xs \<Longrightarrow> P s \<Longrightarrow> rbind (f x s) (f y) = rbind (f y s) (f x)"
  shows "foldRes f xs s = foldRes f ys s"
proof -
  have front: "foldRes f (zs @ [x]) t = foldRes f (x # zs) t" if "set zs \<subseteq> set xs" "x \<in> set xs" "P t" for zs x t
    using that
  proof (induction zs arbitrary: t)
    case (Cons z zs)
    have "foldRes f ((z # zs) @ [x]) t = rbind (f z t) (foldRes f (x # zs))"
    proof (cases "f z t")
      case (Ok u)
      with Cons.prems have "P u" by (intro inv [of z t u]) simp_all
      with Ok Cons show ?thesis by simp
    qed simp_all
    also have "\<dots> = rbind (rbind (f z t) (f x)) (foldRes f zs)" by (cases "f z t") simp_all
    also have "\<dots> = rbind (rbind (f x t) (f z)) (foldRes f zs)" using Cons.prems comm [of z x t] by simp
    also have "\<dots> = foldRes f (x # z # zs) t" by (cases "f x t") simp_all
    finally show ?case .
  qed simp
  have "foldRes f zs t = foldRes f ys t" if "mset zs = mset ys" "set zs \<subseteq> set xs" "P t" for zs ys t
    using that
  proof (induction zs arbitrary: ys t)
    case (Cons x zs)
    then have "x \<in> set ys" by (metis list.set_intros(1) mset_eq_setD)
    then obtain as bs where ys: "ys = as @ x # bs" by (meson split_list)
    with Cons.prems(1) have m: "mset zs = mset (as @ bs)" by simp
    then have sub: "set as \<subseteq> set xs" using Cons.prems(2) mset_eq_setD [OF m] by auto
    have "foldRes f ys t = rbind (foldRes f (as @ [x]) t) (foldRes f bs)"
      using foldRes_append [of f "as @ [x]" bs t] by (simp add: ys)
    also have "foldRes f (as @ [x]) t = foldRes f (x # as) t"
      using Cons.prems(2,3) by (intro front [OF sub]) simp_all
    also have "rbind (foldRes f (x # as) t) (foldRes f bs) = foldRes f (x # as @ bs) t"
      using foldRes_append [of f "x # as" bs t] by simp
    also have "\<dots> = foldRes f (x # zs) t"
    proof (cases "f x t")
      case (Ok u)
      with Cons.prems(2,3) have "P u" by (intro inv [of x t u]) simp_all
      with Ok Cons.IH [OF m, of u] Cons.prems(2) show ?thesis by simp
    qed simp_all
    finally show ?case by simp
  qed simp
  from this [OF assms(1) subset_refl assms(2)] show ?thesis .
qed

section \<open>Picking the reference\<close>

text \<open>One visit of a key, and what a passing ballot does to the largest power and the reference.\<close>

definition pickBest :: "int \<Rightarrow> denom \<Rightarrow> int \<times> denom \<Rightarrow> int \<times> denom" where
  "pickBest pwr denom best = (case best of (largest, ref) \<Rightarrow>
     if pwr > largest \<or> largest = 0 then (pwr, denom)
     else if largest = pwr \<and> ref > denom then (largest, denom) else best)"

definition pickStep :: "int \<Rightarrow> denom \<Rightarrow> (denom list \<times> (denom, ExchangeRateBallot) kv) \<times> int \<times> denom \<Rightarrow>
    (denom list \<times> (denom, ExchangeRateBallot) kv) \<times> int \<times> denom" where
  "pickStep th denom st = (case st of ((ts, vm), best) \<Rightarrow>
     case kv_get vm denom of
       None \<Rightarrow> st
     | Some ballot \<Rightarrow>
         if denom \<notin> set ts then ((ts, kv_delete denom vm), best)
         else if snd (ballotIsPassing ballot th) then ((ts, vm), pickBest (fst (ballotIsPassing ballot th)) denom best)
         else ((filter (\<lambda>t. t \<noteq> denom) ts, kv_delete denom vm), best))"

lemma pickLoop_fold:
  "pickLoop th ds ts vm l r = (case fold (pickStep th) ds ((ts, vm), l, r) of ((ts', vm'), l', r') \<Rightarrow> (ts', vm', r'))"
  by (induction th ds ts vm l r rule: pickLoop.induct)
    (auto simp: pickStep_def pickBest_def split: option.splits prod.splits)

lemma pickBest_comm: "p \<noteq> 0 \<Longrightarrow> q \<noteq> 0 \<Longrightarrow> pickBest p x (pickBest q y best) = pickBest q y (pickBest p x best)"
  by (auto simp: pickBest_def split: prod.splits)

lemma kv_delete_comm: "kv_delete k (kv_delete j s) = kv_delete j (kv_delete k s)"
  by (simp add: kv_delete_def conj_commute)

lemma pickStep_comm: "pickStep th x (pickStep th y st) = pickStep th y (pickStep th x st)"
proof (cases "x = y")
  case False
  obtain ts vm best where st: "st = ((ts, vm), best)" by (metis surj_pair)
  have pos: "snd (ballotIsPassing b th) \<Longrightarrow> fst (ballotIsPassing b th) \<noteq> 0" for b
    by (simp add: ballotIsPassing_def Let_def)
  have fl: "filter (\<lambda>t. t \<noteq> x \<and> t \<noteq> y) ts = filter (\<lambda>t. t \<noteq> y \<and> t \<noteq> x) ts"
    by (rule filter_cong) auto
  show ?thesis
  proof (cases "kv_get vm x"; cases "kv_get vm y")
    fix a b assume "kv_get vm x = Some a" "kv_get vm y = Some b"
    with False pos [of a] pos [of b] show ?thesis
      by (cases "x \<in> set ts"; cases "y \<in> set ts"; cases "snd (ballotIsPassing a th)"; cases "snd (ballotIsPassing b th)")
        (simp_all add: pickStep_def st kv_delete_comm pickBest_comm fl)
  qed (use False in \<open>simp_all add: pickStep_def st split: option.splits\<close>)
qed simp

lemma pickLoop_perm: "mset ds = mset es \<Longrightarrow> pickLoop th ds ts vm l r = pickLoop th es ts vm l r"
  unfolding pickLoop_fold
  by (rule arg_cong [where f = "\<lambda>x. case x of ((ts', vm'), l', r') \<Rightarrow> (ts', vm', r')"],
      rule fold_permuted_eq [where P = "\<lambda>_. True"]) (simp_all add: pickStep_comm)

section \<open>The rates\<close>

lemma claimOf_set: "claimOf (kv_set k c m) j = (if j = k then c else claimOf m j)"
  by (simp add: claimOf_def)

lemma tallyVote_wf: "kv_wf m \<Longrightarrow> kv_wf (tallyVote S a b v m)"
  by (simp add: tallyVote_def Let_def)

lemma tallyVote_comm:
  assumes "kv_wf m"
  shows "tallyVote S a b v (tallyVote S c d u m) = tallyVote S c d u (tallyVote S a b v m)"
proof (cases "ValAddress_String S (vt_Voter v) = ValAddress_String S (vt_Voter u)")
  case True
  with assms show ?thesis by (simp add: tallyVote_def Let_def claimOf_set ac_simps)
next
  case False
  then have "ValAddress_String S (vt_Voter u) \<noteq> ValAddress_String S (vt_Voter v)" by simp
  with False assms kv_set_comm [OF assms False] show ?thesis by (simp add: tallyVote_def Let_def claimOf_set)
qed

lemma fold_keeps: "P s \<Longrightarrow> (\<And>x s. P s \<Longrightarrow> P (f x s)) \<Longrightarrow> P (fold f xs s)"
  by (induction xs arbitrary: s) simp_all

lemma fold_fold_comm:
  assumes "P s" "\<And>x s. P s \<Longrightarrow> P (f x s)" "\<And>y s. P s \<Longrightarrow> P (g y s)"
    and "\<And>x y s. P s \<Longrightarrow> f x (g y s) = g y (f x s)"
  shows "fold f xs (fold g ys s) = fold g ys (fold f xs s)"
proof -
  have one: "f x (fold g ys s) = fold g ys (f x s)" if "P s" for x s
    using that assms(3,4) by (induction ys arbitrary: s) simp_all
  show ?thesis using assms(1)
  proof (induction xs arbitrary: s)
    case (Cons x xs)
    then show ?case using one assms(2) by simp
  qed simp
qed

lemma tally_comm:
  "kv_wf m \<Longrightarrow> fold (tallyVote S a b) xs (fold (tallyVote S c d) ys m)
     = fold (tallyVote S c d) ys (fold (tallyVote S a b) xs m)"
  by (rule fold_fold_comm [where P = kv_wf]) (simp_all add: tallyVote_wf tallyVote_comm)

text \<open>Whatever panics in it, the standard deviation is a value.\<close>

lemma StandardDeviation_total: "\<exists>dv. StandardDeviation S fsqrt pb m = Ok dv"
  by (auto simp: StandardDeviation_def split: res.splits)

context sdk_laws
begin

lemma Quo_not_Err: "Dec_Quo S a b \<noteq> Err e"
  using Quo_zero [of a] Quo_near [of b a] by (cases "b = 0") auto

lemma ToCrossRate_not_Err: "ToCrossRate S pb bases \<noteq> Err e"
  by (induction pb) (auto simp: rbind_Err_iff Quo_not_Err split: option.splits)

lemma rateStep_cases:
  obtains (panic) "\<And>st. rateStep S fsqrt band ref rm vmRM vm d st = Panic"
  | (tally) med spread pb g where "\<And>m os. rateStep S fsqrt band ref rm vmRM vm d (m, os) =
        Ok (fold (tallyVote S med spread) pb m, g os)" "g = id \<or> (\<exists>r. g = SetExchangeRate d r)"
proof (cases "kv_get vm d")
  case None
  then show thesis
    by (intro tally [of _ _ "[]" id]) (simp_all add: rateStep_def)
next
  case (Some b0)
  let ?b = "if d \<noteq> ref then ToCrossRateWithSort S b0 vmRM else Ok b0"
  show thesis
  proof (cases ?b)
    case (Ok pb)
    have t: "rateStep S fsqrt band ref rm vmRM vm d (m, os) =
      rbind (Tally S fsqrt pb band m) (\<lambda>(exchangeRate, m').
          if d \<noteq> ref then
            (if exchangeRate = 0 then Ok (m', os)
             else rbind (Dec_Quo S rm exchangeRate) (\<lambda>r. Ok (m', SetExchangeRate d r os)))
          else Ok (m', SetExchangeRate d exchangeRate os))" for m os
      using Some Ok by (simp add: rateStep_def)
    show thesis
    proof (cases "\<exists>med spread. \<forall>m. Tally S fsqrt pb band m = Ok (med, fold (tallyVote S med spread) pb m)")
      case True
      then obtain med spread where ok: "\<And>m. Tally S fsqrt pb band m = Ok (med, fold (tallyVote S med spread) pb m)"
        by blast
      show thesis
      proof (cases "d \<noteq> ref \<and> med \<noteq> 0")
        case True
        then obtain q where "Dec_Quo S rm med = Ok q" using Quo_near [of med rm] by blast
        with True t ok show thesis by (intro tally [of med spread pb "SetExchangeRate d q"]) auto
      next
        case False
        then show thesis
          using t ok by (cases "d = ref") (auto intro: tally [of med spread pb "SetExchangeRate d med"] tally [of med spread pb id])
      qed
    next
      case False
      then have p: "Tally S fsqrt pb band m = Panic" for m
        using StandardDeviation_total [of S fsqrt pb "WeightedMedian pb"]
        by (auto simp: Tally_def WeightedMedianWithAssertion_def QuoInt_sdiv deref_def Let_def
            split: if_splits option.splits)
      show thesis
      proof (rule panic)
        fix st show "rateStep S fsqrt band ref rm vmRM vm d st = Panic" by (cases st) (simp add: t p)
      qed
    qed
  next
    case Panic
    show thesis
    proof (rule panic)
      fix st show "rateStep S fsqrt band ref rm vmRM vm d st = Panic"
        using Panic Some by (cases st) (simp add: rateStep_def)
    qed
  next
    case (Err e)
    then show thesis
      by (auto simp: ToCrossRateWithSort_def rbind_Err_iff ToCrossRate_not_Err split: if_splits)
  qed
qed

lemma rateStep_comm:
  assumes "kv_wf m" "kv_wf (exchange_rates os)" "d \<noteq> e"
  shows "rbind (rateStep S fsqrt band ref rm vmRM vm d (m, os)) (rateStep S fsqrt band ref rm vmRM vm e)
    = rbind (rateStep S fsqrt band ref rm vmRM vm e (m, os)) (rateStep S fsqrt band ref rm vmRM vm d)"
proof (cases rule: rateStep_cases [of fsqrt band ref rm vmRM vm d])
  case panic
  then show ?thesis
    by (cases rule: rateStep_cases [of fsqrt band ref rm vmRM vm e]) simp_all
next
  case (tally med spread pb g)
  note D = this
  show ?thesis
  proof (cases rule: rateStep_cases [of fsqrt band ref rm vmRM vm e])
    case panic
    with D show ?thesis by simp
  next
    case (tally med' spread' pb' g')
    have "g (g' os) = g' (g os)"
      using D(2) tally(2) assms(2,3) by (auto simp: SetExchangeRate_def kv_set_comm)
    with D(1) tally(1) tally_comm [OF assms(1)] show ?thesis by simp
  qed
qed

lemma rateStep_keeps:
  assumes "rateStep S fsqrt band ref rm vmRM vm d (m, os) = Ok (m', os')" "kv_wf m" "kv_wf (exchange_rates os)"
  shows "kv_wf m' \<and> kv_wf (exchange_rates os')"
proof (cases rule: rateStep_cases [of fsqrt band ref rm vmRM vm d])
  case (tally med spread pb g)
  have "kv_wf (fold (tallyVote S med spread) pb m)"
    by (rule fold_keeps [where P = kv_wf]) (simp_all add: assms(2) tallyVote_wf)
  with tally assms show ?thesis by (auto simp: SetExchangeRate_def)
qed (use assms in simp)

lemma rateLoop_foldRes:
  "rateLoop S fsqrt band ref rm vmRM vm ds st = foldRes (rateStep S fsqrt band ref rm vmRM vm) ds st"
proof (induction ds arbitrary: st)
  case (Cons d ds)
  then show ?case by (cases "rateStep S fsqrt band ref rm vmRM vm d st") simp_all
qed simp

lemma rateLoop_perm:
  assumes "mset ds = mset es" "kv_wf m" "kv_wf (exchange_rates os)"
  shows "rateLoop S fsqrt band ref rm vmRM vm ds (m, os) = rateLoop S fsqrt band ref rm vmRM vm es (m, os)"
  unfolding rateLoop_foldRes
proof (rule foldRes_perm [where P = "\<lambda>(m, os). kv_wf m \<and> kv_wf (exchange_rates os)"])
  fix x y and s :: "claims \<times> oracle_store"
  assume "case s of (m, os) \<Rightarrow> kv_wf m \<and> kv_wf (exchange_rates os)"
  then show "rbind (rateStep S fsqrt band ref rm vmRM vm x s) (rateStep S fsqrt band ref rm vmRM vm y)
    = rbind (rateStep S fsqrt band ref rm vmRM vm y s) (rateStep S fsqrt band ref rm vmRM vm x)"
    using rateStep_comm [of "fst s" "snd s" x y] by (cases "x = y"; cases s) simp_all
qed (use assms rateStep_keeps in auto)

lemma setRates_perm:
  assumes "\<And>ks. mset (ord_rates o1 ks) = mset ks" "\<And>ks. mset (ord_rates o2 ks) = mset ks"
    and "kv_wf m" "kv_wf (exchange_rates os)"
  shows "setRates S fsqrt o1 band ref vm (m, os) = setRates S fsqrt o2 band ref vm (m, os)"
proof -
  have "rateLoop S fsqrt band ref rm vmRM vm (ord_rates o1 ks) (m, os)
      = rateLoop S fsqrt band ref rm vmRM vm (ord_rates o2 ks) (m, os)" for rm vmRM ks
    by (rule rateLoop_perm) (simp_all add: assms)
  then show ?thesis by (simp only: setRates_def Let_def)
qed

lemma setRates_keeps:
  assumes "setRates S fsqrt ords band ref vm (m, os) = Ok (m', os')" "kv_wf m" "kv_wf (exchange_rates os)"
  shows "kv_wf m' \<and> kv_wf (exchange_rates os')"
proof -
  have "rateLoop S fsqrt band ref rm vmRM vm ds (m, os) = Ok (m', os') \<Longrightarrow> kv_wf m \<Longrightarrow> kv_wf (exchange_rates os) \<Longrightarrow>
      kv_wf m' \<and> kv_wf (exchange_rates os')" for rm vmRM ds m os
  proof (induction ds arbitrary: m os)
    case (Cons d ds)
    then show ?case using rateStep_keeps by (auto simp: rbind_Ok_iff)
  qed simp
  with assms show ?thesis by (auto simp: setRates_def Let_def rbind_Ok_iff split: if_splits)
qed

end


section \<open>Misses and rewards\<close>

lemma missStep_wf: "kv_wf (miss_counters os) \<Longrightarrow> kv_wf (miss_counters (missStep m n key os))"
  by (simp add: missStep_def Let_def SetMissCounter_def)

lemma SetMissCounter_comm:
  assumes "kv_wf (miss_counters os)"
  shows "SetMissCounter a (u64_add (GetMissCounter (SetMissCounter b (u64_add (GetMissCounter os b) 1) os) a) 1)
      (SetMissCounter b (u64_add (GetMissCounter os b) 1) os)
    = SetMissCounter b (u64_add (GetMissCounter (SetMissCounter a (u64_add (GetMissCounter os a) 1) os) b) 1)
      (SetMissCounter a (u64_add (GetMissCounter os a) 1) os)"
  using assms by (cases "a = b") (auto simp: SetMissCounter_def GetMissCounter_def kv_set_comm)

lemma missStep_comm:
  "kv_wf (miss_counters os) \<Longrightarrow> missStep m n x (missStep m n y os) = missStep m n y (missStep m n x os)"
  using SetMissCounter_comm [of os "cl_Recipient (claimOf m x)" "cl_Recipient (claimOf m y)"]
  by (simp add: missStep_def Let_def)

lemma miss_perm:
  assumes "mset xs = mset ys" "kv_wf (miss_counters os)"
  shows "fold (missStep m n) xs os = fold (missStep m n) ys os"
  using assms by (intro fold_permuted_eq [where P = "\<lambda>os. kv_wf (miss_counters os)"])
    (simp_all add: missStep_wf missStep_comm)

text \<open>What the loops of the rewards need: an allocation adds to what a validator has outstanding.\<close>

locale reward_laws = deccoin_laws S for S +
  fixes D :: "'d distribution"
  assumes Allocate_comm: "AllocateTokensToValidator D (AllocateTokensToValidator D d a x) b y
      = AllocateTokensToValidator D (AllocateTokensToValidator D d b y) a x"
begin

lemma periodRewards_fold:
  "periodRewards S B b ratio ds acc = foldRes (\<lambda>d acc. if coin_IsZero (GetRewardPool B b d) then Ok acc
     else rbind (NewDecCoinFromDec S d (Dec_Mul S (ToDec (Amount (GetRewardPool B b d))) ratio))
       (\<lambda>c. Ok (DecCoins_Add S acc c))) ds acc"
proof (induction ds arbitrary: acc)
  case (Cons d ds)
  then show ?case by (auto simp: Let_def NewDecCoinFromDec_eq)
qed simp

lemma periodRewards_perm:
  "mset ds = mset es \<Longrightarrow> periodRewards S B b ratio ds acc = periodRewards S B b ratio es acc"
  unfolding periodRewards_fold
  by (rule foldRes_perm [where P = "\<lambda>_. True"]) (auto simp: NewDecCoinFromDec_eq DecCoins_Add_comm)

lemma rewardLoop_foldRes:
  "rewardLoop S K k D winners tot rewards keys st = foldRes (rewardStep S K k D winners tot rewards) keys st"
proof (induction keys arbitrary: st)
  case (Cons d ds)
  then show ?case by (cases "rewardStep S K k D winners tot rewards d st") simp_all
qed simp

lemma rewardStep_comm:
  "rbind (rewardStep S K k D winners tot rewards x st) (rewardStep S K k D winners tot rewards y)
   = rbind (rewardStep S K k D winners tot rewards y st) (rewardStep S K k D winners tot rewards x)"
  by (cases st) (auto simp: rewardStep_def Let_def QuoInt_sdiv Allocate_comm Coins_Add_comm split: option.splits)

lemma rewardLoop_perm:
  "mset xs = mset ys \<Longrightarrow> rewardLoop S K k D winners tot rewards xs st = rewardLoop S K k D winners tot rewards ys st"
  unfolding rewardLoop_foldRes by (rule foldRes_perm [where P = "\<lambda>_. True"]) (simp_all add: rewardStep_comm)

end

section \<open>The end of a block\<close>

definition orders_ok :: "orders \<Rightarrow> bool" where
  "orders_ok r \<longleftrightarrow> (\<forall>ks. mset (ord_pick r ks) = mset ks \<and> mset (ord_rates r ks) = mset ks \<and>
     mset (ord_miss r ks) = mset ks \<and> mset (ord_denoms r ks) = mset ks \<and> mset (ord_winners r ks) = mset ks)"

lemma claimLoop_wf: "claimLoop S K k n as i m = Ok m' \<Longrightarrow> kv_wf m \<Longrightarrow> kv_wf m'"
  by (induction S K k n as i m rule: claimLoop.induct) (auto simp: Let_def split: option.splits if_splits)

lemma clearRates_frame [simp]:
  "exchange_rates (clearRates os) = []" "miss_counters (clearRates os) = miss_counters os"
  "votes (clearRates os) = votes os" "prevotes (clearRates os) = prevotes os" "vote_targets (clearRates os) = vote_targets os"
  "oracle_params (clearRates os) = oracle_params os"
proof -
  have "exchange_rates (fold DeleteExchangeRate ds s) = filter (\<lambda>e. fst e \<notin> set ds) (exchange_rates s)" for ds s
    by (induction ds arbitrary: s) (auto simp: DeleteExchangeRate_def kv_delete_def intro: filter_cong)
  then show "exchange_rates (clearRates os) = []"
    by (auto simp: clearRates_def filter_empty_conv image_iff)
  have "miss_counters (fold DeleteExchangeRate ds s) = miss_counters s \<and> votes (fold DeleteExchangeRate ds s) = votes s \<and>
      prevotes (fold DeleteExchangeRate ds s) = prevotes s \<and> vote_targets (fold DeleteExchangeRate ds s) = vote_targets s \<and>
      oracle_params (fold DeleteExchangeRate ds s) = oracle_params s" for ds s
    by (induction ds arbitrary: s) (simp_all add: DeleteExchangeRate_def)
  then show "miss_counters (clearRates os) = miss_counters os" "votes (clearRates os) = votes os"
    "prevotes (clearRates os) = prevotes os" "vote_targets (clearRates os) = vote_targets os"
    "oracle_params (clearRates os) = oracle_params os"
    by (simp_all add: clearRates_def)
qed

context sdk_laws
begin

lemma setRates_frame:
  assumes "setRates S fsqrt ords band ref vm (m, os) = Ok (m', os')"
  shows "miss_counters os' = miss_counters os"
proof -
  have step: "rateStep S fsqrt band ref rm vmRM vm d (m, os) = Ok (m', os') \<Longrightarrow> miss_counters os' = miss_counters os"
    for rm vmRM d m os m' os'
    by (cases rule: rateStep_cases [of fsqrt band ref rm vmRM vm d]) (auto simp: SetExchangeRate_def)
  have "rateLoop S fsqrt band ref rm vmRM vm ds (m, os) = Ok (m', os') \<Longrightarrow> miss_counters os' = miss_counters os"
    for rm vmRM ds m os
  proof (induction ds arbitrary: m os)
    case (Cons d ds)
    then show ?case using step by (fastforce simp: rbind_Ok_iff)
  qed simp
  with assms show ?thesis by (auto simp: setRates_def Let_def rbind_Ok_iff split: if_splits)
qed

end

lemma rbind_cong: "m = m' \<Longrightarrow> (\<And>x. m' = Ok x \<Longrightarrow> f x = f' x) \<Longrightarrow> rbind m f = rbind m' f'"
  by (cases m') simp_all

context reward_laws
begin

lemma RewardBallotWinners_perm:
  assumes "orders_ok o1" "orders_ok o2"
  shows "RewardBallotWinners S B K D o1 vp win ts cs w = RewardBallotWinners S B K D o2 vp win ts cs w"
proof -
  have "periodRewards S B (obk w) ratio (ord_denoms o1 ts) [] = periodRewards S B (obk w) ratio (ord_denoms o2 ts) []" for ratio
    by (rule periodRewards_perm) (use assms in \<open>simp add: orders_ok_def\<close>)
  moreover have "rewardLoop S K (stk w) D cs tot rewards (ord_winners o1 (map fst cs)) (dst w, [])
      = rewardLoop S K (stk w) D cs tot rewards (ord_winners o2 (map fst cs)) (dst w, [])" for tot rewards
    by (rule rewardLoop_perm) (use assms in \<open>simp add: orders_ok_def\<close>)
  ultimately show ?thesis by (simp only: RewardBallotWinners_def Let_def)
qed

lemma endVotePeriod_perm:
  assumes "orders_ok o1" "orders_ok o2" "kv_wf (miss_counters (ost w))"
  shows "endVotePeriod S B K D fsqrt o1 ctx w = endVotePeriod S B K D fsqrt o2 ctx w"
proof (cases "claimLoop S K (stk w) (MaxValidators K (stk w)) (ValidatorsByPower K (stk w)) 0 []")
  case (Ok c0)
  let ?vm = "OrganizeBallotByDenom c0 (clearRates (ost w))"
  have c0: "kv_wf c0" using Ok by (rule claimLoop_wf) simp
  have pick: "PickReferenceGridb S K (stk w) th (ord_pick o1 (map fst ?vm)) ts ?vm
      = PickReferenceGridb S K (stk w) th (ord_pick o2 (map fst ?vm)) ts ?vm" for th ts
    unfolding PickReferenceGridb_def
    by (simp only: pickLoop_perm [of "ord_pick o1 (map fst ?vm)" "ord_pick o2 (map fst ?vm)"] assms(1,2) [unfolded orders_ok_def])
  have rates: "setRates S fsqrt o1 band ref vm (c0, clearRates (ost w)) = setRates S fsqrt o2 band ref vm (c0, clearRates (ost w))"
    for band ref vm
    by (rule setRates_perm) (use assms(1,2) c0 in \<open>simp_all add: orders_ok_def\<close>)
  have miss: "fold (missStep c1 n) (ord_miss o1 (map fst c1)) os2 = fold (missStep c1 n) (ord_miss o2 (map fst c1)) os2"
    if "setRates S fsqrt o2 band ref vm (c0, clearRates (ost w)) = Ok (c1, os2)" for band ref vm c1 os2 n
    using setRates_frame [OF that] assms by (intro miss_perm) (simp_all add: orders_ok_def)
  show ?thesis
    unfolding endVotePeriod_def Let_def Ok rbind.simps pick rates RewardBallotWinners_perm [OF assms(1,2)]
    by (auto simp: miss intro!: rbind_cong split: prod.split)
qed (simp_all add: endVotePeriod_def)

end

interpretation demo_rewards: reward_laws cosmos_sdk demo_distr
  by unfold_locales (auto simp: demo_distr_def fun_eq_iff)

lemma walk_ok: "orders_ok (walk (\<lambda>ks. ks))" "orders_ok (walk rev)"
  by (simp_all add: orders_ok_def walk_def)

text \<open>
  C20: the end of a block in the oracle is deterministic: whatever order Go ranges over its maps in,
  when it picks the reference, sets the rates, counts the misses and pays the rewards, the resulting
  state is the same.
\<close>

theorem oracle_end_block_deterministic:
  assumes "reward_laws S D" "orders_ok o1" "orders_ok o2" "oracle_wf (ost w)"
  shows "oracle_EndBlocker S B K D fsqrt o1 ctx w = oracle_EndBlocker S B K D fsqrt o2 ctx w"
proof -
  have "endVotePeriod S B K D fsqrt o1 ctx w = endVotePeriod S B K D fsqrt o2 ctx w"
    by (rule reward_laws.endVotePeriod_perm [OF assms(1-3)]) (use assms(4) in \<open>simp add: oracle_wf_def\<close>)
  then show ?thesis by (simp only: oracle_EndBlocker_def)
qed


theorem oracle_end_block_deterministic_witness:
  "oracle_EndBlocker cosmos_sdk ledger demo_staking demo_distr Some (walk (\<lambda>ks. ks)) \<lparr>BlockHeight = 9, BlockTime = 0\<rparr>
      \<lparr>ost = demo_votes, stk = [(''val1'', demo_val ''val1'' 5), (''val2'', demo_val ''val2'' 3)], dst = (\<lambda>_ _. 0), obk = \<lparr>balances = [], supplies = []\<rparr>\<rparr>
   = oracle_EndBlocker cosmos_sdk ledger demo_staking demo_distr Some (walk rev) \<lparr>BlockHeight = 9, BlockTime = 0\<rparr>
      \<lparr>ost = demo_votes, stk = [(''val1'', demo_val ''val1'' 5), (''val2'', demo_val ''val2'' 3)], dst = (\<lambda>_ _. 0), obk = \<lparr>balances = [], supplies = []\<rparr>\<rparr>"
  by (rule oracle_end_block_deterministic [OF demo_rewards.reward_laws_axioms walk_ok])
    (simp add: oracle_wf_def demo_votes_def oracle_empty_def kv_wf_def)

end
