(* ===== verification/OracleVoteProps.thy ===== *)
theory OracleVoteProps
  imports OracleDemo
begin

text \<open>
  The commit-and-reveal scheme of the price votes: a prevote fixes the rates that can be revealed, the
  reveal is accepted in the next vote period and only then, and nothing but the validator's own
  entries changes.
\<close>

section \<open>The hash as text\<close>

lemma hex_value_char: "n < 16 \<Longrightarrow> hex_value (hex_char n) = Some n"
  by (auto simp: hex_value_def hex_char_def Let_def)

lemma hash_roundtrip: "AggregateVoteHashFromHexString (VoteHash_String h) = Some h"
proof (induction h)
  case (Cons b h)
  have "(of_char b :: nat) < 256" by simp
  then have "(of_char b :: nat) div 16 < 16" by (simp add: less_mult_imp_div_less)
  with Cons show ?case by (simp add: VoteHash_String_def hex_value_char)
qed (simp add: VoteHash_String_def)

lemma VoteHash_String_inj: "VoteHash_String h = VoteHash_String h' \<Longrightarrow> h = h'"
  by (metis hash_roundtrip option.inject)

section \<open>The rates as text\<close>

lemma set_TrimSpace: "c \<in> set s \<Longrightarrow> is_space c \<or> c \<in> set (TrimSpace s)"
proof -
  have drop: "c \<in> set t \<Longrightarrow> is_space c \<or> c \<in> set (dropWhile is_space t)" for t
    by (metis Un_iff set_append set_takeWhileD takeWhile_dropWhile_id)
  assume "c \<in> set s"
  with drop [of s] drop [of "rev (dropWhile is_space s)"] show ?thesis
    by (auto simp: TrimSpace_def)
qed

lemma set_Split: "c \<in> set s \<Longrightarrow> c = sep \<or> (\<exists>p \<in> set (Split s sep). c \<in> set p)"
  by (induction s) (auto split: list.splits)

lemma set_Split2: "Split s sep = [x, y] \<Longrightarrow> c \<in> set s \<Longrightarrow> c = sep \<or> c \<in> set x \<or> c \<in> set y"
  using set_Split [of c s sep] by auto

context text_laws
begin

lemma parseTuple_chars:
  assumes "parseTuple S t seen = Some e" "c \<in> set t"
  shows "c \<noteq> CHR '';''"
proof
  assume c: "c = CHR '';''"
  from assms(1) obtain s0 s1 where sp: "Split (TrimSpace t) CHR '':'' = [s0, s1]"
    and d: "ValidateDenom S (TrimSpace s0)" and r: "\<exists>r. NewDecFromStr S s1 = Some r"
    by (auto simp: parseTuple_def Let_def split: list.splits if_splits option.splits)
  have "c \<in> set s0 \<or> c \<in> set s1"
    using set_TrimSpace [OF assms(2)] set_Split2 [OF sp] c by (auto simp: is_space_def)
  moreover have "c \<notin> set s1" using r NewDecFromStr_chars c by (force simp: list_all_iff decimal_char_def)
  moreover have "c \<notin> set s0"
  proof
    assume "c \<in> set s0"
    then have "c \<in> set (TrimSpace s0)" using set_TrimSpace [of c s0] c by (auto simp: is_space_def)
    with ValidateDenom_chars [OF d] c show False
      by (auto simp: list_all_iff denom_char_def alpha_char_def Let_def)
  qed
  ultimately show False by blast
qed

lemma parseTuples_chars:
  "parseTuples S ts seen = Some es \<Longrightarrow> t \<in> set ts \<Longrightarrow> CHR '';'' \<notin> set t"
  by (induction ts arbitrary: seen es) (auto dest: parseTuple_chars split: option.splits)

lemma parse_chars:
  assumes "ParseExchangeRateTuples S rates = Some es"
  shows "CHR '';'' \<notin> set rates"
proof
  assume "CHR '';'' \<in> set rates"
  then have m: "CHR '';'' \<in> set (TrimSpace rates)"
    using set_TrimSpace [of "CHR '';''" rates] by (auto simp: is_space_def)
  then obtain p where "p \<in> set (Split (TrimSpace rates) CHR '','')" "CHR '';'' \<in> set p"
    using set_Split [OF m, of "CHR '',''"] by auto
  with assms m parseTuples_chars show False
    by (auto simp: ParseExchangeRateTuples_def Let_def split: if_splits)
qed

text \<open>
  The text that is hashed determines the salt and the rates, when the rates can be read: they have no
  semicolon, so the last semicolon before the voter separates them.
\<close>

lemma split_last_unique:
  "x @ c # y = x' @ c # y' \<Longrightarrow> c \<notin> set y \<Longrightarrow> c \<notin> set y' \<Longrightarrow> x = x' \<and> y = y'"
  by (auto simp: append_eq_append_conv2 append_eq_Cons_conv Cons_eq_append_conv)

lemma voteSource_inj:
  assumes "voteSource S salt rates v = voteSource S salt' rates' v"
    and "ParseExchangeRateTuples S rates = Some es" "ParseExchangeRateTuples S rates' = Some es'"
  shows "salt = salt' \<and> rates = rates'"
proof -
  from assms(1) have "salt @ CHR '';'' # rates = salt' @ CHR '';'' # rates'"
    by (simp add: voteSource_def)
  then show ?thesis using parse_chars [OF assms(2)] parse_chars [OF assms(3)] by (rule split_last_unique)
qed

end

section \<open>What an accepted message implies\<close>

lemma vote_ok:
  assumes "AggregateExchangeRateVote_msg tmhash S K k ctx msg os = Ok os'"
  obtains v f pre es where "ValAddressFromBech32 S (mv_Validator msg) = Some v"
    "AccAddressFromBech32 S (mv_Feeder msg) = Some f" "ValidateFeeder K k os f v = Ok ()"
    "kv_get (prevotes os) v = Some pre" "op_VotePeriod (oracle_params os) \<noteq> 0"
    "u64_sub (u64_of_int (BlockHeight ctx) div op_VotePeriod (oracle_params os))
       (apv_SubmitBlock pre div op_VotePeriod (oracle_params os)) = 1"
    "ParseExchangeRateTuples S (mv_ExchangeRates msg) = Some es"
    "list_all (\<lambda>t. IsVoteTarget os (ert_Denom t)) es"
    "apv_Hash pre = VoteHash_String (GetAggregateVoteHash tmhash S (mv_Salt msg) (mv_ExchangeRates msg) v)"
    "os' = DeleteAggregateExchangeRatePrevote v
       (SetAggregateExchangeRateVote v (NewAggregateExchangeRateVote S es v) os)"
  using assms
  by (auto simp: AggregateExchangeRateVote_msg_def valAddress_def accAddress_def res_simps Let_def
      GetAggregateExchangeRatePrevote_def split: option.splits if_splits)

text \<open>The difference of the two periods is taken on unsigned numbers.\<close>

lemma next_period:
  assumes "u64_sub (u64_of_int i div vp) (h div vp) = 1" "i < 2 ^ 63" "h < 2 ^ 63" "0 \<le> i"
  shows "i div int vp = int h div int vp + 1"
proof -
  have i2: "u64_of_int i = nat i" using assms(2,4) by simp
  have h: "h div vp < 2 ^ 63" using assms(3) by (rule le_less_trans [OF div_le_dividend])
  have "nat i < 2 ^ 63" using assms(2) by simp
  then have i: "u64_of_int i div vp < 2 ^ 63" unfolding i2 by (rule le_less_trans [OF div_le_dividend])
  have "u64_of_int i div vp = h div vp + 1"
  proof (cases "h div vp \<le> u64_of_int i div vp")
    case True
    with i have "u64_sub (u64_of_int i div vp) (h div vp) = u64_of_int i div vp - h div vp"
      by (intro u64_sub_le) (simp_all add: u64_mod_def)
    with assms(1) True show ?thesis by simp
  next
    case False
    with h have "u64_sub (u64_of_int i div vp) (h div vp) = u64_of_int i div vp + u64_mod - h div vp"
      by (simp add: u64_sub_def u64_mod_def)
    with assms(1) h show ?thesis by (simp add: u64_mod_def)
  qed
  then have "int (nat i div vp) = int (h div vp + 1)" by (simp only: i2)
  with assms(4) show ?thesis by (simp add: zdiv_int)
qed

lemma prevote_ok:
  assumes "AggregateExchangeRatePrevote_msg S K k ctx msg os = Ok os'"
  obtains v f h where "ValAddressFromBech32 S (mpv_Validator msg) = Some v"
    "AccAddressFromBech32 S (mpv_Feeder msg) = Some f" "ValidateFeeder K k os f v = Ok ()"
    "AggregateVoteHashFromHexString (mpv_Hash msg) = Some h"
    "os' = SetAggregateExchangeRatePrevote v (NewAggregateExchangeRatePrevote S h v (u64_of_int (BlockHeight ctx))) os"
  using assms
  by (auto simp: AggregateExchangeRatePrevote_msg_def valAddress_def accAddress_def res_simps split: option.splits)

lemma ValidateFeeder_ok:
  "ValidateFeeder K k os f v = Ok () \<longleftrightarrow> (f = v \<or> GetFeederDelegation os v = f) \<and>
     (\<exists>val. Validator K k v = Some val \<and> val_IsBonded val)"
  by (auto simp: ValidateFeeder_def ensure_def split: option.splits)

text \<open>
  C18: a revealed vote was committed to.  If a validator's stored prevote is the hash of rates that can
  be read, then a vote that is accepted for it carries exactly these rates (unless the hash function
  collides on the two texts), comes in the vote period right after the one the prevote was submitted in,
  from the validator or its feeder while the validator is bonded, and is stored under that validator; the
  votes and prevotes of every other validator stay as they are.  Block heights are below \<open>2 ^ 63\<close>.
\<close>

theorem reveal_matches_commit:
  assumes "text_laws S" "AggregateExchangeRateVote_msg tmhash S K k ctx msg os = Ok os'"
    and "ValAddressFromBech32 S (mv_Validator msg) = Some v"
    and "kv_get (prevotes os) v = Some (NewAggregateExchangeRatePrevote S (GetAggregateVoteHash tmhash S salt rates v) v h)"
    and "ParseExchangeRateTuples S rates = Some es"
    and "tmhash (voteSource S (mv_Salt msg) (mv_ExchangeRates msg) v) = tmhash (voteSource S salt rates v) \<Longrightarrow>
      voteSource S (mv_Salt msg) (mv_ExchangeRates msg) v = voteSource S salt rates v"
    and "0 \<le> BlockHeight ctx" "BlockHeight ctx < 2 ^ 63" "h < 2 ^ 63"
  shows "mv_ExchangeRates msg = rates \<and> mv_Salt msg = salt \<and>
    BlockHeight ctx div int (op_VotePeriod (oracle_params os)) = int h div int (op_VotePeriod (oracle_params os)) + 1 \<and>
    kv_get (votes os') v = Some (NewAggregateExchangeRateVote S es v) \<and> kv_get (prevotes os') v = None \<and>
    (\<exists>f val. AccAddressFromBech32 S (mv_Feeder msg) = Some f \<and> (f = v \<or> GetFeederDelegation os v = f) \<and>
       Validator K k v = Some val \<and> val_IsBonded val) \<and>
    (\<forall>u. u \<noteq> v \<longrightarrow> kv_get (votes os') u = kv_get (votes os) u \<and> kv_get (prevotes os') u = kv_get (prevotes os) u)"
proof -
  let ?vp = "op_VotePeriod (oracle_params os)"
  obtain f es' where f: "AccAddressFromBech32 S (mv_Feeder msg) = Some f" "ValidateFeeder K k os f v = Ok ()"
    and per: "u64_sub (u64_of_int (BlockHeight ctx) div ?vp) (h div ?vp) = 1"
    and es': "ParseExchangeRateTuples S (mv_ExchangeRates msg) = Some es'"
    and hash: "VoteHash_String (GetAggregateVoteHash tmhash S salt rates v)
      = VoteHash_String (GetAggregateVoteHash tmhash S (mv_Salt msg) (mv_ExchangeRates msg) v)"
    and os': "os' = DeleteAggregateExchangeRatePrevote v
       (SetAggregateExchangeRateVote v (NewAggregateExchangeRateVote S es' v) os)"
    using assms(2) by (rule vote_ok) (use assms(3,4) that in \<open>auto simp: NewAggregateExchangeRatePrevote_def\<close>)
  have "BlockHeight ctx div int ?vp = int h div int ?vp + 1"
    using next_period [OF per assms(8,9)] assms(7) .
  moreover from VoteHash_String_inj [OF hash] assms(6)
  have "voteSource S (mv_Salt msg) (mv_ExchangeRates msg) v = voteSource S salt rates v"
    by (simp add: GetAggregateVoteHash_def)
  from text_laws.voteSource_inj [OF assms(1) this es' assms(5)]
  have "mv_Salt msg = salt" "mv_ExchangeRates msg = rates" by simp_all
  ultimately show ?thesis using es' assms(5) os' f
    by (auto simp: ValidateFeeder_ok DeleteAggregateExchangeRatePrevote_def SetAggregateExchangeRateVote_def)
qed

section \<open>A reveal is accepted in the next period\<close>

lemma clearPrevote_get:
  "kv_get (prevotes (fold (clearPrevote ctx vp) es os)) v =
     (if \<exists>e \<in> set es. fst e = v \<and> BlockHeight ctx > i64_of_u64 (u64_add (apv_SubmitBlock (snd e)) vp)
      then None else kv_get (prevotes os) v)"
  by (induction es arbitrary: os)
    (auto simp: clearPrevote_def DeleteAggregateExchangeRatePrevote_def)

lemma ClearBallots_prevotes:
  "prevotes (ClearBallots ctx vp os) = prevotes (fold (clearPrevote ctx vp) (prevotes os) os)"
proof -
  have "prevotes (fold (\<lambda>e. DeleteAggregateExchangeRateVote (fst e)) es s) = prevotes s" for es s
    by (induction es arbitrary: s) (simp_all add: DeleteAggregateExchangeRateVote_def)
  then show ?thesis by (simp add: ClearBallots_def Let_def)
qed

lemma ClearBallots_keeps:
  assumes "kv_wf (prevotes os)" "kv_get (prevotes os) v = Some p"
    and "BlockHeight ctx \<le> i64_of_u64 (u64_add (apv_SubmitBlock p) vp)"
  shows "kv_get (prevotes (ClearBallots ctx vp os)) v = Some p"
proof -
  have "(v, q) \<in> set (prevotes os) \<Longrightarrow> q = p" for q using assms(1,2) by (simp add: kv_get_mem [symmetric])
  then have "\<not> (\<exists>e \<in> set (prevotes os). fst e = v \<and> BlockHeight ctx > i64_of_u64 (u64_add (apv_SubmitBlock (snd e)) vp))"
    using assms(3) by auto
  then show ?thesis using assms(2) by (simp only: ClearBallots_prevotes clearPrevote_get if_False)
qed

lemma foldsame: "(\<And>x s. g (f x s) = g s) \<Longrightarrow> g (fold f xs s) = g s"
  by (induction xs arbitrary: s) simp_all

lemma ClearBallots_frame:
  "oracle_params (ClearBallots ctx vp os) = oracle_params os" "vote_targets (ClearBallots ctx vp os) = vote_targets os"
  "feeder_delegations (ClearBallots ctx vp os) = feeder_delegations os"
  "exchange_rates (ClearBallots ctx vp os) = exchange_rates os" "miss_counters (ClearBallots ctx vp os) = miss_counters os"
  "targets (ClearBallots ctx vp os) = targets os"
  by (simp_all add: ClearBallots_def Let_def foldsame clearPrevote_def DeleteAggregateExchangeRatePrevote_def
      DeleteAggregateExchangeRateVote_def)

text \<open>
  C19: a committed vote can be revealed.  A prevote made with the hash of rates that can be read and
  name vote targets survives the end of its vote period, and in every block of the next period the vote
  with these rates is accepted and stored, if its feeder is still authorised.
\<close>

theorem commit_reveal_accepted:
  assumes "AggregateExchangeRatePrevote_msg S K k1 ctx1 pmsg os = Ok os1" "kv_wf (prevotes os)"
    and "mpv_Hash pmsg = VoteHash_String (GetAggregateVoteHash tmhash S (mv_Salt msg) (mv_ExchangeRates msg) v)"
    and "mpv_Validator pmsg = mv_Validator msg" "ValAddressFromBech32 S (mv_Validator msg) = Some v"
    and "vp = op_VotePeriod (oracle_params os)" "0 < vp" "0 \<le> BlockHeight ctx1"
    and "BlockHeight ctx1 + int vp < 2 ^ 63" "BlockHeight ctx2 \<le> BlockHeight ctx1 + int vp"
    and "BlockHeight ctx3 div int vp = BlockHeight ctx1 div int vp + 1" "BlockHeight ctx3 < 2 ^ 63"
    and "AccAddressFromBech32 S (mv_Feeder msg) = Some f" "ValidateFeeder K k3 os f v = Ok ()"
    and "ParseExchangeRateTuples S (mv_ExchangeRates msg) = Some es"
    and "list_all (\<lambda>t. IsVoteTarget os (ert_Denom t)) es"
  shows "\<exists>os3. AggregateExchangeRateVote_msg tmhash S K k3 ctx3 msg (ClearBallots ctx2 vp os1) = Ok os3 \<and>
    kv_get (votes os3) v = Some (NewAggregateExchangeRateVote S es v)"
proof -
  let ?os2 = "ClearBallots ctx2 vp os1" and ?h = "GetAggregateVoteHash tmhash S (mv_Salt msg) (mv_ExchangeRates msg) v"
  let ?p = "NewAggregateExchangeRatePrevote S ?h v (u64_of_int (BlockHeight ctx1))"
  have os1: "os1 = SetAggregateExchangeRatePrevote v ?p os"
    using assms(1) by (rule prevote_ok) (use assms(3-5) in \<open>simp add: hash_roundtrip\<close>)
  have u1: "u64_of_int (BlockHeight ctx1) = nat (BlockHeight ctx1)" using assms(7-9) by simp
  have h3: "0 \<le> BlockHeight ctx3"
    using assms(7,8,11) by (metis add_nonneg_nonneg div_int_pos_iff of_nat_0_le_iff of_nat_0_less_iff
        pos_imp_zdiv_nonneg_iff zero_le_one)
  have u3: "u64_of_int (BlockHeight ctx3) = nat (BlockHeight ctx3)" using assms(12) h3 by simp
  have p1: "kv_get (prevotes os1) v = Some ?p" "kv_wf (prevotes os1)"
    using assms(2) by (auto simp: os1 SetAggregateExchangeRatePrevote_def)
  have "u64_add (nat (BlockHeight ctx1)) vp = nat (BlockHeight ctx1) + vp"
    using assms(8,9) by (intro u64_add_less) (simp add: u64_mod_def)
  moreover have "nat (BlockHeight ctx1) + vp < 2 ^ 63"
    using assms(8,9) nat_less_iff [of "BlockHeight ctx1 + int vp" "2 ^ 63"] by (simp add: nat_add_distrib)
  ultimately have "BlockHeight ctx2 \<le> i64_of_u64 (u64_add (apv_SubmitBlock ?p) vp)"
    using assms(8-10) by (simp add: NewAggregateExchangeRatePrevote_def u1 i64_of_u64_def)
  from ClearBallots_keeps [OF p1(2,1) this] have pre: "kv_get (prevotes ?os2) v = Some ?p" .
  have fr: "oracle_params os1 = oracle_params os" "vote_targets os1 = vote_targets os"
    "feeder_delegations os1 = feeder_delegations os"
    by (simp_all add: os1 SetAggregateExchangeRatePrevote_def)
  have "nat (BlockHeight ctx3) div vp = nat (BlockHeight ctx1) div vp + 1"
    using nat_div_distrib [OF h3, of "int vp"] nat_div_distrib [OF assms(8), of "int vp"] assms(7,8,11)
    by (simp add: nat_add_distrib pos_imp_zdiv_nonneg_iff)
  moreover have "nat (BlockHeight ctx3) div vp \<le> nat (BlockHeight ctx3)" by simp
  ultimately have "u64_sub (nat (BlockHeight ctx3) div vp) (nat (BlockHeight ctx1) div vp) = 1"
    using assms(12) h3 by (subst u64_sub_le) (auto simp: u64_mod_def)
  moreover have "ValidateFeeder K k3 ?os2 f v = ValidateFeeder K k3 os f v"
    by (simp add: ValidateFeeder_def GetFeederDelegation_def ClearBallots_frame fr)
  ultimately show ?thesis
    using assms(5-7,13-16) pre
    by (simp add: AggregateExchangeRateVote_msg_def valAddress_def accAddress_def GetAggregateExchangeRatePrevote_def
        ClearBallots_frame fr u1 u3 NewAggregateExchangeRatePrevote_def Let_def
        IsVoteTarget_def SetAggregateExchangeRateVote_def DeleteAggregateExchangeRatePrevote_def)
qed

definition demo_oracle :: oracle_store where
  "demo_oracle = (oracle_empty OracleDefaultParams)\<lparr>vote_targets := [(''ueth'', ''ueth'')], targets := [(''ueth'', ''ueth'')]\<rparr>"

definition demo_vote :: MsgAggregateExchangeRateVote where
  "demo_vote = \<lparr>mv_Salt = ''ab'', mv_ExchangeRates = ''ueth:2.5'', mv_Feeder = ''val'', mv_Validator = ''val''\<rparr>"

definition demo_prevote :: MsgAggregateExchangeRatePrevote where
  "demo_prevote = \<lparr>mpv_Hash = VoteHash_String (GetAggregateVoteHash (\<lambda>s. s) cosmos_sdk ''ab'' ''ueth:2.5'' ''val''),
     mpv_Feeder = ''val'', mpv_Validator = ''val''\<rparr>"

lemma cosmos_addresses:
  "ValAddressFromBech32 cosmos_sdk s = (if s = [] then None else Some s)"
  "AccAddressFromBech32 cosmos_sdk s = (if s = [] then None else Some s)"
  "ValAddress_String cosmos_sdk s = s" "AccAddress_String cosmos_sdk s = s"
  by (simp_all add: cosmos_sdk_def)

lemmas vote_eval = AggregateExchangeRatePrevote_msg_def AggregateExchangeRateVote_msg_def valAddress_def accAddress_def
  cosmos_addresses ValidateFeeder_def demo_staking_def demo_val_def u64_of_int_def demo_vote_def demo_prevote_def
  hash_roundtrip demo_oracle_def oracle_empty_def OracleDefaultParams_def blocks_defs u64_sub_def u64_mod_def
  GetAggregateExchangeRatePrevote_def SetAggregateExchangeRatePrevote_def NewAggregateExchangeRatePrevote_def
  IsVoteTarget_def kv_has_def GetFeederDelegation_def

lemma demo_rates_parse:
  "ParseExchangeRateTuples cosmos_sdk ''ueth:2.5'' = Some [\<lparr>ert_Denom = ''ueth'', ert_ExchangeRate = 25 * 10 ^ 17\<rparr>]"
  by (simp add: ParseExchangeRateTuples_def parseTuple_def TrimSpace_def is_space_def cosmos_sdk_def
      dec_of_string_def unsigned_dec_def denom_ok_def alpha_char_def denom_char_def)

theorem reveal_matches_commit_witness:
  "\<exists>os1 os3. AggregateExchangeRatePrevote_msg cosmos_sdk demo_staking [(''val'', demo_val ''val'' 5)]
      \<lparr>BlockHeight = 12, BlockTime = 0\<rparr> demo_prevote demo_oracle = Ok os1 \<and>
     AggregateExchangeRateVote_msg (\<lambda>s. s) cosmos_sdk demo_staking [(''val'', demo_val ''val'' 5)]
      \<lparr>BlockHeight = 23, BlockTime = 0\<rparr> demo_vote os1 = Ok os3 \<and>
     kv_get (votes os3) ''val'' = Some (NewAggregateExchangeRateVote cosmos_sdk
       [\<lparr>ert_Denom = ''ueth'', ert_ExchangeRate = 25 * 10 ^ 17\<rparr>] ''val'')"
proof -
  let ?k = "[(''val'', demo_val ''val'' 5)]"
  let ?c1 = "\<lparr>BlockHeight = 12, BlockTime = 0\<rparr>" and ?c3 = "\<lparr>BlockHeight = 23, BlockTime = 0\<rparr>"
  let ?h = "GetAggregateVoteHash (\<lambda>s. s) cosmos_sdk ''ab'' ''ueth:2.5'' ''val''"
  let ?p = "NewAggregateExchangeRatePrevote cosmos_sdk ?h ''val'' 12"
  let ?os1 = "SetAggregateExchangeRatePrevote ''val'' ?p demo_oracle"
  have pre: "AggregateExchangeRatePrevote_msg cosmos_sdk demo_staking ?k ?c1 demo_prevote demo_oracle = Ok ?os1"
    by (simp add: vote_eval)
  obtain os3 where run: "AggregateExchangeRateVote_msg (\<lambda>s. s) cosmos_sdk demo_staking ?k ?c3 demo_vote ?os1 = Ok os3"
    by (simp add: vote_eval demo_rates_parse)
  from reveal_matches_commit [OF cosmos_text.text_laws_axioms run, of "''val''" "''ab''" "''ueth:2.5''" 12] pre run
  show ?thesis
    by (auto simp: cosmos_addresses demo_vote_def demo_rates_parse SetAggregateExchangeRatePrevote_def)
qed

theorem commit_reveal_accepted_witness:
  "\<exists>os1 os3. AggregateExchangeRatePrevote_msg cosmos_sdk demo_staking [(''val'', demo_val ''val'' 5)]
      \<lparr>BlockHeight = 12, BlockTime = 0\<rparr> demo_prevote demo_oracle = Ok os1 \<and>
     AggregateExchangeRateVote_msg (\<lambda>s. s) cosmos_sdk demo_staking [(''val'', demo_val ''val'' 5)]
      \<lparr>BlockHeight = 23, BlockTime = 0\<rparr> demo_vote
      (ClearBallots \<lparr>BlockHeight = 19, BlockTime = 0\<rparr> 10 os1) = Ok os3"
proof -
  let ?k = "[(''val'', demo_val ''val'' 5)]" and ?c1 = "\<lparr>BlockHeight = 12, BlockTime = 0\<rparr>"
  obtain os1 where pre: "AggregateExchangeRatePrevote_msg cosmos_sdk demo_staking ?k ?c1 demo_prevote demo_oracle = Ok os1"
    by (simp add: vote_eval)
  have "\<exists>os3. AggregateExchangeRateVote_msg (\<lambda>s. s) cosmos_sdk demo_staking ?k \<lparr>BlockHeight = 23, BlockTime = 0\<rparr>
      demo_vote (ClearBallots \<lparr>BlockHeight = 19, BlockTime = 0\<rparr> 10 os1) = Ok os3 \<and>
    kv_get (votes os3) ''val'' = Some (NewAggregateExchangeRateVote cosmos_sdk
      [\<lparr>ert_Denom = ''ueth'', ert_ExchangeRate = 25 * 10 ^ 17\<rparr>] ''val'')"
    by (rule commit_reveal_accepted [OF pre, where f = "''val''"])
      (simp_all add: demo_prevote_def demo_vote_def demo_oracle_def oracle_empty_def OracleDefaultParams_def blocks_defs
        cosmos_addresses ValidateFeeder_def demo_staking_def demo_val_def demo_rates_parse IsVoteTarget_def kv_has_def
        kv_wf_def)
  with pre show ?thesis by blast
qed

text \<open>A space before the rate makes the whole vote unreadable.\<close>

lemma space_before_rate:
  assumes "text_laws S" "CHR '':'' \<notin> set d" "CHR '':'' \<notin> set r" "d \<noteq> []" "\<not> is_space (hd d)"
    "r \<noteq> []" "\<not> is_space (last r)"
  shows "parseTuple S (d @ '': '' @ r) seen = None"
proof -
  have "TrimSpace (d @ '': '' @ r) = d @ '': '' @ r"
    using assms(4-7) by (cases d; cases r rule: rev_cases) (auto simp: TrimSpace_def)
  moreover have "Split (d @ '': '' @ r) CHR '':'' = [d, CHR '' '' # r]"
    using assms(2,3) by (simp add: Split_append Split_single)
  moreover have "NewDecFromStr S (CHR '' '' # r) = None"
    using text_laws.NewDecFromStr_chars [OF assms(1), of "CHR '' '' # r"]
    by (cases "NewDecFromStr S (CHR '' '' # r)") (auto simp: decimal_char_def)
  ultimately show ?thesis by (simp add: parseTuple_def Let_def)
qed

end
