(* ===== verification/OracleProps.thy ===== *)
theory OracleProps
  imports OracleOrder OracleVoteProps
begin

text \<open>
  What the end of a block guarantees: the rewards never exceed the pool they are paid from, a
  validator is slashed exactly when it missed too many votes, the miss counters restart, and the
  genesis can be exported and imported.
\<close>

section \<open>Rewards are covered by the pool\<close>









section \<open>Slashing\<close>

lemma rbind_assoc: "rbind (rbind m f) g = rbind m (\<lambda>x. rbind (f x) g)"
  by (cases m) simp_all

text \<open>The subtraction of unsigned numbers is exact after the conversion to a signed one.\<close>

lemma i64_u64_sub: "a < 2 ^ 63 \<Longrightarrow> b < 2 ^ 63 \<Longrightarrow> i64_of_u64 (u64_sub a b) = int a - int b"
proof (cases "b \<le> a")
  case True
  moreover assume "a < 2 ^ 63"
  ultimately show ?thesis by (simp add: i64_of_u64_def u64_mod_def)
qed (simp add: i64_of_u64_def u64_sub_def u64_mod_def)

text \<open>What happens to one validator that missed too many votes.\<close>

definition punish :: "'k staking \<Rightarrow> OracleParams \<Rightarrow> int \<Rightarrow> addr \<Rightarrow> 'k \<Rightarrow> 'k res" where
  "punish K params h a k = (case Validator K k a of
       None \<Rightarrow> Panic
     | Some v \<Rightarrow>
         if val_IsBonded v \<and> \<not> val_IsJailed v then
           (case val_ConsAddr v of
              Ok c \<Rightarrow> rbind (Slash K k c h (val_ConsensusPower v (PowerReduction K k)) (op_SlashFraction params)) (\<lambda>k'. Jail K k' c)
            | _ \<Rightarrow> Panic)
         else Ok k)"

definition missed_too_many :: "nat \<Rightarrow> dec \<Rightarrow> nat \<Rightarrow> bool" where
  "missed_too_many periods minValid misses \<longleftrightarrow> ToDec (int periods - int misses) sdiv int periods < minValid"

context sdk_laws
begin

lemma slashStep_eq:
  assumes "0 < n" "n < 2 ^ 63" "snd e < 2 ^ 63"
  shows "slashStep S K params h n e (k, os) =
    rbind (if missed_too_many n (op_MinValidPerWindow params) (snd e) then punish K params h (fst e) k else Ok k)
      (\<lambda>k'. Ok (k', DeleteMissCounter (fst e) os))"
proof -
  have "i64_of_u64 n = int n" using assms(2) by (simp add: i64_of_u64_def)
  then show ?thesis
    using assms by (simp add: slashStep_def i64_u64_sub QuoInt_sdiv missed_too_many_def punish_def cong: if_cong)
qed

lemma slashLoop_eq:
  assumes "0 < n" "n < 2 ^ 63" "\<forall>(a, m) \<in> set es. m < 2 ^ 63"
  shows "slashLoop S K params h n es (k, os) =
    rbind (foldRes (punish K params h) (map fst (filter (\<lambda>(a, m). missed_too_many n (op_MinValidPerWindow params) m) es)) k)
      (\<lambda>k'. Ok (k', fold (\<lambda>e. DeleteMissCounter (fst e)) es os))"
  using assms(3)
proof (induction es arbitrary: k os)
  case (Cons e es)
  obtain a m where e: "e = (a, m)" by (cases e)
  show ?case
  proof (cases "missed_too_many n (op_MinValidPerWindow params) m")
    case True
    with Cons slashStep_eq [OF assms(1,2), of e K params h k os] show ?thesis
      by (cases "punish K params h a k") (simp_all add: e)
  next
    case False
    with Cons slashStep_eq [OF assms(1,2), of e K params h k os] show ?thesis by (simp add: e)
  qed
qed simp

end

lemma fold_DeleteMissCounter:
  "fold (\<lambda>e. DeleteMissCounter (fst e)) es os = os\<lparr>miss_counters := filter (\<lambda>e. fst e \<notin> fst ` set es) (miss_counters os)\<rparr>"
  by (induction es arbitrary: os) (auto simp: DeleteMissCounter_def kv_delete_def intro: filter_cong)

text \<open>
  C22: at the end of a slash window exactly the validators whose share of valid votes is below the
  minimum are punished (slashed and jailed, if bonded and not jailed already), in the order of the
  store, and every miss counter restarts at zero.  A counter above the number of vote periods, whose
  unsigned difference wraps, counts as a negative share.
\<close>

theorem slash_window_end:
  assumes "sdk_laws S" "OracleParams_Validate (oracle_params (ost w))"
    and "op_SlashWindow (oracle_params (ost w)) < 2 ^ 63" "\<forall>(a, m) \<in> set (miss_counters (ost w)). m < 2 ^ 63"
  shows "SlashAndResetMissCounters S K ctx w =
    rbind (foldRes (punish K (oracle_params (ost w)) (BlockHeight ctx - 2))
       (map fst (filter (\<lambda>(a, m). missed_too_many (op_SlashWindow (oracle_params (ost w)) div op_VotePeriod (oracle_params (ost w)))
          (op_MinValidPerWindow (oracle_params (ost w))) m) (miss_counters (ost w)))) (stk w))
      (\<lambda>k. Ok (w\<lparr>stk := k, ost := (ost w)\<lparr>miss_counters := []\<rparr>\<rparr>))"
proof -
  let ?p = "oracle_params (ost w)" and ?n = "op_SlashWindow (oracle_params (ost w)) div op_VotePeriod (oracle_params (ost w))"
  have p: "op_VotePeriod ?p \<noteq> 0" "op_VotePeriod ?p \<le> op_SlashWindow ?p"
    using assms(2) by (auto simp: OracleParams_Validate_def)
  have n: "0 < ?n" "?n < 2 ^ 63" using p assms(3) by (auto simp: div_greater_zero_iff intro: le_less_trans [OF div_le_dividend])
  have i: "i64_of_u64 (op_SlashWindow ?p) = int (op_SlashWindow ?p)" "i64_of_u64 (op_VotePeriod ?p) = int (op_VotePeriod ?p)"
    using assms(3) p(2) by (simp_all add: i64_of_u64_def)
  have "Dec_TruncateInt S (ToDec (int (op_SlashWindow ?p)) sdiv int (op_VotePeriod ?p)) = int ?n"
    using p(1) by (simp add: sdk_laws.TruncateInt_sdiv [OF assms(1)] ToDec_def sdiv_div pos_imp_zdiv_nonneg_iff zdiv_int)
      (simp add: zdiv_zmult2_eq [symmetric])
  then show ?thesis
    using p(1) n(2)
    by (simp add: SlashAndResetMissCounters_def Let_def i sdk_laws.QuoInt_sdiv [OF assms(1)] ValidatorUpdateDelay_def
        sdk_laws.slashLoop_eq [OF assms(1) n assms(4)] fold_DeleteMissCounter rbind_assoc)
qed

theorem slash_window_end_witness:
  "SlashAndResetMissCounters cosmos_sdk demo_staking \<lparr>BlockHeight = 100799, BlockTime = 0\<rparr>
     \<lparr>ost = demo_votes\<lparr>miss_counters := [(''val1'', 9999), (''val2'', 3)]\<rparr>,
      stk = [(''val1'', demo_val ''val1'' 5), (''val2'', demo_val ''val2'' 3)], dst = (), obk = ()\<rparr>
   = Ok \<lparr>ost = demo_votes,
      stk = [(''val1'', (demo_val ''val1'' 5)\<lparr>val_IsJailed := True\<rparr>), (''val2'', demo_val ''val2'' 3)], dst = (), obk = ()\<rparr>"
proof -
  let ?w = "\<lparr>ost = demo_votes\<lparr>miss_counters := [(''val1'', 9999), (''val2'', 3)]\<rparr>,
      stk = [(''val1'', demo_val ''val1'' 5), (''val2'', demo_val ''val2'' 3)], dst = (), obk = ()\<rparr>"
  have m: "missed_too_many 10080 (5 * 10 ^ 16) 9999" "\<not> missed_too_many 10080 (5 * 10 ^ 16) 3"
    by (simp_all add: missed_too_many_def ToDec_def dec_one_def sdiv_div)
  show ?thesis
    by (subst slash_window_end [OF cosmos.sdk_laws_axioms])
      (use m in \<open>simp_all add: demo_votes_def oracle_empty_def OracleDefaultParams_def OracleParams_Validate_def blocks_defs
        dec_one_def punish_def demo_staking_def demo_val_def\<close>)
qed

section \<open>Genesis\<close>

lemma kv_rebuild: "kv_wf s \<Longrightarrow> fold (\<lambda>(k, v). kv_set k v) s [] = s"
proof -
  have get: "distinct (map fst s) \<Longrightarrow> kv_get (fold (\<lambda>(k, v). kv_set k v) s t) j
      = (case kv_get s j of None \<Rightarrow> kv_get t j | Some v \<Rightarrow> Some v)" for s t j
  proof (induction s arbitrary: t)
    case (Cons e s)
    then show ?case by (cases e; cases "fst e = j") (auto simp: kv_get_notin split: option.splits)
  qed simp
  have wf: "kv_wf t \<Longrightarrow> kv_wf (fold (\<lambda>(k, v). kv_set k v) s t)" for s t
    by (induction s arbitrary: t) auto
  assume "kv_wf s"
  then show ?thesis
    by (intro kv_eqI) (auto simp: wf get kv_wf_distinct split: option.splits)
qed

lemma foldRes_Ok:
  "(\<And>x s. x \<in> set xs \<Longrightarrow> f x s = Ok (g x s)) \<Longrightarrow> foldRes f xs s = Ok (fold g xs s)"
  by (induction xs arbitrary: s) simp_all

lemma fold_SetFeederDelegation:
  "fold (\<lambda>(v, f). SetFeederDelegation v f) fs os = os\<lparr>feeder_delegations := fold (\<lambda>(k, v). kv_set k v) fs (feeder_delegations os)\<rparr>"
  by (induction fs arbitrary: os) (auto simp: SetFeederDelegation_def)

lemma fold_SetExchangeRate:
  "fold (\<lambda>(d, r). SetExchangeRate d r) rs os = os\<lparr>exchange_rates := fold (\<lambda>(k, v). kv_set k v) rs (exchange_rates os)\<rparr>"
  by (induction rs arbitrary: os) (auto simp: SetExchangeRate_def)

lemma fold_SetMissCounter:
  "fold (\<lambda>(v, n). SetMissCounter v n) ms os = os\<lparr>miss_counters := fold (\<lambda>(k, v). kv_set k v) ms (miss_counters os)\<rparr>"
  by (induction ms arbitrary: os) (auto simp: SetMissCounter_def)

lemma fold_SetAggregateExchangeRatePrevote:
  "fold (\<lambda>(v, p). SetAggregateExchangeRatePrevote v p) ps os = os\<lparr>prevotes := fold (\<lambda>(k, v). kv_set k v) ps (prevotes os)\<rparr>"
  by (induction ps arbitrary: os) (auto simp: SetAggregateExchangeRatePrevote_def)

lemma fold_SetAggregateExchangeRateVote:
  "fold (\<lambda>(v, a). SetAggregateExchangeRateVote v a) vs os = os\<lparr>votes := fold (\<lambda>(k, v). kv_set k v) vs (votes os)\<rparr>"
  by (induction vs arbitrary: os) (auto simp: SetAggregateExchangeRateVote_def)

lemmas fold_setters = fold_SetFeederDelegation fold_SetExchangeRate fold_SetMissCounter
  fold_SetAggregateExchangeRatePrevote fold_SetAggregateExchangeRateVote

lemma foldRes_map: "foldRes f (map h xs) s = foldRes (\<lambda>x. f (h x)) xs s"
proof (induction xs arbitrary: s)
  case (Cons x xs)
  then show ?case by (cases "f (h x) s") simp_all
qed simp

text \<open>Addresses that have a printed form, and a store whose votes carry the address they are stored under.\<close>

definition addr_ok :: "addr \<Rightarrow> bool" where
  "addr_ok a \<longleftrightarrow> a \<noteq> [] \<and> length a \<le> 255"

definition oracle_addrs_ok :: "sdk \<Rightarrow> oracle_store \<Rightarrow> bool" where
  "oracle_addrs_ok S os \<longleftrightarrow>
     (\<forall>(v, f) \<in> set (feeder_delegations os). addr_ok v \<and> addr_ok f) \<and>
     (\<forall>(v, n) \<in> set (miss_counters os). addr_ok v) \<and>
     (\<forall>(v, p) \<in> set (prevotes os). addr_ok v \<and> apv_Voter p = ValAddress_String S v) \<and>
     (\<forall>(v, a) \<in> set (votes os). addr_ok v \<and> av_Voter a = ValAddress_String S v)"

text \<open>
  C23: the exported genesis of the oracle, imported into an empty store, gives the rates, feeder
  delegations, miss counters, prevotes, votes and parameters back.  The vote targets and the targets
  are not part of it: the restarted oracle has none and accepts no vote.
\<close>

theorem oracle_genesis_roundtrip:
  assumes "text_laws S" "oracle_wf os" "oracle_addrs_ok S os"
  shows "oracle_InitGenesis S (oracle_ExportGenesis S os) (oracle_empty p) = Ok (os\<lparr>vote_targets := [], targets := []\<rparr>)"
proof -
  note rd = text_laws.ValAddress_round [OF assms(1)] text_laws.AccAddress_round [OF assms(1)]
  have 1: "foldRes (\<lambda>x s. rbind (orPanic (ValAddressFromBech32 S (fd_ValidatorAddress (h x)))) (\<lambda>voter.
      rbind (orPanic (AccAddressFromBech32 S (fd_FeederAddress (h x)))) (\<lambda>feeder. Ok (SetFeederDelegation voter feeder s))))
      (feeder_delegations os) s = Ok (fold (\<lambda>(v, f). SetFeederDelegation v f) (feeder_delegations os) s)"
    if "h = (\<lambda>(v, f). \<lparr>fd_FeederAddress = AccAddress_String S f, fd_ValidatorAddress = ValAddress_String S v\<rparr>)" for h s
    using assms(3) by (intro foldRes_Ok) (auto simp: that oracle_addrs_ok_def addr_ok_def orPanic_def rd)
  have 2: "foldRes (\<lambda>x s. rbind (orPanic (ValAddressFromBech32 S (mc_ValidatorAddress (h x)))) (\<lambda>op. Ok (SetMissCounter op (mc_MissCounter (h x)) s)))
      (miss_counters os) s = Ok (fold (\<lambda>(v, n). SetMissCounter v n) (miss_counters os) s)"
    if "h = (\<lambda>(v, n). \<lparr>mc_ValidatorAddress = ValAddress_String S v, mc_MissCounter = n\<rparr>)" for h s
    using assms(3) by (intro foldRes_Ok) (auto simp: that oracle_addrs_ok_def addr_ok_def orPanic_def rd)
  have 3: "foldRes (\<lambda>x s. rbind (orPanic (ValAddressFromBech32 S (apv_Voter (snd x)))) (\<lambda>v. Ok (SetAggregateExchangeRatePrevote v (snd x) s)))
      (prevotes os) s = Ok (fold (\<lambda>(v, p). SetAggregateExchangeRatePrevote v p) (prevotes os) s)" for s
    using assms(3) by (intro foldRes_Ok) (auto simp: oracle_addrs_ok_def addr_ok_def orPanic_def rd)
  have 4: "foldRes (\<lambda>x s. rbind (orPanic (ValAddressFromBech32 S (av_Voter (snd x)))) (\<lambda>v. Ok (SetAggregateExchangeRateVote v (snd x) s)))
      (votes os) s = Ok (fold (\<lambda>(v, p). SetAggregateExchangeRateVote v p) (votes os) s)" for s
    using assms(3) by (intro foldRes_Ok) (auto simp: oracle_addrs_ok_def addr_ok_def orPanic_def rd)
  have 5: "fold (\<lambda>ex. SetExchangeRate (ert_Denom ex) (ert_ExchangeRate ex))
      (map (\<lambda>(d, r). \<lparr>ert_Denom = d, ert_ExchangeRate = r\<rparr>) rs) s = fold (\<lambda>(d, r). SetExchangeRate d r) rs s" for rs s
    by (induction rs arbitrary: s) auto
  show ?thesis
    using assms(2)
    by (simp add: oracle_InitGenesis_def oracle_ExportGenesis_def foldRes_map 1 2 3 4 5 fold_setters oracle_empty_def
        oracle_wf_def kv_rebuild)
qed


theorem oracle_genesis_roundtrip_witness:
  "oracle_InitGenesis cosmos_sdk (oracle_ExportGenesis cosmos_sdk
       (demo_votes\<lparr>exchange_rates := [(''ueth'', 5)], miss_counters := [(''val1'', 3)],
          feeder_delegations := [(''val2'', ''feeder'')]\<rparr>)) (oracle_empty OracleDefaultParams)
   = Ok (demo_votes\<lparr>exchange_rates := [(''ueth'', 5)], miss_counters := [(''val1'', 3)],
          feeder_delegations := [(''val2'', ''feeder'')], vote_targets := [], targets := []\<rparr>)"
  by (subst oracle_genesis_roundtrip [OF cosmos_text.text_laws_axioms])
    (simp_all add: demo_votes_def oracle_empty_def oracle_wf_def kv_wf_def oracle_addrs_ok_def addr_ok_def cosmos_addresses)

end
