(* ===== verification/MakerTypes.thy ===== *)
theory MakerTypes
  imports OracleStore
begin

text \<open>
  The data, the store and the keeper's accessors of the maker module (\<open>x/maker/types\<close>,
  \<open>x/maker/keeper/pool.go\<close>, \<open>risk_params.go\<close>, \<open>params.go\<close>, \<open>backing_ratio.go\<close>).  A nullable field of a
  message (\<open>*sdk.Int\<close>, \<open>*sdk.Dec\<close>) is an option.  The codec is a round trip, so a section holds the
  records themselves.
\<close>

section \<open>Data\<close>

record BackingRiskParams =
  brp_BackingDenom :: denom
  brp_Enabled :: bool
  brp_MaxBacking :: "int option"
  brp_MaxGridMint :: "int option"
  brp_MintFee :: "dec option"
  brp_BurnFee :: "dec option"
  brp_BuybackFee :: "dec option"
  brp_RebackFee :: "dec option"

record CollateralRiskParams =
  crp_CollateralDenom :: denom
  crp_Enabled :: bool
  crp_MaxCollateral :: "int option"
  crp_MaxGridMint :: "int option"
  crp_LiquidationThreshold :: "dec option"
  crp_LoanToValue :: "dec option"
  crp_BasicLoanToValue :: "dec option"
  crp_CatalyticIronRatio :: "dec option"
  crp_LiquidationFee :: "dec option"
  crp_MintFee :: "dec option"
  crp_InterestFee :: "dec option"

record TotalBacking =
  tb_GridMinted :: coin
  tb_IronBurned :: coin

record PoolBacking =
  pb_GridMinted :: coin
  pb_Backing :: coin
  pb_IronBurned :: coin

record TotalCollateral =
  tc_GridDebt :: coin
  tc_IronCollateralized :: coin

record PoolCollateral =
  pc_Collateral :: coin
  pc_GridDebt :: coin
  pc_IronCollateralized :: coin

record AccountCollateral =
  ac_Account :: string
  ac_Collateral :: coin
  ac_GridDebt :: coin
  ac_IronCollateralized :: coin
  ac_LastInterest :: coin
  ac_LastSettlementBlock :: int

record MakerParams =
  mp_BackingRatioStep :: dec
  mp_BackingRatioPriceBand :: dec
  mp_BackingRatioCooldownPeriod :: int
  mp_MintPriceBias :: dec
  mp_BurnPriceBias :: dec
  mp_RebackBonus :: dec
  mp_LiquidationCommissionFee :: dec

record maker_store =
  backing_ratio :: "dec option"
  backing_ratio_last_block :: "nat option"
  backing_params :: "(denom, BackingRiskParams) kv"
  collateral_params :: "(denom, CollateralRiskParams) kv"
  backing_total :: "TotalBacking option"
  collateral_total :: "TotalCollateral option"
  backing_pool :: "(denom, PoolBacking) kv"
  collateral_pool :: "(denom, PoolCollateral) kv"
  collateral_account :: "(addr \<times> denom, AccountCollateral) kv"
  maker_params :: MakerParams

text \<open>What a maker handler sees and changes: its own store, the oracle's (read only) and the bank.\<close>

record 'b maker_world =
  mk :: maker_store
  orc :: oracle_store
  bnk :: 'b

section \<open>Pools, totals and accounts (pool.go)\<close>

definition SetTotalBacking :: "TotalBacking \<Rightarrow> maker_store \<Rightarrow> maker_store" where
  "SetTotalBacking tot s = s\<lparr>backing_total := Some tot\<rparr>"

definition GetTotalBacking :: "maker_store \<Rightarrow> TotalBacking option" where
  "GetTotalBacking s = backing_total s"

definition SetPoolBacking :: "PoolBacking \<Rightarrow> maker_store \<Rightarrow> maker_store" where
  "SetPoolBacking pool s = s\<lparr>backing_pool := kv_set (Denom (pb_Backing pool)) pool (backing_pool s)\<rparr>"

definition GetPoolBacking :: "maker_store \<Rightarrow> denom \<Rightarrow> PoolBacking option" where
  "GetPoolBacking s denom = kv_get (backing_pool s) denom"

definition GetAllPoolBacking :: "maker_store \<Rightarrow> PoolBacking list" where
  "GetAllPoolBacking s = map snd (backing_pool s)"

definition SetTotalCollateral :: "TotalCollateral \<Rightarrow> maker_store \<Rightarrow> maker_store" where
  "SetTotalCollateral tot s = s\<lparr>collateral_total := Some tot\<rparr>"

definition GetTotalCollateral :: "maker_store \<Rightarrow> TotalCollateral option" where
  "GetTotalCollateral s = collateral_total s"

definition SetPoolCollateral :: "PoolCollateral \<Rightarrow> maker_store \<Rightarrow> maker_store" where
  "SetPoolCollateral pool s =
     s\<lparr>collateral_pool := kv_set (Denom (pc_Collateral pool)) pool (collateral_pool s)\<rparr>"

definition GetPoolCollateral :: "maker_store \<Rightarrow> denom \<Rightarrow> PoolCollateral option" where
  "GetPoolCollateral s denom = kv_get (collateral_pool s) denom"

definition GetAllPoolCollateral :: "maker_store \<Rightarrow> PoolCollateral list" where
  "GetAllPoolCollateral s = map snd (collateral_pool s)"

definition SetAccountCollateral :: "addr \<Rightarrow> AccountCollateral \<Rightarrow> maker_store \<Rightarrow> maker_store" where
  "SetAccountCollateral a col s =
     s\<lparr>collateral_account := kv_set (a, Denom (ac_Collateral col)) col (collateral_account s)\<rparr>"

definition GetAccountCollateral :: "maker_store \<Rightarrow> addr \<Rightarrow> denom \<Rightarrow> AccountCollateral option" where
  "GetAccountCollateral s a denom = kv_get (collateral_account s) (a, denom)"

section \<open>Risk parameters (risk_params.go)\<close>

definition SetBackingRiskParams :: "BackingRiskParams \<Rightarrow> maker_store \<Rightarrow> maker_store" where
  "SetBackingRiskParams params s =
     s\<lparr>backing_params := kv_set (brp_BackingDenom params) params (backing_params s)\<rparr>"

definition SetCollateralRiskParams :: "CollateralRiskParams \<Rightarrow> maker_store \<Rightarrow> maker_store" where
  "SetCollateralRiskParams params s =
     s\<lparr>collateral_params := kv_set (crp_CollateralDenom params) params (collateral_params s)\<rparr>"

definition IsBackingRegistered :: "maker_store \<Rightarrow> denom \<Rightarrow> bool" where
  "IsBackingRegistered s denom = kv_has (backing_params s) denom"

definition GetBackingRiskParams :: "maker_store \<Rightarrow> denom \<Rightarrow> BackingRiskParams option" where
  "GetBackingRiskParams s denom = kv_get (backing_params s) denom"

definition GetAllBackingRiskParams :: "maker_store \<Rightarrow> BackingRiskParams list" where
  "GetAllBackingRiskParams s = map snd (backing_params s)"

definition IsCollateralRegistered :: "maker_store \<Rightarrow> denom \<Rightarrow> bool" where
  "IsCollateralRegistered s denom = kv_has (collateral_params s) denom"

definition GetCollateralRiskParams :: "maker_store \<Rightarrow> denom \<Rightarrow> CollateralRiskParams option" where
  "GetCollateralRiskParams s denom = kv_get (collateral_params s) denom"

definition GetAllCollateralRiskParams :: "maker_store \<Rightarrow> CollateralRiskParams list" where
  "GetAllCollateralRiskParams s = map snd (collateral_params s)"

section \<open>The backing ratio (backing_ratio.go)\<close>

definition SetBackingRatio :: "dec \<Rightarrow> maker_store \<Rightarrow> maker_store" where
  "SetBackingRatio br s = s\<lparr>backing_ratio := Some br\<rparr>"

definition GetBackingRatio :: "maker_store \<Rightarrow> dec" where
  "GetBackingRatio s = (case backing_ratio s of None \<Rightarrow> dec_one | Some br \<Rightarrow> br)"

definition SetBackingRatioLastBlock :: "int \<Rightarrow> maker_store \<Rightarrow> maker_store res" where
  "SetBackingRatioLastBlock bh s =
     (if bh < 0 then Panic else Ok (s\<lparr>backing_ratio_last_block := Some (u64_of_int bh)\<rparr>))"

definition GetBackingRatioLastBlock :: "maker_store \<Rightarrow> int" where
  "GetBackingRatioLastBlock s = (case backing_ratio_last_block s of
       None \<Rightarrow> 0 | Some n \<Rightarrow> i64_of_u64 n)"

section \<open>Parameters (keeper/params.go, types/params.go)\<close>

definition maker_GetParams :: "maker_store \<Rightarrow> MakerParams" where
  "maker_GetParams s = maker_params s"

definition maker_SetParams :: "MakerParams \<Rightarrow> maker_store \<Rightarrow> maker_store" where
  "maker_SetParams p s = s\<lparr>maker_params := p\<rparr>"

definition BackingRatioStep :: "maker_store \<Rightarrow> dec" where
  "BackingRatioStep s = mp_BackingRatioStep (maker_params s)"

definition BackingRatioPriceBand :: "maker_store \<Rightarrow> dec" where
  "BackingRatioPriceBand s = mp_BackingRatioPriceBand (maker_params s)"

definition BackingRatioCooldownPeriod :: "maker_store \<Rightarrow> int" where
  "BackingRatioCooldownPeriod s = mp_BackingRatioCooldownPeriod (maker_params s)"

definition MintPriceBias :: "maker_store \<Rightarrow> dec" where
  "MintPriceBias s = mp_MintPriceBias (maker_params s)"

text \<open>The getter of the burn bias reads the key of the mint bias.\<close>

definition BurnPriceBias :: "maker_store \<Rightarrow> dec" where
  "BurnPriceBias s = mp_MintPriceBias (maker_params s)"

definition RebackBonus :: "maker_store \<Rightarrow> dec" where
  "RebackBonus s = mp_RebackBonus (maker_params s)"

definition LiquidationCommissionFee :: "maker_store \<Rightarrow> dec" where
  "LiquidationCommissionFee s = mp_LiquidationCommissionFee (maker_params s)"

definition MakerDefaultParams :: MakerParams where
  "MakerDefaultParams =
   \<lparr>mp_BackingRatioStep = 25 * 10 ^ 14,
    mp_BackingRatioPriceBand = 5 * 10 ^ 15,
    mp_BackingRatioCooldownPeriod = int BlocksPerHour,
    mp_MintPriceBias = 1 * 10 ^ 16,
    mp_BurnPriceBias = 1 * 10 ^ 16,
    mp_RebackBonus = 75 * 10 ^ 14,
    mp_LiquidationCommissionFee = 10 * 10 ^ 16\<rparr>"

definition MakerParams_Validate :: "MakerParams \<Rightarrow> bool" where
  "MakerParams_Validate p \<longleftrightarrow>
     \<not> (\<not> 0 < mp_BackingRatioStep p \<or> mp_BackingRatioStep p > dec_one) \<and>
     \<not> (\<not> 0 < mp_BackingRatioPriceBand p \<or> mp_BackingRatioPriceBand p > dec_one) \<and>
     \<not> mp_BackingRatioCooldownPeriod p \<le> 0 \<and>
     \<not> (\<not> 0 < mp_MintPriceBias p \<or> mp_MintPriceBias p > dec_one) \<and>
     \<not> (\<not> 0 < mp_BurnPriceBias p \<or> mp_BurnPriceBias p > dec_one) \<and>
     \<not> (mp_RebackBonus p < 0 \<or> mp_RebackBonus p > dec_one) \<and>
     \<not> (mp_LiquidationCommissionFee p < 0 \<or> mp_LiquidationCommissionFee p > dec_one)"

lemma MakerDefaultParams_valid: "MakerParams_Validate MakerDefaultParams"
  by (simp add: MakerParams_Validate_def MakerDefaultParams_def blocks_defs dec_one_def)

text \<open>The per-key validators a parameter-change proposal runs.\<close>

definition validateBackingRatioStep :: "dec \<Rightarrow> bool" where
  "validateBackingRatioStep v \<longleftrightarrow> \<not> v < 0 \<and> \<not> v > dec_one"

definition validateBackingRatioPriceBand :: "dec \<Rightarrow> bool" where
  "validateBackingRatioPriceBand v \<longleftrightarrow> 0 < v \<and> \<not> v > dec_one"

definition validateBackingRatioCooldownPeriod :: "int \<Rightarrow> bool" where
  "validateBackingRatioCooldownPeriod v \<longleftrightarrow> \<not> v \<le> 0"

definition validateMintBurnPriceBias :: "dec \<Rightarrow> bool" where
  "validateMintBurnPriceBias v \<longleftrightarrow> 0 < v \<and> \<not> v > dec_one"

definition validateRebackBonus :: "dec \<Rightarrow> bool" where
  "validateRebackBonus v \<longleftrightarrow> \<not> v < 0 \<and> \<not> v > dec_one"

definition validateLiquidationCommissionFee :: "dec \<Rightarrow> bool" where
  "validateLiquidationCommissionFee v \<longleftrightarrow> \<not> v < 0 \<and> \<not> v > dec_one"

text \<open>The parameters as the store of the params module keeps them: each key passed its validator.\<close>

definition maker_params_ok :: "MakerParams \<Rightarrow> bool" where
  "maker_params_ok p \<longleftrightarrow>
     validateBackingRatioStep (mp_BackingRatioStep p) \<and>
     validateBackingRatioPriceBand (mp_BackingRatioPriceBand p) \<and>
     validateBackingRatioCooldownPeriod (mp_BackingRatioCooldownPeriod p) \<and>
     validateMintBurnPriceBias (mp_MintPriceBias p) \<and>
     validateMintBurnPriceBias (mp_BurnPriceBias p) \<and>
     validateRebackBonus (mp_RebackBonus p) \<and>
     validateLiquidationCommissionFee (mp_LiquidationCommissionFee p)"

lemma MakerParams_Validate_ok: "MakerParams_Validate p \<Longrightarrow> maker_params_ok p"
  by (simp add: MakerParams_Validate_def maker_params_ok_def validateBackingRatioStep_def
      validateBackingRatioPriceBand_def validateBackingRatioCooldownPeriod_def
      validateMintBurnPriceBias_def validateRebackBonus_def validateLiquidationCommissionFee_def)

lemmas maker_accessors = SetTotalBacking_def GetTotalBacking_def SetPoolBacking_def
  GetPoolBacking_def SetTotalCollateral_def GetTotalCollateral_def SetPoolCollateral_def
  GetPoolCollateral_def SetAccountCollateral_def GetAccountCollateral_def
  SetBackingRiskParams_def SetCollateralRiskParams_def GetBackingRiskParams_def
  GetCollateralRiskParams_def

end
