(* ===== verification/MakerCalc.thy ===== *)
theory MakerCalc
  imports MakerTypes
begin

text \<open>
  The price and amount computations of the maker (\<open>x/maker/keeper/calculate.go\<close>) and the helpers of
  the message server they share (\<open>getBacking\<close>, \<open>getCollateral\<close>, \<open>settleInterestFee\<close>,
  \<open>maxLoanToValueForAccount\<close> of \<open>msg_server.go\<close>).  Every early return of the source is an \<open>Err\<close>, every
  panic of the SDK (division by zero, a nil dereference, coins of different denominations, a
  negative coin) a \<open>Panic\<close>.
\<close>

section \<open>Shared helpers\<close>

definition over :: "int option \<Rightarrow> int \<Rightarrow> bool" where
  "over limit amt = (case limit of None \<Rightarrow> False | Some m \<Rightarrow> amt > m)"

definition computeFee :: "sdk \<Rightarrow> coin \<Rightarrow> dec option \<Rightarrow> coin res" where
  "computeFee S c rate =
     NewCoin S (Denom c) (case rate of
       None \<Rightarrow> 0 | Some r \<Rightarrow> Dec_RoundInt S (Dec_Mul S (ToDec (Amount c)) r))"

definition checkMintPriceLowerBound :: "sdk \<Rightarrow> 'b maker_world \<Rightarrow> unit res" where
  "checkMintPriceLowerBound S w =
     rbind (GetExchangeRate (orc w) MicroUSMDenom) (\<lambda>gridPrice.
     ensure (\<not> gridPrice < Dec_Mul S MicroUSMTarget (dec_one + MintPriceBias (mk w)))
       (MakerErr ErrGridPriceTooLow) (Ok ()))"

definition checkBurnPriceUpperBound :: "sdk \<Rightarrow> 'b maker_world \<Rightarrow> unit res" where
  "checkBurnPriceUpperBound S w =
     rbind (GetExchangeRate (orc w) MicroUSMDenom) (\<lambda>gridPrice.
     ensure (\<not> gridPrice > Dec_Mul S MicroUSMTarget (dec_one - BurnPriceBias (mk w)))
       (MakerErr ErrGridPriceTooHigh) (Ok ()))"

definition getAvailableBackingParams :: "'b maker_world \<Rightarrow> denom \<Rightarrow> BackingRiskParams res" where
  "getAvailableBackingParams w backingDenom =
     (case GetBackingRiskParams (mk w) backingDenom of
        None \<Rightarrow> Err (MakerErr ErrBackingCoinNotFound)
      | Some p \<Rightarrow> ensure (brp_Enabled p) (MakerErr ErrBackingCoinDisabled) (Ok p))"

definition getAvailableCollateralParams :: "'b maker_world \<Rightarrow> denom \<Rightarrow> CollateralRiskParams res" where
  "getAvailableCollateralParams w collateralDenom =
     (case GetCollateralRiskParams (mk w) collateralDenom of
        None \<Rightarrow> Err (MakerErr ErrCollateralCoinNotFound)
      | Some p \<Rightarrow> ensure (crp_Enabled p) (MakerErr ErrCollateralCoinDisabled) (Ok p))"

definition getBacking :: "'b maker_world \<Rightarrow> denom \<Rightarrow> (TotalBacking \<times> PoolBacking) res" where
  "getBacking w denom =
     (case GetTotalBacking (mk w) of
        None \<Rightarrow> Err (MakerErr ErrBackingCoinNotFound)
      | Some tot \<Rightarrow> (case GetPoolBacking (mk w) denom of
          None \<Rightarrow> Err (MakerErr ErrBackingCoinNotFound)
        | Some pool \<Rightarrow> Ok (tot, pool)))"

definition newAccountCollateral :: "sdk \<Rightarrow> ctx \<Rightarrow> addr \<Rightarrow> denom \<Rightarrow> AccountCollateral res" where
  "newAccountCollateral S ctx account denom =
     rbind (NewCoin S denom 0) (\<lambda>collateral.
     rbind (NewCoin S MicroUSMDenom 0) (\<lambda>gridDebt.
     rbind (NewCoin S AttoIronDenom 0) (\<lambda>ironCollateralized.
     rbind (NewCoin S MicroUSMDenom 0) (\<lambda>lastInterest.
     Ok \<lparr>ac_Account = AccAddress_String S account, ac_Collateral = collateral,
         ac_GridDebt = gridDebt, ac_IronCollateralized = ironCollateralized,
         ac_LastInterest = lastInterest, ac_LastSettlementBlock = BlockHeight ctx\<rparr>))))"

definition getCollateral ::
  "sdk \<Rightarrow> ctx \<Rightarrow> 'b maker_world \<Rightarrow> addr \<Rightarrow> denom \<Rightarrow> bool \<Rightarrow>
   (TotalCollateral \<times> PoolCollateral \<times> AccountCollateral) res" where
  "getCollateral S ctx w account denom allowNewAccount =
     (case GetTotalCollateral (mk w) of
        None \<Rightarrow> Err (MakerErr ErrCollateralCoinNotFound)
      | Some tot \<Rightarrow> (case GetPoolCollateral (mk w) denom of
          None \<Rightarrow> Err (MakerErr ErrCollateralCoinNotFound)
        | Some pool \<Rightarrow> (case GetAccountCollateral (mk w) account denom of
            Some acc \<Rightarrow> Ok (tot, pool, acc)
          | None \<Rightarrow>
              if allowNewAccount
              then rbind (newAccountCollateral S ctx account denom) (\<lambda>acc. Ok (tot, pool, acc))
              else Err (MakerErr ErrAccountNoCollateral))))"

text \<open>
  Interest since the last settlement, on the principal only, for the account, its pool and the
  total.
\<close>

definition interestOfPeriod :: "sdk \<Rightarrow> int \<Rightarrow> dec \<Rightarrow> int \<Rightarrow> int res" where
  "interestOfPeriod S debt apr period =
     rbind (Dec_QuoInt S (Dec_Mul S (ToDec debt) apr * period) (int BlocksPerYear)) (\<lambda>q.
     Ok (Dec_RoundInt S q))"

definition settleInterestFee ::
  "sdk \<Rightarrow> ctx \<Rightarrow> AccountCollateral \<Rightarrow> PoolCollateral \<Rightarrow> TotalCollateral \<Rightarrow> dec \<Rightarrow>
   (AccountCollateral \<times> PoolCollateral \<times> TotalCollateral) res" where
  "settleInterestFee S ctx acc pool tot apr =
     (let period = BlockHeight ctx - ac_LastSettlementBlock acc in
      if period = 0 then Ok (acc, pool, tot)
      else
        rbind (Coin_Sub S (ac_GridDebt acc) (ac_LastInterest acc)) (\<lambda>principalDebt.
        rbind (interestOfPeriod S (Amount principalDebt) apr period) (\<lambda>interest.
        Ok (acc\<lparr>ac_LastInterest := coin_AddAmount (ac_LastInterest acc) interest,
                ac_GridDebt := coin_AddAmount (ac_GridDebt acc) interest,
                ac_LastSettlementBlock := BlockHeight ctx\<rparr>,
            pool\<lparr>pc_GridDebt := coin_AddAmount (pc_GridDebt pool) interest\<rparr>,
            tot\<lparr>tc_GridDebt := coin_AddAmount (tc_GridDebt tot) interest\<rparr>))))"

definition maxLoanToValueForAccount ::
  "sdk \<Rightarrow> 'b maker_world \<Rightarrow> AccountCollateral \<Rightarrow> CollateralRiskParams \<Rightarrow> (dec \<times> dec) res" where
  "maxLoanToValueForAccount S w acc params =
     rbind (GetExchangeRate (orc w) (Denom (ac_Collateral acc))) (\<lambda>collateralPrice.
     rbind (GetExchangeRate (orc w) AttoIronDenom) (\<lambda>ironPrice.
     let collateralInUSD = Dec_Mul S (ToDec (Amount (ac_Collateral acc))) collateralPrice;
         collateralizedIronInUSD = Dec_Mul S (ToDec (Amount (ac_IronCollateralized acc))) ironPrice in
     if \<not> 0 < collateralInUSD then Ok (0, 0)
     else
       rbind (Dec_Quo S collateralizedIronInUSD collateralInUSD) (\<lambda>ratio.
       rbind (deref (crp_CatalyticIronRatio params)) (\<lambda>maxRatio.
       let catalyticRatio = min ratio maxRatio in
       rbind (deref (crp_LoanToValue params)) (\<lambda>maxLTV.
       rbind (deref (crp_BasicLoanToValue params)) (\<lambda>basicLTV.
       rbind (Dec_Quo S (Dec_Mul S (maxLTV - basicLTV) catalyticRatio) maxRatio) (\<lambda>q.
       let availableLTV = q + basicLTV in
       Ok (availableLTV, Dec_Mul S collateralInUSD availableLTV))))))))"

text \<open>The value of the pools' backing; the loop stops at the first price that is missing.\<close>

fun sumBackingInUSD :: "sdk \<Rightarrow> oracle_store \<Rightarrow> PoolBacking list \<Rightarrow> dec \<Rightarrow> dec res" where
  "sumBackingInUSD S os [] acc = Ok acc"
| "sumBackingInUSD S os (pool # pools) acc =
     rbind (GetExchangeRate os (Denom (pb_Backing pool))) (\<lambda>backingPrice.
     sumBackingInUSD S os pools
       (acc + Dec_Mul S (ToDec (Amount (pb_Backing pool))) backingPrice))"

definition totalBackingInUSD :: "sdk \<Rightarrow> 'b maker_world \<Rightarrow> int res" where
  "totalBackingInUSD S w =
     rbind (sumBackingInUSD S (orc w) (GetAllPoolBacking (mk w)) 0) (\<lambda>v.
     Ok (Dec_TruncateInt S v))"

definition getExcessBackingValue :: "sdk \<Rightarrow> 'b maker_world \<Rightarrow> int res" where
  "getExcessBackingValue S w =
     (case GetTotalBacking (mk w) of
        None \<Rightarrow> Err (MakerErr ErrBackingCoinNotFound)
      | Some tot \<Rightarrow>
          let required = Dec_TruncateInt S (Dec_Ceil S
                (Dec_Mul S (ToDec (Amount (tb_GridMinted tot))) (GetBackingRatio (mk w))));
              requiredBackingValue = (if required < 0 then 0 else required) in
          rbind (totalBackingInUSD S w) (\<lambda>totalBackingValue.
          Ok (totalBackingValue - requiredBackingValue)))"

text \<open>The pool's backing, capped by what the module account really owns.\<close>

definition poolBackingBalance :: "sdk \<Rightarrow> 'b bank \<Rightarrow> 'b maker_world \<Rightarrow> PoolBacking \<Rightarrow> denom \<Rightarrow> coin res" where
  "poolBackingBalance S B w pool backingDenom =
     NewCoin S backingDenom
       (min (Amount (pb_Backing pool))
            (Amount (GetBalance B (bnk w) (GetModuleAddress B ''maker'') backingDenom)))"

section \<open>Mint and burn by swap\<close>

definition calculateMintBySwapIn ::
  "sdk \<Rightarrow> 'b maker_world \<Rightarrow> coin \<Rightarrow> denom \<Rightarrow> bool \<Rightarrow> (coin \<times> coin \<times> coin) res" where
  "calculateMintBySwapIn S w mintOut backingDenom fullBacking =
     rbind (NewCoin S backingDenom 0) (\<lambda>backingIn0.
     rbind (NewCoin S AttoIronDenom 0) (\<lambda>ironIn0.
     rbind (NewCoin S MicroUSMDenom 0) (\<lambda>_.
     rbind (checkMintPriceLowerBound S w) (\<lambda>_.
     rbind (getAvailableBackingParams w backingDenom) (\<lambda>backingParams.
     rbind (GetExchangeRate (orc w) backingDenom) (\<lambda>backingPrice.
     rbind (GetExchangeRate (orc w) AttoIronDenom) (\<lambda>ironPrice.
     rbind (computeFee S mintOut (brp_MintFee backingParams)) (\<lambda>mintFee.
     rbind (Coin_Add S mintOut mintFee) (\<lambda>mintTotal.
     let mintTotalInUSD = Dec_Mul S (ToDec (Amount mintTotal)) MicroUSMTarget in
     rbind (getBacking w backingDenom) (\<lambda>(_, poolBacking).
     rbind (Coin_Add S (pb_GridMinted poolBacking) mintTotal) (\<lambda>gridMinted.
     ensure (\<not> over (brp_MaxGridMint backingParams) (Amount gridMinted)) (MakerErr ErrGridCeiling) (
     let backingRatio = GetBackingRatio (mk w) in
     rbind
       (if backingRatio \<ge> dec_one \<or> fullBacking then
          rbind (Dec_QuoRoundUp S mintTotalInUSD backingPrice) (\<lambda>q.
          Ok (backingIn0\<lparr>Amount := Dec_RoundInt S q\<rparr>, ironIn0))
        else if backingRatio = 0 then
          rbind (Dec_QuoRoundUp S mintTotalInUSD ironPrice) (\<lambda>q.
          Ok (backingIn0, ironIn0\<lparr>Amount := Dec_RoundInt S q\<rparr>))
        else
          rbind (Dec_QuoRoundUp S (Dec_Mul S mintTotalInUSD backingRatio) backingPrice) (\<lambda>q.
          rbind (Dec_QuoRoundUp S (Dec_Mul S mintTotalInUSD (dec_one - backingRatio)) ironPrice) (\<lambda>r.
          Ok (backingIn0\<lparr>Amount := Dec_RoundInt S q\<rparr>, ironIn0\<lparr>Amount := Dec_RoundInt S r\<rparr>))))
       (\<lambda>(backingIn, ironIn).
     rbind (Coin_Add S (pb_Backing poolBacking) backingIn) (\<lambda>backing.
     ensure (\<not> over (brp_MaxBacking backingParams) (Amount backing)) (MakerErr ErrBackingCeiling)
       (Ok (backingIn, ironIn, mintFee))))))))))))))))"

text \<open>
  The fractional case of \<open>calculateMintBySwapOut\<close>: which of the two limits binds, what is minted in
  USD, and what of the other coin is taken.
\<close>

definition mintFractional ::
  "sdk \<Rightarrow> dec \<Rightarrow> dec \<Rightarrow> dec \<Rightarrow> coin \<Rightarrow> coin \<Rightarrow> coin \<Rightarrow> coin \<Rightarrow> (dec \<times> coin \<times> coin) res" where
  "mintFractional S backingRatio backingPrice ironPrice backingInMax ironInMax backingIn0 ironIn0 =
     rbind (Dec_Quo S (backingPrice * Amount backingInMax) backingRatio) (\<lambda>max1.
     rbind (Dec_Quo S (ironPrice * Amount ironInMax) (dec_one - backingRatio)) (\<lambda>max2.
     if coin_IsPositive backingInMax \<and> (coin_IsZero ironInMax \<or> max1 \<le> max2) then
       rbind (Dec_QuoRoundUp S (Dec_Mul S max1 (dec_one - backingRatio)) ironPrice) (\<lambda>q.
       let ironIn = ironIn0\<lparr>Amount := Dec_RoundInt S q\<rparr> in
       rbind (if coin_IsPositive ironInMax then Coin_IsLT S ironInMax ironIn else Ok False) (\<lambda>capped.
       Ok (max1, backingIn0\<lparr>Amount := Amount backingInMax\<rparr>,
           if capped then ironIn\<lparr>Amount := Amount ironInMax\<rparr> else ironIn)))
     else
       rbind (Dec_QuoRoundUp S (Dec_Mul S max2 backingRatio) backingPrice) (\<lambda>q.
       let backingIn = backingIn0\<lparr>Amount := Dec_RoundInt S q\<rparr> in
       rbind (if coin_IsPositive backingInMax then Coin_IsLT S backingInMax backingIn else Ok False) (\<lambda>capped.
       Ok (max2, if capped then backingIn\<lparr>Amount := Amount backingInMax\<rparr> else backingIn,
           ironIn0\<lparr>Amount := Amount ironInMax\<rparr>)))))"

text \<open>The three cases of the backing ratio: the minted value and what is taken of either coin.\<close>

definition mintSwapInputs ::
  "sdk \<Rightarrow> dec \<Rightarrow> bool \<Rightarrow> dec \<Rightarrow> dec \<Rightarrow> coin \<Rightarrow> coin \<Rightarrow> coin \<Rightarrow> coin \<Rightarrow> (dec \<times> coin \<times> coin) res" where
  "mintSwapInputs S backingRatio fullBacking backingPrice ironPrice backingInMax ironInMax
     backingIn0 ironIn0 =
     (if backingRatio \<ge> dec_one \<or> fullBacking then
        Ok (backingPrice * Amount backingInMax, backingIn0\<lparr>Amount := Amount backingInMax\<rparr>, ironIn0)
      else if backingRatio = 0 then
        Ok (ironPrice * Amount ironInMax, backingIn0, ironIn0\<lparr>Amount := Amount ironInMax\<rparr>)
      else mintFractional S backingRatio backingPrice ironPrice backingInMax ironInMax
             backingIn0 ironIn0)"

definition calculateMintBySwapOut ::
  "sdk \<Rightarrow> 'b maker_world \<Rightarrow> coin \<Rightarrow> coin \<Rightarrow> bool \<Rightarrow> (coin \<times> coin \<times> coin \<times> coin) res" where
  "calculateMintBySwapOut S w backingInMax ironInMax fullBacking =
     (let backingDenom = Denom backingInMax in
     rbind (checkMintPriceLowerBound S w) (\<lambda>_.
     rbind (getAvailableBackingParams w backingDenom) (\<lambda>backingParams.
     rbind (GetExchangeRate (orc w) backingDenom) (\<lambda>backingPrice.
     rbind (GetExchangeRate (orc w) AttoIronDenom) (\<lambda>ironPrice.
     let backingRatio = GetBackingRatio (mk w) in
     rbind (NewCoin S backingDenom 0) (\<lambda>backingIn0.
     rbind (NewCoin S AttoIronDenom 0) (\<lambda>ironIn0.
     rbind (mintSwapInputs S backingRatio fullBacking backingPrice ironPrice backingInMax ironInMax
              backingIn0 ironIn0) (\<lambda>(mintTotalInUSD, backingIn, ironIn).
     rbind (Dec_Quo S mintTotalInUSD MicroUSMTarget) (\<lambda>q.
     rbind (NewCoin S MicroUSMDenom (Dec_TruncateInt S q)) (\<lambda>mintTotal.
     rbind (getBacking w backingDenom) (\<lambda>(_, poolBacking).
     ensure (\<not> over (brp_MaxGridMint backingParams)
                 (Amount (coin_AddAmount (pb_GridMinted poolBacking) (Amount mintTotal))))
       (MakerErr ErrGridCeiling) (
     rbind (Coin_Add S (pb_Backing poolBacking) backingIn) (\<lambda>backing.
     ensure (\<not> over (brp_MaxBacking backingParams) (Amount backing)) (MakerErr ErrBackingCeiling) (
     rbind (computeFee S mintTotal (brp_MintFee backingParams)) (\<lambda>mintFee.
     rbind (Coin_Sub S mintTotal mintFee) (\<lambda>mintOut.
     Ok (backingIn, ironIn, mintOut, mintFee)))))))))))))))))"

text \<open>
  \<open>calculateBurnBySwapIn\<close> serves the estimate query only; it compares the payout with the module
  account's balance.
\<close>

definition calculateBurnBySwapIn ::
  "sdk \<Rightarrow> 'b bank \<Rightarrow> 'b maker_world \<Rightarrow> coin \<Rightarrow> coin \<Rightarrow> (coin \<times> coin \<times> coin \<times> coin) res" where
  "calculateBurnBySwapIn S B w backingOutMax ironOutMax =
     (let backingDenom = Denom backingOutMax in
     rbind (NewCoin S MicroUSMDenom 0) (\<lambda>_.
     rbind (NewCoin S backingDenom 0) (\<lambda>backingOut0.
     rbind (NewCoin S AttoIronDenom 0) (\<lambda>ironOut0.
     rbind (checkBurnPriceUpperBound S w) (\<lambda>_.
     rbind (getAvailableBackingParams w backingDenom) (\<lambda>backingParams.
     rbind (GetExchangeRate (orc w) backingDenom) (\<lambda>backingPrice.
     rbind (GetExchangeRate (orc w) AttoIronDenom) (\<lambda>ironPrice.
     let backingOutMaxInUSD = backingPrice * Amount backingOutMax;
         ironOutMaxInUSD = ironPrice * Amount ironOutMax;
         backingRatio = GetBackingRatio (mk w) in
     rbind
       (if backingRatio \<ge> dec_one then
          Ok (backingOutMaxInUSD, backingOut0\<lparr>Amount := Amount backingOutMax\<rparr>, ironOut0)
        else if backingRatio = 0 then
          Ok (ironOutMaxInUSD, backingOut0, ironOut0\<lparr>Amount := Amount ironOutMax\<rparr>)
        else
          rbind (Dec_Quo S backingOutMaxInUSD backingRatio) (\<lambda>withBacking.
          rbind (Dec_Quo S ironOutMaxInUSD (dec_one - backingRatio)) (\<lambda>withIron.
          if coin_IsZero ironOutMax \<or> (coin_IsPositive backingOutMax \<and> withBacking < withIron) then
            rbind (Dec_QuoRoundUp S (Dec_Mul S withBacking (dec_one - backingRatio)) ironPrice) (\<lambda>q.
            Ok (withBacking, backingOut0\<lparr>Amount := Amount backingOutMax\<rparr>,
                ironOut0\<lparr>Amount := Dec_RoundInt S q\<rparr>))
          else
            rbind (Dec_QuoRoundUp S (Dec_Mul S withIron backingRatio) backingPrice) (\<lambda>q.
            Ok (withIron, backingOut0\<lparr>Amount := Dec_RoundInt S q\<rparr>,
                ironOut0\<lparr>Amount := Amount ironOutMax\<rparr>)))))
       (\<lambda>(burnActualInUSD, backingOut, ironOut).
     rbind (Coin_IsLT S (GetBalance B (bnk w) (GetModuleAddress B ''maker'') backingDenom) backingOut) (\<lambda>lt.
     ensure (\<not> lt) (MakerErr ErrBackingCoinInsufficient) (
     let burnFeeRate = (case brp_BurnFee backingParams of None \<Rightarrow> 0 | Some r \<Rightarrow> r) in
     rbind (Dec_Quo S burnActualInUSD MicroUSMTarget) (\<lambda>v.
     rbind (Dec_Quo S v (dec_one - burnFeeRate)) (\<lambda>burnInValue.
     let burnFeeValue = Dec_Mul S burnInValue burnFeeRate in
     rbind (NewCoin S MicroUSMDenom (Dec_RoundInt S burnInValue)) (\<lambda>burnIn.
     rbind (NewCoin S MicroUSMDenom (Dec_RoundInt S burnFeeValue)) (\<lambda>burnFee.
     Ok (burnIn, backingOut, ironOut, burnFee))))))))))))))))"

text \<open>What a burn of the given value pays of either coin.\<close>

definition burnSwapOutputs ::
  "sdk \<Rightarrow> dec \<Rightarrow> dec \<Rightarrow> dec \<Rightarrow> dec \<Rightarrow> coin \<Rightarrow> coin \<Rightarrow> (coin \<times> coin) res" where
  "burnSwapOutputs S backingRatio burnActualInUSD backingPrice ironPrice backingOut0 ironOut0 =
     (if backingRatio \<ge> dec_one then
        rbind (Dec_QuoTruncate S burnActualInUSD backingPrice) (\<lambda>q.
        Ok (backingOut0\<lparr>Amount := Dec_TruncateInt S q\<rparr>, ironOut0))
      else if backingRatio = 0 then
        rbind (Dec_QuoTruncate S burnActualInUSD ironPrice) (\<lambda>q.
        Ok (backingOut0, ironOut0\<lparr>Amount := Dec_TruncateInt S q\<rparr>))
      else
        rbind (Dec_QuoTruncate S (Dec_Mul S burnActualInUSD backingRatio) backingPrice) (\<lambda>q.
        rbind (Dec_QuoTruncate S (Dec_Mul S burnActualInUSD (dec_one - backingRatio)) ironPrice) (\<lambda>r.
        Ok (backingOut0\<lparr>Amount := Dec_TruncateInt S q\<rparr>, ironOut0\<lparr>Amount := Dec_TruncateInt S r\<rparr>))))"

definition calculateBurnBySwapOut ::
  "sdk \<Rightarrow> 'b bank \<Rightarrow> 'b maker_world \<Rightarrow> coin \<Rightarrow> denom \<Rightarrow> (coin \<times> coin \<times> coin) res" where
  "calculateBurnBySwapOut S B w burnIn backingDenom =
     rbind (checkBurnPriceUpperBound S w) (\<lambda>_.
     rbind (getAvailableBackingParams w backingDenom) (\<lambda>backingParams.
     rbind (GetExchangeRate (orc w) backingDenom) (\<lambda>backingPrice.
     rbind (GetExchangeRate (orc w) AttoIronDenom) (\<lambda>ironPrice.
     let backingRatio = GetBackingRatio (mk w) in
     rbind (computeFee S burnIn (brp_BurnFee backingParams)) (\<lambda>burnFee.
     rbind (Coin_Sub S burnIn burnFee) (\<lambda>burnActual.
     let burnActualInUSD = Dec_Mul S (ToDec (Amount burnActual)) MicroUSMTarget in
     rbind (NewCoin S backingDenom 0) (\<lambda>backingOut0.
     rbind (NewCoin S AttoIronDenom 0) (\<lambda>ironOut0.
     rbind (burnSwapOutputs S backingRatio burnActualInUSD backingPrice ironPrice backingOut0 ironOut0)
       (\<lambda>(backingOut, ironOut).
     rbind (getBacking w backingDenom) (\<lambda>(_, poolBacking).
     rbind (poolBackingBalance S B w poolBacking backingDenom) (\<lambda>balance.
     rbind (Coin_IsLT S balance backingOut) (\<lambda>lt.
     ensure (\<not> lt) (MakerErr ErrBackingCoinInsufficient)
       (Ok (backingOut, ironOut, burnFee))))))))))))))"

section \<open>Buying and selling backing\<close>

definition calculateBuyBackingIn ::
  "sdk \<Rightarrow> 'b bank \<Rightarrow> 'b maker_world \<Rightarrow> coin \<Rightarrow> (coin \<times> coin) res" where
  "calculateBuyBackingIn S B w backingOut =
     (let backingDenom = Denom backingOut in
     rbind (getAvailableBackingParams w backingDenom) (\<lambda>backingParams.
     rbind (GetExchangeRate (orc w) backingDenom) (\<lambda>backingPrice.
     rbind (GetExchangeRate (orc w) AttoIronDenom) (\<lambda>ironPrice.
     rbind (getExcessBackingValue S w) (\<lambda>excessBackingValue.
     rbind (deref (brp_BuybackFee backingParams)) (\<lambda>buybackFeeRate.
     rbind (Dec_Quo S (ToDec (Amount backingOut)) (dec_one - buybackFeeRate)) (\<lambda>q.
     rbind (NewCoin S backingDenom (Dec_TruncateInt S q)) (\<lambda>backingOutTotal.
     let ironInValue = Dec_Mul S (ToDec (Amount backingOutTotal)) backingPrice in
     ensure (\<not> ironInValue > ToDec excessBackingValue) (MakerErr ErrBackingCoinInsufficient) (
     rbind (getBacking w backingDenom) (\<lambda>(_, poolBacking).
     rbind (poolBackingBalance S B w poolBacking backingDenom) (\<lambda>balance.
     rbind (Coin_IsLT S balance backingOutTotal) (\<lambda>lt.
     ensure (\<not> lt) (MakerErr ErrBackingCoinInsufficient) (
     rbind (Dec_Quo S ironInValue ironPrice) (\<lambda>i.
     rbind (NewCoin S AttoIronDenom (Dec_RoundInt S i)) (\<lambda>ironIn.
     rbind (NewCoin S backingDenom
              (Dec_RoundInt S (Dec_Mul S (ToDec (Amount backingOutTotal)) buybackFeeRate))) (\<lambda>buybackFee.
     Ok (ironIn, buybackFee)))))))))))))))))"

definition calculateBuyBackingOut ::
  "sdk \<Rightarrow> 'b bank \<Rightarrow> 'b maker_world \<Rightarrow> coin \<Rightarrow> denom \<Rightarrow> (coin \<times> coin) res" where
  "calculateBuyBackingOut S B w ironIn backingDenom =
     rbind (getAvailableBackingParams w backingDenom) (\<lambda>backingParams.
     rbind (GetExchangeRate (orc w) backingDenom) (\<lambda>backingPrice.
     rbind (GetExchangeRate (orc w) AttoIronDenom) (\<lambda>ironPrice.
     rbind (getExcessBackingValue S w) (\<lambda>excessBackingValue.
     let ironInValue = Dec_Mul S (ToDec (Amount ironIn)) ironPrice in
     ensure (\<not> ironInValue > ToDec excessBackingValue) (MakerErr ErrBackingCoinInsufficient) (
     rbind (Dec_Quo S ironInValue backingPrice) (\<lambda>q.
     rbind (NewCoin S backingDenom (Dec_TruncateInt S q)) (\<lambda>backingOutTotal.
     rbind (getBacking w backingDenom) (\<lambda>(_, poolBacking).
     rbind (poolBackingBalance S B w poolBacking backingDenom) (\<lambda>balance.
     rbind (Coin_IsLT S balance backingOutTotal) (\<lambda>lt.
     ensure (\<not> lt) (MakerErr ErrBackingCoinInsufficient) (
     rbind (computeFee S backingOutTotal (brp_BuybackFee backingParams)) (\<lambda>buybackFee.
     rbind (Coin_Sub S backingOutTotal buybackFee) (\<lambda>backingOut.
     Ok (backingOut, buybackFee))))))))))))))"

definition calculateSellBackingIn ::
  "sdk \<Rightarrow> 'b maker_world \<Rightarrow> coin \<Rightarrow> denom \<Rightarrow> (coin \<times> coin) res" where
  "calculateSellBackingIn S w ironOut backingDenom =
     rbind (getAvailableBackingParams w backingDenom) (\<lambda>backingParams.
     rbind (GetExchangeRate (orc w) backingDenom) (\<lambda>backingPrice.
     rbind (GetExchangeRate (orc w) AttoIronDenom) (\<lambda>ironPrice.
     rbind (getBacking w backingDenom) (\<lambda>(_, poolBacking).
     rbind (getExcessBackingValue S w) (\<lambda>excessBackingValue.
     let missingBackingValue = - excessBackingValue in
     rbind (Dec_Quo S (ToDec missingBackingValue) ironPrice) (\<lambda>availableIronMint.
     let bonusRatio = RebackBonus (mk w) in
     rbind (deref (brp_RebackFee backingParams)) (\<lambda>rebackFeeRate.
     rbind (Dec_Quo S (ToDec (Amount ironOut)) (dec_one + bonusRatio - rebackFeeRate)) (\<lambda>ironMint.
     rbind (Dec_Quo S (Dec_Mul S ironMint ironPrice) backingPrice) (\<lambda>q.
     rbind (NewCoin S backingDenom (Dec_RoundInt S q)) (\<lambda>backingIn.
     rbind (NewCoin S AttoIronDenom (Dec_RoundInt S (Dec_Mul S ironMint rebackFeeRate))) (\<lambda>rebackFee.
     rbind (Coin_Add S (pb_Backing poolBacking) backingIn) (\<lambda>backing.
     ensure (\<not> over (brp_MaxBacking backingParams) (Amount backing)) (MakerErr ErrBackingCeiling) (
     ensure (\<not> ironMint > availableIronMint) (MakerErr ErrIronCoinInsufficient)
       (Ok (backingIn, rebackFee)))))))))))))))"

definition calculateSellBackingOut ::
  "sdk \<Rightarrow> 'b maker_world \<Rightarrow> coin \<Rightarrow> (coin \<times> coin) res" where
  "calculateSellBackingOut S w backingIn =
     (let backingDenom = Denom backingIn in
     rbind (getAvailableBackingParams w backingDenom) (\<lambda>backingParams.
     rbind (GetExchangeRate (orc w) backingDenom) (\<lambda>backingPrice.
     rbind (GetExchangeRate (orc w) AttoIronDenom) (\<lambda>ironPrice.
     rbind (getBacking w backingDenom) (\<lambda>(_, poolBacking).
     rbind (Coin_Add S (pb_Backing poolBacking) backingIn) (\<lambda>backing.
     ensure (\<not> over (brp_MaxBacking backingParams) (Amount backing)) (MakerErr ErrBackingCeiling) (
     rbind (getExcessBackingValue S w) (\<lambda>excessBackingValue.
     let missingBackingValue = - excessBackingValue in
     rbind (Dec_Quo S (ToDec missingBackingValue) ironPrice) (\<lambda>availableIronMint.
     let bonusRatio = RebackBonus (mk w) in
     rbind (Dec_Quo S (Dec_Mul S (ToDec (Amount backingIn)) backingPrice) ironPrice) (\<lambda>q.
     rbind (NewCoin S AttoIronDenom (Dec_TruncateInt S q)) (\<lambda>ironMint.
     rbind (computeFee S ironMint (Some bonusRatio)) (\<lambda>bonus.
     rbind (computeFee S ironMint (brp_RebackFee backingParams)) (\<lambda>rebackFee.
     ensure (\<not> ToDec (Amount ironMint) > availableIronMint) (MakerErr ErrIronCoinInsufficient) (
     rbind (Coin_Add S ironMint bonus) (\<lambda>withBonus.
     rbind (Coin_Sub S withBonus rebackFee) (\<lambda>ironOut.
     Ok (ironOut, rebackFee)))))))))))))))))"

section \<open>Minting by collateral\<close>

definition calculateMintByCollateral ::
  "sdk \<Rightarrow> ctx \<Rightarrow> 'b maker_world \<Rightarrow> addr \<Rightarrow> denom \<Rightarrow> coin \<Rightarrow>
   (coin \<times> TotalCollateral \<times> PoolCollateral \<times> AccountCollateral) res" where
  "calculateMintByCollateral S ctx w account collateralDenom mintOut =
     rbind (getAvailableCollateralParams w collateralDenom) (\<lambda>params.
     rbind (GetExchangeRate (orc w) collateralDenom) (\<lambda>collateralPrice.
     rbind (GetExchangeRate (orc w) AttoIronDenom) (\<lambda>ironPrice.
     rbind (getCollateral S ctx w account collateralDenom False) (\<lambda>(total0, pool0, acc0).
     rbind (deref (crp_InterestFee params)) (\<lambda>apr.
     rbind (settleInterestFee S ctx acc0 pool0 total0 apr) (\<lambda>(acc, pool, tot).
     rbind (computeFee S mintOut (crp_MintFee params)) (\<lambda>mintFee.
     rbind (Coin_Add S mintOut mintFee) (\<lambda>mintTotal.
     rbind (Coin_Add S (ac_GridDebt acc) mintTotal) (\<lambda>accDebt.
     rbind (Coin_Add S (pc_GridDebt pool) mintTotal) (\<lambda>poolDebt.
     rbind (Coin_Add S (tc_GridDebt tot) mintTotal) (\<lambda>totalDebt.
     ensure (\<not> over (crp_MaxGridMint params) (Amount poolDebt)) (MakerErr ErrGridCeiling) (
     let collateralValue = Dec_Mul S (ToDec (Amount (ac_Collateral acc))) collateralPrice;
         ironCollateralizedValue = Dec_Mul S (ToDec (Amount (ac_IronCollateralized acc))) ironPrice in
     ensure (0 < collateralValue) (MakerErr ErrAccountInsufficientCollateral) (
     rbind (Dec_Quo S ironCollateralizedValue collateralValue) (\<lambda>ratio.
     rbind (deref (crp_CatalyticIronRatio params)) (\<lambda>catalyticRatio.
     let actualCatalyticRatio = min ratio catalyticRatio in
     rbind (deref (crp_BasicLoanToValue params)) (\<lambda>basicLTV.
     rbind
       (if 0 < catalyticRatio then
          rbind (deref (crp_LoanToValue params)) (\<lambda>maxLTV.
          rbind (Dec_Quo S (Dec_Mul S actualCatalyticRatio (maxLTV - basicLTV)) catalyticRatio) (\<lambda>q.
          Ok (basicLTV + q)))
        else Ok basicLTV) (\<lambda>availableLTV.
     rbind (Dec_Quo S (Dec_Mul S collateralValue availableLTV) MicroUSMTarget) (\<lambda>d.
     ensure (\<not> Dec_TruncateInt S d < Amount accDebt) (MakerErr ErrAccountInsufficientCollateral)
       (Ok (mintFee, tot\<lparr>tc_GridDebt := totalDebt\<rparr>, pool\<lparr>pc_GridDebt := poolDebt\<rparr>,
            acc\<lparr>ac_GridDebt := accDebt\<rparr>))))))))))))))))))))"

end
