(* ===== verification/MakerMsg.thy ===== *)
theory MakerMsg
  imports MakerCalc
begin

text \<open>
  The messages of the maker (\<open>x/maker/types/msgs.go\<close>) and their handlers
  (\<open>x/maker/keeper/msg_server.go\<close>).  A handler maps the world to the changed world and its response,
  or to the error it returns.  Events are not part of the state.
\<close>

section \<open>Messages\<close>

record MsgMintBySwap =
  mbs_Sender :: string
  mbs_To :: string
  mbs_BackingInMax :: coin
  mbs_IronInMax :: coin
  mbs_MintOutMin :: coin
  mbs_FullBacking :: bool

record MsgMintBySwapResponse =
  mbsr_BackingIn :: coin
  mbsr_IronIn :: coin
  mbsr_MintOut :: coin
  mbsr_MintFee :: coin

record MsgBurnBySwap =
  bbs_Sender :: string
  bbs_To :: string
  bbs_BurnIn :: coin
  bbs_BackingOutMin :: coin
  bbs_IronOutMin :: coin

record MsgBurnBySwapResponse =
  bbsr_BackingOut :: coin
  bbsr_IronOut :: coin
  bbsr_BurnFee :: coin

record MsgBuyBacking =
  bb_Sender :: string
  bb_To :: string
  bb_IronIn :: coin
  bb_BackingOutMin :: coin

record MsgBuyBackingResponse =
  bbr_BackingOut :: coin
  bbr_BuybackFee :: coin

record MsgSellBacking =
  sb_Sender :: string
  sb_To :: string
  sb_BackingIn :: coin
  sb_IronOutMin :: coin

record MsgSellBackingResponse =
  sbr_IronOut :: coin
  sbr_RebackFee :: coin

record MsgMintByCollateral =
  mbc_Sender :: string
  mbc_To :: string
  mbc_CollateralDenom :: denom
  mbc_MintOut :: coin

record MsgBurnByCollateral =
  bbc_Sender :: string
  bbc_CollateralDenom :: denom
  bbc_RepayInMax :: coin

record MsgDepositCollateral =
  dc_Sender :: string
  dc_To :: string
  dc_CollateralIn :: coin
  dc_IronIn :: coin

record MsgRedeemCollateral =
  rc_Sender :: string
  rc_To :: string
  rc_CollateralOut :: coin
  rc_IronOut :: coin

record MsgLiquidateCollateral =
  lc_Sender :: string
  lc_To :: string
  lc_Debtor :: string
  lc_Collateral :: coin
  lc_RepayInMax :: coin

record MsgLiquidateCollateralResponse =
  lcr_RepayIn :: coin
  lcr_CollateralOut :: coin

section \<open>Stateless validation (ValidateBasic)\<close>

definition validAddr :: "sdk \<Rightarrow> string \<Rightarrow> bool" where
  "validAddr S s \<longleftrightarrow> AccAddressFromBech32 S s \<noteq> None"

definition validTo :: "sdk \<Rightarrow> string \<Rightarrow> bool" where
  "validTo S s \<longleftrightarrow> (s = [] \<or> validAddr S s)"

abbreviation invalidAddr :: err where
  "invalidAddr \<equiv> SdkErr ErrInvalidAddress"

abbreviation invalidCoins :: err where
  "invalidCoins \<equiv> SdkErr ErrInvalidCoins"

definition MsgMintBySwap_ValidateBasic :: "sdk \<Rightarrow> MsgMintBySwap \<Rightarrow> unit res" where
  "MsgMintBySwap_ValidateBasic S m =
     ensure (validAddr S (mbs_Sender m)) invalidAddr (
     ensure (validTo S (mbs_To m)) invalidAddr (
     ensure (Denom (mbs_MintOutMin m) = MicroUSMDenom) invalidCoins (
     ensure (Denom (mbs_IronInMax m) = AttoIronDenom) invalidCoins (
     ensure (0 < Amount (mbs_MintOutMin m)) invalidCoins (
     ensure (\<not> Amount (mbs_BackingInMax m) < 0) invalidCoins (
     ensure (\<not> Amount (mbs_IronInMax m) < 0) invalidCoins (
     ensure (\<not> (Amount (mbs_BackingInMax m) = 0 \<and> Amount (mbs_IronInMax m) = 0)) invalidCoins (
     ensure (\<not> (mbs_FullBacking m \<and> 0 < Amount (mbs_IronInMax m))) invalidCoins
       (Ok ())))))))))"

definition MsgBurnBySwap_ValidateBasic :: "sdk \<Rightarrow> MsgBurnBySwap \<Rightarrow> unit res" where
  "MsgBurnBySwap_ValidateBasic S m =
     ensure (validAddr S (bbs_Sender m)) invalidAddr (
     ensure (validTo S (bbs_To m)) invalidAddr (
     ensure (Denom (bbs_BurnIn m) = MicroUSMDenom) invalidCoins (
     ensure (Denom (bbs_IronOutMin m) = AttoIronDenom) invalidCoins (
     ensure (0 < Amount (bbs_BurnIn m)) invalidCoins (
     ensure (\<not> Amount (bbs_BackingOutMin m) < 0) invalidCoins (
     ensure (\<not> Amount (bbs_IronOutMin m) < 0) invalidCoins
       (Ok ())))))))"

definition MsgBuyBacking_ValidateBasic :: "sdk \<Rightarrow> MsgBuyBacking \<Rightarrow> unit res" where
  "MsgBuyBacking_ValidateBasic S m =
     ensure (validAddr S (bb_Sender m)) invalidAddr (
     ensure (validTo S (bb_To m)) invalidAddr (
     ensure (Denom (bb_IronIn m) = AttoIronDenom) invalidCoins (
     ensure (0 < Amount (bb_IronIn m)) invalidCoins (
     ensure (\<not> Amount (bb_BackingOutMin m) < 0) invalidCoins
       (Ok ())))))"

definition MsgSellBacking_ValidateBasic :: "sdk \<Rightarrow> MsgSellBacking \<Rightarrow> unit res" where
  "MsgSellBacking_ValidateBasic S m =
     ensure (validAddr S (sb_Sender m)) invalidAddr (
     ensure (validTo S (sb_To m)) invalidAddr (
     ensure (Denom (sb_IronOutMin m) = AttoIronDenom) invalidCoins (
     ensure (0 < Amount (sb_BackingIn m)) invalidCoins (
     ensure (\<not> Amount (sb_IronOutMin m) < 0) invalidCoins
       (Ok ())))))"

definition MsgMintByCollateral_ValidateBasic :: "sdk \<Rightarrow> MsgMintByCollateral \<Rightarrow> unit res" where
  "MsgMintByCollateral_ValidateBasic S m =
     ensure (validAddr S (mbc_Sender m)) invalidAddr (
     ensure (validTo S (mbc_To m)) invalidAddr (
     ensure (Denom (mbc_MintOut m) = MicroUSMDenom) invalidCoins (
     ensure (0 < Amount (mbc_MintOut m)) invalidCoins
       (Ok ()))))"

definition MsgBurnByCollateral_ValidateBasic :: "sdk \<Rightarrow> MsgBurnByCollateral \<Rightarrow> unit res" where
  "MsgBurnByCollateral_ValidateBasic S m =
     ensure (validAddr S (bbc_Sender m)) invalidAddr (
     ensure (Denom (bbc_RepayInMax m) = MicroUSMDenom) invalidCoins (
     ensure (0 < Amount (bbc_RepayInMax m)) invalidCoins
       (Ok ())))"

text \<open>
  Where both amounts are zero the message of the error is built by \<open>sdk.NewCoins\<close>, which panics on a
  denomination that is not valid.
\<close>

definition MsgDepositCollateral_ValidateBasic :: "sdk \<Rightarrow> MsgDepositCollateral \<Rightarrow> unit res" where
  "MsgDepositCollateral_ValidateBasic S m =
     ensure (validAddr S (dc_Sender m)) invalidAddr (
     ensure (validTo S (dc_To m)) invalidAddr (
     ensure (\<not> Amount (dc_CollateralIn m) < 0) invalidCoins (
     ensure (Denom (dc_IronIn m) = AttoIronDenom) invalidCoins (
     ensure (\<not> Amount (dc_IronIn m) < 0) invalidCoins (
     if Amount (dc_CollateralIn m) = 0 \<and> Amount (dc_IronIn m) = 0
     then rbind (NewCoins S [dc_CollateralIn m, dc_IronIn m]) (\<lambda>_. Err invalidCoins)
     else Ok ())))))"

definition MsgRedeemCollateral_ValidateBasic :: "sdk \<Rightarrow> MsgRedeemCollateral \<Rightarrow> unit res" where
  "MsgRedeemCollateral_ValidateBasic S m =
     ensure (validAddr S (rc_Sender m)) invalidAddr (
     ensure (validTo S (rc_To m)) invalidAddr (
     ensure (\<not> Amount (rc_CollateralOut m) < 0) invalidCoins (
     ensure (Denom (rc_IronOut m) = AttoIronDenom) invalidCoins (
     ensure (\<not> Amount (rc_IronOut m) < 0) invalidCoins (
     if Amount (rc_CollateralOut m) = 0 \<and> Amount (rc_IronOut m) = 0
     then rbind (NewCoins S [rc_CollateralOut m, rc_IronOut m]) (\<lambda>_. Err invalidCoins)
     else Ok ())))))"

definition MsgLiquidateCollateral_ValidateBasic :: "sdk \<Rightarrow> MsgLiquidateCollateral \<Rightarrow> unit res" where
  "MsgLiquidateCollateral_ValidateBasic S m =
     ensure (validAddr S (lc_Sender m)) invalidAddr (
     ensure (validTo S (lc_To m)) invalidAddr (
     ensure (validAddr S (lc_Debtor m)) invalidAddr (
     ensure (0 < Amount (lc_Collateral m)) invalidCoins (
     ensure (Denom (lc_RepayInMax m) = MicroUSMDenom) invalidCoins (
     ensure (0 < Amount (lc_RepayInMax m)) invalidCoins
       (Ok ()))))))"

section \<open>The bank calls of the handlers\<close>

definition takeCoins :: "sdk \<Rightarrow> 'b bank \<Rightarrow> addr \<Rightarrow> coin list \<Rightarrow> 'b maker_world \<Rightarrow> 'b maker_world res" where
  "takeCoins S B sender cs w =
     rbind (NewCoins S cs) (\<lambda>amt.
     rbind (SendCoinsFromAccountToModule B (bnk w) sender ''maker'' amt) (\<lambda>b. Ok (w\<lparr>bnk := b\<rparr>)))"

definition payCoins :: "sdk \<Rightarrow> 'b bank \<Rightarrow> addr \<Rightarrow> coin list \<Rightarrow> 'b maker_world \<Rightarrow> 'b maker_world res" where
  "payCoins S B receiver cs w =
     rbind (NewCoins S cs) (\<lambda>amt.
     rbind (SendCoinsFromModuleToAccount B (bnk w) ''maker'' receiver amt) (\<lambda>b. Ok (w\<lparr>bnk := b\<rparr>)))"

definition feeCoins :: "sdk \<Rightarrow> 'b bank \<Rightarrow> coin list \<Rightarrow> 'b maker_world \<Rightarrow> 'b maker_world res" where
  "feeCoins S B cs w =
     rbind (NewCoins S cs) (\<lambda>amt.
     rbind (SendCoinsFromModuleToModule B (bnk w) ''maker'' ''oracle'' amt) (\<lambda>b. Ok (w\<lparr>bnk := b\<rparr>)))"

definition mintCoins :: "sdk \<Rightarrow> 'b bank \<Rightarrow> coin list \<Rightarrow> 'b maker_world \<Rightarrow> 'b maker_world res" where
  "mintCoins S B cs w =
     rbind (NewCoins S cs) (\<lambda>amt.
     rbind (MintCoins B (bnk w) ''maker'' amt) (\<lambda>b. Ok (w\<lparr>bnk := b\<rparr>)))"

definition burnCoins :: "sdk \<Rightarrow> 'b bank \<Rightarrow> coin list \<Rightarrow> 'b maker_world \<Rightarrow> 'b maker_world res" where
  "burnCoins S B cs w =
     rbind (NewCoins S cs) (\<lambda>amt.
     rbind (BurnCoins B (bnk w) ''maker'' amt) (\<lambda>b. Ok (w\<lparr>bnk := b\<rparr>)))"

text \<open>A step the source takes only under a condition.\<close>

definition whenb :: "bool \<Rightarrow> ('w \<Rightarrow> 'w res) \<Rightarrow> 'w \<Rightarrow> 'w res" where
  "whenb b f w = (if b then f w else Ok w)"

section \<open>Swap handlers\<close>

definition MintBySwap ::
  "sdk \<Rightarrow> 'b bank \<Rightarrow> MsgMintBySwap \<Rightarrow> 'b maker_world \<Rightarrow>
   ('b maker_world \<times> MsgMintBySwapResponse) res" where
  "MintBySwap S B m w =
     rbind (getSenderReceiver S (mbs_Sender m) (mbs_To m)) (\<lambda>(sender, receiver).
     rbind (calculateMintBySwapOut S w (mbs_BackingInMax m) (mbs_IronInMax m) (mbs_FullBacking m))
       (\<lambda>(backingIn, ironIn, mintOut, mintFee).
     rbind (Coin_Add S mintOut mintFee) (\<lambda>mintTotal.
     rbind (Coin_IsLT S mintOut (mbs_MintOutMin m)) (\<lambda>lt.
     ensure (\<not> lt) (MakerErr ErrOverSlippage) (
     rbind (getBacking w (Denom (mbs_BackingInMax m))) (\<lambda>(tot, pool).
     rbind (Coin_Add S (pb_GridMinted pool) mintTotal) (\<lambda>poolMinted.
     rbind (Coin_Add S (pb_Backing pool) backingIn) (\<lambda>poolBacking.
     rbind (Coin_Add S (pb_IronBurned pool) ironIn) (\<lambda>poolBurned.
     rbind (Coin_Add S (tb_GridMinted tot) mintTotal) (\<lambda>totMinted.
     rbind (Coin_Add S (tb_IronBurned tot) ironIn) (\<lambda>totBurned.
     let s1 = SetPoolBacking (pool\<lparr>pb_GridMinted := poolMinted, pb_Backing := poolBacking,
                                   pb_IronBurned := poolBurned\<rparr>) (mk w);
         s2 = SetTotalBacking (tot\<lparr>tb_GridMinted := totMinted, tb_IronBurned := totBurned\<rparr>) s1 in
     rbind (takeCoins S B sender [backingIn, ironIn] (w\<lparr>mk := s2\<rparr>)) (\<lambda>w1.
     rbind (whenb (coin_IsPositive ironIn) (burnCoins S B [ironIn]) w1) (\<lambda>w2.
     rbind (mintCoins S B [mintTotal] w2) (\<lambda>w3.
     rbind (payCoins S B receiver [mintOut] w3) (\<lambda>w4.
     rbind (whenb (coin_IsPositive mintFee) (feeCoins S B [mintFee]) w4) (\<lambda>w5.
     Ok (w5, \<lparr>mbsr_BackingIn = backingIn, mbsr_IronIn = ironIn,
              mbsr_MintOut = mintOut, mbsr_MintFee = mintFee\<rparr>)))))))))))))))))"

definition BurnBySwap ::
  "sdk \<Rightarrow> 'b bank \<Rightarrow> MsgBurnBySwap \<Rightarrow> 'b maker_world \<Rightarrow>
   ('b maker_world \<times> MsgBurnBySwapResponse) res" where
  "BurnBySwap S B m w =
     rbind (getSenderReceiver S (bbs_Sender m) (bbs_To m)) (\<lambda>(sender, receiver).
     rbind (calculateBurnBySwapOut S B w (bbs_BurnIn m) (Denom (bbs_BackingOutMin m)))
       (\<lambda>(backingOut, ironOut, burnFee).
     rbind (Coin_Sub S (bbs_BurnIn m) burnFee) (\<lambda>burnActual.
     rbind (Coin_IsLT S backingOut (bbs_BackingOutMin m)) (\<lambda>lt1.
     ensure (\<not> lt1) (MakerErr ErrOverSlippage) (
     rbind (Coin_IsLT S ironOut (bbs_IronOutMin m)) (\<lambda>lt2.
     ensure (\<not> lt2) (MakerErr ErrOverSlippage) (
     rbind (getBacking w (Denom (bbs_BackingOutMin m))) (\<lambda>(tot, pool).
     rbind (Coin_Sub S (pb_Backing pool) backingOut) (\<lambda>poolBacking.
     let s1 = SetPoolBacking
                (pool\<lparr>pb_Backing := poolBacking,
                      pb_IronBurned := coin_AddAmount (pb_IronBurned pool) (- Amount ironOut),
                      pb_GridMinted := coin_AddAmount (pb_GridMinted pool) (- Amount burnActual)\<rparr>) (mk w);
         s2 = SetTotalBacking
                (tot\<lparr>tb_IronBurned := coin_AddAmount (tb_IronBurned tot) (- Amount ironOut),
                     tb_GridMinted := coin_AddAmount (tb_GridMinted tot) (- Amount burnActual)\<rparr>) s1 in
     rbind (takeCoins S B sender [bbs_BurnIn m] (w\<lparr>mk := s2\<rparr>)) (\<lambda>w1.
     rbind (burnCoins S B [burnActual] w1) (\<lambda>w2.
     rbind (feeCoins S B [burnFee] w2) (\<lambda>w3.
     rbind (mintCoins S B [ironOut] w3) (\<lambda>w4.
     rbind (payCoins S B receiver [backingOut, ironOut] w4) (\<lambda>w5.
     Ok (w5, \<lparr>bbsr_BackingOut = backingOut, bbsr_IronOut = ironOut, bbsr_BurnFee = burnFee\<rparr>)))))))))))))))"

definition BuyBacking ::
  "sdk \<Rightarrow> 'b bank \<Rightarrow> MsgBuyBacking \<Rightarrow> 'b maker_world \<Rightarrow>
   ('b maker_world \<times> MsgBuyBackingResponse) res" where
  "BuyBacking S B m w =
     rbind (getSenderReceiver S (bb_Sender m) (bb_To m)) (\<lambda>(sender, receiver).
     rbind (calculateBuyBackingOut S B w (bb_IronIn m) (Denom (bb_BackingOutMin m)))
       (\<lambda>(backingOut, buybackFee).
     rbind (Coin_IsLT S backingOut (bb_BackingOutMin m)) (\<lambda>lt.
     ensure (\<not> lt) (MakerErr ErrOverSlippage) (
     rbind (getBacking w (Denom (bb_BackingOutMin m))) (\<lambda>(tot, pool).
     rbind (Coin_Sub S (pb_Backing pool) backingOut) (\<lambda>poolBacking1.
     rbind (Coin_Sub S poolBacking1 buybackFee) (\<lambda>poolBacking.
     rbind (Coin_Add S (pb_IronBurned pool) (bb_IronIn m)) (\<lambda>poolBurned.
     rbind (Coin_Add S (tb_IronBurned tot) (bb_IronIn m)) (\<lambda>totBurned.
     let s1 = SetPoolBacking (pool\<lparr>pb_Backing := poolBacking, pb_IronBurned := poolBurned\<rparr>) (mk w);
         s2 = SetTotalBacking (tot\<lparr>tb_IronBurned := totBurned\<rparr>) s1 in
     rbind (takeCoins S B sender [bb_IronIn m] (w\<lparr>mk := s2\<rparr>)) (\<lambda>w1.
     rbind (burnCoins S B [bb_IronIn m] w1) (\<lambda>w2.
     rbind (payCoins S B receiver [backingOut] w2) (\<lambda>w3.
     rbind (feeCoins S B [buybackFee] w3) (\<lambda>w4.
     Ok (w4, \<lparr>bbr_BackingOut = backingOut, bbr_BuybackFee = buybackFee\<rparr>))))))))))))))"

definition SellBacking ::
  "sdk \<Rightarrow> 'b bank \<Rightarrow> MsgSellBacking \<Rightarrow> 'b maker_world \<Rightarrow>
   ('b maker_world \<times> MsgSellBackingResponse) res" where
  "SellBacking S B m w =
     rbind (getSenderReceiver S (sb_Sender m) (sb_To m)) (\<lambda>(sender, receiver).
     rbind (calculateSellBackingOut S w (sb_BackingIn m)) (\<lambda>(ironOut, rebackFee).
     rbind (Coin_Add S ironOut rebackFee) (\<lambda>ironMint.
     rbind (Coin_IsLT S ironOut (sb_IronOutMin m)) (\<lambda>lt.
     ensure (\<not> lt) (MakerErr ErrOverSlippage) (
     rbind (getBacking w (Denom (sb_BackingIn m))) (\<lambda>(tot, pool).
     rbind (Coin_Add S (pb_Backing pool) (sb_BackingIn m)) (\<lambda>poolBacking.
     let s1 = SetPoolBacking
                (pool\<lparr>pb_Backing := poolBacking,
                      pb_IronBurned := coin_AddAmount (pb_IronBurned pool) (- Amount ironMint)\<rparr>) (mk w);
         s2 = SetTotalBacking
                (tot\<lparr>tb_IronBurned := coin_AddAmount (tb_IronBurned tot) (- Amount ironMint)\<rparr>) s1 in
     rbind (takeCoins S B sender [sb_BackingIn m] (w\<lparr>mk := s2\<rparr>)) (\<lambda>w1.
     rbind (mintCoins S B [ironMint] w1) (\<lambda>w2.
     rbind (payCoins S B receiver [ironOut] w2) (\<lambda>w3.
     rbind (feeCoins S B [rebackFee] w3) (\<lambda>w4.
     Ok (w4, \<lparr>sbr_IronOut = ironOut, sbr_RebackFee = rebackFee\<rparr>))))))))))))"

section \<open>Collateral handlers\<close>

definition setCollateral ::
  "addr \<Rightarrow> AccountCollateral \<Rightarrow> PoolCollateral \<Rightarrow> TotalCollateral \<Rightarrow> 'b maker_world \<Rightarrow> 'b maker_world" where
  "setCollateral a acc pool tot w =
     w\<lparr>mk := SetTotalCollateral tot (SetPoolCollateral pool (SetAccountCollateral a acc (mk w)))\<rparr>"

definition MintByCollateral ::
  "sdk \<Rightarrow> 'b bank \<Rightarrow> ctx \<Rightarrow> MsgMintByCollateral \<Rightarrow> 'b maker_world \<Rightarrow> ('b maker_world \<times> coin) res" where
  "MintByCollateral S B ctx m w =
     rbind (getSenderReceiver S (mbc_Sender m) (mbc_To m)) (\<lambda>(sender, receiver).
     rbind (calculateMintByCollateral S ctx w sender (mbc_CollateralDenom m) (mbc_MintOut m))
       (\<lambda>(mintFee, tot, pool, acc).
     rbind (Coin_Add S (mbc_MintOut m) mintFee) (\<lambda>mintTotal.
     rbind (mintCoins S B [mintTotal] (setCollateral sender acc pool tot w)) (\<lambda>w1.
     rbind (payCoins S B receiver [mbc_MintOut m] w1) (\<lambda>w2.
     rbind (whenb (coin_IsPositive mintFee) (feeCoins S B [mintFee]) w2) (\<lambda>w3.
     Ok (w3, mintFee)))))))"

definition BurnByCollateral ::
  "sdk \<Rightarrow> 'b bank \<Rightarrow> ctx \<Rightarrow> MsgBurnByCollateral \<Rightarrow> 'b maker_world \<Rightarrow> ('b maker_world \<times> coin) res" where
  "BurnByCollateral S B ctx m w =
     rbind (getSenderReceiver S (bbc_Sender m) []) (\<lambda>(sender, _).
     let collateralDenom = bbc_CollateralDenom m in
     rbind (getAvailableCollateralParams w collateralDenom) (\<lambda>params.
     rbind (getCollateral S ctx w sender collateralDenom False) (\<lambda>(total0, pool0, acc0).
     rbind (deref (crp_InterestFee params)) (\<lambda>apr.
     rbind (settleInterestFee S ctx acc0 pool0 total0 apr) (\<lambda>(acc, pool, tot).
     ensure (coin_IsPositive (ac_GridDebt acc)) (MakerErr ErrAccountNoDebt) (
     let repayDenom = Denom (bbc_RepayInMax m) in
     rbind (NewCoin S repayDenom
              (min (Amount (ac_GridDebt acc)) (Amount (bbc_RepayInMax m)))) (\<lambda>repayIn.
     rbind (NewCoin S repayDenom (min (Amount (ac_LastInterest acc)) (Amount repayIn))) (\<lambda>repayInterest.
     rbind (Coin_Sub S repayIn repayInterest) (\<lambda>burn.
     rbind (Coin_Sub S (ac_LastInterest acc) repayInterest) (\<lambda>lastInterest.
     rbind (Coin_Sub S (ac_GridDebt acc) repayIn) (\<lambda>accDebt.
     rbind (Coin_Sub S (pc_GridDebt pool) repayIn) (\<lambda>poolDebt.
     rbind (Coin_Sub S (tc_GridDebt tot) repayIn) (\<lambda>totalDebt.
     rbind (takeCoins S B sender [repayIn]
              (setCollateral sender (acc\<lparr>ac_LastInterest := lastInterest, ac_GridDebt := accDebt\<rparr>)
                 (pool\<lparr>pc_GridDebt := poolDebt\<rparr>) (tot\<lparr>tc_GridDebt := totalDebt\<rparr>) w)) (\<lambda>w1.
     rbind (whenb (coin_IsPositive burn) (burnCoins S B [burn]) w1) (\<lambda>w2.
     rbind (whenb (coin_IsPositive repayInterest) (feeCoins S B [repayInterest]) w2) (\<lambda>w3.
     Ok (w3, repayIn)))))))))))))))))"

definition DepositCollateral ::
  "sdk \<Rightarrow> 'b bank \<Rightarrow> ctx \<Rightarrow> MsgDepositCollateral \<Rightarrow> 'b maker_world \<Rightarrow> 'b maker_world res" where
  "DepositCollateral S B ctx m w =
     (let collateralDenom = Denom (dc_CollateralIn m) in
     rbind (getSenderReceiver S (dc_Sender m) (dc_To m)) (\<lambda>(sender, receiver).
     rbind (getAvailableCollateralParams w collateralDenom) (\<lambda>params.
     rbind (getCollateral S ctx w receiver collateralDenom True) (\<lambda>(total0, pool0, acc0).
     rbind (deref (crp_InterestFee params)) (\<lambda>apr.
     rbind (settleInterestFee S ctx acc0 pool0 total0 apr) (\<lambda>(acc, pool, tot).
     rbind (Coin_Add S (ac_Collateral acc) (dc_CollateralIn m)) (\<lambda>accColl.
     rbind (Coin_Add S (pc_Collateral pool) (dc_CollateralIn m)) (\<lambda>poolColl.
     rbind (Coin_Add S (ac_IronCollateralized acc) (dc_IronIn m)) (\<lambda>accIron.
     rbind (Coin_Add S (pc_IronCollateralized pool) (dc_IronIn m)) (\<lambda>poolIron.
     rbind (Coin_Add S (tc_IronCollateralized tot) (dc_IronIn m)) (\<lambda>totalIron.
     ensure (\<not> over (crp_MaxCollateral params) (Amount poolColl)) (MakerErr ErrCollateralCeiling) (
     takeCoins S B sender [dc_CollateralIn m, dc_IronIn m]
       (setCollateral receiver
          (acc\<lparr>ac_Collateral := accColl, ac_IronCollateralized := accIron\<rparr>)
          (pool\<lparr>pc_Collateral := poolColl, pc_IronCollateralized := poolIron\<rparr>)
          (tot\<lparr>tc_IronCollateralized := totalIron\<rparr>) w)))))))))))))"

definition RedeemCollateral ::
  "sdk \<Rightarrow> 'b bank \<Rightarrow> ctx \<Rightarrow> MsgRedeemCollateral \<Rightarrow> 'b maker_world \<Rightarrow> 'b maker_world res" where
  "RedeemCollateral S B ctx m w =
     (let collateralDenom = Denom (rc_CollateralOut m) in
     rbind (getSenderReceiver S (rc_Sender m) (rc_To m)) (\<lambda>(sender, receiver).
     rbind (getAvailableCollateralParams w collateralDenom) (\<lambda>params.
     rbind (getCollateral S ctx w sender collateralDenom False) (\<lambda>(total0, pool0, acc0).
     rbind (deref (crp_InterestFee params)) (\<lambda>apr.
     rbind (settleInterestFee S ctx acc0 pool0 total0 apr) (\<lambda>(acc, pool, tot).
     rbind (Coin_Sub S (ac_Collateral acc) (rc_CollateralOut m)) (\<lambda>accColl.
     rbind (Coin_Sub S (pc_Collateral pool) (rc_CollateralOut m)) (\<lambda>poolColl.
     rbind (Coin_Sub S (ac_IronCollateralized acc) (rc_IronOut m)) (\<lambda>accIron.
     rbind (Coin_Sub S (pc_IronCollateralized pool) (rc_IronOut m)) (\<lambda>poolIron.
     rbind (Coin_Sub S (tc_IronCollateralized tot) (rc_IronOut m)) (\<lambda>totalIron.
     let acc' = acc\<lparr>ac_Collateral := accColl, ac_IronCollateralized := accIron\<rparr> in
     rbind (maxLoanToValueForAccount S w acc' params) (\<lambda>(_, maxDebtInUSD).
     ensure (\<not> Dec_Mul S (ToDec (Amount (ac_GridDebt acc'))) MicroUSMTarget > maxDebtInUSD)
       (MakerErr ErrAccountInsufficientCollateral) (
     payCoins S B receiver [rc_CollateralOut m, rc_IronOut m]
       (setCollateral sender acc'
          (pool\<lparr>pc_Collateral := poolColl, pc_IronCollateralized := poolIron\<rparr>)
          (tot\<lparr>tc_IronCollateralized := totalIron\<rparr>) w))))))))))))))"

definition LiquidateCollateral ::
  "sdk \<Rightarrow> 'b bank \<Rightarrow> ctx \<Rightarrow> MsgLiquidateCollateral \<Rightarrow> 'b maker_world \<Rightarrow>
   ('b maker_world \<times> MsgLiquidateCollateralResponse) res" where
  "LiquidateCollateral S B ctx m w =
     (let collateralDenom = Denom (lc_Collateral m) in
     rbind (getSenderReceiver S (lc_Sender m) (lc_To m)) (\<lambda>(sender, receiver).
     rbind (accAddress S (lc_Debtor m)) (\<lambda>debtor.
     rbind (getAvailableCollateralParams w collateralDenom) (\<lambda>params.
     rbind (getCollateral S ctx w debtor collateralDenom False) (\<lambda>(total0, pool0, acc0).
     rbind (deref (crp_InterestFee params)) (\<lambda>apr.
     rbind (settleInterestFee S ctx acc0 pool0 total0 apr) (\<lambda>(acc, pool, tot).
     rbind (GetExchangeRate (orc w) collateralDenom) (\<lambda>collateralPrice.
     rbind (deref (crp_LiquidationThreshold params)) (\<lambda>threshold.
     let liquidationValue =
           Dec_Mul S (Dec_Mul S (ToDec (Amount (ac_Collateral acc))) collateralPrice) threshold in
     ensure (\<not> Dec_Mul S (ToDec (Amount (ac_GridDebt acc))) MicroUSMTarget < liquidationValue)
       (MakerErr ErrNotUndercollateralized) (
     ensure (\<not> Amount (lc_Collateral m) > Amount (ac_Collateral acc))
       (MakerErr ErrCollateralCoinInsufficient) (
     rbind (deref (crp_LiquidationFee params)) (\<lambda>feeRate.
     let liquidationFee = Dec_Mul S (ToDec (Amount (lc_Collateral m))) feeRate in
     rbind (NewCoin S collateralDenom
              (Dec_TruncateInt S (Dec_Mul S liquidationFee (LiquidationCommissionFee (mk w))))) (\<lambda>commissionFee.
     rbind (Coin_Sub S (lc_Collateral m) commissionFee) (\<lambda>collateralOut.
     rbind (Dec_Quo S (Dec_Mul S (ToDec (Amount (lc_Collateral m)) - liquidationFee) collateralPrice)
              MicroUSMTarget) (\<lambda>q.
     rbind (NewCoin S MicroUSMDenom (Dec_TruncateInt S q)) (\<lambda>repayIn.
     rbind (Coin_IsLT S (lc_RepayInMax m) repayIn) (\<lambda>lt.
     ensure (\<not> lt) (MakerErr ErrGridSlippage) (
     rbind (NewCoin S MicroUSMDenom (min (Amount (ac_GridDebt acc)) (Amount repayIn))) (\<lambda>repayDebt.
     rbind (Coin_Sub S repayIn repayDebt) (\<lambda>gridRefund.
     rbind (NewCoin S MicroUSMDenom (min (Amount (ac_LastInterest acc)) (Amount repayDebt))) (\<lambda>repayInterest.
     rbind (Coin_Sub S (ac_LastInterest acc) repayInterest) (\<lambda>lastInterest.
     rbind (Coin_Sub S (ac_GridDebt acc) repayDebt) (\<lambda>accDebt.
     rbind (Coin_Sub S (pc_GridDebt pool) repayDebt) (\<lambda>poolDebt.
     rbind (Coin_Sub S (tc_GridDebt tot) repayDebt) (\<lambda>totalDebt.
     rbind (Coin_Sub S (ac_Collateral acc) (lc_Collateral m)) (\<lambda>accColl.
     rbind (Coin_Sub S (pc_Collateral pool) (lc_Collateral m)) (\<lambda>poolColl.
     rbind (takeCoins S B sender [repayIn]
              (setCollateral debtor
                 (acc\<lparr>ac_LastInterest := lastInterest, ac_GridDebt := accDebt, ac_Collateral := accColl\<rparr>)
                 (pool\<lparr>pc_GridDebt := poolDebt, pc_Collateral := poolColl\<rparr>)
                 (tot\<lparr>tc_GridDebt := totalDebt\<rparr>) w)) (\<lambda>w1.
     rbind (burnCoins S B [repayDebt] w1) (\<lambda>w2.
     rbind (whenb (coin_IsPositive gridRefund) (payCoins S B debtor [gridRefund]) w2) (\<lambda>w3.
     rbind (payCoins S B receiver [collateralOut] w3) (\<lambda>w4.
     rbind (feeCoins S B [commissionFee] w4) (\<lambda>w5.
     Ok (w5, \<lparr>lcr_RepayIn = repayIn, lcr_CollateralOut = collateralOut\<rparr>)))))))))))))))))))))))))))))))))"

end
