(* ===== verification/MakerGov.thy ===== *)
theory MakerGov
  imports MakerMsg
begin

text \<open>
  The governance side of the maker: the validation of the proposals (\<open>x/maker/types/proposal.go\<close>),
  their handlers (\<open>keeper/proposal_handler.go\<close>), the adjustment of the backing ratio at the end of
  a block (\<open>keeper/backing_ratio.go\<close>, \<open>abci.go\<close>) and genesis (\<open>genesis.go\<close>).  Of a proposal only
  the risk parameters matter here.
\<close>

section \<open>Validation of proposals (types/proposal.go)\<close>

definition unit_ratio :: "dec option \<Rightarrow> bool" where
  "unit_ratio r = (case r of None \<Rightarrow> True | Some d \<Rightarrow> \<not> (d < 0 \<or> d > dec_one))"

definition not_negative :: "int option \<Rightarrow> bool" where
  "not_negative r = (case r of None \<Rightarrow> True | Some i \<Rightarrow> \<not> i < 0)"

definition BackingRiskParams_ValidateBasic :: "BackingRiskParams \<Rightarrow> bool" where
  "BackingRiskParams_ValidateBasic p \<longleftrightarrow>
     not_negative (brp_MaxBacking p) \<and> not_negative (brp_MaxGridMint p) \<and>
     unit_ratio (brp_MintFee p) \<and> unit_ratio (brp_BurnFee p) \<and>
     unit_ratio (brp_BuybackFee p) \<and> unit_ratio (brp_RebackFee p)"

definition CollateralRiskParams_ValidateBasic :: "CollateralRiskParams \<Rightarrow> bool" where
  "CollateralRiskParams_ValidateBasic p \<longleftrightarrow>
     not_negative (crp_MaxCollateral p) \<and> not_negative (crp_MaxGridMint p) \<and>
     unit_ratio (crp_LiquidationThreshold p) \<and> unit_ratio (crp_LoanToValue p) \<and>
     unit_ratio (crp_BasicLoanToValue p) \<and> unit_ratio (crp_CatalyticIronRatio p) \<and>
     unit_ratio (crp_LiquidationFee p) \<and> unit_ratio (crp_MintFee p) \<and> unit_ratio (crp_InterestFee p)"

section \<open>Proposal handlers (keeper/proposal_handler.go)\<close>

definition default :: "'a \<Rightarrow> 'a option \<Rightarrow> 'a option" where
  "default d r = (case r of None \<Rightarrow> Some d | Some x \<Rightarrow> Some x)"

definition validateBackingRiskParams :: "maker_store \<Rightarrow> BackingRiskParams \<Rightarrow> unit res" where
  "validateBackingRiskParams s p =
     rbind (deref (brp_RebackFee p)) (\<lambda>rebackFee.
     ensure (\<not> rebackFee > RebackBonus s) (MakerErr ErrBackingParamsInvalid) (Ok ()))"

definition validateCollateralRiskParams :: "CollateralRiskParams \<Rightarrow> unit res" where
  "validateCollateralRiskParams p =
     rbind (deref (crp_LoanToValue p)) (\<lambda>ltv.
     rbind (deref (crp_LiquidationThreshold p)) (\<lambda>threshold.
     ensure (\<not> ltv \<ge> threshold) (MakerErr ErrCollateralParamsInvalid) (
     rbind (deref (crp_BasicLoanToValue p)) (\<lambda>basic.
     ensure (\<not> basic > ltv) (MakerErr ErrCollateralParamsInvalid) (Ok ())))))"

definition HandleRegisterBackingProposal ::
  "sdk \<Rightarrow> 'b bank \<Rightarrow> BackingRiskParams \<Rightarrow> 'b maker_world \<Rightarrow> 'b maker_world res" where
  "HandleRegisterBackingProposal S B p w =
     ensure (\<not> IsBackingRegistered (mk w) (brp_BackingDenom p)) (MakerErr ErrBackingCoinAlreadyExists) (
     ensure (HasSupply B (bnk w) (brp_BackingDenom p)) (SdkErr ErrInvalidCoins) (
     let params = p\<lparr>brp_MintFee := default 0 (brp_MintFee p),
                    brp_BurnFee := default 0 (brp_BurnFee p),
                    brp_BuybackFee := default 0 (brp_BuybackFee p),
                    brp_RebackFee := default 0 (brp_RebackFee p)\<rparr> in
     rbind (validateBackingRiskParams (mk w) params) (\<lambda>_.
     let s1 = SetBackingRiskParams params (mk w) in
     rbind (case GetTotalBacking s1 of
              Some _ \<Rightarrow> Ok s1
            | None \<Rightarrow>
                rbind (NewCoin S MicroUSMDenom 0) (\<lambda>minted.
                rbind (NewCoin S AttoIronDenom 0) (\<lambda>burned.
                Ok (SetTotalBacking \<lparr>tb_GridMinted = minted, tb_IronBurned = burned\<rparr> s1)))) (\<lambda>s2.
     rbind (NewCoin S MicroUSMDenom 0) (\<lambda>minted.
     rbind (NewCoin S (brp_BackingDenom params) 0) (\<lambda>backing.
     rbind (NewCoin S AttoIronDenom 0) (\<lambda>burned.
     Ok (w\<lparr>mk := SetPoolBacking \<lparr>pb_GridMinted = minted, pb_Backing = backing,
                                 pb_IronBurned = burned\<rparr> s2\<rparr>))))))))"

definition HandleRegisterCollateralProposal ::
  "sdk \<Rightarrow> 'b bank \<Rightarrow> CollateralRiskParams \<Rightarrow> 'b maker_world \<Rightarrow> 'b maker_world res" where
  "HandleRegisterCollateralProposal S B p w =
     ensure (\<not> IsCollateralRegistered (mk w) (crp_CollateralDenom p))
       (MakerErr ErrCollateralCoinAlreadyExists) (
     ensure (HasSupply B (bnk w) (crp_CollateralDenom p)) (SdkErr ErrInvalidCoins) (
     let params = p\<lparr>crp_LiquidationThreshold := default (70 * 10 ^ 16) (crp_LiquidationThreshold p),
                    crp_LoanToValue := default (60 * 10 ^ 16) (crp_LoanToValue p),
                    crp_BasicLoanToValue := default (40 * 10 ^ 16) (crp_BasicLoanToValue p),
                    crp_CatalyticIronRatio := default (10 * 10 ^ 16) (crp_CatalyticIronRatio p),
                    crp_LiquidationFee := default (10 * 10 ^ 16) (crp_LiquidationFee p),
                    crp_MintFee := default (5 * 10 ^ 15) (crp_MintFee p),
                    crp_InterestFee := default (1 * 10 ^ 16) (crp_InterestFee p)\<rparr> in
     rbind (validateCollateralRiskParams params) (\<lambda>_.
     let s1 = SetCollateralRiskParams params (mk w) in
     rbind (case GetTotalCollateral s1 of
              Some _ \<Rightarrow> Ok s1
            | None \<Rightarrow>
                rbind (NewCoin S MicroUSMDenom 0) (\<lambda>debt.
                rbind (NewCoin S AttoIronDenom 0) (\<lambda>iron.
                Ok (SetTotalCollateral \<lparr>tc_GridDebt = debt, tc_IronCollateralized = iron\<rparr> s1)))) (\<lambda>s2.
     rbind (NewCoin S (crp_CollateralDenom params) 0) (\<lambda>collateral.
     rbind (NewCoin S MicroUSMDenom 0) (\<lambda>debt.
     rbind (NewCoin S AttoIronDenom 0) (\<lambda>iron.
     Ok (w\<lparr>mk := SetPoolCollateral \<lparr>pc_Collateral = collateral, pc_GridDebt = debt,
                                    pc_IronCollateralized = iron\<rparr> s2\<rparr>))))))))"

text \<open>
  A patch assigns through the target pointer, so it panics where the stored field is nil.
\<close>

definition updateInt :: "int option \<Rightarrow> int option \<Rightarrow> (int option \<times> bool) res" where
  "updateInt target patch = (case patch of
       None \<Rightarrow> Ok (target, False)
     | Some v \<Rightarrow> (case target of None \<Rightarrow> Panic | Some _ \<Rightarrow> Ok (Some v, True)))"

definition updateDecimal :: "dec option \<Rightarrow> dec option \<Rightarrow> (dec option \<times> bool) res" where
  "updateDecimal target patch = (case patch of
       None \<Rightarrow> Ok (target, False)
     | Some v \<Rightarrow> (case target of None \<Rightarrow> Panic | Some _ \<Rightarrow> Ok (Some v, True)))"

definition setBackingRiskParamsProposal ::
  "BackingRiskParams \<Rightarrow> 'b maker_world \<Rightarrow> 'b maker_world res" where
  "setBackingRiskParamsProposal patch w =
     (case GetBackingRiskParams (mk w) (brp_BackingDenom patch) of
        None \<Rightarrow> Err (MakerErr ErrBackingCoinNotFound)
      | Some p \<Rightarrow>
          let u0 = (brp_Enabled p \<noteq> brp_Enabled patch) in
          rbind (updateInt (brp_MaxBacking p) (brp_MaxBacking patch)) (\<lambda>(f1, u1).
          rbind (updateInt (brp_MaxGridMint p) (brp_MaxGridMint patch)) (\<lambda>(f2, u2).
          rbind (updateDecimal (brp_MintFee p) (brp_MintFee patch)) (\<lambda>(f3, u3).
          rbind (updateDecimal (brp_BurnFee p) (brp_BurnFee patch)) (\<lambda>(f4, u4).
          rbind (updateDecimal (brp_BuybackFee p) (brp_BuybackFee patch)) (\<lambda>(f5, u5).
          rbind (updateDecimal (brp_RebackFee p) (brp_RebackFee patch)) (\<lambda>(f6, u6).
          let params = p\<lparr>brp_Enabled := brp_Enabled patch, brp_MaxBacking := f1,
                         brp_MaxGridMint := f2, brp_MintFee := f3, brp_BurnFee := f4,
                         brp_BuybackFee := f5, brp_RebackFee := f6\<rparr> in
          if u0 \<or> u1 \<or> u2 \<or> u3 \<or> u4 \<or> u5 \<or> u6 then
            rbind (validateBackingRiskParams (mk w) params) (\<lambda>_.
            Ok (w\<lparr>mk := SetBackingRiskParams params (mk w)\<rparr>))
          else Ok w)))))))"

definition setCollateralRiskParamsProposal ::
  "CollateralRiskParams \<Rightarrow> 'b maker_world \<Rightarrow> 'b maker_world res" where
  "setCollateralRiskParamsProposal patch w =
     (case GetCollateralRiskParams (mk w) (crp_CollateralDenom patch) of
        None \<Rightarrow> Err (MakerErr ErrCollateralCoinNotFound)
      | Some p \<Rightarrow>
          let u0 = (crp_Enabled p \<noteq> crp_Enabled patch) in
          rbind (updateInt (crp_MaxCollateral p) (crp_MaxCollateral patch)) (\<lambda>(f1, u1).
          rbind (updateInt (crp_MaxGridMint p) (crp_MaxGridMint patch)) (\<lambda>(f2, u2).
          rbind (updateDecimal (crp_LiquidationThreshold p) (crp_LiquidationThreshold patch)) (\<lambda>(f3, u3).
          rbind (updateDecimal (crp_LoanToValue p) (crp_LoanToValue patch)) (\<lambda>(f4, u4).
          rbind (updateDecimal (crp_BasicLoanToValue p) (crp_BasicLoanToValue patch)) (\<lambda>(f5, u5).
          rbind (updateDecimal (crp_CatalyticIronRatio p) (crp_CatalyticIronRatio patch)) (\<lambda>(f6, u6).
          rbind (updateDecimal (crp_LiquidationFee p) (crp_LiquidationFee patch)) (\<lambda>(f7, u7).
          rbind (updateDecimal (crp_MintFee p) (crp_MintFee patch)) (\<lambda>(f8, u8).
          rbind (updateDecimal (crp_InterestFee p) (crp_InterestFee patch)) (\<lambda>(f9, u9).
          let params = p\<lparr>crp_Enabled := crp_Enabled patch, crp_MaxCollateral := f1,
                         crp_MaxGridMint := f2, crp_LiquidationThreshold := f3,
                         crp_LoanToValue := f4, crp_BasicLoanToValue := f5,
                         crp_CatalyticIronRatio := f6, crp_LiquidationFee := f7,
                         crp_MintFee := f8, crp_InterestFee := f9\<rparr> in
          if u0 \<or> u1 \<or> u2 \<or> u3 \<or> u4 \<or> u5 \<or> u6 \<or> u7 \<or> u8 \<or> u9 then
            rbind (validateCollateralRiskParams params) (\<lambda>_.
            Ok (w\<lparr>mk := SetCollateralRiskParams params (mk w)\<rparr>))
          else Ok w))))))))))"

fun HandleBatchSetBackingRiskParamsProposal ::
  "BackingRiskParams list \<Rightarrow> 'b maker_world \<Rightarrow> 'b maker_world res" where
  "HandleBatchSetBackingRiskParamsProposal [] w = Ok w"
| "HandleBatchSetBackingRiskParamsProposal (p # ps) w =
     rbind (setBackingRiskParamsProposal p w) (HandleBatchSetBackingRiskParamsProposal ps)"

fun HandleBatchSetCollateralRiskParamsProposal ::
  "CollateralRiskParams list \<Rightarrow> 'b maker_world \<Rightarrow> 'b maker_world res" where
  "HandleBatchSetCollateralRiskParamsProposal [] w = Ok w"
| "HandleBatchSetCollateralRiskParamsProposal (p # ps) w =
     rbind (setCollateralRiskParamsProposal p w) (HandleBatchSetCollateralRiskParamsProposal ps)"

section \<open>Adjusting the backing ratio (backing_ratio.go, abci.go)\<close>

definition AdjustBackingRatio :: "sdk \<Rightarrow> ctx \<Rightarrow> 'b maker_world \<Rightarrow> 'b maker_world res" where
  "AdjustBackingRatio S ctx w =
     (if BlockHeight ctx - GetBackingRatioLastBlock (mk w) < BackingRatioCooldownPeriod (mk w) then Ok w
      else
        let ratioStep = BackingRatioStep (mk w) in
        if ratioStep = 0 then Ok w
        else
          let backingRatio = GetBackingRatio (mk w);
              priceBand = Dec_Mul S MicroUSMTarget (BackingRatioPriceBand (mk w)) in
          case GetExchangeRate (orc w) MicroUSMDenom of
            Ok gridPrice \<Rightarrow>
              let newRatio =
                    (if gridPrice > MicroUSMTarget + priceBand then max (backingRatio - ratioStep) 0
                     else if gridPrice < MicroUSMTarget - priceBand then min (backingRatio + ratioStep) dec_one
                     else backingRatio) in
              rbind (SetBackingRatioLastBlock (BlockHeight ctx) (SetBackingRatio newRatio (mk w))) (\<lambda>s.
              Ok (w\<lparr>mk := s\<rparr>))
          | _ \<Rightarrow> Panic)"

definition maker_EndBlocker :: "sdk \<Rightarrow> ctx \<Rightarrow> 'b maker_world \<Rightarrow> 'b maker_world res" where
  "maker_EndBlocker S ctx w = AdjustBackingRatio S ctx w"

section \<open>Genesis (genesis.go)\<close>

record MakerGenesis =
  mg_Params :: MakerParams
  mg_BackingRatio :: dec

definition maker_empty :: "MakerParams \<Rightarrow> maker_store" where
  "maker_empty p =
   \<lparr>backing_ratio = None, backing_ratio_last_block = None, backing_params = [],
    collateral_params = [], backing_total = None, collateral_total = None, backing_pool = [],
    collateral_pool = [], collateral_account = [], maker_params = p\<rparr>"

definition MakerDefaultGenesis :: MakerGenesis where
  "MakerDefaultGenesis = \<lparr>mg_Params = MakerDefaultParams, mg_BackingRatio = dec_one\<rparr>"

definition maker_InitGenesis :: "MakerGenesis \<Rightarrow> maker_store \<Rightarrow> maker_store" where
  "maker_InitGenesis g s = SetBackingRatio (mg_BackingRatio g) (maker_SetParams (mg_Params g) s)"

definition maker_ExportGenesis :: "maker_store \<Rightarrow> MakerGenesis" where
  "maker_ExportGenesis s =
     MakerDefaultGenesis\<lparr>mg_Params := maker_GetParams s, mg_BackingRatio := GetBackingRatio s\<rparr>"

end
