(* ===== verification/MakerInv.thy ===== *)
theory MakerInv
  imports MakerGov
begin

text \<open>
  The accounting invariant of the maker and its preservation.

  \<^item> The effect of the bank calls on the module account, the supply and everybody else.
  \<^item> The invariant: every section is keyed by its own denomination, no amount that is a holding is
    negative, the unpaid interest of an account is part of its debt, the debts and the collateralized
    Iron of the accounts add up to those of their pool and the pools to the total, and the pools'
    minted Grid and burned Iron add up to the total.
  \<^item> Two effect predicates, \<open>backing_effect\<close> and \<open>coll_effect\<close>: what any handler may do to the backing
    and to the collateral sections.  Both preserve the invariant; each handler is shown to have one
    of them.
\<close>

section \<open>Bank calls\<close>

lemma cs_amt_Nil [simp]: "cs_amt [] d = 0"
  by (simp add: cs_amt_def)

lemma cs_amt_Cons [simp]: "cs_amt (c # cs) d = (if Denom c = d then Amount c else 0) + cs_amt cs d"
  by (simp add: cs_amt_def)

definition mbal :: "'b bank \<Rightarrow> 'b maker_world \<Rightarrow> denom \<Rightarrow> int" where
  "mbal B w d = bal B (bnk w) (GetModuleAddress B ''maker'') d"

lemma coin_AddAmount_0 [simp]: "coin_AddAmount c 0 = c"
  by (simp add: coin_AddAmount_def)

lemma coin_AddAmount_sel [simp]:
  "Denom (coin_AddAmount c i) = Denom c" "Amount (coin_AddAmount c i) = Amount c + i"
  by (simp_all add: coin_AddAmount_def)

lemma coin_AddAmount_AddAmount [simp]: "coin_AddAmount (coin_AddAmount c i) j = coin_AddAmount c (i + j)"
  by (simp add: coin_AddAmount_def)

lemma coin_AddAmount_eq [simp]:
  "\<lparr>Denom = Denom c, Amount = Amount c + i\<rparr> = coin_AddAmount c i"
  by (simp add: coin_AddAmount_def)

lemma coin_AddAmount_diff [simp]:
  "\<lparr>Denom = Denom c, Amount = Amount c - i\<rparr> = coin_AddAmount c (- i)"
  by (simp add: coin_AddAmount_def)

context chain_laws
begin

lemma takeCoins_ok:
  assumes "takeCoins S B a cs w = Ok w'"
  shows "mk w' = mk w" "orc w' = orc w" "c \<in> set cs \<Longrightarrow> 0 \<le> Amount c"
    and "mbal B w' d = mbal B w d + (if a = GetModuleAddress B ''maker'' then 0 else cs_amt cs d)"
    and "supply_of B (bnk w') d = supply_of B (bnk w) d"
    and "bal B (bnk w') x d = bal B (bnk w) x d - (if x = a then cs_amt cs d else 0)
           + (if x = GetModuleAddress B ''maker'' then cs_amt cs d else 0)"
  using assms
  by (auto simp: takeCoins_def res_simps mbal_def moved_bal moved_supply NewCoins_amt NewCoins_pos)

lemma payCoins_ok:
  assumes "payCoins S B a cs w = Ok w'"
  shows "mk w' = mk w" "orc w' = orc w" "c \<in> set cs \<Longrightarrow> 0 \<le> Amount c"
    and "mbal B w' d = mbal B w d - (if a = GetModuleAddress B ''maker'' then 0 else cs_amt cs d)"
    and "supply_of B (bnk w') d = supply_of B (bnk w) d"
    and "bal B (bnk w') x d = bal B (bnk w) x d + (if x = a then cs_amt cs d else 0)
           - (if x = GetModuleAddress B ''maker'' then cs_amt cs d else 0)"
  using assms
  by (auto simp: payCoins_def res_simps mbal_def moved_bal moved_supply NewCoins_amt NewCoins_pos)

lemma feeCoins_ok:
  assumes "feeCoins S B cs w = Ok w'"
  shows "mk w' = mk w" "orc w' = orc w" "c \<in> set cs \<Longrightarrow> 0 \<le> Amount c"
    and "mbal B w' d = mbal B w d - cs_amt cs d"
    and "supply_of B (bnk w') d = supply_of B (bnk w) d"
    and "bal B (bnk w') x d = bal B (bnk w) x d
           + (if x = GetModuleAddress B ''oracle'' then cs_amt cs d else 0)
           - (if x = GetModuleAddress B ''maker'' then cs_amt cs d else 0)"
  using assms GetModuleAddress_inj [of "''maker''" "''oracle''"]
  by (auto simp: feeCoins_def res_simps mbal_def moved_bal moved_supply NewCoins_amt NewCoins_pos pool_account_def)

lemma mintCoins_ok:
  assumes "mintCoins S B cs w = Ok w'"
  shows "mk w' = mk w" "orc w' = orc w" "c \<in> set cs \<Longrightarrow> 0 \<le> Amount c"
    and "mbal B w' d = mbal B w d + cs_amt cs d"
    and "supply_of B (bnk w') d = supply_of B (bnk w) d + cs_amt cs d"
    and "bal B (bnk w') x d = bal B (bnk w) x d
           + (if x = GetModuleAddress B ''maker'' then cs_amt cs d else 0)"
  using assms
  by (auto simp: mintCoins_def res_simps mbal_def moved_bal moved_supply NewCoins_amt NewCoins_pos)

lemma burnCoins_ok:
  assumes "burnCoins S B cs w = Ok w'"
  shows "mk w' = mk w" "orc w' = orc w" "c \<in> set cs \<Longrightarrow> 0 \<le> Amount c"
    and "mbal B w' d = mbal B w d - cs_amt cs d"
    and "supply_of B (bnk w') d = supply_of B (bnk w) d - cs_amt cs d"
    and "bal B (bnk w') x d = bal B (bnk w) x d
           - (if x = GetModuleAddress B ''maker'' then cs_amt cs d else 0)"
  using assms
  by (auto simp: burnCoins_def res_simps mbal_def moved_bal moved_supply NewCoins_amt NewCoins_pos)

lemma computeFee_ok:
  "computeFee S c r = Ok f \<Longrightarrow> Denom f = Denom c \<and> 0 \<le> Amount f"
  by (auto simp: computeFee_def sdk_simps split: if_splits)

text \<open>A fee at a rate in \<open>[0, 1]\<close> of a nonnegative coin never exceeds the coin.\<close>

lemma computeFee_bound:
  assumes "computeFee S c r = Ok f" "0 \<le> Amount c" "\<And>q. r = Some q \<Longrightarrow> q \<le> dec_one"
  shows "Amount f \<le> Amount c"
proof (cases r)
  case None
  with assms show ?thesis by (auto simp: computeFee_def sdk_simps split: if_splits)
next
  case (Some q)
  have "Amount c * q \<le> Amount c * dec_one"
    using assms(2) assms(3) [OF Some] by (rule mult_left_mono [rotated])
  then have "Dec_RoundInt S (Amount c * q) \<le> Amount c"
    by (rule RoundInt_le)
  with assms(1) Some show ?thesis by (auto simp: computeFee_def sdk_simps split: if_splits)
qed

lemma interestOfPeriod_nonneg:
  assumes "interestOfPeriod S debt apr period = Ok i" "0 \<le> debt" "0 \<le> apr" "0 \<le> period"
  shows "0 \<le> i"
proof -
  have "0 \<le> debt * apr * period" using assms by simp
  then have "0 \<le> (debt * apr * period) sdiv int BlocksPerYear"
    by (simp add: sdiv_div blocks_defs pos_imp_zdiv_nonneg_iff)
  then show ?thesis
    using assms(1) by (auto simp: interestOfPeriod_def QuoInt_sdiv sdk_simps res_simps
        intro!: RoundInt_nonneg split: if_splits)
qed

lemma settleInterestFee_ok:
  assumes "settleInterestFee S ctx acc pool tot apr = Ok (acc', pool', tot')"
  obtains i where
    "acc' = acc\<lparr>ac_LastInterest := coin_AddAmount (ac_LastInterest acc) i,
                ac_GridDebt := coin_AddAmount (ac_GridDebt acc) i,
                ac_LastSettlementBlock := BlockHeight ctx\<rparr>"
    "pool' = pool\<lparr>pc_GridDebt := coin_AddAmount (pc_GridDebt pool) i\<rparr>"
    "tot' = tot\<lparr>tc_GridDebt := coin_AddAmount (tc_GridDebt tot) i\<rparr>"
    "0 \<le> apr \<Longrightarrow> ac_LastSettlementBlock acc \<le> BlockHeight ctx \<Longrightarrow> 0 \<le> i"
proof (cases "BlockHeight ctx = ac_LastSettlementBlock acc")
  case True
  with assms that [of 0] show ?thesis by (simp add: settleInterestFee_def)
next
  case False
  with assms obtain p i where p: "Coin_Sub S (ac_GridDebt acc) (ac_LastInterest acc) = Ok p"
    and i: "interestOfPeriod S (Amount p) apr (BlockHeight ctx - ac_LastSettlementBlock acc) = Ok i"
    and eqs: "acc' = acc\<lparr>ac_LastInterest := coin_AddAmount (ac_LastInterest acc) i,
                ac_GridDebt := coin_AddAmount (ac_GridDebt acc) i,
                ac_LastSettlementBlock := BlockHeight ctx\<rparr>"
    "pool' = pool\<lparr>pc_GridDebt := coin_AddAmount (pc_GridDebt pool) i\<rparr>"
    "tot' = tot\<lparr>tc_GridDebt := coin_AddAmount (tc_GridDebt tot) i\<rparr>"
    by (auto simp: settleInterestFee_def Let_def res_simps)
  have "0 \<le> Amount p" using p by (auto simp: sdk_simps split: if_splits)
  with that [OF eqs] interestOfPeriod_nonneg [OF i] show ?thesis by simp
qed

end

section \<open>The invariant\<close>

definition pb_shape :: "denom \<Rightarrow> PoolBacking \<Rightarrow> bool" where
  "pb_shape d p \<longleftrightarrow> Denom (pb_Backing p) = d \<and> Denom (pb_GridMinted p) = MicroUSMDenom \<and>
     Denom (pb_IronBurned p) = AttoIronDenom \<and> 0 \<le> Amount (pb_Backing p)"

definition pc_shape :: "denom \<Rightarrow> PoolCollateral \<Rightarrow> bool" where
  "pc_shape d p \<longleftrightarrow> Denom (pc_Collateral p) = d \<and> Denom (pc_GridDebt p) = MicroUSMDenom \<and>
     Denom (pc_IronCollateralized p) = AttoIronDenom"

definition ac_shape :: "int \<Rightarrow> denom \<Rightarrow> AccountCollateral \<Rightarrow> bool" where
  "ac_shape h d c \<longleftrightarrow> Denom (ac_Collateral c) = d \<and> Denom (ac_GridDebt c) = MicroUSMDenom \<and>
     Denom (ac_IronCollateralized c) = AttoIronDenom \<and> Denom (ac_LastInterest c) = MicroUSMDenom \<and>
     0 \<le> Amount (ac_Collateral c) \<and> 0 \<le> Amount (ac_IronCollateralized c) \<and>
     0 \<le> Amount (ac_LastInterest c) \<and> Amount (ac_LastInterest c) \<le> Amount (ac_GridDebt c) \<and>
     ac_LastSettlementBlock c \<le> h"

text \<open>The amounts of one account, counted for one collateral denomination.\<close>

abbreviation acColl :: "addr \<times> denom \<Rightarrow> AccountCollateral \<Rightarrow> int" where
  "acColl k c \<equiv> Amount (ac_Collateral c)"

abbreviation acDebt :: "addr \<times> denom \<Rightarrow> AccountCollateral \<Rightarrow> int" where
  "acDebt k c \<equiv> Amount (ac_GridDebt c)"

abbreviation acIron :: "addr \<times> denom \<Rightarrow> AccountCollateral \<Rightarrow> int" where
  "acIron k c \<equiv> Amount (ac_IronCollateralized c)"

definition in_denom ::
  "denom \<Rightarrow> (addr \<times> denom \<Rightarrow> AccountCollateral \<Rightarrow> int) \<Rightarrow> addr \<times> denom \<Rightarrow> AccountCollateral \<Rightarrow> int" where
  "in_denom d f k c = (if snd k = d then f k c else 0)"

definition inv_backing :: "maker_store \<Rightarrow> bool" where
  "inv_backing s \<longleftrightarrow> kv_wf (backing_pool s) \<and>
     (\<forall>d p. kv_get (backing_pool s) d = Some p \<longrightarrow> pb_shape d p) \<and>
     (case backing_total s of
        None \<Rightarrow> backing_pool s = []
      | Some t \<Rightarrow> Denom (tb_GridMinted t) = MicroUSMDenom \<and> Denom (tb_IronBurned t) = AttoIronDenom \<and>
          Amount (tb_GridMinted t) = kv_sum (\<lambda>_ p. Amount (pb_GridMinted p)) (backing_pool s) \<and>
          Amount (tb_IronBurned t) = kv_sum (\<lambda>_ p. Amount (pb_IronBurned p)) (backing_pool s))"

definition inv_coll :: "int \<Rightarrow> maker_store \<Rightarrow> bool" where
  "inv_coll h s \<longleftrightarrow> kv_wf (collateral_pool s) \<and> kv_wf (collateral_account s) \<and>
     (\<forall>d p. kv_get (collateral_pool s) d = Some p \<longrightarrow> pc_shape d p \<and>
        Amount (pc_Collateral p) = kv_sum (in_denom d acColl) (collateral_account s) \<and>
        Amount (pc_GridDebt p) = kv_sum (in_denom d acDebt) (collateral_account s) \<and>
        Amount (pc_IronCollateralized p) = kv_sum (in_denom d acIron) (collateral_account s)) \<and>
     (\<forall>a d c. kv_get (collateral_account s) (a, d) = Some c \<longrightarrow>
        ac_shape h d c \<and> kv_get (collateral_pool s) d \<noteq> None) \<and>
     (case collateral_total s of
        None \<Rightarrow> collateral_pool s = []
      | Some t \<Rightarrow> Denom (tc_GridDebt t) = MicroUSMDenom \<and>
          Denom (tc_IronCollateralized t) = AttoIronDenom \<and>
          Amount (tc_GridDebt t) = kv_sum (\<lambda>_ p. Amount (pc_GridDebt p)) (collateral_pool s) \<and>
          Amount (tc_IronCollateralized t)
            = kv_sum (\<lambda>_ p. Amount (pc_IronCollateralized p)) (collateral_pool s))"

text \<open>The collateral parameters a registered denomination always has.\<close>

definition crp_ok :: "CollateralRiskParams \<Rightarrow> bool" where
  "crp_ok p \<longleftrightarrow> CollateralRiskParams_ValidateBasic p \<and>
     crp_LiquidationThreshold p \<noteq> None \<and> crp_LoanToValue p \<noteq> None \<and>
     crp_BasicLoanToValue p \<noteq> None \<and> crp_CatalyticIronRatio p \<noteq> None \<and>
     crp_LiquidationFee p \<noteq> None \<and> crp_MintFee p \<noteq> None \<and> crp_InterestFee p \<noteq> None \<and>
     the (crp_BasicLoanToValue p) \<le> the (crp_LoanToValue p) \<and>
     the (crp_LoanToValue p) < the (crp_LiquidationThreshold p)"

definition brp_ok :: "BackingRiskParams \<Rightarrow> bool" where
  "brp_ok p \<longleftrightarrow> BackingRiskParams_ValidateBasic p \<and>
     brp_MintFee p \<noteq> None \<and> brp_BurnFee p \<noteq> None \<and> brp_BuybackFee p \<noteq> None \<and> brp_RebackFee p \<noteq> None"

definition inv_params :: "maker_store \<Rightarrow> bool" where
  "inv_params s \<longleftrightarrow> kv_wf (backing_params s) \<and> kv_wf (collateral_params s) \<and>
     (\<forall>d p. kv_get (backing_params s) d = Some p \<longrightarrow> brp_BackingDenom p = d \<and> brp_ok p) \<and>
     (\<forall>d p. kv_get (collateral_params s) d = Some p \<longrightarrow> crp_CollateralDenom p = d \<and> crp_ok p) \<and>
     (\<forall>d. kv_get (backing_pool s) d \<noteq> None \<longrightarrow> kv_get (backing_params s) d \<noteq> None) \<and>
     (\<forall>d. kv_get (collateral_pool s) d \<noteq> None \<longrightarrow> kv_get (collateral_params s) d \<noteq> None)"

definition inv_ratio :: "maker_store \<Rightarrow> bool" where
  "inv_ratio s \<longleftrightarrow> maker_params_ok (maker_params s) \<and> 0 \<le> GetBackingRatio s \<and> GetBackingRatio s \<le> dec_one"

text \<open>What the module account owes in one denomination, and that it has it.\<close>

definition owed :: "maker_store \<Rightarrow> denom \<Rightarrow> int" where
  "owed s d = kv_at (\<lambda>_ p. Amount (pb_Backing p)) (backing_pool s) d +
     kv_at (\<lambda>_ p. Amount (pc_Collateral p)) (collateral_pool s) d +
     (if d = AttoIronDenom
      then (case collateral_total s of None \<Rightarrow> 0 | Some t \<Rightarrow> Amount (tc_IronCollateralized t)) else 0)"

definition solvent :: "'b bank \<Rightarrow> 'b maker_world \<Rightarrow> bool" where
  "solvent B w \<longleftrightarrow> (\<forall>d. owed (mk w) d \<le> mbal B w d)"

section \<open>Effects\<close>

definition backing_effect :: "denom \<Rightarrow> int \<Rightarrow> int \<Rightarrow> int \<Rightarrow> maker_store \<Rightarrow> maker_store \<Rightarrow> bool" where
  "backing_effect d dM dB dI s s' \<longleftrightarrow>
     (\<exists>t p t' p'. backing_total s = Some t \<and> kv_get (backing_pool s) d = Some p \<and>
        s' = SetTotalBacking t' (SetPoolBacking p' s) \<and>
        pb_GridMinted p' = coin_AddAmount (pb_GridMinted p) dM \<and>
        pb_Backing p' = coin_AddAmount (pb_Backing p) dB \<and>
        pb_IronBurned p' = coin_AddAmount (pb_IronBurned p) dI \<and>
        tb_GridMinted t' = coin_AddAmount (tb_GridMinted t) dM \<and>
        tb_IronBurned t' = coin_AddAmount (tb_IronBurned t) dI \<and>
        0 \<le> Amount (pb_Backing p) + dB)"

definition coll_effect ::
  "int \<Rightarrow> addr \<Rightarrow> denom \<Rightarrow> int \<Rightarrow> int \<Rightarrow> int \<Rightarrow> maker_store \<Rightarrow> maker_store \<Rightarrow> bool" where
  "coll_effect h a d dC dD dI s s' \<longleftrightarrow>
     (\<exists>t p t' p' c'. collateral_total s = Some t \<and> kv_get (collateral_pool s) d = Some p \<and>
        s' = SetTotalCollateral t' (SetPoolCollateral p' (SetAccountCollateral a c' s)) \<and>
        pc_Collateral p' = coin_AddAmount (pc_Collateral p) dC \<and>
        pc_GridDebt p' = coin_AddAmount (pc_GridDebt p) dD \<and>
        pc_IronCollateralized p' = coin_AddAmount (pc_IronCollateralized p) dI \<and>
        tc_GridDebt t' = coin_AddAmount (tc_GridDebt t) dD \<and>
        tc_IronCollateralized t' = coin_AddAmount (tc_IronCollateralized t) dI \<and>
        ac_shape h d c' \<and>
        acColl (a, d) c' = kv_at acColl (collateral_account s) (a, d) + dC \<and>
        acDebt (a, d) c' = kv_at acDebt (collateral_account s) (a, d) + dD \<and>
        acIron (a, d) c' = kv_at acIron (collateral_account s) (a, d) + dI)"

lemma backing_effect_frame:
  assumes "backing_effect d dM dB dI s s'"
  shows "collateral_pool s' = collateral_pool s" "collateral_account s' = collateral_account s"
    "collateral_total s' = collateral_total s" "backing_params s' = backing_params s"
    "collateral_params s' = collateral_params s" "maker_params s' = maker_params s"
    "backing_ratio s' = backing_ratio s" "backing_ratio_last_block s' = backing_ratio_last_block s"
  using assms by (auto simp: backing_effect_def maker_accessors)

lemma coll_effect_frame:
  assumes "coll_effect h a d dC dD dI s s'"
  shows "backing_pool s' = backing_pool s" "backing_total s' = backing_total s"
    "backing_params s' = backing_params s" "collateral_params s' = collateral_params s"
    "maker_params s' = maker_params s" "backing_ratio s' = backing_ratio s"
    "backing_ratio_last_block s' = backing_ratio_last_block s"
  using assms by (auto simp: coll_effect_def maker_accessors)

lemma backing_effect_inv:
  assumes "backing_effect d dM dB dI s s'" "inv_backing s"
  shows "inv_backing s'"
proof -
  obtain t p t' p' where e: "backing_total s = Some t" "kv_get (backing_pool s) d = Some p"
    "s' = SetTotalBacking t' (SetPoolBacking p' s)"
    "pb_GridMinted p' = coin_AddAmount (pb_GridMinted p) dM"
    "pb_Backing p' = coin_AddAmount (pb_Backing p) dB"
    "pb_IronBurned p' = coin_AddAmount (pb_IronBurned p) dI"
    "tb_GridMinted t' = coin_AddAmount (tb_GridMinted t) dM"
    "tb_IronBurned t' = coin_AddAmount (tb_IronBurned t) dI"
    "0 \<le> Amount (pb_Backing p) + dB"
    using assms(1) unfolding backing_effect_def by blast
  have p: "pb_shape d p" using e assms(2) by (simp add: inv_backing_def)
  then have p': "pb_shape d p'" using e by (simp add: pb_shape_def)
  then have s': "backing_pool s' = kv_set d p' (backing_pool s)" "backing_total s' = Some t'"
    using e by (simp_all add: maker_accessors pb_shape_def)
  show ?thesis
    using assms(2) e(1,2,4-) p p'
    by (auto simp: inv_backing_def s' kv_sum_set kv_at_def)
qed

lemma backing_effect_owed:
  assumes "backing_effect d dM dB dI s s'" "inv_backing s"
  shows "owed s' x = owed s x + (if x = d then dB else 0)"
proof -
  obtain t p t' p' where e: "kv_get (backing_pool s) d = Some p"
    "s' = SetTotalBacking t' (SetPoolBacking p' s)" "pb_Backing p' = coin_AddAmount (pb_Backing p) dB"
    using assms(1) unfolding backing_effect_def by blast
  then have "Denom (pb_Backing p') = d" using assms(2) by (auto simp: inv_backing_def pb_shape_def)
  with e show ?thesis by (auto simp: owed_def kv_at_def maker_accessors)
qed

lemma in_denom_at:
  "kv_at (in_denom d' f) s (a, d) = (if d = d' then kv_at f s (a, d) else 0)"
  by (simp add: kv_at_def in_denom_def split: option.split)

lemma coll_effect_inv:
  assumes "coll_effect h a d dC dD dI s s'" "inv_coll h s"
  shows "inv_coll h s'"
proof -
  obtain t p t' p' c' where e: "collateral_total s = Some t" "kv_get (collateral_pool s) d = Some p"
    "s' = SetTotalCollateral t' (SetPoolCollateral p' (SetAccountCollateral a c' s))"
    "pc_Collateral p' = coin_AddAmount (pc_Collateral p) dC"
    "pc_GridDebt p' = coin_AddAmount (pc_GridDebt p) dD"
    "pc_IronCollateralized p' = coin_AddAmount (pc_IronCollateralized p) dI"
    "tc_GridDebt t' = coin_AddAmount (tc_GridDebt t) dD"
    "tc_IronCollateralized t' = coin_AddAmount (tc_IronCollateralized t) dI"
    and c': "ac_shape h d c'"
    and amts: "acColl (a, d) c' = kv_at acColl (collateral_account s) (a, d) + dC"
    "acDebt (a, d) c' = kv_at acDebt (collateral_account s) (a, d) + dD"
    "acIron (a, d) c' = kv_at acIron (collateral_account s) (a, d) + dI"
    using assms(1) unfolding coll_effect_def by blast
  have p: "pc_shape d p" using e assms(2) by (simp add: inv_coll_def)
  then have p': "pc_shape d p'" using e by (simp add: pc_shape_def)
  have s': "collateral_pool s' = kv_set d p' (collateral_pool s)"
    "collateral_account s' = kv_set (a, d) c' (collateral_account s)" "collateral_total s' = Some t'"
    using e p' c' by (simp_all add: maker_accessors pc_shape_def ac_shape_def)
  have wf: "kv_wf (collateral_account s)" "kv_wf (collateral_pool s)"
    using assms(2) by (simp_all add: inv_coll_def)
  have sums: "kv_sum (in_denom x f) (collateral_account s')
      = kv_sum (in_denom x f) (collateral_account s)
        + (if x = d then f (a, d) c' - kv_at f (collateral_account s) (a, d) else 0)" for x f
    unfolding s' using wf by (simp add: kv_sum_set in_denom_at) (simp add: in_denom_def)
  show ?thesis
    unfolding inv_coll_def sums using assms(2) e(1,2,4-) p p' c' wf
    by (auto simp: inv_coll_def s' kv_sum_set kv_at_def amts)
qed

lemma coll_effect_owed:
  assumes "coll_effect h a d dC dD dI s s'" "inv_coll h s"
  shows "owed s' x = owed s x + (if x = d then dC else 0) + (if x = AttoIronDenom then dI else 0)"
proof -
  obtain t p t' p' c' where e: "collateral_total s = Some t" "kv_get (collateral_pool s) d = Some p"
    "s' = SetTotalCollateral t' (SetPoolCollateral p' (SetAccountCollateral a c' s))"
    "pc_Collateral p' = coin_AddAmount (pc_Collateral p) dC"
    "tc_IronCollateralized t' = coin_AddAmount (tc_IronCollateralized t) dI"
    using assms(1) unfolding coll_effect_def by blast
  then have "Denom (pc_Collateral p') = d" using assms(2) by (auto simp: inv_coll_def pc_shape_def)
  with e show ?thesis by (auto simp: owed_def kv_at_def maker_accessors)
qed

end
