(* ===== verification/MakerSteps.thy ===== *)
theory MakerSteps
  imports MakerInv
begin

text \<open>
  The handlers of the maker, one by one: what a success of each implies (the inversion lemmas
  \<open>..._ok\<close>), and that its effect on the store is a \<open>backing_effect\<close> or a \<open>coll_effect\<close> matched by the
  change of the module account.  The sender of a message is never the module account itself, which
  has no key.
\<close>

context chain_laws
begin

subsection \<open>Coins\<close>

lemma NewCoin_ok: "NewCoin S d i = Ok c \<Longrightarrow> Denom c = d \<and> Amount c = i \<and> 0 \<le> i"
  by (auto simp: sdk_simps split: if_splits)

lemma Coin_Add_ok: "Coin_Add S c e = Ok f \<Longrightarrow> Denom c = Denom e \<and> f = coin_AddAmount c (Amount e)"
  by (auto simp: sdk_simps split: if_splits)

lemma Coin_Sub_ok:
  "Coin_Sub S c e = Ok f \<Longrightarrow> Denom c = Denom e \<and> Amount e \<le> Amount c \<and> f = coin_AddAmount c (- Amount e)"
  by (auto simp: sdk_simps split: if_splits)

lemma Coin_IsLT_ok: "Coin_IsLT S c e = Ok b \<Longrightarrow> Denom c = Denom e \<and> b = (Amount c < Amount e)"
  by (auto simp: sdk_simps split: if_splits)

lemmas coin_oks = NewCoin_ok Coin_Add_ok Coin_Sub_ok Coin_IsLT_ok computeFee_ok

subsection \<open>Mint and burn by swap\<close>

lemma backing_effectI:
  assumes "backing_total s = Some t" "kv_get (backing_pool s) d = Some p"
    and "s' = SetTotalBacking t' (SetPoolBacking p' s)"
    and "pb_GridMinted p' = coin_AddAmount (pb_GridMinted p) dM"
    and "pb_Backing p' = coin_AddAmount (pb_Backing p) dB"
    and "pb_IronBurned p' = coin_AddAmount (pb_IronBurned p) dI"
    and "tb_GridMinted t' = coin_AddAmount (tb_GridMinted t) dM"
    and "tb_IronBurned t' = coin_AddAmount (tb_IronBurned t) dI"
    and "0 \<le> Amount (pb_Backing p) + dB"
  shows "backing_effect d dM dB dI s s'"
  unfolding backing_effect_def using assms by blast

lemma getBacking_ok:
  assumes "getBacking w d = Ok (t, p)"
  shows "backing_total (mk w) = Some t" "kv_get (backing_pool (mk w)) d = Some p"
    "inv_backing (mk w) \<Longrightarrow> 0 \<le> Amount (pb_Backing p)"
  using assms by (auto simp: getBacking_def maker_accessors inv_backing_def pb_shape_def split: option.splits)

lemma mintFractional_ok:
  assumes "mintFractional S r bp ip bm im b0 i0 = Ok (v, b, i)"
  obtains (backing) max1 max2 q capped where
    "Dec_Quo S (bp * Amount bm) r = Ok max1" "Dec_Quo S (ip * Amount im) (dec_one - r) = Ok max2"
    "coin_IsPositive bm" "coin_IsZero im \<or> max1 \<le> max2"
    "Dec_QuoRoundUp S (Dec_Mul S max1 (dec_one - r)) ip = Ok q"
    "(if coin_IsPositive im then Coin_IsLT S im (i0\<lparr>Amount := Dec_RoundInt S q\<rparr>) else Ok False) = Ok capped"
    "v = max1" "b = b0\<lparr>Amount := Amount bm\<rparr>"
    "i = i0\<lparr>Amount := if capped then Amount im else Dec_RoundInt S q\<rparr>"
  | (iron) max1 max2 q capped where
    "Dec_Quo S (bp * Amount bm) r = Ok max1" "Dec_Quo S (ip * Amount im) (dec_one - r) = Ok max2"
    "\<not> (coin_IsPositive bm \<and> (coin_IsZero im \<or> max1 \<le> max2))"
    "Dec_QuoRoundUp S (Dec_Mul S max2 r) bp = Ok q"
    "(if coin_IsPositive bm then Coin_IsLT S bm (b0\<lparr>Amount := Dec_RoundInt S q\<rparr>) else Ok False) = Ok capped"
    "v = max2" "b = b0\<lparr>Amount := if capped then Amount bm else Dec_RoundInt S q\<rparr>"
    "i = i0\<lparr>Amount := Amount im\<rparr>"
proof -
  obtain max1 max2 where m: "Dec_Quo S (bp * Amount bm) r = Ok max1"
    "Dec_Quo S (ip * Amount im) (dec_one - r) = Ok max2"
    using assms unfolding mintFractional_def res_inv by blast
  show thesis
  proof (cases "coin_IsPositive bm \<and> (coin_IsZero im \<or> max1 \<le> max2)")
    case True
    obtain q capped where
      "Dec_QuoRoundUp S (Dec_Mul S max1 (dec_one - r)) ip = Ok q"
      "(if coin_IsPositive im then Coin_IsLT S im (i0\<lparr>Amount := Dec_RoundInt S q\<rparr>) else Ok False) = Ok capped"
      "v = max1" "b = b0\<lparr>Amount := Amount bm\<rparr>"
      "i = (if capped then i0\<lparr>Amount := Dec_RoundInt S q\<rparr>\<lparr>Amount := Amount im\<rparr>
            else i0\<lparr>Amount := Dec_RoundInt S q\<rparr>)"
      using assms unfolding mintFractional_def m rbind.simps if_P [OF True] res_inv by blast
    with True m show thesis by (intro backing [of max1 max2 q capped]) (auto simp del: not_less)
  next
    case False
    obtain q capped where
      "Dec_QuoRoundUp S (Dec_Mul S max2 r) bp = Ok q"
      "(if coin_IsPositive bm then Coin_IsLT S bm (b0\<lparr>Amount := Dec_RoundInt S q\<rparr>) else Ok False) = Ok capped"
      "v = max2" "i = i0\<lparr>Amount := Amount im\<rparr>"
      "b = (if capped then b0\<lparr>Amount := Dec_RoundInt S q\<rparr>\<lparr>Amount := Amount bm\<rparr>
            else b0\<lparr>Amount := Dec_RoundInt S q\<rparr>)"
      using assms unfolding mintFractional_def m rbind.simps if_not_P [OF False] res_inv by blast
    with False m show thesis by (intro iron [of max1 max2 q capped]) auto
  qed
qed

lemma mintFractional_shape:
  "mintFractional S r bp ip bm im b0 i0 = Ok (v, b, i) \<Longrightarrow> Denom b = Denom b0 \<and> Denom i = Denom i0"
  by (erule mintFractional_ok) simp_all

lemma mintSwapInputs_shape:
  "mintSwapInputs S r full bp ip bm im b0 i0 = Ok (v, b, i) \<Longrightarrow> Denom b = Denom b0 \<and> Denom i = Denom i0"
  by (auto simp: mintSwapInputs_def dest: mintFractional_shape split: if_splits)

lemma burnSwapOutputs_shape:
  "burnSwapOutputs S r v bp ip b0 i0 = Ok (b, i) \<Longrightarrow> Denom b = Denom b0 \<and> Denom i = Denom i0"
  by (auto simp: burnSwapOutputs_def res_simps split: if_splits)

lemma calculateMintBySwapOut_ok:
  assumes "calculateMintBySwapOut S w bm im full = Ok (b, i, mo, mf)"
  obtains params bp ip b0 i0 v q mt t p bk where
    "checkMintPriceLowerBound S w = Ok ()"
    "getAvailableBackingParams w (Denom bm) = Ok params"
    "GetExchangeRate (orc w) (Denom bm) = Ok bp" "GetExchangeRate (orc w) AttoIronDenom = Ok ip"
    "NewCoin S (Denom bm) 0 = Ok b0" "NewCoin S AttoIronDenom 0 = Ok i0"
    "mintSwapInputs S (GetBackingRatio (mk w)) full bp ip bm im b0 i0 = Ok (v, b, i)"
    "NewCoin S MicroUSMDenom (Dec_TruncateInt S v) = Ok mt"
    "getBacking w (Denom bm) = Ok (t, p)"
    "\<not> over (brp_MaxGridMint params) (Amount (pb_GridMinted p) + Amount mt)"
    "Coin_Add S (pb_Backing p) b = Ok bk" "\<not> over (brp_MaxBacking params) (Amount bk)"
    "computeFee S mt (brp_MintFee params) = Ok mf" "Coin_Sub S mt mf = Ok mo"
  using assms unfolding calculateMintBySwapOut_def res_inv MicroUSMTarget_def Quo_one coin_AddAmount_sel
  by blast

lemma calculateMintBySwapOut_shape:
  assumes "calculateMintBySwapOut S w bm im full = Ok (b, i, mo, mf)"
  shows "Denom b = Denom bm" "Denom i = AttoIronDenom" "Denom mo = MicroUSMDenom"
    "Denom mf = MicroUSMDenom" "0 \<le> Amount mf" "0 \<le> Amount mo"
proof -
  obtain params :: BackingRiskParams and bp ip b0 i0 v mt where
    n: "NewCoin S (Denom bm) 0 = Ok b0" "NewCoin S AttoIronDenom 0 = Ok i0" and
    br: "mintSwapInputs S (GetBackingRatio (mk w)) full bp ip bm im b0 i0 = Ok (v, b, i)" and
    mt: "NewCoin S MicroUSMDenom (Dec_TruncateInt S v) = Ok mt" and
    mf: "computeFee S mt (brp_MintFee params) = Ok mf" and mo: "Coin_Sub S mt mf = Ok mo"
    using assms by (rule calculateMintBySwapOut_ok) (rule that)
  show "Denom b = Denom bm" "Denom i = AttoIronDenom"
    using mintSwapInputs_shape [OF br] NewCoin_ok [OF n(1)] NewCoin_ok [OF n(2)] by simp_all
  have mt': "Denom mt = MicroUSMDenom" using NewCoin_ok [OF mt] by (rule conjunct1)
  show "Denom mf = MicroUSMDenom" "0 \<le> Amount mf" using computeFee_ok [OF mf] mt' by simp_all
  show "Denom mo = MicroUSMDenom" "0 \<le> Amount mo" using Coin_Sub_ok [OF mo] mt' by simp_all
qed

lemma whenb_burn:
  assumes "whenb (coin_IsPositive c) (burnCoins S B [c]) w = Ok w'" "0 \<le> Amount c"
  shows "mk w' = mk w" "orc w' = orc w" "mbal B w' d = mbal B w d - cs_amt [c] d"
    "supply_of B (bnk w') d = supply_of B (bnk w) d - cs_amt [c] d"
  using assms burnCoins_ok [of "[c]" w w'] by (auto simp: whenb_def coin_IsPositive_def split: if_splits)

lemma whenb_fee:
  assumes "whenb (coin_IsPositive c) (feeCoins S B [c]) w = Ok w'" "0 \<le> Amount c"
  shows "mk w' = mk w" "orc w' = orc w" "mbal B w' d = mbal B w d - cs_amt [c] d"
    "supply_of B (bnk w') d = supply_of B (bnk w) d"
  using assms feeCoins_ok [of "[c]" w w'] by (auto simp: whenb_def coin_IsPositive_def split: if_splits)

lemma whenb_pay:
  assumes "whenb (coin_IsPositive c) (payCoins S B a [c]) w = Ok w'" "0 \<le> Amount c"
  shows "mk w' = mk w" "orc w' = orc w"
    "mbal B w' d = mbal B w d - (if a = GetModuleAddress B ''maker'' then 0 else cs_amt [c] d)"
    "supply_of B (bnk w') d = supply_of B (bnk w) d"
  using assms payCoins_ok [of a "[c]" w w'] by (auto simp: whenb_def coin_IsPositive_def split: if_splits)

lemma sender_ok:
  assumes "getSenderReceiver S s t = Ok (a, b)" "AccAddressFromBech32 S s \<noteq> Some x"
  shows "a \<noteq> x"
  using assms by (auto simp: getSenderReceiver_def accAddress_def res_simps split: option.splits if_splits)

lemma MintBySwap_ok:
  assumes "MintBySwap S B m w = Ok (w', r)"
  obtains sd rc b i mo mf mt t p pm pb pi tm ti w1 w2 w3 w4 w5 lt where
    "getSenderReceiver S (mbs_Sender m) (mbs_To m) = Ok (sd, rc)"
    "calculateMintBySwapOut S w (mbs_BackingInMax m) (mbs_IronInMax m) (mbs_FullBacking m) = Ok (b, i, mo, mf)"
    "Coin_Add S mo mf = Ok mt"
    "getBacking w (Denom (mbs_BackingInMax m)) = Ok (t, p)"
    "Coin_Add S (pb_GridMinted p) mt = Ok pm"
    "Coin_Add S (pb_Backing p) b = Ok pb"
    "Coin_Add S (pb_IronBurned p) i = Ok pi"
    "Coin_Add S (tb_GridMinted t) mt = Ok tm"
    "Coin_Add S (tb_IronBurned t) i = Ok ti"
    "takeCoins S B sd [b, i] (w\<lparr>mk := SetTotalBacking (t\<lparr>tb_GridMinted := tm, tb_IronBurned := ti\<rparr>)
      (SetPoolBacking (p\<lparr>pb_GridMinted := pm, pb_Backing := pb, pb_IronBurned := pi\<rparr>) (mk w))\<rparr>) = Ok w1"
    "whenb (coin_IsPositive i) (burnCoins S B [i]) w1 = Ok w2"
    "mintCoins S B [mt] w2 = Ok w3"
    "payCoins S B rc [mo] w3 = Ok w4"
    "whenb (coin_IsPositive mf) (feeCoins S B [mf]) w4 = Ok w'"
    "Coin_IsLT S mo (mbs_MintOutMin m) = Ok lt" "\<not> lt"
    "r = \<lparr>mbsr_BackingIn = b, mbsr_IronIn = i, mbsr_MintOut = mo, mbsr_MintFee = mf\<rparr>"
  using assms unfolding MintBySwap_def res_inv by blast

lemma MintBySwap_effect:
  assumes "MintBySwap S B m w = Ok (w', r)"
    and "AccAddressFromBech32 S (mbs_Sender m) \<noteq> Some (GetModuleAddress B ''maker'')"
    and "inv_backing (mk w)"
  shows "\<exists>dM dB dI. backing_effect (Denom (mbs_BackingInMax m)) dM dB dI (mk w) (mk w') \<and>
      orc w' = orc w \<and>
      (\<forall>x. mbal B w x + (if x = Denom (mbs_BackingInMax m) then dB else 0) \<le> mbal B w' x)"
proof -
  let ?d = "Denom (mbs_BackingInMax m)"
  obtain sd rc b i mo mf mt t p pm pb pi tm ti w1 w2 w3 w4 w5 where
    sd: "getSenderReceiver S (mbs_Sender m) (mbs_To m) = Ok (sd, rc)" and
    calc: "calculateMintBySwapOut S w (mbs_BackingInMax m) (mbs_IronInMax m) (mbs_FullBacking m) = Ok (b, i, mo, mf)" and
    mt: "Coin_Add S mo mf = Ok mt" and
    bk: "getBacking w ?d = Ok (t, p)" and
    pm: "Coin_Add S (pb_GridMinted p) mt = Ok pm" and
    pb: "Coin_Add S (pb_Backing p) b = Ok pb" and
    pi: "Coin_Add S (pb_IronBurned p) i = Ok pi" and
    tm: "Coin_Add S (tb_GridMinted t) mt = Ok tm" and
    ti: "Coin_Add S (tb_IronBurned t) i = Ok ti" and
    w1: "takeCoins S B sd [b, i] (w\<lparr>mk := SetTotalBacking (t\<lparr>tb_GridMinted := tm, tb_IronBurned := ti\<rparr>)
      (SetPoolBacking (p\<lparr>pb_GridMinted := pm, pb_Backing := pb, pb_IronBurned := pi\<rparr>) (mk w))\<rparr>) = Ok w1" and
    w2: "whenb (coin_IsPositive i) (burnCoins S B [i]) w1 = Ok w2" and
    w3: "mintCoins S B [mt] w2 = Ok w3" and
    w4: "payCoins S B rc [mo] w3 = Ok w4" and
    w5: "whenb (coin_IsPositive mf) (feeCoins S B [mf]) w4 = Ok w'"
    using assms(1) by (rule MintBySwap_ok) (rule that)
  have dens: "Denom b = ?d" "Denom i = AttoIronDenom" "Denom mo = MicroUSMDenom"
    "Denom mf = MicroUSMDenom" and nn: "0 \<le> Amount mf" "0 \<le> Amount mo"
    using calculateMintBySwapOut_shape [OF calc] by auto
  note t1 = takeCoins_ok [OF w1] and t3 = mintCoins_ok [OF w3] and t4 = payCoins_ok [OF w4]
  have nb: "0 \<le> Amount b" "0 \<le> Amount i" using t1(3) by simp_all
  note t2 = whenb_burn [OF w2 nb(2)] and t5 = whenb_fee [OF w5 nn(1)]
  have sd': "sd \<noteq> GetModuleAddress B ''maker''" using sender_ok [OF sd assms(2)] .
  have mt': "mt = coin_AddAmount mo (Amount mf)" using Coin_Add_ok [OF mt] by simp
  have "mbal B w x + (if x = ?d then Amount b else 0) \<le> mbal B w' x" for x
    using nn unfolding t5(3) t4(4) t3(4) t2(3) t1(4) by (simp add: sd' dens mt' mbal_def)
  moreover have "backing_effect ?d (Amount mt) (Amount b) (Amount i) (mk w) (mk w')"
    using Coin_Add_ok [OF pm] Coin_Add_ok [OF pb] Coin_Add_ok [OF pi]
      Coin_Add_ok [OF tm] Coin_Add_ok [OF ti] nb getBacking_ok(3) [OF bk assms(3)]
    by (intro backing_effectI [OF getBacking_ok(1,2) [OF bk]], simp add: t5(1) t4(1) t3(1) t2(1) t1(1)) simp_all
  moreover have "orc w' = orc w" by (simp add: t5(2) t4(2) t3(2) t2(2) t1(2))
  ultimately show ?thesis by blast
qed

lemma calculateBurnBySwapOut_ok:
  assumes "calculateBurnBySwapOut S B w bi d = Ok (b, i, f)"
  obtains params bp ip act b0 i0 t p bl lt where
    "checkBurnPriceUpperBound S w = Ok ()" "getAvailableBackingParams w d = Ok params"
    "GetExchangeRate (orc w) d = Ok bp" "GetExchangeRate (orc w) AttoIronDenom = Ok ip"
    "computeFee S bi (brp_BurnFee params) = Ok f" "Coin_Sub S bi f = Ok act"
    "NewCoin S d 0 = Ok b0" "NewCoin S AttoIronDenom 0 = Ok i0"
    "burnSwapOutputs S (GetBackingRatio (mk w)) (ToDec (Amount act)) bp ip b0 i0 = Ok (b, i)"
    "getBacking w d = Ok (t, p)" "poolBackingBalance S B w p d = Ok bl" "Coin_IsLT S bl b = Ok lt" "\<not> lt"
  using assms unfolding calculateBurnBySwapOut_def res_inv MicroUSMTarget_def Mul_one by blast

lemma calculateBurnBySwapOut_shape:
  assumes "calculateBurnBySwapOut S B w bi d = Ok (b, i, f)"
  shows "Denom b = d" "Denom i = AttoIronDenom" "Denom f = Denom bi" "0 \<le> Amount f" "Amount f \<le> Amount bi"
proof -
  obtain params :: BackingRiskParams and bp ip act b0 i0 where
    f: "computeFee S bi (brp_BurnFee params) = Ok f" and act: "Coin_Sub S bi f = Ok act" and
    n: "NewCoin S d 0 = Ok b0" "NewCoin S AttoIronDenom 0 = Ok i0" and
    br: "burnSwapOutputs S (GetBackingRatio (mk w)) (ToDec (Amount act)) bp ip b0 i0 = Ok (b, i)"
    using assms by (rule calculateBurnBySwapOut_ok) (rule that)
  show "Denom b = d" "Denom i = AttoIronDenom"
    using burnSwapOutputs_shape [OF br] NewCoin_ok [OF n(1)] NewCoin_ok [OF n(2)] by simp_all
  show "Denom f = Denom bi" "0 \<le> Amount f" using computeFee_ok [OF f] by simp_all
  show "Amount f \<le> Amount bi" using Coin_Sub_ok [OF act] by simp
qed

lemma BurnBySwap_ok:
  assumes "BurnBySwap S B m w = Ok (w', r)"
  obtains sd rc b i f act t p pb w1 w2 w3 w4 lt1 lt2 where
    "getSenderReceiver S (bbs_Sender m) (bbs_To m) = Ok (sd, rc)"
    "calculateBurnBySwapOut S B w (bbs_BurnIn m) (Denom (bbs_BackingOutMin m)) = Ok (b, i, f)"
    "Coin_Sub S (bbs_BurnIn m) f = Ok act"
    "getBacking w (Denom (bbs_BackingOutMin m)) = Ok (t, p)"
    "Coin_Sub S (pb_Backing p) b = Ok pb"
    "takeCoins S B sd [bbs_BurnIn m] (w\<lparr>mk := SetTotalBacking
       (t\<lparr>tb_IronBurned := coin_AddAmount (tb_IronBurned t) (- Amount i),
          tb_GridMinted := coin_AddAmount (tb_GridMinted t) (- Amount act)\<rparr>)
       (SetPoolBacking (p\<lparr>pb_Backing := pb,
          pb_IronBurned := coin_AddAmount (pb_IronBurned p) (- Amount i),
          pb_GridMinted := coin_AddAmount (pb_GridMinted p) (- Amount act)\<rparr>) (mk w))\<rparr>) = Ok w1"
    "burnCoins S B [act] w1 = Ok w2" "feeCoins S B [f] w2 = Ok w3"
    "mintCoins S B [i] w3 = Ok w4" "payCoins S B rc [b, i] w4 = Ok w'"
    "Coin_IsLT S b (bbs_BackingOutMin m) = Ok lt1" "\<not> lt1"
    "Coin_IsLT S i (bbs_IronOutMin m) = Ok lt2" "\<not> lt2"
    "r = \<lparr>bbsr_BackingOut = b, bbsr_IronOut = i, bbsr_BurnFee = f\<rparr>"
  using assms unfolding BurnBySwap_def res_inv by blast

lemma BurnBySwap_effect:
  assumes "BurnBySwap S B m w = Ok (w', r)"
    and "AccAddressFromBech32 S (bbs_Sender m) \<noteq> Some (GetModuleAddress B ''maker'')"
  shows "\<exists>dM dB dI. backing_effect (Denom (bbs_BackingOutMin m)) dM dB dI (mk w) (mk w') \<and>
      orc w' = orc w \<and>
      (\<forall>x. mbal B w x + (if x = Denom (bbs_BackingOutMin m) then dB else 0) \<le> mbal B w' x)"
proof -
  let ?d = "Denom (bbs_BackingOutMin m)"
  obtain sd rc b i f act t p pb w1 w2 w3 w4 where
    sd: "getSenderReceiver S (bbs_Sender m) (bbs_To m) = Ok (sd, rc)" and
    calc: "calculateBurnBySwapOut S B w (bbs_BurnIn m) ?d = Ok (b, i, f)" and
    act: "Coin_Sub S (bbs_BurnIn m) f = Ok act" and
    bk: "getBacking w ?d = Ok (t, p)" and
    pb: "Coin_Sub S (pb_Backing p) b = Ok pb" and
    w1: "takeCoins S B sd [bbs_BurnIn m] (w\<lparr>mk := SetTotalBacking
       (t\<lparr>tb_IronBurned := coin_AddAmount (tb_IronBurned t) (- Amount i),
          tb_GridMinted := coin_AddAmount (tb_GridMinted t) (- Amount act)\<rparr>)
       (SetPoolBacking (p\<lparr>pb_Backing := pb,
          pb_IronBurned := coin_AddAmount (pb_IronBurned p) (- Amount i),
          pb_GridMinted := coin_AddAmount (pb_GridMinted p) (- Amount act)\<rparr>) (mk w))\<rparr>) = Ok w1" and
    w2: "burnCoins S B [act] w1 = Ok w2" and w3: "feeCoins S B [f] w2 = Ok w3" and
    w4: "mintCoins S B [i] w3 = Ok w4" and w5: "payCoins S B rc [b, i] w4 = Ok w'"
    using assms(1) by (rule BurnBySwap_ok) (rule that)
  note sh = calculateBurnBySwapOut_shape [OF calc]
  note t1 = takeCoins_ok [OF w1] and t2 = burnCoins_ok [OF w2] and t3 = feeCoins_ok [OF w3]
    and t4 = mintCoins_ok [OF w4] and t5 = payCoins_ok [OF w5]
  have nn: "0 \<le> Amount b" "0 \<le> Amount i" using t5(3) by simp_all
  have sd': "sd \<noteq> GetModuleAddress B ''maker''" using sender_ok [OF sd assms(2)] .
  have act': "act = coin_AddAmount (bbs_BurnIn m) (- Amount f)" using Coin_Sub_ok [OF act] by simp
  have "mbal B w x + (if x = ?d then - Amount b else 0) \<le> mbal B w' x" for x
    using nn unfolding t5(4) t4(4) t3(4) t2(4) t1(4) by (simp add: sd' sh act' mbal_def)
  moreover have "backing_effect ?d (- Amount act) (- Amount b) (- Amount i) (mk w) (mk w')"
    using Coin_Sub_ok [OF pb]
    by (intro backing_effectI [OF getBacking_ok(1,2) [OF bk]], simp add: t5(1) t4(1) t3(1) t2(1) t1(1)) simp_all
  moreover have "orc w' = orc w" by (simp add: t5(2) t4(2) t3(2) t2(2) t1(2))
  ultimately show ?thesis by blast
qed

subsection \<open>Buying and selling backing\<close>

lemma calculateBuyBackingOut_ok:
  assumes "calculateBuyBackingOut S B w ii d = Ok (b, f)"
  obtains params bp ip ex q bt t p bl lt where
    "getAvailableBackingParams w d = Ok params"
    "GetExchangeRate (orc w) d = Ok bp" "GetExchangeRate (orc w) AttoIronDenom = Ok ip"
    "getExcessBackingValue S w = Ok ex" "\<not> Dec_Mul S (ToDec (Amount ii)) ip > ToDec ex"
    "Dec_Quo S (Dec_Mul S (ToDec (Amount ii)) ip) bp = Ok q"
    "NewCoin S d (Dec_TruncateInt S q) = Ok bt" "getBacking w d = Ok (t, p)"
    "poolBackingBalance S B w p d = Ok bl" "Coin_IsLT S bl bt = Ok lt" "\<not> lt"
    "computeFee S bt (brp_BuybackFee params) = Ok f" "Coin_Sub S bt f = Ok b"
  using assms unfolding calculateBuyBackingOut_def res_inv by blast

lemma calculateBuyBackingOut_shape:
  assumes "calculateBuyBackingOut S B w ii d = Ok (b, f)"
  shows "Denom b = d" "Denom f = d"
proof -
  obtain params :: BackingRiskParams and q bt where bt: "NewCoin S d (Dec_TruncateInt S q) = Ok bt" and
    f: "computeFee S bt (brp_BuybackFee params) = Ok f" and b: "Coin_Sub S bt f = Ok b"
    using assms by (rule calculateBuyBackingOut_ok) (rule that)
  have bt': "Denom bt = d" using NewCoin_ok [OF bt] by (rule conjunct1)
  then show "Denom f = d" using computeFee_ok [OF f] by simp
  show "Denom b = d" using Coin_Sub_ok [OF b] bt' by simp
qed

lemma BuyBacking_ok:
  assumes "BuyBacking S B m w = Ok (w', r)"
  obtains sd rc b f t p pb1 pb pi ti w1 w2 w3 lt where
    "getSenderReceiver S (bb_Sender m) (bb_To m) = Ok (sd, rc)"
    "calculateBuyBackingOut S B w (bb_IronIn m) (Denom (bb_BackingOutMin m)) = Ok (b, f)"
    "getBacking w (Denom (bb_BackingOutMin m)) = Ok (t, p)"
    "Coin_Sub S (pb_Backing p) b = Ok pb1" "Coin_Sub S pb1 f = Ok pb"
    "Coin_Add S (pb_IronBurned p) (bb_IronIn m) = Ok pi"
    "Coin_Add S (tb_IronBurned t) (bb_IronIn m) = Ok ti"
    "takeCoins S B sd [bb_IronIn m] (w\<lparr>mk := SetTotalBacking (t\<lparr>tb_IronBurned := ti\<rparr>)
       (SetPoolBacking (p\<lparr>pb_Backing := pb, pb_IronBurned := pi\<rparr>) (mk w))\<rparr>) = Ok w1"
    "burnCoins S B [bb_IronIn m] w1 = Ok w2"
    "payCoins S B rc [b] w2 = Ok w3" "feeCoins S B [f] w3 = Ok w'"
    "Coin_IsLT S b (bb_BackingOutMin m) = Ok lt" "\<not> lt"
    "r = \<lparr>bbr_BackingOut = b, bbr_BuybackFee = f\<rparr>"
  using assms unfolding BuyBacking_def res_inv by blast

lemma BuyBacking_effect:
  assumes "BuyBacking S B m w = Ok (w', r)"
    and "AccAddressFromBech32 S (bb_Sender m) \<noteq> Some (GetModuleAddress B ''maker'')"
  shows "\<exists>dM dB dI. backing_effect (Denom (bb_BackingOutMin m)) dM dB dI (mk w) (mk w') \<and>
      orc w' = orc w \<and>
      (\<forall>x. mbal B w x + (if x = Denom (bb_BackingOutMin m) then dB else 0) \<le> mbal B w' x)"
proof -
  let ?d = "Denom (bb_BackingOutMin m)"
  obtain sd rc b f t p pb1 pb pi ti w1 w2 w3 where
    sd: "getSenderReceiver S (bb_Sender m) (bb_To m) = Ok (sd, rc)" and
    calc: "calculateBuyBackingOut S B w (bb_IronIn m) ?d = Ok (b, f)" and
    bk: "getBacking w ?d = Ok (t, p)" and
    pb1: "Coin_Sub S (pb_Backing p) b = Ok pb1" and pb: "Coin_Sub S pb1 f = Ok pb" and
    pi: "Coin_Add S (pb_IronBurned p) (bb_IronIn m) = Ok pi" and
    ti: "Coin_Add S (tb_IronBurned t) (bb_IronIn m) = Ok ti" and
    w1: "takeCoins S B sd [bb_IronIn m] (w\<lparr>mk := SetTotalBacking (t\<lparr>tb_IronBurned := ti\<rparr>)
       (SetPoolBacking (p\<lparr>pb_Backing := pb, pb_IronBurned := pi\<rparr>) (mk w))\<rparr>) = Ok w1" and
    w2: "burnCoins S B [bb_IronIn m] w1 = Ok w2" and
    w3: "payCoins S B rc [b] w2 = Ok w3" and w4: "feeCoins S B [f] w3 = Ok w'"
    using assms(1) by (rule BuyBacking_ok) (rule that)
  note t1 = takeCoins_ok [OF w1] and t2 = burnCoins_ok [OF w2] and t3 = payCoins_ok [OF w3]
    and t4 = feeCoins_ok [OF w4]
  have nn: "0 \<le> Amount b" "0 \<le> Amount f" using t3(3) t4(3) by simp_all
  have sd': "sd \<noteq> GetModuleAddress B ''maker''" using sender_ok [OF sd assms(2)] .
  have sh: "Denom b = ?d" "Denom f = ?d"
    using calculateBuyBackingOut_shape [OF calc] by simp_all
  have "mbal B w x + (if x = ?d then - Amount b - Amount f else 0) \<le> mbal B w' x" for x
    using nn unfolding t4(4) t3(4) t2(4) t1(4) by (simp add: sd' sh mbal_def)
  moreover have "backing_effect ?d 0 (- Amount b - Amount f) (Amount (bb_IronIn m)) (mk w) (mk w')"
    using Coin_Sub_ok [OF pb1] Coin_Sub_ok [OF pb] Coin_Add_ok [OF pi] Coin_Add_ok [OF ti]
    by (intro backing_effectI [OF getBacking_ok(1,2) [OF bk]], simp add: t4(1) t3(1) t2(1) t1(1)) simp_all
  moreover have "orc w' = orc w" by (simp add: t4(2) t3(2) t2(2) t1(2))
  ultimately show ?thesis by blast
qed

lemma calculateSellBackingOut_ok:
  assumes "calculateSellBackingOut S w bi = Ok (i, f)"
  obtains params bp ip t p bk ex av q im bo wb where
    "getAvailableBackingParams w (Denom bi) = Ok params"
    "GetExchangeRate (orc w) (Denom bi) = Ok bp" "GetExchangeRate (orc w) AttoIronDenom = Ok ip"
    "getBacking w (Denom bi) = Ok (t, p)" "Coin_Add S (pb_Backing p) bi = Ok bk"
    "\<not> over (brp_MaxBacking params) (Amount bk)" "getExcessBackingValue S w = Ok ex"
    "Dec_Quo S (ToDec (- ex)) ip = Ok av" "Dec_Quo S (Dec_Mul S (ToDec (Amount bi)) bp) ip = Ok q"
    "NewCoin S AttoIronDenom (Dec_TruncateInt S q) = Ok im"
    "computeFee S im (Some (RebackBonus (mk w))) = Ok bo" "computeFee S im (brp_RebackFee params) = Ok f"
    "\<not> ToDec (Amount im) > av" "Coin_Add S im bo = Ok wb" "Coin_Sub S wb f = Ok i"
  using assms unfolding calculateSellBackingOut_def res_inv by blast

lemma SellBacking_ok:
  assumes "SellBacking S B m w = Ok (w', r)"
  obtains sd rc i f im t p pb w1 w2 w3 lt where
    "getSenderReceiver S (sb_Sender m) (sb_To m) = Ok (sd, rc)"
    "calculateSellBackingOut S w (sb_BackingIn m) = Ok (i, f)"
    "Coin_Add S i f = Ok im" "getBacking w (Denom (sb_BackingIn m)) = Ok (t, p)"
    "Coin_Add S (pb_Backing p) (sb_BackingIn m) = Ok pb"
    "takeCoins S B sd [sb_BackingIn m] (w\<lparr>mk := SetTotalBacking
       (t\<lparr>tb_IronBurned := coin_AddAmount (tb_IronBurned t) (- Amount im)\<rparr>)
       (SetPoolBacking (p\<lparr>pb_Backing := pb,
          pb_IronBurned := coin_AddAmount (pb_IronBurned p) (- Amount im)\<rparr>) (mk w))\<rparr>) = Ok w1"
    "mintCoins S B [im] w1 = Ok w2" "payCoins S B rc [i] w2 = Ok w3"
    "feeCoins S B [f] w3 = Ok w'"
    "Coin_IsLT S i (sb_IronOutMin m) = Ok lt" "\<not> lt"
    "r = \<lparr>sbr_IronOut = i, sbr_RebackFee = f\<rparr>"
  using assms unfolding SellBacking_def res_inv by blast

lemma SellBacking_effect:
  assumes "SellBacking S B m w = Ok (w', r)"
    and "AccAddressFromBech32 S (sb_Sender m) \<noteq> Some (GetModuleAddress B ''maker'')"
    and "inv_backing (mk w)"
  shows "\<exists>dM dB dI. backing_effect (Denom (sb_BackingIn m)) dM dB dI (mk w) (mk w') \<and>
      orc w' = orc w \<and>
      (\<forall>x. mbal B w x + (if x = Denom (sb_BackingIn m) then dB else 0) \<le> mbal B w' x)"
proof -
  let ?d = "Denom (sb_BackingIn m)"
  obtain sd rc i f im t p pb w1 w2 w3 where
    sd: "getSenderReceiver S (sb_Sender m) (sb_To m) = Ok (sd, rc)" and
    calc: "calculateSellBackingOut S w (sb_BackingIn m) = Ok (i, f)" and
    im: "Coin_Add S i f = Ok im" and bk: "getBacking w ?d = Ok (t, p)" and
    pb: "Coin_Add S (pb_Backing p) (sb_BackingIn m) = Ok pb" and
    w1: "takeCoins S B sd [sb_BackingIn m] (w\<lparr>mk := SetTotalBacking
       (t\<lparr>tb_IronBurned := coin_AddAmount (tb_IronBurned t) (- Amount im)\<rparr>)
       (SetPoolBacking (p\<lparr>pb_Backing := pb,
          pb_IronBurned := coin_AddAmount (pb_IronBurned p) (- Amount im)\<rparr>) (mk w))\<rparr>) = Ok w1" and
    w2: "mintCoins S B [im] w1 = Ok w2" and w3: "payCoins S B rc [i] w2 = Ok w3" and
    w4: "feeCoins S B [f] w3 = Ok w'"
    using assms(1) by (rule SellBacking_ok) (rule that)
  note t1 = takeCoins_ok [OF w1] and t2 = mintCoins_ok [OF w2] and t3 = payCoins_ok [OF w3]
    and t4 = feeCoins_ok [OF w4]
  have nn: "0 \<le> Amount i" "0 \<le> Amount f" "0 \<le> Amount (sb_BackingIn m)"
    using t3(3) t4(3) t1(3) by simp_all
  have sd': "sd \<noteq> GetModuleAddress B ''maker''" using sender_ok [OF sd assms(2)] .
  have im': "Denom i = Denom f" "im = coin_AddAmount i (Amount f)" using Coin_Add_ok [OF im] by simp_all
  have "mbal B w x + (if x = ?d then Amount (sb_BackingIn m) else 0) \<le> mbal B w' x" for x
    using nn unfolding t4(4) t3(4) t2(4) t1(4) by (simp add: sd' im' mbal_def)
  moreover have "backing_effect ?d 0 (Amount (sb_BackingIn m)) (- Amount im) (mk w) (mk w')"
    using Coin_Add_ok [OF pb] nn getBacking_ok(3) [OF bk assms(3)]
    by (intro backing_effectI [OF getBacking_ok(1,2) [OF bk]], simp add: t4(1) t3(1) t2(1) t1(1)) simp_all
  moreover have "orc w' = orc w" by (simp add: t4(2) t3(2) t2(2) t1(2))
  ultimately show ?thesis by blast
qed

subsection \<open>Collateral\<close>

lemma coll_effectI:
  assumes "collateral_total s = Some t" "kv_get (collateral_pool s) d = Some p"
    and "s' = SetTotalCollateral t' (SetPoolCollateral p' (SetAccountCollateral a c' s))"
    and "pc_Collateral p' = coin_AddAmount (pc_Collateral p) dC"
    and "pc_GridDebt p' = coin_AddAmount (pc_GridDebt p) dD"
    and "pc_IronCollateralized p' = coin_AddAmount (pc_IronCollateralized p) dI"
    and "tc_GridDebt t' = coin_AddAmount (tc_GridDebt t) dD"
    and "tc_IronCollateralized t' = coin_AddAmount (tc_IronCollateralized t) dI"
    and "ac_shape h d c'"
    and "acColl (a, d) c' = kv_at acColl (collateral_account s) (a, d) + dC"
    and "acDebt (a, d) c' = kv_at acDebt (collateral_account s) (a, d) + dD"
    and "acIron (a, d) c' = kv_at acIron (collateral_account s) (a, d) + dI"
  shows "coll_effect h a d dC dD dI s s'"
  unfolding coll_effect_def using assms by blast

lemma newAccountCollateral_ok:
  assumes "newAccountCollateral S ctx a d = Ok c"
  shows "ac_shape (BlockHeight ctx) d c" "acColl k c = 0" "acDebt k c = 0" "acIron k c = 0"
  using assms
  by (auto simp: newAccountCollateral_def res_simps sdk_simps ac_shape_def split: if_splits)

lemma getCollateral_ok:
  assumes "getCollateral S ctx w a d allow = Ok (t, p, c)"
  shows "collateral_total (mk w) = Some t" "kv_get (collateral_pool (mk w)) d = Some p"
    and "inv_coll (BlockHeight ctx) (mk w) \<Longrightarrow> ac_shape (BlockHeight ctx) d c"
    and "acColl (a, d) c = kv_at acColl (collateral_account (mk w)) (a, d)"
    and "acDebt (a, d) c = kv_at acDebt (collateral_account (mk w)) (a, d)"
    and "acIron (a, d) c = kv_at acIron (collateral_account (mk w)) (a, d)"
  using assms newAccountCollateral_ok
  by (auto simp: getCollateral_def maker_accessors kv_at_def res_simps inv_coll_def
      split: option.splits if_splits)

lemma getAvailableCollateralParams_ok:
  "getAvailableCollateralParams w d = Ok q \<Longrightarrow>
     kv_get (collateral_params (mk w)) d = Some q \<and> crp_Enabled q"
  by (auto simp: getAvailableCollateralParams_def maker_accessors res_simps split: option.splits)

lemma deref_ok: "deref r = Ok x \<longleftrightarrow> r = Some x"
  by (auto simp: deref_def split: option.splits)

text \<open>Every collateral handler starts by reading the three records and settling the interest.\<close>

lemma settled:
  assumes "getAvailableCollateralParams w d = Ok q" "getCollateral S ctx w a d allow = Ok (t0, p0, c0)"
    and "deref (crp_InterestFee q) = Ok apr"
    and "settleInterestFee S ctx c0 p0 t0 apr = Ok (c, p, t)"
    and "inv_coll (BlockHeight ctx) (mk w)" "inv_params (mk w)"
  obtains i where "0 \<le> i" "collateral_total (mk w) = Some t0" "kv_get (collateral_pool (mk w)) d = Some p0"
    "p = p0\<lparr>pc_GridDebt := coin_AddAmount (pc_GridDebt p0) i\<rparr>"
    "t = t0\<lparr>tc_GridDebt := coin_AddAmount (tc_GridDebt t0) i\<rparr>"
    "ac_shape (BlockHeight ctx) d c" "pc_shape d p0"
    "acColl (a, d) c = kv_at acColl (collateral_account (mk w)) (a, d)"
    "acDebt (a, d) c = kv_at acDebt (collateral_account (mk w)) (a, d) + i"
    "acIron (a, d) c = kv_at acIron (collateral_account (mk w)) (a, d)"
proof -
  note g = getCollateral_ok [OF assms(2)]
  have c0: "ac_shape (BlockHeight ctx) d c0" using g(3) assms(5) .
  have "crp_ok q" using getAvailableCollateralParams_ok [OF assms(1)] assms(6) unfolding inv_params_def by blast
  then have "0 \<le> apr"
    using assms(3) by (simp add: crp_ok_def CollateralRiskParams_ValidateBasic_def unit_ratio_def deref_ok)
  moreover have "ac_LastSettlementBlock c0 \<le> BlockHeight ctx" using c0 by (simp add: ac_shape_def)
  ultimately obtain i where i: "0 \<le> i"
    "c = c0\<lparr>ac_LastInterest := coin_AddAmount (ac_LastInterest c0) i,
           ac_GridDebt := coin_AddAmount (ac_GridDebt c0) i,
           ac_LastSettlementBlock := BlockHeight ctx\<rparr>"
    "p = p0\<lparr>pc_GridDebt := coin_AddAmount (pc_GridDebt p0) i\<rparr>"
    "t = t0\<lparr>tc_GridDebt := coin_AddAmount (tc_GridDebt t0) i\<rparr>"
    using settleInterestFee_ok [OF assms(4)] by metis
  moreover have "ac_shape (BlockHeight ctx) d c" using c0 i by (simp add: ac_shape_def)
  moreover have "pc_shape d p0" using g(2) assms(5) by (simp add: inv_coll_def)
  ultimately show thesis using g by (intro that) simp_all
qed

lemma DepositCollateral_ok:
  assumes "DepositCollateral S B ctx m w = Ok w'"
  obtains sd rc q t0 p0 c0 apr c p t ac pc ai pi ti where
    "getSenderReceiver S (dc_Sender m) (dc_To m) = Ok (sd, rc)"
    "getAvailableCollateralParams w (Denom (dc_CollateralIn m)) = Ok q"
    "getCollateral S ctx w rc (Denom (dc_CollateralIn m)) True = Ok (t0, p0, c0)"
    "deref (crp_InterestFee q) = Ok apr"
    "settleInterestFee S ctx c0 p0 t0 apr = Ok (c, p, t)"
    "Coin_Add S (ac_Collateral c) (dc_CollateralIn m) = Ok ac"
    "Coin_Add S (pc_Collateral p) (dc_CollateralIn m) = Ok pc"
    "Coin_Add S (ac_IronCollateralized c) (dc_IronIn m) = Ok ai"
    "Coin_Add S (pc_IronCollateralized p) (dc_IronIn m) = Ok pi"
    "Coin_Add S (tc_IronCollateralized t) (dc_IronIn m) = Ok ti"
    "takeCoins S B sd [dc_CollateralIn m, dc_IronIn m] (setCollateral rc
          (c\<lparr>ac_Collateral := ac, ac_IronCollateralized := ai\<rparr>)
          (p\<lparr>pc_Collateral := pc, pc_IronCollateralized := pi\<rparr>)
          (t\<lparr>tc_IronCollateralized := ti\<rparr>) w) = Ok w'"
    "\<not> over (crp_MaxCollateral q) (Amount pc)"
  using assms unfolding DepositCollateral_def res_inv by blast

lemma DepositCollateral_effect:
  assumes "DepositCollateral S B ctx m w = Ok w'"
    and "AccAddressFromBech32 S (dc_Sender m) \<noteq> Some (GetModuleAddress B ''maker'')"
    and "inv_coll (BlockHeight ctx) (mk w)" "inv_params (mk w)"
  shows "\<exists>a dC dD dI. coll_effect (BlockHeight ctx) a (Denom (dc_CollateralIn m)) dC dD dI (mk w) (mk w') \<and>
      orc w' = orc w \<and>
      (\<forall>x. mbal B w x + (if x = Denom (dc_CollateralIn m) then dC else 0)
           + (if x = AttoIronDenom then dI else 0) \<le> mbal B w' x)"
proof -
  let ?d = "Denom (dc_CollateralIn m)"
  obtain sd rc q t0 p0 c0 apr c p t ac pc ai pi ti where
    sd: "getSenderReceiver S (dc_Sender m) (dc_To m) = Ok (sd, rc)" and
    q: "getAvailableCollateralParams w ?d = Ok q" and
    g: "getCollateral S ctx w rc ?d True = Ok (t0, p0, c0)" and
    apr: "deref (crp_InterestFee q) = Ok apr" and
    se: "settleInterestFee S ctx c0 p0 t0 apr = Ok (c, p, t)" and
    ac: "Coin_Add S (ac_Collateral c) (dc_CollateralIn m) = Ok ac" and
    pc: "Coin_Add S (pc_Collateral p) (dc_CollateralIn m) = Ok pc" and
    ai: "Coin_Add S (ac_IronCollateralized c) (dc_IronIn m) = Ok ai" and
    pi: "Coin_Add S (pc_IronCollateralized p) (dc_IronIn m) = Ok pi" and
    ti: "Coin_Add S (tc_IronCollateralized t) (dc_IronIn m) = Ok ti" and
    w1: "takeCoins S B sd [dc_CollateralIn m, dc_IronIn m] (setCollateral rc
          (c\<lparr>ac_Collateral := ac, ac_IronCollateralized := ai\<rparr>)
          (p\<lparr>pc_Collateral := pc, pc_IronCollateralized := pi\<rparr>)
          (t\<lparr>tc_IronCollateralized := ti\<rparr>) w) = Ok w'"
    using assms(1) by (rule DepositCollateral_ok) (rule that)
  from settled [OF q g apr se assms(3,4)] obtain i where i: "0 \<le> i" "collateral_total (mk w) = Some t0"
    "kv_get (collateral_pool (mk w)) ?d = Some p0"
    "p = p0\<lparr>pc_GridDebt := coin_AddAmount (pc_GridDebt p0) i\<rparr>"
    "t = t0\<lparr>tc_GridDebt := coin_AddAmount (tc_GridDebt t0) i\<rparr>"
    "ac_shape (BlockHeight ctx) ?d c"
    "acColl (rc, ?d) c = kv_at acColl (collateral_account (mk w)) (rc, ?d)"
    "acDebt (rc, ?d) c = kv_at acDebt (collateral_account (mk w)) (rc, ?d) + i"
    "acIron (rc, ?d) c = kv_at acIron (collateral_account (mk w)) (rc, ?d)" .
  note t1 = takeCoins_ok [OF w1]
  have nn: "0 \<le> Amount (dc_CollateralIn m)" "0 \<le> Amount (dc_IronIn m)" using t1(3) by simp_all
  have sd': "sd \<noteq> GetModuleAddress B ''maker''" using sender_ok [OF sd assms(2)] .
  have ai': "ai = coin_AddAmount (ac_IronCollateralized c) (Amount (dc_IronIn m))"
    and di: "Denom (dc_IronIn m) = AttoIronDenom"
    using Coin_Add_ok [OF ai] i(6) by (simp_all add: ac_shape_def)
  have "mbal B w x + (if x = ?d then Amount (dc_CollateralIn m) else 0)
      + (if x = AttoIronDenom then Amount (dc_IronIn m) else 0) \<le> mbal B w' x" for x
    unfolding t1(4) by (simp add: sd' di mbal_def setCollateral_def)
  moreover have "coll_effect (BlockHeight ctx) rc ?d (Amount (dc_CollateralIn m)) i (Amount (dc_IronIn m)) (mk w) (mk w')"
    by (rule coll_effectI [OF i(2,3)], simp add: t1(1) setCollateral_def)
       (use i nn Coin_Add_ok [OF ac] Coin_Add_ok [OF pc] Coin_Add_ok [OF pi] Coin_Add_ok [OF ti] ai'
         in \<open>simp_all add: ac_shape_def\<close>)
  moreover have "orc w' = orc w" by (simp add: t1(2) setCollateral_def)
  ultimately show ?thesis by blast
qed

lemma RedeemCollateral_ok:
  assumes "RedeemCollateral S B ctx m w = Ok w'"
  obtains sd rc q t0 p0 c0 apr c p t ac pc ai pi ti ml md where
    "getAvailableCollateralParams w (Denom (rc_CollateralOut m)) = Ok q"
    "getCollateral S ctx w sd (Denom (rc_CollateralOut m)) False = Ok (t0, p0, c0)"
    "deref (crp_InterestFee q) = Ok apr"
    "settleInterestFee S ctx c0 p0 t0 apr = Ok (c, p, t)"
    "Coin_Sub S (ac_Collateral c) (rc_CollateralOut m) = Ok ac"
    "Coin_Sub S (pc_Collateral p) (rc_CollateralOut m) = Ok pc"
    "Coin_Sub S (ac_IronCollateralized c) (rc_IronOut m) = Ok ai"
    "Coin_Sub S (pc_IronCollateralized p) (rc_IronOut m) = Ok pi"
    "Coin_Sub S (tc_IronCollateralized t) (rc_IronOut m) = Ok ti"
    "payCoins S B rc [rc_CollateralOut m, rc_IronOut m] (setCollateral sd
          (c\<lparr>ac_Collateral := ac, ac_IronCollateralized := ai\<rparr>)
          (p\<lparr>pc_Collateral := pc, pc_IronCollateralized := pi\<rparr>)
          (t\<lparr>tc_IronCollateralized := ti\<rparr>) w) = Ok w'"
    "maxLoanToValueForAccount S w (c\<lparr>ac_Collateral := ac, ac_IronCollateralized := ai\<rparr>) q = Ok (ml, md)"
    "\<not> Dec_Mul S (ToDec (Amount (ac_GridDebt (c\<lparr>ac_Collateral := ac, ac_IronCollateralized := ai\<rparr>))))
       MicroUSMTarget > md"
    "getSenderReceiver S (rc_Sender m) (rc_To m) = Ok (sd, rc)"
  using assms unfolding RedeemCollateral_def res_inv by blast

lemma RedeemCollateral_effect:
  assumes "RedeemCollateral S B ctx m w = Ok w'"
    and "inv_coll (BlockHeight ctx) (mk w)" "inv_params (mk w)"
  shows "\<exists>a dC dD dI. coll_effect (BlockHeight ctx) a (Denom (rc_CollateralOut m)) dC dD dI (mk w) (mk w') \<and>
      orc w' = orc w \<and>
      (\<forall>x. mbal B w x + (if x = Denom (rc_CollateralOut m) then dC else 0)
           + (if x = AttoIronDenom then dI else 0) \<le> mbal B w' x)"
proof -
  let ?d = "Denom (rc_CollateralOut m)"
  obtain sd rc q t0 p0 c0 apr c p t ac pc ai pi ti where
    q: "getAvailableCollateralParams w ?d = Ok q" and
    g: "getCollateral S ctx w sd ?d False = Ok (t0, p0, c0)" and
    apr: "deref (crp_InterestFee q) = Ok apr" and
    se: "settleInterestFee S ctx c0 p0 t0 apr = Ok (c, p, t)" and
    ac: "Coin_Sub S (ac_Collateral c) (rc_CollateralOut m) = Ok ac" and
    pc: "Coin_Sub S (pc_Collateral p) (rc_CollateralOut m) = Ok pc" and
    ai: "Coin_Sub S (ac_IronCollateralized c) (rc_IronOut m) = Ok ai" and
    pi: "Coin_Sub S (pc_IronCollateralized p) (rc_IronOut m) = Ok pi" and
    ti: "Coin_Sub S (tc_IronCollateralized t) (rc_IronOut m) = Ok ti" and
    w1: "payCoins S B rc [rc_CollateralOut m, rc_IronOut m] (setCollateral sd
          (c\<lparr>ac_Collateral := ac, ac_IronCollateralized := ai\<rparr>)
          (p\<lparr>pc_Collateral := pc, pc_IronCollateralized := pi\<rparr>)
          (t\<lparr>tc_IronCollateralized := ti\<rparr>) w) = Ok w'"
    using assms(1) by (rule RedeemCollateral_ok) (rule that)
  from settled [OF q g apr se assms(2,3)] obtain i where i: "0 \<le> i" "collateral_total (mk w) = Some t0"
    "kv_get (collateral_pool (mk w)) ?d = Some p0"
    "p = p0\<lparr>pc_GridDebt := coin_AddAmount (pc_GridDebt p0) i\<rparr>"
    "t = t0\<lparr>tc_GridDebt := coin_AddAmount (tc_GridDebt t0) i\<rparr>"
    "ac_shape (BlockHeight ctx) ?d c"
    "acColl (sd, ?d) c = kv_at acColl (collateral_account (mk w)) (sd, ?d)"
    "acDebt (sd, ?d) c = kv_at acDebt (collateral_account (mk w)) (sd, ?d) + i"
    "acIron (sd, ?d) c = kv_at acIron (collateral_account (mk w)) (sd, ?d)" .
  note t1 = payCoins_ok [OF w1]
  have nn: "0 \<le> Amount (rc_CollateralOut m)" "0 \<le> Amount (rc_IronOut m)" using t1(3) by simp_all
  have ai': "ai = coin_AddAmount (ac_IronCollateralized c) (- Amount (rc_IronOut m))"
    "Amount (rc_IronOut m) \<le> Amount (ac_IronCollateralized c)"
    and di: "Denom (rc_IronOut m) = AttoIronDenom"
    using Coin_Sub_ok [OF ai] i(6) by (simp_all add: ac_shape_def)
  have "mbal B w x + (if x = ?d then - Amount (rc_CollateralOut m) else 0)
      + (if x = AttoIronDenom then - Amount (rc_IronOut m) else 0) \<le> mbal B w' x" for x
    using nn unfolding t1(4) by (simp add: di mbal_def setCollateral_def)
  moreover have "coll_effect (BlockHeight ctx) sd ?d (- Amount (rc_CollateralOut m)) i (- Amount (rc_IronOut m)) (mk w) (mk w')"
    by (rule coll_effectI [OF i(2,3)], simp add: t1(1) setCollateral_def)
       (use i nn Coin_Sub_ok [OF ac] Coin_Sub_ok [OF pc] Coin_Sub_ok [OF pi] Coin_Sub_ok [OF ti] ai'
         in \<open>simp_all add: ac_shape_def\<close>)
  moreover have "orc w' = orc w" by (simp add: t1(2) setCollateral_def)
  ultimately show ?thesis by blast
qed

lemma calculateMintByCollateral_ok:
  assumes "calculateMintByCollateral S ctx w a d mo = Ok (mf, t', p', c')"
  obtains q cp ip t0 p0 c0 apr c p t mt ad pd td ratio cat basic ltv where
    "getAvailableCollateralParams w d = Ok q" "GetExchangeRate (orc w) d = Ok cp"
    "GetExchangeRate (orc w) AttoIronDenom = Ok ip" "getCollateral S ctx w a d False = Ok (t0, p0, c0)"
    "deref (crp_InterestFee q) = Ok apr" "settleInterestFee S ctx c0 p0 t0 apr = Ok (c, p, t)"
    "computeFee S mo (crp_MintFee q) = Ok mf" "Coin_Add S mo mf = Ok mt"
    "Coin_Add S (ac_GridDebt c) mt = Ok ad" "Coin_Add S (pc_GridDebt p) mt = Ok pd"
    "Coin_Add S (tc_GridDebt t) mt = Ok td" "\<not> over (crp_MaxGridMint q) (Amount pd)"
    "0 < Amount (ac_Collateral c) * cp"
    "Dec_Quo S (Amount (ac_IronCollateralized c) * ip) (Amount (ac_Collateral c) * cp) = Ok ratio"
    "deref (crp_CatalyticIronRatio q) = Ok cat" "deref (crp_BasicLoanToValue q) = Ok basic"
    "(if 0 < cat then rbind (deref (crp_LoanToValue q)) (\<lambda>maxLTV.
        rbind (Dec_Quo S (Dec_Mul S (min ratio cat) (maxLTV - basic)) cat) (\<lambda>q. Ok (basic + q)))
      else Ok basic) = Ok ltv"
    "\<not> Dec_TruncateInt S (Dec_Mul S (Amount (ac_Collateral c) * cp) ltv) < Amount ad"
    "t' = t\<lparr>tc_GridDebt := td\<rparr>" "p' = p\<lparr>pc_GridDebt := pd\<rparr>" "c' = c\<lparr>ac_GridDebt := ad\<rparr>"
  using assms unfolding calculateMintByCollateral_def res_inv MicroUSMTarget_def Quo_one Mul_ToDec
  by blast

lemma MintByCollateral_ok:
  assumes "MintByCollateral S B ctx m w = Ok (w', r)"
  obtains sd rc mf t' p' c' mt w1 w2 where
    "calculateMintByCollateral S ctx w sd (mbc_CollateralDenom m) (mbc_MintOut m) = Ok (mf, t', p', c')"
    "Coin_Add S (mbc_MintOut m) mf = Ok mt"
    "mintCoins S B [mt] (setCollateral sd c' p' t' w) = Ok w1"
    "payCoins S B rc [mbc_MintOut m] w1 = Ok w2"
    "whenb (coin_IsPositive mf) (feeCoins S B [mf]) w2 = Ok w'"
    "r = mf" "getSenderReceiver S (mbc_Sender m) (mbc_To m) = Ok (sd, rc)"
  using assms unfolding MintByCollateral_def res_inv by blast

lemma MintByCollateral_effect:
  assumes "MintByCollateral S B ctx m w = Ok (w', r)"
    and "inv_coll (BlockHeight ctx) (mk w)" "inv_params (mk w)"
  shows "\<exists>a dC dD dI. coll_effect (BlockHeight ctx) a (mbc_CollateralDenom m) dC dD dI (mk w) (mk w') \<and>
      orc w' = orc w \<and>
      (\<forall>x. mbal B w x + (if x = mbc_CollateralDenom m then dC else 0)
           + (if x = AttoIronDenom then dI else 0) \<le> mbal B w' x)"
proof -
  let ?d = "mbc_CollateralDenom m"
  obtain sd rc mf t' p' c' mt w1 w2 where
    calc: "calculateMintByCollateral S ctx w sd ?d (mbc_MintOut m) = Ok (mf, t', p', c')" and
    mt: "Coin_Add S (mbc_MintOut m) mf = Ok mt" and
    w1: "mintCoins S B [mt] (setCollateral sd c' p' t' w) = Ok w1" and
    w2: "payCoins S B rc [mbc_MintOut m] w1 = Ok w2" and
    w3: "whenb (coin_IsPositive mf) (feeCoins S B [mf]) w2 = Ok w'"
    using assms(1) by (rule MintByCollateral_ok) (rule that)
  obtain q t0 p0 c0 apr c p t mt' ad pd td where
    q: "getAvailableCollateralParams w ?d = Ok q" and
    g: "getCollateral S ctx w sd ?d False = Ok (t0, p0, c0)" and
    apr: "deref (crp_InterestFee q) = Ok apr" and
    se: "settleInterestFee S ctx c0 p0 t0 apr = Ok (c, p, t)" and
    mf: "computeFee S (mbc_MintOut m) (crp_MintFee q) = Ok mf" and
    mt': "Coin_Add S (mbc_MintOut m) mf = Ok mt'" and
    ad: "Coin_Add S (ac_GridDebt c) mt' = Ok ad" and pd: "Coin_Add S (pc_GridDebt p) mt' = Ok pd" and
    td: "Coin_Add S (tc_GridDebt t) mt' = Ok td" and
    new: "t' = t\<lparr>tc_GridDebt := td\<rparr>" "p' = p\<lparr>pc_GridDebt := pd\<rparr>" "c' = c\<lparr>ac_GridDebt := ad\<rparr>"
    using calc by (rule calculateMintByCollateral_ok) (rule that)
  have mm: "mt' = mt" using mt mt' by simp
  from settled [OF q g apr se assms(2,3)] obtain i where i: "0 \<le> i" "collateral_total (mk w) = Some t0"
    "kv_get (collateral_pool (mk w)) ?d = Some p0"
    "p = p0\<lparr>pc_GridDebt := coin_AddAmount (pc_GridDebt p0) i\<rparr>"
    "t = t0\<lparr>tc_GridDebt := coin_AddAmount (tc_GridDebt t0) i\<rparr>"
    "ac_shape (BlockHeight ctx) ?d c"
    "acColl (sd, ?d) c = kv_at acColl (collateral_account (mk w)) (sd, ?d)"
    "acDebt (sd, ?d) c = kv_at acDebt (collateral_account (mk w)) (sd, ?d) + i"
    "acIron (sd, ?d) c = kv_at acIron (collateral_account (mk w)) (sd, ?d)" .
  note t1 = mintCoins_ok [OF w1] and t2 = payCoins_ok [OF w2]
  have nf: "0 \<le> Amount mf" using computeFee_ok [OF mf] by simp
  note t3 = whenb_fee [OF w3 nf]
  have nn: "0 \<le> Amount mt" "0 \<le> Amount (mbc_MintOut m)" using t1(3) t2(3) by simp_all
  have mt2: "Denom (mbc_MintOut m) = Denom mf" "mt = coin_AddAmount (mbc_MintOut m) (Amount mf)"
    using Coin_Add_ok [OF mt] by simp_all
  have "mbal B w x + (if x = ?d then 0 else 0) + (if x = AttoIronDenom then 0 else 0) \<le> mbal B w' x" for x
    using nn nf unfolding t3(3) t2(4) t1(4) by (simp add: mt2 mbal_def setCollateral_def)
  moreover have "coll_effect (BlockHeight ctx) sd ?d 0 (i + Amount mt) 0 (mk w) (mk w')"
    by (rule coll_effectI [OF i(2,3)], simp add: t3(1) t2(1) t1(1) setCollateral_def)
       (use i nn new Coin_Add_ok [OF ad] Coin_Add_ok [OF pd] Coin_Add_ok [OF td] mm
         in \<open>simp_all add: ac_shape_def\<close>)
  moreover have "orc w' = orc w" by (simp add: t3(2) t2(2) t1(2) setCollateral_def)
  ultimately show ?thesis by blast
qed

lemma BurnByCollateral_ok:
  assumes "BurnByCollateral S B ctx m w = Ok (w', r)"
  obtains sd rc q t0 p0 c0 apr c p t ri rt bn li ad pd td w1 w2 where
    "getSenderReceiver S (bbc_Sender m) [] = Ok (sd, rc)"
    "getAvailableCollateralParams w (bbc_CollateralDenom m) = Ok q"
    "getCollateral S ctx w sd (bbc_CollateralDenom m) False = Ok (t0, p0, c0)"
    "deref (crp_InterestFee q) = Ok apr"
    "settleInterestFee S ctx c0 p0 t0 apr = Ok (c, p, t)"
    "NewCoin S (Denom (bbc_RepayInMax m)) (min (Amount (ac_GridDebt c)) (Amount (bbc_RepayInMax m))) = Ok ri"
    "NewCoin S (Denom (bbc_RepayInMax m)) (min (Amount (ac_LastInterest c)) (Amount ri)) = Ok rt"
    "Coin_Sub S ri rt = Ok bn" "Coin_Sub S (ac_LastInterest c) rt = Ok li"
    "Coin_Sub S (ac_GridDebt c) ri = Ok ad" "Coin_Sub S (pc_GridDebt p) ri = Ok pd"
    "Coin_Sub S (tc_GridDebt t) ri = Ok td"
    "takeCoins S B sd [ri] (setCollateral sd (c\<lparr>ac_LastInterest := li, ac_GridDebt := ad\<rparr>)
          (p\<lparr>pc_GridDebt := pd\<rparr>) (t\<lparr>tc_GridDebt := td\<rparr>) w) = Ok w1"
    "whenb (coin_IsPositive bn) (burnCoins S B [bn]) w1 = Ok w2"
    "whenb (coin_IsPositive rt) (feeCoins S B [rt]) w2 = Ok w'"
    "coin_IsPositive (ac_GridDebt c)"
    "r = ri"
  using assms unfolding BurnByCollateral_def res_inv by blast

lemma BurnByCollateral_effect:
  assumes "BurnByCollateral S B ctx m w = Ok (w', r)"
    and "AccAddressFromBech32 S (bbc_Sender m) \<noteq> Some (GetModuleAddress B ''maker'')"
    and "inv_coll (BlockHeight ctx) (mk w)" "inv_params (mk w)"
  shows "\<exists>a dC dD dI. coll_effect (BlockHeight ctx) a (bbc_CollateralDenom m) dC dD dI (mk w) (mk w') \<and>
      orc w' = orc w \<and>
      (\<forall>x. mbal B w x + (if x = bbc_CollateralDenom m then dC else 0)
           + (if x = AttoIronDenom then dI else 0) \<le> mbal B w' x)"
proof -
  let ?d = "bbc_CollateralDenom m" and ?rd = "Denom (bbc_RepayInMax m)"
  obtain sd rc q t0 p0 c0 apr c p t ri rt bn li ad pd td w1 w2 where
    sd: "getSenderReceiver S (bbc_Sender m) [] = Ok (sd, rc)" and
    q: "getAvailableCollateralParams w ?d = Ok q" and
    g: "getCollateral S ctx w sd ?d False = Ok (t0, p0, c0)" and
    apr: "deref (crp_InterestFee q) = Ok apr" and
    se: "settleInterestFee S ctx c0 p0 t0 apr = Ok (c, p, t)" and
    ri: "NewCoin S ?rd (min (Amount (ac_GridDebt c)) (Amount (bbc_RepayInMax m))) = Ok ri" and
    rt: "NewCoin S ?rd (min (Amount (ac_LastInterest c)) (Amount ri)) = Ok rt" and
    bn: "Coin_Sub S ri rt = Ok bn" and li: "Coin_Sub S (ac_LastInterest c) rt = Ok li" and
    ad: "Coin_Sub S (ac_GridDebt c) ri = Ok ad" and pd: "Coin_Sub S (pc_GridDebt p) ri = Ok pd" and
    td: "Coin_Sub S (tc_GridDebt t) ri = Ok td" and
    w1: "takeCoins S B sd [ri] (setCollateral sd (c\<lparr>ac_LastInterest := li, ac_GridDebt := ad\<rparr>)
          (p\<lparr>pc_GridDebt := pd\<rparr>) (t\<lparr>tc_GridDebt := td\<rparr>) w) = Ok w1" and
    w2: "whenb (coin_IsPositive bn) (burnCoins S B [bn]) w1 = Ok w2" and
    w3: "whenb (coin_IsPositive rt) (feeCoins S B [rt]) w2 = Ok w'"
    using assms(1) by (rule BurnByCollateral_ok) (rule that)
  from settled [OF q g apr se assms(3,4)] obtain i where i: "0 \<le> i" "collateral_total (mk w) = Some t0"
    "kv_get (collateral_pool (mk w)) ?d = Some p0"
    "p = p0\<lparr>pc_GridDebt := coin_AddAmount (pc_GridDebt p0) i\<rparr>"
    "t = t0\<lparr>tc_GridDebt := coin_AddAmount (tc_GridDebt t0) i\<rparr>"
    "ac_shape (BlockHeight ctx) ?d c"
    "acColl (sd, ?d) c = kv_at acColl (collateral_account (mk w)) (sd, ?d)"
    "acDebt (sd, ?d) c = kv_at acDebt (collateral_account (mk w)) (sd, ?d) + i"
    "acIron (sd, ?d) c = kv_at acIron (collateral_account (mk w)) (sd, ?d)" .
  have ri': "Denom ri = ?rd" "0 \<le> Amount ri" "Amount ri \<le> Amount (ac_GridDebt c)"
    and rt': "Denom rt = ?rd" "0 \<le> Amount rt" "Amount rt = min (Amount (ac_LastInterest c)) (Amount ri)"
    using NewCoin_ok [OF ri] NewCoin_ok [OF rt] by auto
  have bn': "bn = coin_AddAmount ri (- Amount rt)" "0 \<le> Amount bn" using Coin_Sub_ok [OF bn] by auto
  note t1 = takeCoins_ok [OF w1] and t2 = whenb_burn [OF w2 bn'(2)] and t3 = whenb_fee [OF w3 rt'(2)]
  have sd': "sd \<noteq> GetModuleAddress B ''maker''" using sender_ok [OF sd assms(2)] .
  have "mbal B w x + (if x = ?d then 0 else 0) + (if x = AttoIronDenom then 0 else 0) \<le> mbal B w' x" for x
    unfolding t3(3) t2(3) t1(4) by (simp add: sd' bn' ri' rt' mbal_def setCollateral_def)
  moreover have "coll_effect (BlockHeight ctx) sd ?d 0 (i - Amount ri) 0 (mk w) (mk w')"
    by (rule coll_effectI [OF i(2,3)], simp add: t3(1) t2(1) t1(1) setCollateral_def)
       (use i ri' rt' Coin_Sub_ok [OF li] Coin_Sub_ok [OF ad] Coin_Sub_ok [OF pd] Coin_Sub_ok [OF td]
         in \<open>auto simp: ac_shape_def\<close>)
  moreover have "orc w' = orc w" by (simp add: t3(2) t2(2) t1(2) setCollateral_def)
  ultimately show ?thesis by blast
qed

lemma LiquidateCollateral_ok:
  assumes "LiquidateCollateral S B ctx m w = Ok (w', r)"
  obtains sd rc db q t0 p0 c0 apr c p t cp th fr cf co ri lt rd gr rt li ad pd td ac pc w1 w2 w3 w4 where
    "getSenderReceiver S (lc_Sender m) (lc_To m) = Ok (sd, rc)" "accAddress S (lc_Debtor m) = Ok db"
    "getAvailableCollateralParams w (Denom (lc_Collateral m)) = Ok q"
    "getCollateral S ctx w db (Denom (lc_Collateral m)) False = Ok (t0, p0, c0)"
    "deref (crp_InterestFee q) = Ok apr" "settleInterestFee S ctx c0 p0 t0 apr = Ok (c, p, t)"
    "GetExchangeRate (orc w) (Denom (lc_Collateral m)) = Ok cp"
    "deref (crp_LiquidationThreshold q) = Ok th"
    "\<not> Amount (ac_GridDebt c) * dec_one < Dec_Mul S (Amount (ac_Collateral c) * cp) th"
    "\<not> Amount (lc_Collateral m) > Amount (ac_Collateral c)"
    "deref (crp_LiquidationFee q) = Ok fr"
    "NewCoin S (Denom (lc_Collateral m)) (Dec_TruncateInt S
       (Dec_Mul S (Amount (lc_Collateral m) * fr) (LiquidationCommissionFee (mk w)))) = Ok cf"
    "Coin_Sub S (lc_Collateral m) cf = Ok co"
    "NewCoin S MicroUSMDenom (Dec_TruncateInt S
       (Dec_Mul S (ToDec (Amount (lc_Collateral m)) - Amount (lc_Collateral m) * fr) cp)) = Ok ri"
    "Coin_IsLT S (lc_RepayInMax m) ri = Ok lt" "\<not> lt"
    "NewCoin S MicroUSMDenom (min (Amount (ac_GridDebt c)) (Amount ri)) = Ok rd"
    "Coin_Sub S ri rd = Ok gr"
    "NewCoin S MicroUSMDenom (min (Amount (ac_LastInterest c)) (Amount rd)) = Ok rt"
    "Coin_Sub S (ac_LastInterest c) rt = Ok li" "Coin_Sub S (ac_GridDebt c) rd = Ok ad"
    "Coin_Sub S (pc_GridDebt p) rd = Ok pd" "Coin_Sub S (tc_GridDebt t) rd = Ok td"
    "Coin_Sub S (ac_Collateral c) (lc_Collateral m) = Ok ac"
    "Coin_Sub S (pc_Collateral p) (lc_Collateral m) = Ok pc"
    "takeCoins S B sd [ri] (setCollateral db
       (c\<lparr>ac_LastInterest := li, ac_GridDebt := ad, ac_Collateral := ac\<rparr>)
       (p\<lparr>pc_GridDebt := pd, pc_Collateral := pc\<rparr>) (t\<lparr>tc_GridDebt := td\<rparr>) w) = Ok w1"
    "burnCoins S B [rd] w1 = Ok w2"
    "whenb (coin_IsPositive gr) (payCoins S B db [gr]) w2 = Ok w3"
    "payCoins S B rc [co] w3 = Ok w4" "feeCoins S B [cf] w4 = Ok w'"
    "r = \<lparr>lcr_RepayIn = ri, lcr_CollateralOut = co\<rparr>"
proof -
  have dbt: "Dec_Mul S (ToDec i) dec_one = i * dec_one" for i by (simp add: ToDec_def)
  show thesis
    using assms unfolding LiquidateCollateral_def res_inv MicroUSMTarget_def Quo_one dbt Mul_ToDec simp_thms
    by (elim exE conjE) (rule that; (assumption | erule sym | simp))
qed

lemma LiquidateCollateral_effect:
  assumes "LiquidateCollateral S B ctx m w = Ok (w', r)"
    and "AccAddressFromBech32 S (lc_Sender m) \<noteq> Some (GetModuleAddress B ''maker'')"
    and "inv_coll (BlockHeight ctx) (mk w)" "inv_params (mk w)"
  shows "\<exists>a dC dD dI. coll_effect (BlockHeight ctx) a (Denom (lc_Collateral m)) dC dD dI (mk w) (mk w') \<and>
      orc w' = orc w \<and>
      (\<forall>x. mbal B w x + (if x = Denom (lc_Collateral m) then dC else 0)
           + (if x = AttoIronDenom then dI else 0) \<le> mbal B w' x)"
proof -
  let ?d = "Denom (lc_Collateral m)"
  obtain sd rc db q t0 p0 c0 apr c p t cfa cf co ria ri rd gr rt li ad pd td ac pc w1 w2 w3 w4 where
    sd: "getSenderReceiver S (lc_Sender m) (lc_To m) = Ok (sd, rc)" and
    q: "getAvailableCollateralParams w ?d = Ok q" and
    g: "getCollateral S ctx w db ?d False = Ok (t0, p0, c0)" and
    apr: "deref (crp_InterestFee q) = Ok apr" and se: "settleInterestFee S ctx c0 p0 t0 apr = Ok (c, p, t)" and
    cf: "NewCoin S ?d cfa = Ok cf" and co: "Coin_Sub S (lc_Collateral m) cf = Ok co" and
    ri: "NewCoin S MicroUSMDenom ria = Ok ri" and
    rd: "NewCoin S MicroUSMDenom (min (Amount (ac_GridDebt c)) (Amount ri)) = Ok rd" and
    gr: "Coin_Sub S ri rd = Ok gr" and
    rt: "NewCoin S MicroUSMDenom (min (Amount (ac_LastInterest c)) (Amount rd)) = Ok rt" and
    li: "Coin_Sub S (ac_LastInterest c) rt = Ok li" and ad: "Coin_Sub S (ac_GridDebt c) rd = Ok ad" and
    pd: "Coin_Sub S (pc_GridDebt p) rd = Ok pd" and td: "Coin_Sub S (tc_GridDebt t) rd = Ok td" and
    ac: "Coin_Sub S (ac_Collateral c) (lc_Collateral m) = Ok ac" and
    pc: "Coin_Sub S (pc_Collateral p) (lc_Collateral m) = Ok pc" and
    w1: "takeCoins S B sd [ri] (setCollateral db
       (c\<lparr>ac_LastInterest := li, ac_GridDebt := ad, ac_Collateral := ac\<rparr>)
       (p\<lparr>pc_GridDebt := pd, pc_Collateral := pc\<rparr>) (t\<lparr>tc_GridDebt := td\<rparr>) w) = Ok w1" and
    w2: "burnCoins S B [rd] w1 = Ok w2" and
    w3: "whenb (coin_IsPositive gr) (payCoins S B db [gr]) w2 = Ok w3" and
    w4: "payCoins S B rc [co] w3 = Ok w4" and w5: "feeCoins S B [cf] w4 = Ok w'"
    using assms(1) by (rule LiquidateCollateral_ok) (rule that)
  from settled [OF q g apr se assms(3,4)] obtain i where i: "0 \<le> i" "collateral_total (mk w) = Some t0"
    "kv_get (collateral_pool (mk w)) ?d = Some p0"
    "p = p0\<lparr>pc_GridDebt := coin_AddAmount (pc_GridDebt p0) i\<rparr>"
    "t = t0\<lparr>tc_GridDebt := coin_AddAmount (tc_GridDebt t0) i\<rparr>"
    "ac_shape (BlockHeight ctx) ?d c"
    "acColl (db, ?d) c = kv_at acColl (collateral_account (mk w)) (db, ?d)"
    "acDebt (db, ?d) c = kv_at acDebt (collateral_account (mk w)) (db, ?d) + i"
    "acIron (db, ?d) c = kv_at acIron (collateral_account (mk w)) (db, ?d)" .
  have rd': "Denom ri = MicroUSMDenom" "Denom rd = MicroUSMDenom" "0 \<le> Amount rd"
      "Amount rd \<le> Amount (ac_GridDebt c)"
    and rt': "0 \<le> Amount rt" "Amount rt = min (Amount (ac_LastInterest c)) (Amount rd)"
    using NewCoin_ok [OF ri] NewCoin_ok [OF rd] NewCoin_ok [OF rt] by auto
  have gr': "gr = coin_AddAmount ri (- Amount rd)" "0 \<le> Amount gr" using Coin_Sub_ok [OF gr] by auto
  have cf': "Denom cf = ?d" "0 \<le> Amount cf" using NewCoin_ok [OF cf] by auto
  have co': "co = coin_AddAmount (lc_Collateral m) (- Amount cf)" using Coin_Sub_ok [OF co] by simp
  note t1 = takeCoins_ok [OF w1] and t2 = burnCoins_ok [OF w2] and t3 = whenb_pay [OF w3 gr'(2)]
    and t4 = payCoins_ok [OF w4] and t5 = feeCoins_ok [OF w5]
  have nn: "0 \<le> Amount co" using t4(3) by simp
  have sd': "sd \<noteq> GetModuleAddress B ''maker''" using sender_ok [OF sd assms(2)] .
  have "mbal B w x + (if x = ?d then - Amount (lc_Collateral m) else 0)
      + (if x = AttoIronDenom then 0 else 0) \<le> mbal B w' x" for x
    using nn gr'(2) cf'(2) unfolding t5(4) t4(4) t3(3) t2(4) t1(4)
    by (simp add: sd' gr'(1) rd' cf' co' mbal_def setCollateral_def)
  moreover have "coll_effect (BlockHeight ctx) db ?d (- Amount (lc_Collateral m)) (i - Amount rd) 0 (mk w) (mk w')"
    by (rule coll_effectI [OF i(2,3)], simp add: t5(1) t4(1) t3(1) t2(1) t1(1) setCollateral_def)
       (use i rd' rt' Coin_Sub_ok [OF li] Coin_Sub_ok [OF ad] Coin_Sub_ok [OF pd] Coin_Sub_ok [OF td]
          Coin_Sub_ok [OF ac] Coin_Sub_ok [OF pc]
         in \<open>auto simp: ac_shape_def\<close>)
  moreover have "orc w' = orc w" by (simp add: t5(2) t4(2) t3(2) t2(2) t1(2) setCollateral_def)
  ultimately show ?thesis by blast
qed

end

end
