(* ===== verification/MakerReach.thy ===== *)
theory MakerReach
  imports MakerSteps
begin

text \<open>
  The maker as a state machine: a state is the current block height and the world; a step is a
  message that was validated and delivered, a governance proposal that was executed, a parameter
  change that passed its validators, the end of a block, or anything the rest of the chain does that
  leaves the maker's store alone and takes nothing out of its account.  The invariant holds in every
  reachable state.
\<close>

section \<open>Steps\<close>

definition signs :: "sdk \<Rightarrow> 'b bank \<Rightarrow> string \<Rightarrow> bool" where
  "signs S B sender \<longleftrightarrow> AccAddressFromBech32 S sender \<noteq> Some (GetModuleAddress B ''maker'')"

inductive maker_step :: "sdk \<Rightarrow> 'b bank \<Rightarrow> int \<times> 'b maker_world \<Rightarrow> int \<times> 'b maker_world \<Rightarrow> bool"
  for S :: sdk and B :: "'b bank" where
  mint_by_swap: "MsgMintBySwap_ValidateBasic S m1 = Ok () \<Longrightarrow> signs S B (mbs_Sender m1) \<Longrightarrow>
    MintBySwap S B m1 w = Ok (w', r1) \<Longrightarrow> maker_step S B (h, w) (h, w')"
| burn_by_swap: "MsgBurnBySwap_ValidateBasic S m2 = Ok () \<Longrightarrow> signs S B (bbs_Sender m2) \<Longrightarrow>
    BurnBySwap S B m2 w = Ok (w', r2) \<Longrightarrow> maker_step S B (h, w) (h, w')"
| buy_backing: "MsgBuyBacking_ValidateBasic S m3 = Ok () \<Longrightarrow> signs S B (bb_Sender m3) \<Longrightarrow>
    BuyBacking S B m3 w = Ok (w', r3) \<Longrightarrow> maker_step S B (h, w) (h, w')"
| sell_backing: "MsgSellBacking_ValidateBasic S m4 = Ok () \<Longrightarrow> signs S B (sb_Sender m4) \<Longrightarrow>
    SellBacking S B m4 w = Ok (w', r4) \<Longrightarrow> maker_step S B (h, w) (h, w')"
| mint_by_collateral: "MsgMintByCollateral_ValidateBasic S m5 = Ok () \<Longrightarrow> BlockHeight ctx = h \<Longrightarrow>
    MintByCollateral S B ctx m5 w = Ok (w', r5) \<Longrightarrow> maker_step S B (h, w) (h, w')"
| burn_by_collateral: "MsgBurnByCollateral_ValidateBasic S m6 = Ok () \<Longrightarrow> BlockHeight ctx = h \<Longrightarrow>
    signs S B (bbc_Sender m6) \<Longrightarrow> BurnByCollateral S B ctx m6 w = Ok (w', r6) \<Longrightarrow>
    maker_step S B (h, w) (h, w')"
| deposit_collateral: "MsgDepositCollateral_ValidateBasic S m7 = Ok () \<Longrightarrow> BlockHeight ctx = h \<Longrightarrow>
    signs S B (dc_Sender m7) \<Longrightarrow> DepositCollateral S B ctx m7 w = Ok w' \<Longrightarrow>
    maker_step S B (h, w) (h, w')"
| redeem_collateral: "MsgRedeemCollateral_ValidateBasic S m8 = Ok () \<Longrightarrow> BlockHeight ctx = h \<Longrightarrow>
    RedeemCollateral S B ctx m8 w = Ok w' \<Longrightarrow> maker_step S B (h, w) (h, w')"
| liquidate_collateral: "MsgLiquidateCollateral_ValidateBasic S m9 = Ok () \<Longrightarrow> BlockHeight ctx = h \<Longrightarrow>
    signs S B (lc_Sender m9) \<Longrightarrow> LiquidateCollateral S B ctx m9 w = Ok (w', r9) \<Longrightarrow>
    maker_step S B (h, w) (h, w')"
| register_backing: "BackingRiskParams_ValidateBasic p1 \<Longrightarrow>
    HandleRegisterBackingProposal S B p1 w = Ok w' \<Longrightarrow> maker_step S B (h, w) (h, w')"
| register_collateral: "CollateralRiskParams_ValidateBasic p2 \<Longrightarrow>
    HandleRegisterCollateralProposal S B p2 w = Ok w' \<Longrightarrow> maker_step S B (h, w) (h, w')"
| set_backing_params: "list_all BackingRiskParams_ValidateBasic ps1 \<Longrightarrow>
    HandleBatchSetBackingRiskParamsProposal ps1 w = Ok w' \<Longrightarrow> maker_step S B (h, w) (h, w')"
| set_collateral_params: "list_all CollateralRiskParams_ValidateBasic ps2 \<Longrightarrow>
    HandleBatchSetCollateralRiskParamsProposal ps2 w = Ok w' \<Longrightarrow> maker_step S B (h, w) (h, w')"
| param_change: "maker_params_ok mp \<Longrightarrow>
    maker_step S B (h, w) (h, w\<lparr>mk := maker_SetParams mp (mk w)\<rparr>)"
| end_block: "BlockHeight ctx = h \<Longrightarrow> maker_EndBlocker S ctx w = Ok w' \<Longrightarrow>
    maker_step S B (h, w) (h + 1, w')"
| environment: "mk w' = mk w \<Longrightarrow> (\<forall>d. mbal B w d \<le> mbal B w' d) \<Longrightarrow> maker_step S B (h, w) (h, w')"

definition maker_init :: "'b bank \<Rightarrow> int \<times> 'b maker_world \<Rightarrow> bool" where
  "maker_init B s \<longleftrightarrow> (\<exists>g p. MakerParams_Validate (mg_Params g) \<and>
     0 \<le> mg_BackingRatio g \<and> mg_BackingRatio g \<le> dec_one \<and>
     mk (snd s) = maker_InitGenesis g (maker_empty p))"

definition maker_reach :: "sdk \<Rightarrow> 'b bank \<Rightarrow> int \<times> 'b maker_world \<Rightarrow> bool" where
  "maker_reach S B s \<longleftrightarrow> (\<exists>s0. maker_init B s0 \<and> (maker_step S B)\<^sup>*\<^sup>* s0 s)"

definition maker_inv :: "'b bank \<Rightarrow> int \<times> 'b maker_world \<Rightarrow> bool" where
  "maker_inv B s \<longleftrightarrow> inv_backing (mk (snd s)) \<and> inv_coll (fst s) (mk (snd s)) \<and>
     inv_params (mk (snd s)) \<and> inv_ratio (mk (snd s)) \<and> solvent B (snd s)"

section \<open>Preservation\<close>

lemma ac_shape_mono: "ac_shape h d c \<Longrightarrow> h \<le> h' \<Longrightarrow> ac_shape h' d c"
  by (simp add: ac_shape_def)

lemma inv_coll_mono: "inv_coll h s \<Longrightarrow> h \<le> h' \<Longrightarrow> inv_coll h' s"
  unfolding inv_coll_def using ac_shape_mono by blast

lemma kv_at_none: "kv_get s k = None \<Longrightarrow> kv_at f s k = 0"
  by (simp add: kv_at_def)

lemma kv_wf_single [simp]: "kv_wf [(k, v)]"
  by (simp add: kv_wf_def)

lemma in_denom_absent:
  assumes "kv_wf s" "\<And>a. kv_get s (a, d) = None"
  shows "kv_sum (in_denom d f) s = 0"
proof -
  have "in_denom d f (fst e) (snd e) = 0" if "e \<in> set s" for e
  proof -
    obtain a x v where e: "e = ((a, x), v)" by (cases e) auto
    with that have "kv_get s (a, x) = Some v" by (simp add: kv_get_mem [OF assms(1)])
    with assms(2) [of a] have "x \<noteq> d" by auto
    with e show ?thesis by (simp add: in_denom_def)
  qed
  then have *: "map (\<lambda>e. in_denom d f (fst e) (snd e)) s = map (\<lambda>e. 0) s" by simp
  show ?thesis unfolding kv_sum_def * by simp
qed

lemma inv_backing_frame:
  assumes "backing_pool s' = backing_pool s" "backing_total s' = backing_total s"
  shows "inv_backing s' = inv_backing s"
  unfolding inv_backing_def assms by (rule refl)

lemma inv_coll_frame:
  assumes "collateral_pool s' = collateral_pool s" "collateral_account s' = collateral_account s"
    "collateral_total s' = collateral_total s"
  shows "inv_coll h s' = inv_coll h s"
  unfolding inv_coll_def assms by (rule refl)

lemma inv_ratio_frame:
  assumes "maker_params s' = maker_params s" "backing_ratio s' = backing_ratio s"
  shows "inv_ratio s' = inv_ratio s"
  unfolding inv_ratio_def GetBackingRatio_def assms by (rule refl)

lemma inv_params_frame:
  assumes "backing_params s' = backing_params s" "collateral_params s' = collateral_params s"
    and "\<And>d. (kv_get (backing_pool s') d = None) = (kv_get (backing_pool s) d = None)"
    and "\<And>d. (kv_get (collateral_pool s') d = None) = (kv_get (collateral_pool s) d = None)"
  shows "inv_params s' = inv_params s"
  unfolding inv_params_def assms by (rule refl)

lemma owed_frame:
  assumes "backing_pool s' = backing_pool s" "collateral_pool s' = collateral_pool s"
    "collateral_total s' = collateral_total s"
  shows "owed s' = owed s"
  unfolding owed_def fun_eq_iff assms by simp

lemmas inv_frames = inv_backing_frame inv_coll_frame inv_ratio_frame inv_params_frame

lemma backing_effect_dom:
  assumes "backing_effect d dM dB dI s s'" "inv_backing s"
  shows "(kv_get (backing_pool s') x = None) = (kv_get (backing_pool s) x = None)"
proof -
  obtain t p t' p' where *: "kv_get (backing_pool s) d = Some p"
    "s' = SetTotalBacking t' (SetPoolBacking p' s)" "pb_Backing p' = coin_AddAmount (pb_Backing p) dB"
    using assms(1) unfolding backing_effect_def by blast
  then have "Denom (pb_Backing p) = d" using assms(2) by (simp add: inv_backing_def pb_shape_def)
  with * show ?thesis by (simp add: maker_accessors)
qed

lemma coll_effect_dom:
  assumes "coll_effect h a d dC dD dI s s'" "inv_coll h s"
  shows "(kv_get (collateral_pool s') x = None) = (kv_get (collateral_pool s) x = None)"
proof -
  obtain t p t' p' c' where *: "kv_get (collateral_pool s) d = Some p"
    "s' = SetTotalCollateral t' (SetPoolCollateral p' (SetAccountCollateral a c' s))"
    "pc_Collateral p' = coin_AddAmount (pc_Collateral p) dC"
    using assms(1) unfolding coll_effect_def by blast
  then have "Denom (pc_Collateral p) = d" using assms(2) by (simp add: inv_coll_def pc_shape_def)
  with * show ?thesis by (simp add: maker_accessors)
qed

lemma backing_step:
  assumes eff: "backing_effect d dM dB dI (mk w) (mk w')"
    and bal: "\<forall>x. mbal B w x + (if x = d then dB else 0) \<le> mbal B w' x"
    and inv: "maker_inv B (h, w)"
  shows "maker_inv B (h, w')"
proof -
  note fr = backing_effect_frame [OF eff]
  have ib: "inv_backing (mk w)" and ic: "inv_coll h (mk w)" and ip: "inv_params (mk w)"
    and ir: "inv_ratio (mk w)" and sv: "\<forall>x. owed (mk w) x \<le> mbal B w x"
    using inv by (simp_all add: maker_inv_def solvent_def)
  have "owed (mk w') x \<le> mbal B w' x" for x
    using spec [OF sv, of x] spec [OF bal, of x] backing_effect_owed [OF eff ib, of x] by simp
  then show ?thesis
    using backing_effect_inv [OF eff ib] ic ip ir
    by (simp add: maker_inv_def solvent_def fr backing_effect_dom [OF eff ib] inv_frames(2-4) [of "mk w'" "mk w"])
qed

lemma coll_step:
  assumes eff: "coll_effect h a d dC dD dI (mk w) (mk w')"
    and bal: "\<forall>x. mbal B w x + (if x = d then dC else 0) + (if x = AttoIronDenom then dI else 0) \<le> mbal B w' x"
    and inv: "maker_inv B (h, w)"
  shows "maker_inv B (h, w')"
proof -
  note fr = coll_effect_frame [OF eff]
  have ib: "inv_backing (mk w)" and ic: "inv_coll h (mk w)" and ip: "inv_params (mk w)"
    and ir: "inv_ratio (mk w)" and sv: "\<forall>x. owed (mk w) x \<le> mbal B w x"
    using inv by (simp_all add: maker_inv_def solvent_def)
  have "owed (mk w') x \<le> mbal B w' x" for x
    using spec [OF sv, of x] spec [OF bal, of x] coll_effect_owed [OF eff ic, of x] by simp
  then show ?thesis
    using coll_effect_inv [OF eff ic] ib ip ir
    by (simp add: maker_inv_def solvent_def fr coll_effect_dom [OF eff ic] inv_frames(1,3,4) [of "mk w'" "mk w"])
qed

lemma backing_steps:
  "\<exists>dM dB dI. backing_effect d dM dB dI (mk w) (mk w') \<and> orc w' = orc w \<and>
      (\<forall>x. mbal B w x + (if x = d then dB else 0) \<le> mbal B w' x) \<Longrightarrow>
   maker_inv B (h, w) \<Longrightarrow> maker_inv B (h, w')"
  using backing_step by blast

lemma coll_steps:
  "\<exists>a dC dD dI. coll_effect h a d dC dD dI (mk w) (mk w') \<and> orc w' = orc w \<and>
      (\<forall>x. mbal B w x + (if x = d then dC else 0) + (if x = AttoIronDenom then dI else 0) \<le> mbal B w' x) \<Longrightarrow>
   maker_inv B (h, w) \<Longrightarrow> maker_inv B (h, w')"
  using coll_step by blast

lemma maker_inv_frame:
  assumes "maker_inv B (h, w)" "h \<le> h'"
    and "backing_pool (mk w') = backing_pool (mk w)" "backing_total (mk w') = backing_total (mk w)"
    and "collateral_pool (mk w') = collateral_pool (mk w)" "collateral_total (mk w') = collateral_total (mk w)"
    and "collateral_account (mk w') = collateral_account (mk w)"
    and "inv_params (mk w')" "inv_ratio (mk w')" "\<And>d. mbal B w d \<le> mbal B w' d"
  shows "maker_inv B (h', w')"
proof -
  have "owed (mk w') = owed (mk w)" using assms by (intro owed_frame)
  then have "solvent B w'" using assms(1,10) by (auto simp: maker_inv_def solvent_def intro: order_trans)
  moreover have "inv_coll h' (mk w')"
    using assms(1,2) inv_coll_frame [OF assms(5,7,6)] by (auto simp: maker_inv_def intro: inv_coll_mono)
  ultimately show ?thesis
    using assms(1,8,9) inv_backing_frame [OF assms(3,4)] by (simp add: maker_inv_def)
qed

subsection \<open>Governance\<close>

lemma unit_ratio_default: "unit_ratio r \<Longrightarrow> 0 \<le> d \<Longrightarrow> d \<le> dec_one \<Longrightarrow> unit_ratio (default d r)"
  by (simp add: unit_ratio_def default_def split: option.splits)

lemma default_simps [simp]:
  "default d None = Some d" "default d (Some x) = Some x" "default d r \<noteq> None" "\<exists>y. default d r = Some y"
  by (simp_all add: default_def split: option.splits)

lemma updateInt_ok:
  "updateInt t p = Ok (t', u) \<Longrightarrow> not_negative t \<Longrightarrow> not_negative p \<Longrightarrow>
     not_negative t' \<and> (u \<or> t' = t)"
  by (auto simp: updateInt_def split: option.splits)

lemma updateDecimal_ok:
  "updateDecimal t p = Ok (t', u) \<Longrightarrow> unit_ratio t \<Longrightarrow> unit_ratio p \<Longrightarrow>
     unit_ratio t' \<and> (t \<noteq> None \<longrightarrow> t' \<noteq> None) \<and> (u \<or> t' = t)"
  by (auto simp: updateDecimal_def split: option.splits)

lemma kv_sum_new:
  "kv_wf s \<Longrightarrow> kv_get s k = None \<Longrightarrow> kv_sum f (kv_set k v s) = kv_sum f s + f k v"
  by (simp add: kv_sum_set kv_at_none)

context chain_laws
begin

lemma HandleRegisterBackingProposal_ok:
  assumes "HandleRegisterBackingProposal S B p w = Ok w'"
  shows "kv_get (backing_params (mk w)) (brp_BackingDenom p) = None"
    and "backing_params (mk w') = kv_set (brp_BackingDenom p)
      (p\<lparr>brp_MintFee := default 0 (brp_MintFee p), brp_BurnFee := default 0 (brp_BurnFee p),
         brp_BuybackFee := default 0 (brp_BuybackFee p), brp_RebackFee := default 0 (brp_RebackFee p)\<rparr>)
      (backing_params (mk w))"
    and "backing_total (mk w') = default \<lparr>tb_GridMinted = \<lparr>Denom = MicroUSMDenom, Amount = 0\<rparr>,
      tb_IronBurned = \<lparr>Denom = AttoIronDenom, Amount = 0\<rparr>\<rparr> (backing_total (mk w))"
    and "backing_pool (mk w') = kv_set (brp_BackingDenom p)
      \<lparr>pb_GridMinted = \<lparr>Denom = MicroUSMDenom, Amount = 0\<rparr>,
       pb_Backing = \<lparr>Denom = brp_BackingDenom p, Amount = 0\<rparr>,
       pb_IronBurned = \<lparr>Denom = AttoIronDenom, Amount = 0\<rparr>\<rparr> (backing_pool (mk w))"
    and "collateral_pool (mk w') = collateral_pool (mk w)" "collateral_total (mk w') = collateral_total (mk w)"
    and "collateral_account (mk w') = collateral_account (mk w)" "maker_params (mk w') = maker_params (mk w)"
    and "collateral_params (mk w') = collateral_params (mk w)" "backing_ratio (mk w') = backing_ratio (mk w)"
    and "bnk w' = bnk w"
  using assms
  by (cases "backing_total (mk w)"; force simp: HandleRegisterBackingProposal_def res_simps sdk_simps
      Let_def maker_accessors kv_has_def IsBackingRegistered_def split: if_splits)+

lemma HandleRegisterCollateralProposal_ok:
  assumes "HandleRegisterCollateralProposal S B p w = Ok w'"
  shows "kv_get (collateral_params (mk w)) (crp_CollateralDenom p) = None"
    and "\<exists>q. collateral_params (mk w') = kv_set (crp_CollateralDenom p) q (collateral_params (mk w)) \<and>
      crp_CollateralDenom q = crp_CollateralDenom p \<and>
      (CollateralRiskParams_ValidateBasic p \<longrightarrow> crp_ok q)"
    and "collateral_total (mk w') = default \<lparr>tc_GridDebt = \<lparr>Denom = MicroUSMDenom, Amount = 0\<rparr>,
      tc_IronCollateralized = \<lparr>Denom = AttoIronDenom, Amount = 0\<rparr>\<rparr> (collateral_total (mk w))"
    and "collateral_pool (mk w') = kv_set (crp_CollateralDenom p)
      \<lparr>pc_Collateral = \<lparr>Denom = crp_CollateralDenom p, Amount = 0\<rparr>,
       pc_GridDebt = \<lparr>Denom = MicroUSMDenom, Amount = 0\<rparr>,
       pc_IronCollateralized = \<lparr>Denom = AttoIronDenom, Amount = 0\<rparr>\<rparr> (collateral_pool (mk w))"
    and "backing_pool (mk w') = backing_pool (mk w)" "backing_total (mk w') = backing_total (mk w)"
    and "collateral_account (mk w') = collateral_account (mk w)" "maker_params (mk w') = maker_params (mk w)"
    and "backing_params (mk w') = backing_params (mk w)" "backing_ratio (mk w') = backing_ratio (mk w)"
    and "bnk w' = bnk w"
proof -
  let ?q = "p\<lparr>crp_LiquidationThreshold := default (70 * 10 ^ 16) (crp_LiquidationThreshold p),
    crp_LoanToValue := default (60 * 10 ^ 16) (crp_LoanToValue p),
    crp_BasicLoanToValue := default (40 * 10 ^ 16) (crp_BasicLoanToValue p),
    crp_CatalyticIronRatio := default (10 * 10 ^ 16) (crp_CatalyticIronRatio p),
    crp_LiquidationFee := default (10 * 10 ^ 16) (crp_LiquidationFee p),
    crp_MintFee := default (5 * 10 ^ 15) (crp_MintFee p),
    crp_InterestFee := default (1 * 10 ^ 16) (crp_InterestFee p)\<rparr>"
  have v: "validateCollateralRiskParams ?q = Ok ()"
    using assms unfolding HandleRegisterCollateralProposal_def res_inv by blast
  have "CollateralRiskParams_ValidateBasic p \<longrightarrow> CollateralRiskParams_ValidateBasic ?q"
    by (simp add: CollateralRiskParams_ValidateBasic_def unit_ratio_default dec_one_def)
  moreover have "the (crp_BasicLoanToValue ?q) \<le> the (crp_LoanToValue ?q)"
    "the (crp_LoanToValue ?q) < the (crp_LiquidationThreshold ?q)"
    using v by (auto simp: validateCollateralRiskParams_def res_simps deref_def split: option.splits)
  ultimately have "CollateralRiskParams_ValidateBasic p \<longrightarrow> crp_ok ?q" by (simp add: crp_ok_def)
  moreover have "collateral_params (mk w') = kv_set (crp_CollateralDenom p) ?q (collateral_params (mk w))"
    using assms unfolding HandleRegisterCollateralProposal_def
    by (cases "collateral_total (mk w)"; force simp: res_simps Let_def maker_accessors)
  ultimately show "\<exists>q. collateral_params (mk w') = kv_set (crp_CollateralDenom p) q (collateral_params (mk w)) \<and>
      crp_CollateralDenom q = crp_CollateralDenom p \<and>
      (CollateralRiskParams_ValidateBasic p \<longrightarrow> crp_ok q)"
    by (intro exI [of _ ?q] conjI) simp_all
qed (use assms in \<open>cases "collateral_total (mk w)"; force simp: HandleRegisterCollateralProposal_def
      res_simps sdk_simps Let_def maker_accessors kv_has_def IsCollateralRegistered_def
      split: if_splits\<close>)+

lemma register_backing_step:
  assumes "HandleRegisterBackingProposal S B p w = Ok w'" "BackingRiskParams_ValidateBasic p"
    and "maker_inv B (h, w)"
  shows "maker_inv B (h, w')"
proof -
  let ?d = "brp_BackingDenom p"
  note ok = HandleRegisterBackingProposal_ok [OF assms(1)]
  have ib: "inv_backing (mk w)" and ic: "inv_coll h (mk w)" and ip: "inv_params (mk w)"
    and ir: "inv_ratio (mk w)" and sv: "\<forall>x. owed (mk w) x \<le> mbal B w x"
    using assms(3) by (simp_all add: maker_inv_def solvent_def)
  have new: "kv_get (backing_pool (mk w)) ?d = None" using ip ok(1) by (auto simp: inv_params_def)
  have "inv_backing (mk w')"
    using ib new by (auto simp: inv_backing_def ok pb_shape_def default_def kv_sum_new split: option.splits if_splits)
  moreover have "inv_params (mk w')"
    using ip assms(2) by (auto simp: inv_params_def ok brp_ok_def BackingRiskParams_ValidateBasic_def unit_ratio_default dec_one_def)
  moreover have "owed (mk w') = owed (mk w)"
    using new by (auto simp: owed_def fun_eq_iff ok kv_at_def)
  ultimately show ?thesis
    using ic ir sv by (simp add: maker_inv_def solvent_def mbal_def ok inv_frames(2,3) [of "mk w'" "mk w"])
qed

lemma register_collateral_step:
  assumes "HandleRegisterCollateralProposal S B p w = Ok w'" "CollateralRiskParams_ValidateBasic p"
    and "maker_inv B (h, w)"
  shows "maker_inv B (h, w')"
proof -
  let ?d = "crp_CollateralDenom p"
  note ok = HandleRegisterCollateralProposal_ok [OF assms(1)]
  obtain q where q: "collateral_params (mk w') = kv_set ?d q (collateral_params (mk w))"
    "crp_CollateralDenom q = ?d" "crp_ok q" using ok(2) assms(2) by blast
  have ib: "inv_backing (mk w)" and ic: "inv_coll h (mk w)" and ip: "inv_params (mk w)"
    and ir: "inv_ratio (mk w)" and sv: "\<forall>x. owed (mk w) x \<le> mbal B w x"
    using assms(3) by (simp_all add: maker_inv_def solvent_def)
  have new: "kv_get (collateral_pool (mk w)) ?d = None" using ip ok(1) by (auto simp: inv_params_def)
  have "kv_get (collateral_account (mk w)) (a, ?d) = None" for a
    using ic new unfolding inv_coll_def by (metis option.exhaust)
  then have empty: "kv_sum (in_denom ?d f) (collateral_account (mk w)) = 0" for f
    using ic by (intro in_denom_absent) (simp_all add: inv_coll_def)
  have "inv_coll h (mk w')"
    using ic new empty unfolding inv_coll_def ok
    by (cases "collateral_total (mk w)") (auto simp: pc_shape_def kv_sum_new)
  moreover have "inv_params (mk w')"
    using ip q by (auto simp: inv_params_def ok)
  moreover have "owed (mk w') = owed (mk w)"
    using new unfolding owed_def fun_eq_iff ok
    by (cases "collateral_total (mk w)") (auto simp: kv_at_def)
  ultimately show ?thesis
    using ib ir sv by (simp add: maker_inv_def solvent_def mbal_def ok inv_frames(1,3) [of "mk w'" "mk w"])
qed

end

lemma if_validated:
  "(if b then rbind v (\<lambda>_. Ok x) else Ok w) = Ok w' \<Longrightarrow> w' = w \<or> v = Ok () \<and> w' = x"
  by (auto simp: res_simps split: if_splits)

lemma setBackingRiskParamsProposal_ok:
  assumes "setBackingRiskParamsProposal patch w = Ok w'" "BackingRiskParams_ValidateBasic patch"
    and "inv_params (mk w)"
  obtains q where "w' = w\<lparr>mk := SetBackingRiskParams q (mk w)\<rparr>" "brp_ok q"
    "kv_get (backing_params (mk w)) (brp_BackingDenom q) \<noteq> None"
  | "w' = w"
proof -
  obtain p where p: "kv_get (backing_params (mk w)) (brp_BackingDenom patch) = Some p"
    using assms(1) by (auto simp: setBackingRiskParamsProposal_def GetBackingRiskParams_def split: option.splits)
  obtain f1 u1 f2 u2 f3 u3 f4 u4 f5 u5 f6 u6 q where
    u: "updateInt (brp_MaxBacking p) (brp_MaxBacking patch) = Ok (f1, u1)"
      "updateInt (brp_MaxGridMint p) (brp_MaxGridMint patch) = Ok (f2, u2)"
      "updateDecimal (brp_MintFee p) (brp_MintFee patch) = Ok (f3, u3)"
      "updateDecimal (brp_BurnFee p) (brp_BurnFee patch) = Ok (f4, u4)"
      "updateDecimal (brp_BuybackFee p) (brp_BuybackFee patch) = Ok (f5, u5)"
      "updateDecimal (brp_RebackFee p) (brp_RebackFee patch) = Ok (f6, u6)" and
    q: "q = p\<lparr>brp_Enabled := brp_Enabled patch, brp_MaxBacking := f1, brp_MaxGridMint := f2,
         brp_MintFee := f3, brp_BurnFee := f4, brp_BuybackFee := f5, brp_RebackFee := f6\<rparr>" and
    w': "w' = w \<or> validateBackingRiskParams (mk w) q = Ok () \<and> w' = w\<lparr>mk := SetBackingRiskParams q (mk w)\<rparr>"
    using assms(1) unfolding setBackingRiskParamsProposal_def GetBackingRiskParams_def p option.case res_inv
    by (elim exE conjE) (drule if_validated, rule that, (assumption | rule refl)+)
  have ok: "brp_BackingDenom p = brp_BackingDenom patch" "brp_ok p"
    using p assms(3) by (simp_all add: inv_params_def)
  note up = updateInt_ok [OF u(1)] updateInt_ok [OF u(2)] updateDecimal_ok [OF u(3)]
      updateDecimal_ok [OF u(4)] updateDecimal_ok [OF u(5)] updateDecimal_ok [OF u(6)]
  have "brp_ok q"
    using assms(2) ok(2) up unfolding brp_ok_def BackingRiskParams_ValidateBasic_def q by simp
  moreover have "kv_get (backing_params (mk w)) (brp_BackingDenom q) \<noteq> None"
    using p ok(1) by (simp add: q)
  ultimately show thesis using w' that by blast
qed

lemma set_backing_step:
  assumes "setBackingRiskParamsProposal patch w = Ok w'" "BackingRiskParams_ValidateBasic patch"
    and "maker_inv B (h, w)"
  shows "maker_inv B (h, w')"
proof -
  have ip: "inv_params (mk w)" and ir: "inv_ratio (mk w)" using assms(3) by (simp_all add: maker_inv_def)
  from assms(1,2) ip show ?thesis
  proof (cases rule: setBackingRiskParamsProposal_ok)
    case (1 q)
    then have "inv_params (mk w')" "inv_ratio (mk w')"
      using ip ir by (auto simp: inv_params_def inv_ratio_def maker_accessors GetBackingRatio_def)
    then show ?thesis
      by (intro maker_inv_frame [OF assms(3)]) (simp_all add: 1 maker_accessors mbal_def)
  qed (use assms(3) in simp)
qed

lemma setCollateralRiskParamsProposal_ok:
  assumes "setCollateralRiskParamsProposal patch w = Ok w'" "CollateralRiskParams_ValidateBasic patch"
    and "inv_params (mk w)"
  obtains q where "w' = w\<lparr>mk := SetCollateralRiskParams q (mk w)\<rparr>" "crp_ok q"
    "kv_get (collateral_params (mk w)) (crp_CollateralDenom q) \<noteq> None"
  | "w' = w"
proof -
  obtain p where p: "kv_get (collateral_params (mk w)) (crp_CollateralDenom patch) = Some p"
    using assms(1) by (auto simp: setCollateralRiskParamsProposal_def GetCollateralRiskParams_def split: option.splits)
  obtain f1 u1 f2 u2 f3 u3 f4 u4 f5 u5 f6 u6 f7 u7 f8 u8 f9 u9 q where
    u: "updateInt (crp_MaxCollateral p) (crp_MaxCollateral patch) = Ok (f1, u1)"
      "updateInt (crp_MaxGridMint p) (crp_MaxGridMint patch) = Ok (f2, u2)"
      "updateDecimal (crp_LiquidationThreshold p) (crp_LiquidationThreshold patch) = Ok (f3, u3)"
      "updateDecimal (crp_LoanToValue p) (crp_LoanToValue patch) = Ok (f4, u4)"
      "updateDecimal (crp_BasicLoanToValue p) (crp_BasicLoanToValue patch) = Ok (f5, u5)"
      "updateDecimal (crp_CatalyticIronRatio p) (crp_CatalyticIronRatio patch) = Ok (f6, u6)"
      "updateDecimal (crp_LiquidationFee p) (crp_LiquidationFee patch) = Ok (f7, u7)"
      "updateDecimal (crp_MintFee p) (crp_MintFee patch) = Ok (f8, u8)"
      "updateDecimal (crp_InterestFee p) (crp_InterestFee patch) = Ok (f9, u9)" and
    q: "q = p\<lparr>crp_Enabled := crp_Enabled patch, crp_MaxCollateral := f1, crp_MaxGridMint := f2,
      crp_LiquidationThreshold := f3, crp_LoanToValue := f4, crp_BasicLoanToValue := f5,
      crp_CatalyticIronRatio := f6, crp_LiquidationFee := f7, crp_MintFee := f8, crp_InterestFee := f9\<rparr>" and
    w': "w' = w \<or> validateCollateralRiskParams q = Ok () \<and> w' = w\<lparr>mk := SetCollateralRiskParams q (mk w)\<rparr>"
    using assms(1) unfolding setCollateralRiskParamsProposal_def GetCollateralRiskParams_def p option.case res_inv
    by (elim exE conjE) (drule if_validated, rule that, (assumption | rule refl)+)
  have ok: "crp_CollateralDenom p = crp_CollateralDenom patch" "crp_ok p"
    using p assms(3) by (simp_all add: inv_params_def)
  note up = updateInt_ok [OF u(1)] updateInt_ok [OF u(2)] updateDecimal_ok [OF u(3)]
      updateDecimal_ok [OF u(4)] updateDecimal_ok [OF u(5)] updateDecimal_ok [OF u(6)]
      updateDecimal_ok [OF u(7)] updateDecimal_ok [OF u(8)] updateDecimal_ok [OF u(9)]
  have vb: "CollateralRiskParams_ValidateBasic q \<and> crp_LiquidationThreshold q \<noteq> None \<and>
      crp_LoanToValue q \<noteq> None \<and> crp_BasicLoanToValue q \<noteq> None \<and> crp_CatalyticIronRatio q \<noteq> None \<and>
      crp_LiquidationFee q \<noteq> None \<and> crp_MintFee q \<noteq> None \<and> crp_InterestFee q \<noteq> None"
    using assms(2) ok(2) up unfolding crp_ok_def CollateralRiskParams_ValidateBasic_def q by simp
  have "crp_ok q" if "validateCollateralRiskParams q = Ok ()"
    using that vb by (auto simp: crp_ok_def validateCollateralRiskParams_def res_simps deref_def)
  with w' that p ok(1) q show thesis by auto
qed

lemma set_collateral_step:
  assumes "setCollateralRiskParamsProposal patch w = Ok w'" "CollateralRiskParams_ValidateBasic patch"
    and "maker_inv B (h, w)"
  shows "maker_inv B (h, w')"
proof -
  have ip: "inv_params (mk w)" and ir: "inv_ratio (mk w)" using assms(3) by (simp_all add: maker_inv_def)
  from assms(1,2) ip show ?thesis
  proof (cases rule: setCollateralRiskParamsProposal_ok)
    case (1 q)
    then have "inv_params (mk w')" "inv_ratio (mk w')"
      using ip ir by (auto simp: inv_params_def inv_ratio_def maker_accessors GetBackingRatio_def)
    then show ?thesis
      by (intro maker_inv_frame [OF assms(3)]) (simp_all add: 1 maker_accessors mbal_def)
  qed (use assms(3) in simp)
qed

lemma batch_set_backing_step:
  "HandleBatchSetBackingRiskParamsProposal ps w = Ok w' \<Longrightarrow> list_all BackingRiskParams_ValidateBasic ps \<Longrightarrow>
     maker_inv B (h, w) \<Longrightarrow> maker_inv B (h, w')"
  by (induction ps arbitrary: w) (auto simp: res_simps intro: set_backing_step)

lemma batch_set_collateral_step:
  "HandleBatchSetCollateralRiskParamsProposal ps w = Ok w' \<Longrightarrow>
     list_all CollateralRiskParams_ValidateBasic ps \<Longrightarrow> maker_inv B (h, w) \<Longrightarrow> maker_inv B (h, w')"
  by (induction ps arbitrary: w) (auto simp: res_simps intro: set_collateral_step)

subsection \<open>The end of a block, and every step\<close>

lemma AdjustBackingRatio_ok:
  assumes "AdjustBackingRatio S ctx w = Ok w'" "inv_ratio (mk w)"
  obtains r l where "w' = w\<lparr>mk := (mk w)\<lparr>backing_ratio := r, backing_ratio_last_block := l\<rparr>\<rparr>"
    "inv_ratio (mk w')"
proof (cases "w' = w")
  case True
  with that [where r = "backing_ratio (mk w)" and l = "backing_ratio_last_block (mk w)"] assms(2) show ?thesis by simp
next
  case False
  let ?r = "GetBackingRatio (mk w)" and ?st = "BackingRatioStep (mk w)"
  from False assms(1) obtain r where
    w': "w' = w\<lparr>mk := (mk w)\<lparr>backing_ratio := Some r,
           backing_ratio_last_block := Some (u64_of_int (BlockHeight ctx))\<rparr>\<rparr>" and
    r: "r = max (?r - ?st) 0 \<or> r = min (?r + ?st) dec_one \<or> r = ?r"
    by (auto simp: AdjustBackingRatio_def Let_def SetBackingRatioLastBlock_def SetBackingRatio_def
        res_simps split: if_splits res.splits)
  have "0 \<le> ?r" "?r \<le> dec_one" "0 \<le> ?st"
    using assms(2) by (auto simp: inv_ratio_def maker_params_ok_def validateBackingRatioStep_def BackingRatioStep_def)
  then have "0 \<le> r" "r \<le> dec_one" using r by (auto simp: dec_one_def)
  then have "inv_ratio (mk w')"
    using assms(2) w' by (simp add: inv_ratio_def GetBackingRatio_def)
  with w' show ?thesis by (rule that)
qed

context chain_laws
begin

lemma maker_step_inv: "maker_step S B s s' \<Longrightarrow> maker_inv B s \<Longrightarrow> maker_inv B s'"
proof (induction rule: maker_step.induct)
  case (mint_by_swap m w w' r h)
  then have "inv_backing (mk w)" by (simp add: maker_inv_def)
  from backing_steps [OF MintBySwap_effect [OF mint_by_swap(3) mint_by_swap(2) [unfolded signs_def] this] mint_by_swap(4)]
  show ?case .
next
  case (burn_by_swap m w w' r h)
  from backing_steps [OF BurnBySwap_effect [OF burn_by_swap(3) burn_by_swap(2) [unfolded signs_def]] burn_by_swap(4)]
  show ?case .
next
  case (buy_backing m w w' r h)
  from backing_steps [OF BuyBacking_effect [OF buy_backing(3) buy_backing(2) [unfolded signs_def]] buy_backing(4)]
  show ?case .
next
  case (sell_backing m w w' r h)
  then have "inv_backing (mk w)" by (simp add: maker_inv_def)
  from backing_steps [OF SellBacking_effect [OF sell_backing(3) sell_backing(2) [unfolded signs_def] this] sell_backing(4)]
  show ?case .
next
  case (mint_by_collateral m ctx h w w' r)
  then have "maker_inv B (BlockHeight ctx, w)" "inv_coll (BlockHeight ctx) (mk w)" "inv_params (mk w)"
    by (simp_all add: maker_inv_def)
  with coll_steps [OF MintByCollateral_effect [OF mint_by_collateral(3)]]
  show ?case using mint_by_collateral(2) by simp
next
  case (burn_by_collateral m ctx h w w' r)
  then have "maker_inv B (BlockHeight ctx, w)" "inv_coll (BlockHeight ctx) (mk w)" "inv_params (mk w)"
    by (simp_all add: maker_inv_def)
  with coll_steps [OF BurnByCollateral_effect [OF burn_by_collateral(4) burn_by_collateral(3) [unfolded signs_def]]]
  show ?case using burn_by_collateral(2) by simp
next
  case (deposit_collateral m ctx h w w')
  then have "maker_inv B (BlockHeight ctx, w)" "inv_coll (BlockHeight ctx) (mk w)" "inv_params (mk w)"
    by (simp_all add: maker_inv_def)
  with coll_steps [OF DepositCollateral_effect [OF deposit_collateral(4) deposit_collateral(3) [unfolded signs_def]]]
  show ?case using deposit_collateral(2) by simp
next
  case (redeem_collateral m ctx h w w')
  then have "maker_inv B (BlockHeight ctx, w)" "inv_coll (BlockHeight ctx) (mk w)" "inv_params (mk w)"
    by (simp_all add: maker_inv_def)
  with coll_steps [OF RedeemCollateral_effect [OF redeem_collateral(3)]]
  show ?case using redeem_collateral(2) by simp
next
  case (liquidate_collateral m ctx h w w' r)
  then have "maker_inv B (BlockHeight ctx, w)" "inv_coll (BlockHeight ctx) (mk w)" "inv_params (mk w)"
    by (simp_all add: maker_inv_def)
  with coll_steps [OF LiquidateCollateral_effect [OF liquidate_collateral(4) liquidate_collateral(3) [unfolded signs_def]]]
  show ?case using liquidate_collateral(2) by simp
next
  case (param_change p h w)
  then show ?case
    by (intro maker_inv_frame [OF param_change(2)])
      (auto simp: maker_inv_def maker_SetParams_def inv_params_def inv_ratio_def GetBackingRatio_def mbal_def)
next
  case (end_block ctx h w w')
  then obtain r l where "w' = w\<lparr>mk := (mk w)\<lparr>backing_ratio := r, backing_ratio_last_block := l\<rparr>\<rparr>"
    "inv_ratio (mk w')"
    by (auto simp: maker_EndBlocker_def maker_inv_def elim: AdjustBackingRatio_ok)
  with end_block(3) show ?case
    by (intro maker_inv_frame [OF end_block(3)]) (auto simp: maker_inv_def inv_params_def mbal_def)
next
  case (environment w' w h)
  then show ?case
    by (intro maker_inv_frame [OF environment(3)]) (auto simp: maker_inv_def)
qed (erule (2) register_backing_step register_collateral_step batch_set_backing_step batch_set_collateral_step)+

lemma maker_init_inv: "maker_init B s \<Longrightarrow> maker_inv B s"
  by (cases s) (auto simp: maker_init_def maker_inv_def maker_InitGenesis_def maker_empty_def
      SetBackingRatio_def maker_SetParams_def inv_backing_def inv_coll_def inv_params_def inv_ratio_def
      GetBackingRatio_def solvent_def owed_def kv_at_def mbal_def bal_nonneg kv_wf_def
      MakerParams_Validate_ok)

lemma maker_reach_inv:
  assumes "maker_reach S B s"
  shows "maker_inv B s"
proof -
  obtain s0 where "maker_init B s0" "(maker_step S B)\<^sup>*\<^sup>* s0 s"
    using assms unfolding maker_reach_def by blast
  from this(2,1) show ?thesis
    by (induction rule: rtranclp_induct) (auto intro: maker_init_inv maker_step_inv)
qed

end

end
