(* ===== verification/MakerDemo.thy ===== *)
theory MakerDemo
  imports MakerReach
begin

text \<open>
  A run of the maker on the reference instances of the interfaces, which the witnesses of the
  properties evaluate: genesis, one collateral and one backing registered, a deposit, a loan against
  it and a mint by swap.
\<close>

definition demo_orc :: oracle_store where
  "demo_orc = \<lparr>exchange_rates = [(AttoIronDenom, dec_one), (''ueth'', 2 * dec_one), (MicroUSMDenom, 102 * 10 ^ 16)],
     feeder_delegations = [], miss_counters = [], prevotes = [], votes = [], vote_targets = [],
     targets = [], oracle_params = OracleDefaultParams\<rparr>"

definition demo_bank :: ledger_state where
  "demo_bank = \<lparr>balances = [((''alice'', ''airon''), 5000), ((''alice'', ''ueth''), 5000), ((''bob'', ''ueth''), 9000)],
     supplies = [(''airon'', 5000), (''ueth'', 14000)]\<rparr>"

definition demo_genesis :: "ledger_state maker_world" where
  "demo_genesis = \<lparr>mk = maker_InitGenesis MakerDefaultGenesis (maker_empty MakerDefaultParams),
     orc = demo_orc, bnk = demo_bank\<rparr>"

definition demo_ctx :: ctx where
  "demo_ctx = \<lparr>BlockHeight = 7, BlockTime = 100\<rparr>"

definition demo_crp :: CollateralRiskParams where
  "demo_crp = \<lparr>crp_CollateralDenom = ''ueth'', crp_Enabled = True, crp_MaxCollateral = None,
     crp_MaxGridMint = None, crp_LiquidationThreshold = None, crp_LoanToValue = None,
     crp_BasicLoanToValue = None, crp_CatalyticIronRatio = None, crp_LiquidationFee = None,
     crp_MintFee = None, crp_InterestFee = None\<rparr>"

definition demo_crp_reg :: CollateralRiskParams where
  "demo_crp_reg = demo_crp\<lparr>crp_LiquidationThreshold := Some (7 * 10 ^ 17),
     crp_LoanToValue := Some (6 * 10 ^ 17), crp_BasicLoanToValue := Some (4 * 10 ^ 17),
     crp_CatalyticIronRatio := Some (10 ^ 17), crp_LiquidationFee := Some (10 ^ 17),
     crp_MintFee := Some (5 * 10 ^ 15), crp_InterestFee := Some (10 ^ 16)\<rparr>"

definition demo_brp :: BackingRiskParams where
  "demo_brp = \<lparr>brp_BackingDenom = ''ueth'', brp_Enabled = True, brp_MaxBacking = None,
     brp_MaxGridMint = Some 5000, brp_MintFee = Some (dec_one div 100), brp_BurnFee = None,
     brp_BuybackFee = None, brp_RebackFee = None\<rparr>"

definition demo_deposit :: MsgDepositCollateral where
  "demo_deposit = \<lparr>dc_Sender = ''alice'', dc_To = [], dc_CollateralIn = \<lparr>Denom = ''ueth'', Amount = 1000\<rparr>,
     dc_IronIn = \<lparr>Denom = AttoIronDenom, Amount = 100\<rparr>\<rparr>"

definition demo_borrow :: MsgMintByCollateral where
  "demo_borrow = \<lparr>mbc_Sender = ''alice'', mbc_To = [], mbc_CollateralDenom = ''ueth'',
     mbc_MintOut = \<lparr>Denom = MicroUSMDenom, Amount = 400\<rparr>\<rparr>"

definition demo_mint :: MsgMintBySwap where
  "demo_mint = \<lparr>mbs_Sender = ''bob'', mbs_To = [], mbs_BackingInMax = \<lparr>Denom = ''ueth'', Amount = 1000\<rparr>,
     mbs_IronInMax = \<lparr>Denom = AttoIronDenom, Amount = 0\<rparr>,
     mbs_MintOutMin = \<lparr>Denom = MicroUSMDenom, Amount = 1900\<rparr>, mbs_FullBacking = False\<rparr>"

abbreviation usm :: "int \<Rightarrow> coin" where
  "usm n \<equiv> \<lparr>Denom = ''uusm'', Amount = n\<rparr>"

abbreviation iron :: "int \<Rightarrow> coin" where
  "iron n \<equiv> \<lparr>Denom = ''airon'', Amount = n\<rparr>"

abbreviation ueth :: "int \<Rightarrow> coin" where
  "ueth n \<equiv> \<lparr>Denom = ''ueth'', Amount = n\<rparr>"

definition demo_position :: "int \<Rightarrow> AccountCollateral" where
  "demo_position n = \<lparr>ac_Account = ''alice'', ac_Collateral = ueth 1000, ac_GridDebt = usm n,
     ac_IronCollateralized = iron 100, ac_LastInterest = usm 0, ac_LastSettlementBlock = 7\<rparr>"

text \<open>A world with the given pools and balances.\<close>

definition demo_world :: "(denom, PoolBacking) kv \<Rightarrow> int \<Rightarrow> (denom, PoolCollateral) kv \<Rightarrow> int \<Rightarrow> int \<Rightarrow>
    (addr \<times> denom, AccountCollateral) kv \<Rightarrow> ledger_state \<Rightarrow> ledger_state maker_world" where
  "demo_world bpool minted cpool debt ironed accounts b =
   \<lparr>mk = \<lparr>backing_ratio = Some dec_one, backing_ratio_last_block = None,
      backing_params = (if bpool = [] then [] else
        [(''ueth'', demo_brp\<lparr>brp_BurnFee := Some 0, brp_BuybackFee := Some 0, brp_RebackFee := Some 0\<rparr>)]),
      collateral_params = [(''ueth'', demo_crp_reg)],
      backing_total = (if bpool = [] then None
        else Some \<lparr>tb_GridMinted = usm minted, tb_IronBurned = iron 0\<rparr>),
      collateral_total = Some \<lparr>tc_GridDebt = usm debt, tc_IronCollateralized = iron ironed\<rparr>,
      backing_pool = bpool, collateral_pool = cpool, collateral_account = accounts,
      maker_params = MakerDefaultParams\<rparr>,
    orc = demo_orc, bnk = b\<rparr>"

abbreviation demo_bpool :: "int \<Rightarrow> int \<Rightarrow> (denom, PoolBacking) kv" where
  "demo_bpool m b \<equiv> [(''ueth'', \<lparr>pb_GridMinted = usm m, pb_Backing = ueth b, pb_IronBurned = iron 0\<rparr>)]"

abbreviation demo_cpool :: "int \<Rightarrow> int \<Rightarrow> int \<Rightarrow> (denom, PoolCollateral) kv" where
  "demo_cpool c d i \<equiv>
     [(''ueth'', \<lparr>pc_Collateral = ueth c, pc_GridDebt = usm d, pc_IronCollateralized = iron i\<rparr>)]"

definition demo_coll :: "ledger_state maker_world" where
  "demo_coll = demo_world [] 0 (demo_cpool 0 0 0) 0 0 [] demo_bank"

definition demo_reg :: "ledger_state maker_world" where
  "demo_reg = demo_world (demo_bpool 0 0) 0 (demo_cpool 0 0 0) 0 0 [] demo_bank"

definition demo_dep :: "ledger_state maker_world" where
  "demo_dep = demo_world (demo_bpool 0 0) 0 (demo_cpool 1000 0 100) 0 100
     [((''alice'', ''ueth''), demo_position 0)]
     \<lparr>balances = [((''alice'', ''airon''), 4900), ((''alice'', ''ueth''), 4000),
         ((''bob'', ''ueth''), 9000), ((''module/maker'', ''airon''), 100),
         ((''module/maker'', ''ueth''), 1000)],
       supplies = [(''airon'', 5000), (''ueth'', 14000)]\<rparr>"

definition demo_loan :: "ledger_state maker_world" where
  "demo_loan = demo_world (demo_bpool 0 0) 0 (demo_cpool 1000 402 100) 402 100
     [((''alice'', ''ueth''), demo_position 402)]
     \<lparr>balances = [((''alice'', ''airon''), 4900), ((''alice'', ''ueth''), 4000),
         ((''alice'', ''uusm''), 400), ((''bob'', ''ueth''), 9000),
         ((''module/maker'', ''airon''), 100), ((''module/maker'', ''ueth''), 1000),
         ((''module/maker'', ''uusm''), 0), ((''module/oracle'', ''uusm''), 2)],
       supplies = [(''airon'', 5000), (''ueth'', 14000), (''uusm'', 402)]\<rparr>"

definition demo_swap :: "ledger_state maker_world" where
  "demo_swap = demo_world (demo_bpool 2000 1000) 2000 (demo_cpool 1000 402 100) 402 100
     [((''alice'', ''ueth''), demo_position 402)]
     \<lparr>balances = [((''alice'', ''airon''), 4900), ((''alice'', ''ueth''), 4000),
         ((''alice'', ''uusm''), 400), ((''bob'', ''ueth''), 8000), ((''bob'', ''uusm''), 1980),
         ((''module/maker'', ''airon''), 100), ((''module/maker'', ''ueth''), 2000),
         ((''module/maker'', ''uusm''), 0), ((''module/oracle'', ''uusm''), 22)],
       supplies = [(''airon'', 5000), (''ueth'', 14000), (''uusm'', 2402)]\<rparr>"

lemma rbind_weak: "r = r' \<Longrightarrow> rbind r f = rbind r' f"
  by simp

lemma ensure_weak: "c = c' \<Longrightarrow> ensure c e r = ensure c' e r"
  by simp

text \<open>The definitions a run unfolds.\<close>

lemma cosmos_fields:
  "ValidateDenom cosmos_sdk = denom_ok"
  "NewCoin cosmos_sdk d i = (if denom_ok d \<and> 0 \<le> i then Ok \<lparr>Denom = d, Amount = i\<rparr> else Panic)"
  "Coin_Add cosmos_sdk c e = (if Denom c = Denom e
     then Ok \<lparr>Denom = Denom c, Amount = Amount c + Amount e\<rparr> else Panic)"
  "Coin_Sub cosmos_sdk c e = (if Denom c = Denom e \<and> Amount e \<le> Amount c
     then Ok \<lparr>Denom = Denom c, Amount = Amount c - Amount e\<rparr> else Panic)"
  "Coin_IsLT cosmos_sdk c e = (if Denom c = Denom e then Ok (Amount c < Amount e) else Panic)"
  "NewCoins cosmos_sdk = coins_new"
  "AccAddressFromBech32 cosmos_sdk a = (if a = [] then None else Some a)"
  "AccAddress_String cosmos_sdk a = a"
  by (simp_all add: cosmos_sdk_def)

text \<open>
  Long divisions are slow in the simplifier: a decimal operation of a run is a fact of its own, which
  gives the quotient and checks it by a multiplication.
\<close>

lemma coin_AddAmount_coin: "coin_AddAmount \<lparr>Denom = d, Amount = n\<rparr> i = \<lparr>Denom = d, Amount = n + i\<rparr>"
  by (simp add: coin_AddAmount_def)

lemma chop_round_eq:
  assumes "x = q * dec_one + r" "0 \<le> x" "0 \<le> r" "2 * r < dec_one"
  shows "chop_round x = q"
proof -
  have "x div dec_one = q" "x mod dec_one = r"
    using assms dec_one_pos by (auto simp: div_mult_self3 mod_mult_self3 intro!: div_pos_pos_trivial)
  then show ?thesis using assms by (simp add: chop_round_def chop_round_nat_def)
qed

lemma Dec_Mul_eval:
  "a * b = q * dec_one + r \<Longrightarrow> 0 \<le> q \<Longrightarrow> 0 \<le> r \<Longrightarrow> 2 * r < dec_one \<Longrightarrow> Dec_Mul cosmos_sdk a b = q"
  by (simp add: cosmos_sdk_def chop_round_eq)

lemma Dec_RoundInt_eval:
  "x = q * dec_one + r \<Longrightarrow> 0 \<le> q \<Longrightarrow> 0 \<le> r \<Longrightarrow> 2 * r < dec_one \<Longrightarrow> Dec_RoundInt cosmos_sdk x = q"
  by (simp add: cosmos_sdk_def chop_round_eq)

lemma Dec_TruncateInt_eval:
  "x = q * dec_one + r \<Longrightarrow> 0 \<le> q \<Longrightarrow> 0 \<le> r \<Longrightarrow> r < dec_one \<Longrightarrow> Dec_TruncateInt cosmos_sdk x = q"
  by (simp add: cosmos_sdk_def sdiv_div div_pos_pos_trivial)

lemma Dec_QuoTruncate_eval:
  assumes "a * dec_one = q * b + r" "0 \<le> a" "0 < b" "0 \<le> r" "r < b"
  shows "Dec_QuoTruncate cosmos_sdk a b = Ok q"
proof -
  have "a * dec_one div b = q" using assms by (simp add: div_pos_pos_trivial)
  then show ?thesis using cosmos.QuoTruncate_div [OF assms(2,3)] by simp
qed

lemma Dec_Quo_eval: "b \<noteq> 0 \<Longrightarrow> a * dec_one = q * b \<Longrightarrow> Dec_Quo cosmos_sdk a b = Ok q"
  by (rule cosmos.Quo_exact)

lemmas sdk_eval = cosmos_fields denom_ok_def denom_char_def alpha_char_def coins_new_def coin_AddAmount_coin
  coin_IsPositive_def coin_IsZero_def cs_amt_def ToDec_def deref_def dec_one_def

lemma demo_nums:
  "Dec_Mul cosmos_sdk 1000000000000000000000 2000000000000000000 = 2000000000000000000000"
  "Dec_Mul cosmos_sdk 100000000000000000000 1000000000000000000 = 100000000000000000000"
  "Dec_Mul cosmos_sdk 50000000000000000 200000000000000000 = 10000000000000000"
  "Dec_Mul cosmos_sdk 2000000000000000000000 500000000000000000 = 1000000000000000000000"
  "Dec_Mul cosmos_sdk 400000000000000000000 5000000000000000 = 2000000000000000000"
  "Dec_Mul cosmos_sdk 2000000000000000000000 10000000000000000 = 20000000000000000000"
  "Dec_Mul cosmos_sdk 1000000000000000000 1010000000000000000 = 1010000000000000000"
  "Dec_RoundInt cosmos_sdk 2000000000000000000 = 2"
  "Dec_RoundInt cosmos_sdk 20000000000000000000 = 20"
  "Dec_TruncateInt cosmos_sdk 1000000000000000000000 = 1000"
  "Dec_TruncateInt cosmos_sdk 2000000000000000000000 = 2000"
  "Dec_Quo cosmos_sdk 100000000000000000000 2000000000000000000000 = Ok 50000000000000000"
  "Dec_Quo cosmos_sdk 10000000000000000 100000000000000000 = Ok 100000000000000000"
  "Dec_Quo cosmos_sdk 1000000000000000000000 1000000000000000000 = Ok 1000000000000000000000"
  "Dec_Quo cosmos_sdk 2000000000000000000000 1000000000000000000 = Ok 2000000000000000000000"
  by ((rule Dec_Mul_eval [where r = 0] Dec_RoundInt_eval [where r = 0] Dec_TruncateInt_eval [where r = 0]
        Dec_Quo_eval; simp add: dec_one_def)+)

lemmas ledger_eval = ledger_def ledger_debit_def ledger_credit_def ledger_send_def ledger_mod_def
  ledger_bal_def ledger_supply_def

lemmas gov_eval = HandleRegisterCollateralProposal_def validateCollateralRiskParams_def default_def
  HandleRegisterBackingProposal_def validateBackingRiskParams_def IsCollateralRegistered_def
  IsBackingRegistered_def maker_accessors maker_InitGenesis_def maker_empty_def maker_SetParams_def
  SetBackingRatio_def MakerDefaultGenesis_def MakerDefaultParams_def RebackBonus_def

lemmas handler_eval = getSenderReceiver_def getAvailableCollateralParams_def getAvailableBackingParams_def
  getCollateral_def getBacking_def newAccountCollateral_def settleInterestFee_def interestOfPeriod_def
  takeCoins_def payCoins_def feeCoins_def mintCoins_def burnCoins_def whenb_def setCollateral_def
  over_def computeFee_def GetExchangeRate_def accAddress_def
  MicroUSMTarget_def GetBackingRatio_def DepositCollateral_def
  MintByCollateral_def calculateMintByCollateral_def MintBySwap_def calculateMintBySwapOut_def
  mintSwapInputs_def checkMintPriceLowerBound_def MintPriceBias_def

lemmas demo_eval = demo_genesis_def demo_ctx_def demo_crp_def demo_crp_reg_def demo_brp_def demo_deposit_def
  demo_borrow_def demo_coll_def demo_reg_def demo_dep_def demo_loan_def demo_swap_def demo_position_def
  demo_world_def demo_mint_def demo_bank_def demo_orc_def AttoIronDenom_def MicroUSMDenom_def

lemmas run_eval = demo_nums sdk_eval ledger_eval gov_eval handler_eval demo_eval res_simps kv_has_def Let_def

lemmas eval_cong = rbind_weak ensure_weak let_weak_cong

lemma demo_coll_run:
  "HandleRegisterCollateralProposal cosmos_sdk ledger demo_crp demo_genesis = Ok demo_coll"
  by (simp add: run_eval cong: eval_cong)

lemma demo_reg_run:
  "HandleRegisterBackingProposal cosmos_sdk ledger demo_brp demo_coll = Ok demo_reg"
  by (simp add: run_eval cong: eval_cong)

lemma demo_dep_run: "DepositCollateral cosmos_sdk ledger demo_ctx demo_deposit demo_reg = Ok demo_dep"
  by (simp add: run_eval cong: eval_cong)

lemma demo_loan_run:
  "MintByCollateral cosmos_sdk ledger demo_ctx demo_borrow demo_dep = Ok (demo_loan, usm 2)"
  by (simp add: run_eval cong: eval_cong)

lemma demo_swap_run:
  "MintBySwap cosmos_sdk ledger demo_mint demo_loan = Ok (demo_swap,
     \<lparr>mbsr_BackingIn = ueth 1000, mbsr_IronIn = iron 0, mbsr_MintOut = usm 1980, mbsr_MintFee = usm 20\<rparr>)"
  by (simp add: run_eval cong: eval_cong)

text \<open>
  The same world at a lower price of the stablecoin, where burning is open, and a burn in it.
\<close>

definition demo_low :: "ledger_state maker_world" where
  "demo_low = demo_swap\<lparr>orc := demo_orc\<lparr>exchange_rates := [(''airon'', 10 ^ 18), (''ueth'', 2 * 10 ^ 18),
     (''uusm'', 98 * 10 ^ 16)]\<rparr>\<rparr>"

definition demo_burn :: MsgBurnBySwap where
  "demo_burn = \<lparr>bbs_Sender = ''bob'', bbs_To = [], bbs_BurnIn = usm 1000, bbs_BackingOutMin = ueth 490,
     bbs_IronOutMin = iron 0\<rparr>"

definition demo_burned :: "ledger_state maker_world" where
  "demo_burned = (demo_world (demo_bpool 1000 500) 1000 (demo_cpool 1000 402 100) 402 100
     [((''alice'', ''ueth''), demo_position 402)]
     \<lparr>balances = [((''alice'', ''airon''), 4900), ((''alice'', ''ueth''), 4000),
         ((''alice'', ''uusm''), 400), ((''bob'', ''ueth''), 8500), ((''bob'', ''uusm''), 980),
         ((''module/maker'', ''airon''), 100), ((''module/maker'', ''ueth''), 1500),
         ((''module/maker'', ''uusm''), 0), ((''module/oracle'', ''uusm''), 22)],
       supplies = [(''airon'', 5000), (''ueth'', 14000), (''uusm'', 1402)]\<rparr>)\<lparr>orc := orc demo_low\<rparr>"

lemma burn_nums:
  "Dec_Mul cosmos_sdk 1000000000000000000 990000000000000000 = 990000000000000000"
  "Dec_Mul cosmos_sdk 1000000000000000000000 0 = 0"
  "Dec_Mul cosmos_sdk 1000000000000000000000 1000000000000000000 = 1000000000000000000000"
  "Dec_RoundInt cosmos_sdk 0 = 0"
  "Dec_TruncateInt cosmos_sdk 500000000000000000000 = 500"
  "Dec_QuoTruncate cosmos_sdk 1000000000000000000000 2000000000000000000 = Ok 500000000000000000000"
  by ((rule Dec_Mul_eval [where r = 0] Dec_RoundInt_eval [where r = 0] Dec_TruncateInt_eval [where r = 0]
        Dec_QuoTruncate_eval [where r = 0]; simp add: dec_one_def)+)

lemma demo_burn_run:
  "BurnBySwap cosmos_sdk ledger demo_burn demo_low = Ok (demo_burned,
     \<lparr>bbsr_BackingOut = ueth 500, bbsr_IronOut = iron 0, bbsr_BurnFee = usm 0\<rparr>)"
  by (simp add: run_eval burn_nums demo_low_def demo_burn_def demo_burned_def BurnBySwap_def
      calculateBurnBySwapOut_def burnSwapOutputs_def checkBurnPriceUpperBound_def BurnPriceBias_def
      poolBackingBalance_def cong: eval_cong)

text \<open>The worlds of the run are reachable.\<close>

lemma demo_init: "maker_init ledger (7, demo_genesis)"
  unfolding maker_init_def
  by (intro exI [of _ MakerDefaultGenesis] exI [of _ MakerDefaultParams])
    (simp add: demo_genesis_def MakerDefaultGenesis_def MakerParams_Validate_def MakerDefaultParams_def
      dec_one_def blocks_defs)

lemma reach_step: "maker_reach S B s \<Longrightarrow> maker_step S B s s' \<Longrightarrow> maker_reach S B s'"
  unfolding maker_reach_def by (meson rtranclp.rtrancl_into_rtrancl)

lemma demo_genesis_reach: "maker_reach cosmos_sdk ledger (7, demo_genesis)"
  unfolding maker_reach_def using demo_init by blast

lemma demo_coll_reach: "maker_reach cosmos_sdk ledger (7, demo_coll)"
  by (rule reach_step [OF demo_genesis_reach maker_step.register_collateral [OF _ demo_coll_run]])
    (simp add: CollateralRiskParams_ValidateBasic_def demo_crp_def unit_ratio_def not_negative_def)

lemma demo_reg_reach: "maker_reach cosmos_sdk ledger (7, demo_reg)"
  by (rule reach_step [OF demo_coll_reach maker_step.register_backing [OF _ demo_reg_run]])
    (simp add: BackingRiskParams_ValidateBasic_def demo_brp_def unit_ratio_def not_negative_def dec_one_def)

lemma demo_dep_reach: "maker_reach cosmos_sdk ledger (7, demo_dep)"
  by (rule reach_step [OF demo_reg_reach maker_step.deposit_collateral [OF _ _ _ demo_dep_run]])
    (simp_all add: MsgDepositCollateral_ValidateBasic_def signs_def run_eval validAddr_def validTo_def)

lemma demo_loan_reach: "maker_reach cosmos_sdk ledger (7, demo_loan)"
  by (rule reach_step [OF demo_dep_reach maker_step.mint_by_collateral [OF _ _ demo_loan_run]])
    (simp_all add: MsgMintByCollateral_ValidateBasic_def signs_def run_eval validAddr_def validTo_def)

lemma demo_swap_reach: "maker_reach cosmos_sdk ledger (7, demo_swap)"
  by (rule reach_step [OF demo_loan_reach maker_step.mint_by_swap [OF _ _ demo_swap_run]])
    (simp_all add: MsgMintBySwap_ValidateBasic_def signs_def run_eval validAddr_def validTo_def)

lemma demo_low_reach: "maker_reach cosmos_sdk ledger (7, demo_low)"
  by (rule reach_step [OF demo_swap_reach maker_step.environment]) (simp_all add: demo_low_def mbal_def)

end
