(* ===== verification/MakerProps.thy ===== *)
theory MakerProps
  imports MakerDemo
begin

text \<open>
  What holds of the maker in every reachable state, and what its messages guarantee.  The witnesses
  use the run of \<open>MakerDemo\<close>.
\<close>

section \<open>Sums over pools and accounts\<close>

lemma sum_list_pick:
  "distinct ds \<Longrightarrow> (\<Sum>d\<leftarrow>ds. if x = d then (v :: int) else 0) = (if x \<in> set ds then v else 0)"
  by (induction ds) auto

lemma sum_in_denom:
  assumes "distinct ds" "\<And>k c. (k, c) \<in> set A \<Longrightarrow> snd k \<in> set ds"
  shows "(\<Sum>d\<leftarrow>ds. kv_sum (in_denom d f) A) = kv_sum f A"
  using assms(2)
proof (induction A)
  case (Cons e A)
  have IH: "(\<Sum>d\<leftarrow>ds. kv_sum (in_denom d f) A) = kv_sum f A"
    by (rule Cons.IH) (use Cons.prems in auto)
  have "(\<Sum>d\<leftarrow>ds. kv_sum (in_denom d f) (e # A))
      = (\<Sum>d\<leftarrow>ds. if snd (fst e) = d then f (fst e) (snd e) else 0) + (\<Sum>d\<leftarrow>ds. kv_sum (in_denom d f) A)"
    by (simp add: kv_sum_def in_denom_def sum_list_addf)
  also have "\<dots> = f (fst e) (snd e) + kv_sum f A"
    using Cons.prems [of "fst e" "snd e"] IH by (simp add: sum_list_pick [OF assms(1)])
  finally show ?case by (simp add: kv_sum_def)
qed (simp add: kv_sum_def)

lemma kv_sum_by_denom:
  assumes "kv_wf P" "\<And>d p. kv_get P d = Some p \<Longrightarrow> g p = kv_sum (in_denom d f) A"
    and "\<And>k c. (k, c) \<in> set A \<Longrightarrow> kv_get P (snd k) \<noteq> None"
  shows "kv_sum (\<lambda>_ p. g p) P = kv_sum f A"
proof -
  have "kv_sum (\<lambda>_ p. g p) P = (\<Sum>d\<leftarrow>map fst P. kv_sum (in_denom d f) A)"
    unfolding kv_sum_def [of _ P] map_map comp_def
    by (intro arg_cong [of _ _ sum_list] map_cong refl)
      (use assms(1,2) in \<open>auto simp: kv_get_mem [symmetric]\<close>)
  also have "\<dots> = kv_sum f A"
  proof (rule sum_in_denom)
    show "distinct (map fst P)" using assms(1) by (rule kv_wf_distinct)
    fix k c assume "(k, c) \<in> set A"
    then show "snd k \<in> set (map fst P)" using assms(3) kv_get_notin [of "snd k" P] by blast
  qed
  finally show ?thesis .
qed

lemma inv_coll_sums:
  assumes "inv_coll h s" "collateral_total s = Some t"
  shows "Amount (tc_GridDebt t) = kv_sum acDebt (collateral_account s)"
    and "Amount (tc_IronCollateralized t) = kv_sum acIron (collateral_account s)"
proof -
  have wf: "kv_wf (collateral_pool s)" "kv_wf (collateral_account s)"
    and tot: "Amount (tc_GridDebt t) = kv_sum (\<lambda>_ p. Amount (pc_GridDebt p)) (collateral_pool s)"
      "Amount (tc_IronCollateralized t) = kv_sum (\<lambda>_ p. Amount (pc_IronCollateralized p)) (collateral_pool s)"
    and pool: "\<And>d p. kv_get (collateral_pool s) d = Some p \<Longrightarrow>
        Amount (pc_GridDebt p) = kv_sum (in_denom d acDebt) (collateral_account s) \<and>
        Amount (pc_IronCollateralized p) = kv_sum (in_denom d acIron) (collateral_account s)"
    and acc: "\<And>a d c. kv_get (collateral_account s) (a, d) = Some c \<Longrightarrow> kv_get (collateral_pool s) d \<noteq> None"
    using assms unfolding inv_coll_def by auto
  have mem: "kv_get (collateral_pool s) (snd k) \<noteq> None" if "(k, c) \<in> set (collateral_account s)" for k c
    using acc [of "fst k" "snd k" c] that by (simp add: kv_get_mem [OF wf(2)])
  show "Amount (tc_GridDebt t) = kv_sum acDebt (collateral_account s)"
    unfolding tot using wf(1) pool mem by (intro kv_sum_by_denom) auto
  show "Amount (tc_IronCollateralized t) = kv_sum acIron (collateral_account s)"
    unfolding tot using wf(1) pool mem by (intro kv_sum_by_denom) auto
qed

section \<open>Invariants of the reachable states\<close>

lemma reach_invD:
  assumes "chain_laws S B" "maker_reach S B (h, w)"
  shows "inv_backing (mk w)" "inv_coll h (mk w)" "inv_params (mk w)" "inv_ratio (mk w)" "solvent B w"
  using chain_laws.maker_reach_inv [OF assms] by (simp_all add: maker_inv_def)

text \<open>
  C1: in every reachable state the recorded total debt is the sum of the debts of the single
  accounts, and the recorded total of collateralized iron is the sum over the accounts.
\<close>

theorem maker_total_debt:
  assumes "chain_laws S B" "maker_reach S B (h, w)" "GetTotalCollateral (mk w) = Some t"
  shows "Amount (tc_GridDebt t) = kv_sum acDebt (collateral_account (mk w)) \<and>
         Amount (tc_IronCollateralized t) = kv_sum acIron (collateral_account (mk w))"
  using inv_coll_sums [OF reach_invD(2) [OF assms(1,2)]] assms(3) by (simp add: GetTotalCollateral_def)

theorem maker_total_debt_witness:
  "(402 :: int) = kv_sum acDebt (collateral_account (mk demo_swap)) \<and>
   100 = kv_sum acIron (collateral_account (mk demo_swap))"
  using maker_total_debt [OF plain_chain.chain_laws_axioms demo_swap_reach, of
      "\<lparr>tc_GridDebt = usm 402, tc_IronCollateralized = iron 100\<rparr>"]
  by (simp add: demo_swap_def demo_world_def GetTotalCollateral_def)

text \<open>
  C2: the module account is solvent in every reachable state: in each denomination it holds at least
  the recorded backing of the pool plus the recorded collateral of the pool plus, for the native
  coin, all collateralized iron.
\<close>

theorem maker_solvent:
  assumes "chain_laws S B" "maker_reach S B (h, w)"
  shows "owed (mk w) d \<le> bal B (bnk w) (GetModuleAddress B ''maker'') d"
  using reach_invD(5) [OF assms] by (simp add: solvent_def mbal_def)

theorem maker_solvent_witness:
  "owed (mk demo_swap) ''ueth'' \<le> 2000 \<and> owed (mk demo_swap) ''ueth'' = 2000"
  using maker_solvent [OF plain_chain.chain_laws_axioms demo_swap_reach, of "''ueth''"]
  by (simp add: demo_swap_def demo_world_def owed_def kv_at_def bal_def ledger_def ledger_bal_def
      ledger_mod_def AttoIronDenom_def)

text \<open>
  C3: in every reachable state each collateral account is well formed: its amounts are nonnegative,
  the settled interest never exceeds the debt, it was not settled in the future, its coins have the
  right denominations, and the pool it belongs to exists.
\<close>

theorem maker_account_wf:
  assumes "chain_laws S B" "maker_reach S B (h, w)" "GetAccountCollateral (mk w) a d = Some c"
  shows "0 \<le> Amount (ac_Collateral c) \<and> 0 \<le> Amount (ac_IronCollateralized c) \<and>
    0 \<le> Amount (ac_LastInterest c) \<and> Amount (ac_LastInterest c) \<le> Amount (ac_GridDebt c) \<and>
    ac_LastSettlementBlock c \<le> h \<and> Denom (ac_Collateral c) = d \<and> GetPoolCollateral (mk w) d \<noteq> None"
  using reach_invD(2) [OF assms(1,2)] assms(3)
  unfolding inv_coll_def ac_shape_def GetAccountCollateral_def GetPoolCollateral_def by blast

theorem maker_account_wf_witness:
  "Amount (ac_LastInterest (demo_position 402)) \<le> 402 \<and> GetPoolCollateral (mk demo_swap) ''ueth'' \<noteq> None"
  using maker_account_wf [OF plain_chain.chain_laws_axioms demo_swap_reach,
      of "''alice''" "''ueth''" "demo_position 402"]
  by (simp add: demo_swap_def demo_world_def GetAccountCollateral_def demo_position_def)



text \<open>
  C5: the backing ratio stays between zero and one in every reachable state, and the module
  parameters stay in the ranges their validators check.
\<close>

theorem maker_backing_ratio_range:
  assumes "chain_laws S B" "maker_reach S B (h, w)"
  shows "0 \<le> GetBackingRatio (mk w) \<and> GetBackingRatio (mk w) \<le> dec_one \<and> maker_params_ok (maker_GetParams (mk w))"
  using reach_invD(4) [OF assms] by (simp add: inv_ratio_def maker_GetParams_def)

theorem maker_backing_ratio_range_witness:
  "GetBackingRatio (mk demo_swap) \<le> dec_one \<and> maker_params_ok MakerDefaultParams"
  using maker_backing_ratio_range [OF plain_chain.chain_laws_axioms demo_swap_reach]
  by (simp add: demo_swap_def demo_world_def maker_GetParams_def)

text \<open>
  C6: in every reachable state the recorded totals of minted stablecoin and burned iron are the sums
  over the backing pools, and no pool records a negative backing.
\<close>

theorem maker_total_backing:
  assumes "chain_laws S B" "maker_reach S B (h, w)" "GetTotalBacking (mk w) = Some t"
  shows "Amount (tb_GridMinted t) = kv_sum (\<lambda>_ p. Amount (pb_GridMinted p)) (backing_pool (mk w)) \<and>
    Amount (tb_IronBurned t) = kv_sum (\<lambda>_ p. Amount (pb_IronBurned p)) (backing_pool (mk w)) \<and>
    (\<forall>d p. GetPoolBacking (mk w) d = Some p \<longrightarrow> 0 \<le> Amount (pb_Backing p) \<and> Denom (pb_Backing p) = d)"
  using reach_invD(1) [OF assms(1,2)] assms(3)
  by (simp add: inv_backing_def pb_shape_def GetTotalBacking_def GetPoolBacking_def)

theorem maker_total_backing_witness:
  "(2000 :: int) = kv_sum (\<lambda>_ p. Amount (pb_GridMinted p)) (backing_pool (mk demo_swap))"
  using maker_total_backing [OF plain_chain.chain_laws_axioms demo_swap_reach,
      of "\<lparr>tb_GridMinted = usm 2000, tb_IronBurned = iron 0\<rparr>"]
  by (simp add: demo_swap_def demo_world_def GetTotalBacking_def)

section \<open>Loans\<close>

text \<open>
  The catalytic part of the loan-to-value goes through two rounded operations; the threshold must
  leave room for the rounding, which is at most half a unit divided by the catalytic ratio.
\<close>

definition liquidation_margin :: "CollateralRiskParams \<Rightarrow> bool" where
  "liquidation_margin q \<longleftrightarrow> (case (crp_CatalyticIronRatio q, crp_LoanToValue q, crp_LiquidationThreshold q) of
     (Some cat, Some ltv, Some th) \<Rightarrow> cat = 0 \<or> dec_one < 2 * (cat * (th - ltv - 1))
   | _ \<Rightarrow> False)"

context chain_laws
begin

lemma loan_healthy:
  assumes "0 < debt" "debt * dec_one \<le> Dec_Mul S V ltv" "ltv < th" "th \<le> dec_one" "0 \<le> V"
  shows "debt * dec_one < Dec_Mul S V th"
proof -
  have "dec_one * 1 \<le> dec_one * debt" using assms(1) by (intro mult_left_mono) (simp_all add: dec_one_def)
  then have "dec_one * dec_one \<le> Dec_Mul S V ltv * dec_one"
    using assms(2) by (intro mult_right_mono) (simp_all add: dec_one_def)
  then have "2 * (dec_one * dec_one) \<le> 2 * (V * ltv) + dec_one"
    using Mul_near [of V ltv] by arith
  moreover have "V * ltv \<le> V * (dec_one - 1)"
    using assms by (intro mult_left_mono) simp_all
  ultimately have "2 * (dec_one * dec_one) \<le> 2 * (V * (dec_one - 1)) + dec_one" by linarith
  then have V: "dec_one < V" by (simp add: dec_one_def)
  have "V * 1 \<le> V * (th - ltv)" using assms by (intro mult_left_mono) simp_all
  then have "V * ltv + dec_one < V * th" using V by (simp add: right_diff_distrib)
  from Mul_strict [OF this] assms(2) show ?thesis by simp
qed

lemma catalytic_ltv_bound:
  assumes "Dec_Quo S M cat = Ok q" "2 * (M * dec_one) \<le> 2 * (cat * (ltv - basic)) + dec_one"
    and "0 < cat" "dec_one < 2 * (cat * (th - ltv - 1))"
  shows "basic + q < th"
proof -
  have "q * cat \<le> M * dec_one + cat" using Quo_OkD [OF assms(1)] assms(3) by simp
  then have "2 * (q * cat) < 2 * ((th - basic) * cat)"
    using assms(2,4) by (simp add: algebra_simps)
  then show ?thesis using assms(3) by simp
qed

lemma sender_is: "getSenderReceiver S s t = Ok (a, b) \<Longrightarrow> AccAddressFromBech32 S s = Some a"
  by (auto simp: getSenderReceiver_def accAddress_def res_simps split: option.splits if_splits)

lemma settleInterestFee_block:
  assumes "settleInterestFee S ctx c0 p0 t0 apr = Ok (c, p, t)"
  shows "ac_LastSettlementBlock c = BlockHeight ctx"
  using assms by (rule settleInterestFee_ok) simp

lemma settleInterestFee_same_block:
  "ac_LastSettlementBlock c = BlockHeight ctx \<Longrightarrow> settleInterestFee S ctx c p t apr = Ok (c, p, t)"
  by (simp add: settleInterestFee_def)

lemma MintByCollateral_stored:
  assumes "MintByCollateral S B ctx m w = Ok (w', r)"
    and "inv_coll (BlockHeight ctx) (mk w)" "inv_params (mk w)"
  obtains a q c cp ratio cat basic ltv where "AccAddressFromBech32 S (mbc_Sender m) = Some a"
    "kv_get (collateral_params (mk w)) (mbc_CollateralDenom m) = Some q"
    "kv_get (collateral_account (mk w')) (a, mbc_CollateralDenom m) = Some c"
    "collateral_params (mk w') = collateral_params (mk w)" "orc w' = orc w"
    "ac_LastSettlementBlock c = BlockHeight ctx"
    "GetExchangeRate (orc w) (mbc_CollateralDenom m) = Ok cp"
    "0 < Amount (ac_Collateral c) * cp"
    "crp_CatalyticIronRatio q = Some cat" "crp_BasicLoanToValue q = Some basic"
    "(if 0 < cat then rbind (deref (crp_LoanToValue q)) (\<lambda>maxLTV.
        rbind (Dec_Quo S (Dec_Mul S (min ratio cat) (maxLTV - basic)) cat) (\<lambda>q. Ok (basic + q)))
      else Ok basic) = Ok ltv"
    "Amount (ac_GridDebt c) \<le> Dec_TruncateInt S (Dec_Mul S (Amount (ac_Collateral c) * cp) ltv)"
    "Amount (mbc_MintOut m) \<le> Amount (ac_GridDebt c)"
proof -
  let ?d = "mbc_CollateralDenom m"
  obtain sd rc mf t' p' c' mt w1 w2 where
    sd: "getSenderReceiver S (mbc_Sender m) (mbc_To m) = Ok (sd, rc)" and
    calc: "calculateMintByCollateral S ctx w sd ?d (mbc_MintOut m) = Ok (mf, t', p', c')" and
    w1: "mintCoins S B [mt] (setCollateral sd c' p' t' w) = Ok w1" and
    w2: "payCoins S B rc [mbc_MintOut m] w1 = Ok w2" and
    w3: "whenb (coin_IsPositive mf) (feeCoins S B [mf]) w2 = Ok w'"
    using assms(1) by (rule MintByCollateral_ok) (rule that)
  obtain q :: CollateralRiskParams and cp t0 p0 c0 apr c p t mt' ad ratio cat basic ltv where
    q: "getAvailableCollateralParams w ?d = Ok q" and cp: "GetExchangeRate (orc w) ?d = Ok cp" and
    g: "getCollateral S ctx w sd ?d False = Ok (t0, p0, c0)" and
    apr: "deref (crp_InterestFee q) = Ok apr" and
    se: "settleInterestFee S ctx c0 p0 t0 apr = Ok (c, p, t)" and
    mf: "computeFee S (mbc_MintOut m) (crp_MintFee q) = Ok mf" and
    mt': "Coin_Add S (mbc_MintOut m) mf = Ok mt'" and ad: "Coin_Add S (ac_GridDebt c) mt' = Ok ad" and
    V: "0 < Amount (ac_Collateral c) * cp" and
    cat: "deref (crp_CatalyticIronRatio q) = Ok cat" "deref (crp_BasicLoanToValue q) = Ok basic" and
    ltv: "(if 0 < cat then rbind (deref (crp_LoanToValue q)) (\<lambda>maxLTV.
        rbind (Dec_Quo S (Dec_Mul S (min ratio cat) (maxLTV - basic)) cat) (\<lambda>q. Ok (basic + q)))
      else Ok basic) = Ok ltv" and
    le: "\<not> Dec_TruncateInt S (Dec_Mul S (Amount (ac_Collateral c) * cp) ltv) < Amount ad" and
    c': "c' = c\<lparr>ac_GridDebt := ad\<rparr>"
    using calc by (rule calculateMintByCollateral_ok) (rule that)
  have shape: "ac_shape (BlockHeight ctx) ?d c"
    by (rule settled [OF q g apr se assms(2,3)])
  have nf: "0 \<le> Amount mf" using computeFee_ok [OF mf] by simp
  have amts: "Amount mt' = Amount (mbc_MintOut m) + Amount mf" "Amount ad = Amount (ac_GridDebt c) + Amount mt'"
    using mt' ad by (auto simp: sdk_simps split: if_splits)
  note t = whenb_fee [OF w3 nf] and t2 = payCoins_ok [OF w2] and t1 = mintCoins_ok [OF w1]
  have s: "mk w' = mk (setCollateral sd c' p' t' w)" "orc w' = orc w"
    by (simp_all add: t(1,2) t2(1,2) t1(1,2) setCollateral_def)
  show thesis
  proof (rule that)
    show "AccAddressFromBech32 S (mbc_Sender m) = Some sd" using sd by (rule sender_is)
    show "kv_get (collateral_params (mk w)) ?d = Some q" using getAvailableCollateralParams_ok [OF q] by simp
    show "kv_get (collateral_account (mk w')) (sd, ?d) = Some c'"
      using shape by (simp add: s c' setCollateral_def maker_accessors ac_shape_def)
    show "collateral_params (mk w') = collateral_params (mk w)" by (simp add: s setCollateral_def maker_accessors)
    show "ac_LastSettlementBlock c' = BlockHeight ctx" using settleInterestFee_block [OF se] by (simp add: c')
    show "Amount (mbc_MintOut m) \<le> Amount (ac_GridDebt c')"
      using amts nf shape by (simp add: c' ac_shape_def)
    show "0 < Amount (ac_Collateral c') * cp" using V by (simp add: c')
    show "Amount (ac_GridDebt c') \<le> Dec_TruncateInt S (Dec_Mul S (Amount (ac_Collateral c') * cp) ltv)"
      using le by (simp add: c')
  qed (fact s cp cat [unfolded deref_ok] ltv)+
qed

lemma LiquidateCollateral_unhealthy:
  assumes "LiquidateCollateral S B ctx l w = Ok r"
    and "AccAddressFromBech32 S (lc_Debtor l) = Some a"
    and "kv_get (collateral_account (mk w)) (a, Denom (lc_Collateral l)) = Some c"
    and "ac_LastSettlementBlock c = BlockHeight ctx"
    and "kv_get (collateral_params (mk w)) (Denom (lc_Collateral l)) = Some q"
    and "crp_LiquidationThreshold q = Some th" "GetExchangeRate (orc w) (Denom (lc_Collateral l)) = Ok cp"
  shows "\<not> Amount (ac_GridDebt c) * dec_one < Dec_Mul S (Amount (ac_Collateral c) * cp) th"
proof -
  obtain w' r' where r: "r = (w', r')" by (cases r)
  obtain db q' t0 p0 c0 apr c1 p t cp' th' where
    db: "accAddress S (lc_Debtor l) = Ok db" and
    q': "getAvailableCollateralParams w (Denom (lc_Collateral l)) = Ok q'" and
    g: "getCollateral S ctx w db (Denom (lc_Collateral l)) False = Ok (t0, p0, c0)" and
    se: "settleInterestFee S ctx c0 p0 t0 apr = Ok (c1, p, t)" and
    cp': "GetExchangeRate (orc w) (Denom (lc_Collateral l)) = Ok cp'" and
    th': "deref (crp_LiquidationThreshold q') = Ok th'" and
    un: "\<not> Amount (ac_GridDebt c1) * dec_one < Dec_Mul S (Amount (ac_Collateral c1) * cp') th'"
    using assms(1) unfolding r by (rule LiquidateCollateral_ok) (rule that)
  have "db = a" using db assms(2) by (simp add: accAddress_def)
  then have "c0 = c"
    using g assms(3) by (auto simp: getCollateral_def maker_accessors split: option.splits)
  then have "c1 = c" using se settleInterestFee_same_block [OF assms(4)] by simp
  moreover have "q' = q" using getAvailableCollateralParams_ok [OF q'] assms(5) by simp
  ultimately show ?thesis using un th' cp' assms(6,7) by (simp add: deref_def)
qed

lemma mint_not_liquidatable:
  assumes "MintByCollateral S B ctx m w = Ok (w', f)"
    and "inv_coll (BlockHeight ctx) (mk w)" "inv_params (mk w)"
    and "kv_get (collateral_params (mk w)) (mbc_CollateralDenom m) = Some q" "liquidation_margin q"
    and "0 < Amount (mbc_MintOut m)"
    and "Denom (lc_Collateral l) = mbc_CollateralDenom m" "lc_Debtor l = mbc_Sender m"
  shows "LiquidateCollateral S B ctx l w' \<noteq> Ok r"
proof
  assume ok: "LiquidateCollateral S B ctx l w' = Ok r"
  obtain a q' c cp ratio cat basic ltv where
    a: "AccAddressFromBech32 S (mbc_Sender m) = Some a" and
    q': "kv_get (collateral_params (mk w)) (mbc_CollateralDenom m) = Some q'" and
    c: "kv_get (collateral_account (mk w')) (a, mbc_CollateralDenom m) = Some c" and
    same: "collateral_params (mk w') = collateral_params (mk w)" "orc w' = orc w" and
    blk: "ac_LastSettlementBlock c = BlockHeight ctx" and
    cp: "GetExchangeRate (orc w) (mbc_CollateralDenom m) = Ok cp" and
    V: "0 < Amount (ac_Collateral c) * cp" and
    cat: "crp_CatalyticIronRatio q' = Some cat" and basic: "crp_BasicLoanToValue q' = Some basic" and
    ltv: "(if 0 < cat then rbind (deref (crp_LoanToValue q')) (\<lambda>maxLTV.
        rbind (Dec_Quo S (Dec_Mul S (min ratio cat) (maxLTV - basic)) cat) (\<lambda>q. Ok (basic + q)))
      else Ok basic) = Ok ltv" and
    debt: "Amount (ac_GridDebt c) \<le> Dec_TruncateInt S (Dec_Mul S (Amount (ac_Collateral c) * cp) ltv)" and
    pos: "Amount (mbc_MintOut m) \<le> Amount (ac_GridDebt c)"
    using assms(1-3) by (rule MintByCollateral_stored) (rule that)
  have qq: "q' = q" using q' assms(4) by simp
  have "crp_ok q" using assms(3,4) by (simp add: inv_params_def)
  then obtain maxLTV th where mx: "crp_LoanToValue q = Some maxLTV" and th: "crp_LiquidationThreshold q = Some th"
    and ord: "basic \<le> maxLTV" "maxLTV < th" "th \<le> dec_one" "0 \<le> cat"
    using basic cat by (auto simp: qq crp_ok_def CollateralRiskParams_ValidateBasic_def unit_ratio_def)
  have "ltv < th"
  proof (cases "0 < cat")
    case True
    then obtain x where x: "Dec_Quo S (Dec_Mul S (min ratio cat) (maxLTV - basic)) cat = Ok x" "ltv = basic + x"
      using ltv mx by (auto simp: qq deref_def res_simps)
    have "min ratio cat * (maxLTV - basic) \<le> cat * (maxLTV - basic)"
      using ord by (intro mult_right_mono) simp_all
    then have "2 * (Dec_Mul S (min ratio cat) (maxLTV - basic) * dec_one) \<le> 2 * (cat * (maxLTV - basic)) + dec_one"
      using Mul_near [of "min ratio cat" "maxLTV - basic"] by arith
    moreover have "dec_one < 2 * (cat * (th - maxLTV - 1))"
      using assms(5) True cat mx th by (simp add: qq liquidation_margin_def)
    ultimately show ?thesis unfolding x(2) using catalytic_ltv_bound [OF x(1) _ True] by blast
  next
    case False
    with ltv ord show ?thesis by simp
  qed
  have D: "0 < Amount (ac_GridDebt c)" using assms(6) pos by simp
  have nn: "0 \<le> Dec_Mul S (Amount (ac_Collateral c) * cp) ltv"
  proof (rule ccontr)
    assume "\<not> ?thesis"
    then have "Dec_TruncateInt S (Dec_Mul S (Amount (ac_Collateral c) * cp) ltv) \<le> 0"
      by (simp add: TruncateInt_sdiv signed_divide_int_def dec_one_def sgn_if)
    with D debt show False by simp
  qed
  have "Amount (ac_GridDebt c) * dec_one \<le> Dec_Mul S (Amount (ac_Collateral c) * cp) ltv"
    using mult_right_mono [OF debt, of dec_one] TruncateInt_le [OF nn] by (simp add: dec_one_def)
  from loan_healthy [OF D this \<open>ltv < th\<close> ord(3) less_imp_le [OF V]]
  show False
    using LiquidateCollateral_unhealthy [OF ok, of a c q th cp] a c blk same cp th q' assms(7,8) qq by simp
qed

end



end
