(* ===== verification/MakerSwapProps.thy ===== *)
theory MakerSwapProps
  imports MakerProps
begin

text \<open>
  What the swaps of the maker guarantee: the value paid out for burned stablecoin, the limits a mint
  keeps, the supply each message creates and destroys, the steps of the backing ratio, and the
  inputs on which a handler panics.
\<close>

section \<open>Burning by swap\<close>

context chain_laws
begin

lemma truncated_quotient:
  assumes "Dec_QuoTruncate S a p = Ok q" "0 \<le> a" "0 \<le> p"
  shows "0 \<le> Dec_TruncateInt S q" "Dec_TruncateInt S q * p \<le> a"
proof -
  have q: "q = a * dec_one div p" "0 < p" using QuoTruncate_OkD [OF assms] by simp_all
  have nn: "0 \<le> q" using assms q by (simp add: pos_imp_zdiv_nonneg_iff dec_one_def)
  show "0 \<le> Dec_TruncateInt S q" using TruncateInt_nonneg [OF nn] .
  have "(Dec_TruncateInt S q * p) * dec_one \<le> q * p"
    using mult_right_mono [OF TruncateInt_le [OF nn] assms(3)] by (simp add: ac_simps)
  also have "\<dots> \<le> a * dec_one" using QuoTruncate_le [OF assms] .
  finally show "Dec_TruncateInt S q * p \<le> a" by (simp add: dec_one_def)
qed

lemma burnSwapOutputs_value:
  assumes "burnSwapOutputs S r (ToDec n) bp ip b0 i0 = Ok (b, i)" "0 \<le> n" "0 \<le> r" "r \<le> dec_one"
    and "0 \<le> bp" "0 \<le> ip" "Amount b0 = 0" "Amount i0 = 0"
  shows "Amount b * bp + Amount i * ip \<le> ToDec n"
proof -
  have n: "0 \<le> ToDec n" using assms(2) by (simp add: ToDec_def dec_one_def)
  consider "dec_one \<le> r" | "r = 0" "\<not> dec_one \<le> r" | "0 < r" "r < dec_one" using assms(3) by linarith
  then show ?thesis
  proof cases
    case 1
    with assms show ?thesis
      using truncated_quotient [OF _ n] by (auto simp: burnSwapOutputs_def res_simps)
  next
    case 2
    with assms show ?thesis
      using truncated_quotient [OF _ n] by (auto simp: burnSwapOutputs_def res_simps)
  next
    case 3
    then obtain q1 q2 where q: "Dec_QuoTruncate S (n * r) bp = Ok q1"
      "Dec_QuoTruncate S (n * (dec_one - r)) ip = Ok q2"
      and bi: "b = b0\<lparr>Amount := Dec_TruncateInt S q1\<rparr>" "i = i0\<lparr>Amount := Dec_TruncateInt S q2\<rparr>"
      using assms(1) by (auto simp: burnSwapOutputs_def res_simps Mul_ToDec)
    have "Amount b * bp \<le> n * r" "Amount i * ip \<le> n * (dec_one - r)"
      using truncated_quotient(2) [OF q(1)] truncated_quotient(2) [OF q(2)] assms 3 by (simp_all add: bi)
    then show ?thesis by (simp add: ToDec_def right_diff_distrib)
  qed
qed

lemma BurnBySwap_value:
  assumes "BurnBySwap S B m w = Ok (w', r)" "inv_ratio (mk w)"
    and "GetExchangeRate (orc w) (Denom (bbs_BackingOutMin m)) = Ok bp"
    and "GetExchangeRate (orc w) AttoIronDenom = Ok ip" "0 \<le> bp" "0 \<le> ip"
  shows "Amount (bbsr_BackingOut r) * bp + Amount (bbsr_IronOut r) * ip
      \<le> ToDec (Amount (bbs_BurnIn m) - Amount (bbsr_BurnFee r))"
proof -
  let ?d = "Denom (bbs_BackingOutMin m)"
  obtain b i f where calc: "calculateBurnBySwapOut S B w (bbs_BurnIn m) ?d = Ok (b, i, f)" and
    r: "r = \<lparr>bbsr_BackingOut = b, bbsr_IronOut = i, bbsr_BurnFee = f\<rparr>"
    using assms(1) by (rule BurnBySwap_ok) (rule that)
  obtain bp' ip' act b0 i0 where
    pr: "GetExchangeRate (orc w) ?d = Ok bp'" "GetExchangeRate (orc w) AttoIronDenom = Ok ip'" and
    act: "Coin_Sub S (bbs_BurnIn m) f = Ok act" and
    n: "NewCoin S ?d 0 = Ok b0" "NewCoin S AttoIronDenom 0 = Ok i0" and
    out: "burnSwapOutputs S (GetBackingRatio (mk w)) (ToDec (Amount act)) bp' ip' b0 i0 = Ok (b, i)"
    using calc by (rule calculateBurnBySwapOut_ok) (rule that)
  have act': "Amount act = Amount (bbs_BurnIn m) - Amount f" "0 \<le> Amount act"
    using act by (auto simp: sdk_simps split: if_splits)
  have z: "Amount b0 = 0" "Amount i0 = 0" using n by (auto simp: sdk_simps split: if_splits)
  have "Amount b * bp + Amount i * ip \<le> ToDec (Amount act)"
    using burnSwapOutputs_value [OF out act'(2) _ _ _ _ z] assms(2-6) pr by (simp add: inv_ratio_def)
  then show ?thesis by (simp add: r act')
qed

lemma BurnBySwap_flows:
  assumes "BurnBySwap S B m w = Ok (w', r)"
  shows "Amount (bbs_BackingOutMin m) \<le> Amount (bbsr_BackingOut r)"
    "Amount (bbs_IronOutMin m) \<le> Amount (bbsr_IronOut r)"
    "0 \<le> Amount (bbsr_BurnFee r)" "Amount (bbsr_BurnFee r) \<le> Amount (bbs_BurnIn m)"
    "supply_of B (bnk w') d = supply_of B (bnk w) d
       - (if d = Denom (bbs_BurnIn m) then Amount (bbs_BurnIn m) - Amount (bbsr_BurnFee r) else 0)
       + (if d = AttoIronDenom then Amount (bbsr_IronOut r) else 0)"
proof -
  obtain sd rc b i f act w0 w1 w2 w3 w4 lt1 lt2 where
    calc: "calculateBurnBySwapOut S B w (bbs_BurnIn m) (Denom (bbs_BackingOutMin m)) = Ok (b, i, f)" and
    act: "Coin_Sub S (bbs_BurnIn m) f = Ok act" and
    w1: "takeCoins S B sd [bbs_BurnIn m] (w\<lparr>mk := w0\<rparr>) = Ok w1" and
    w2: "burnCoins S B [act] w1 = Ok w2" and w3: "feeCoins S B [f] w2 = Ok w3" and
    w4: "mintCoins S B [i] w3 = Ok w4" and w5: "payCoins S B rc [b, i] w4 = Ok w'" and
    sl: "Coin_IsLT S b (bbs_BackingOutMin m) = Ok lt1" "\<not> lt1" "Coin_IsLT S i (bbs_IronOutMin m) = Ok lt2" "\<not> lt2" and
    r: "r = \<lparr>bbsr_BackingOut = b, bbsr_IronOut = i, bbsr_BurnFee = f\<rparr>"
    using assms by (rule BurnBySwap_ok) (rule that)
  note sh = calculateBurnBySwapOut_shape [OF calc]
  show "Amount (bbs_BackingOutMin m) \<le> Amount (bbsr_BackingOut r)"
    "Amount (bbs_IronOutMin m) \<le> Amount (bbsr_IronOut r)"
    using sl by (auto simp: r sdk_simps split: if_splits)
  show "0 \<le> Amount (bbsr_BurnFee r)" "Amount (bbsr_BurnFee r) \<le> Amount (bbs_BurnIn m)"
    using sh by (simp_all add: r)
  have act': "act = coin_AddAmount (bbs_BurnIn m) (- Amount f)" using Coin_Sub_ok [OF act] by simp
  show "supply_of B (bnk w') d = supply_of B (bnk w) d
       - (if d = Denom (bbs_BurnIn m) then Amount (bbs_BurnIn m) - Amount (bbsr_BurnFee r) else 0)
       + (if d = AttoIronDenom then Amount (bbsr_IronOut r) else 0)"
    unfolding payCoins_ok(5) [OF w5] mintCoins_ok(5) [OF w4] feeCoins_ok(5) [OF w3]
      burnCoins_ok(5) [OF w2] takeCoins_ok(5) [OF w1]
    by (simp add: r act' sh)
qed

end

text \<open>
  C8: burning by swap never pays out more value than it burns: at the oracle prices, the backing and
  the iron paid out are together worth at most the burned stablecoin, net of the fee, at the target
  price.  The payout respects the minima of the message, the fee is between zero and the amount
  burned, and the supplies change by exactly the stablecoin burned and the iron minted.
\<close>

theorem burn_by_swap_value:
  assumes "chain_laws S B" "maker_reach S B (h, w)" "BurnBySwap S B m w = Ok (w', r)"
    and "GetExchangeRate (orc w) (Denom (bbs_BackingOutMin m)) = Ok bp"
    and "GetExchangeRate (orc w) AttoIronDenom = Ok ip" "0 \<le> bp" "0 \<le> ip"
  shows "Amount (bbsr_BackingOut r) * bp + Amount (bbsr_IronOut r) * ip
        \<le> ToDec (Amount (bbs_BurnIn m) - Amount (bbsr_BurnFee r)) \<and>
      Amount (bbs_BackingOutMin m) \<le> Amount (bbsr_BackingOut r) \<and>
      Amount (bbs_IronOutMin m) \<le> Amount (bbsr_IronOut r) \<and>
      0 \<le> Amount (bbsr_BurnFee r) \<and> Amount (bbsr_BurnFee r) \<le> Amount (bbs_BurnIn m) \<and>
      supply_of B (bnk w') d = supply_of B (bnk w) d
        - (if d = Denom (bbs_BurnIn m) then Amount (bbs_BurnIn m) - Amount (bbsr_BurnFee r) else 0)
        + (if d = AttoIronDenom then Amount (bbsr_IronOut r) else 0)"
  using chain_laws.BurnBySwap_value [OF assms(1,3) reach_invD(4) [OF assms(1,2)] assms(4-7)]
    chain_laws.BurnBySwap_flows [OF assms(1,3)] by blast

theorem burn_by_swap_value_witness:
  "(500 :: int) * (2 * 10 ^ 18) + 0 * 10 ^ 18 \<le> ToDec (1000 - 0) \<and>
   supply_of ledger (bnk demo_burned) ''uusm'' = supply_of ledger (bnk demo_low) ''uusm'' - 1000"
  using burn_by_swap_value [OF plain_chain.chain_laws_axioms demo_low_reach demo_burn_run,
      of "2 * 10 ^ 18" "10 ^ 18" "''uusm''"]
  by (simp add: demo_burn_def demo_low_def GetExchangeRate_def AttoIronDenom_def)

section \<open>Minting by swap\<close>

context chain_laws
begin

lemma mintFractional_limits:
  assumes "mintFractional S r bp ip bm im b0 i0 = Ok (v, b, i)" "Denom b0 = Denom bm" "Denom i0 = Denom im"
  shows "0 < Amount bm \<longrightarrow> Amount b \<le> Amount bm" "0 < Amount im \<longrightarrow> Amount i \<le> Amount im"
  using assms(1)
  by (cases rule: mintFractional_ok;
      use assms(2,3) in \<open>auto simp: sdk_simps coin_IsPositive_def split: if_splits\<close>)+

lemma mintSwapInputs_limits:
  assumes "mintSwapInputs S r full bp ip bm im b0 i0 = Ok (v, b, i)" "Denom b0 = Denom bm" "Denom i0 = Denom im"
    and "Amount b0 = 0" "Amount i0 = 0" 
  shows "0 < Amount bm \<longrightarrow> Amount b \<le> Amount bm" "0 < Amount im \<longrightarrow> Amount i \<le> Amount im"
  using assms mintFractional_limits [of r bp ip bm im b0 i0 v b i]
  by (auto simp: mintSwapInputs_def split: if_splits)

lemma MintBySwap_guarantees:
  assumes "MintBySwap S B m w = Ok (w', r)" "Denom (mbs_IronInMax m) = AttoIronDenom"
    and "GetBackingRiskParams (mk w) (Denom (mbs_BackingInMax m)) = Some q"
    and "GetPoolBacking (mk w) (Denom (mbs_BackingInMax m)) = Some p"
  shows "Amount (mbs_MintOutMin m) \<le> Amount (mbsr_MintOut r)"
    "0 < Amount (mbs_BackingInMax m) \<longrightarrow> Amount (mbsr_BackingIn r) \<le> Amount (mbs_BackingInMax m)"
    "0 < Amount (mbs_IronInMax m) \<longrightarrow> Amount (mbsr_IronIn r) \<le> Amount (mbs_IronInMax m)"
    "\<not> over (brp_MaxGridMint q) (Amount (pb_GridMinted p) + Amount (mbsr_MintOut r) + Amount (mbsr_MintFee r))"
    "\<not> over (brp_MaxBacking q) (Amount (pb_Backing p) + Amount (mbsr_BackingIn r))"
    "supply_of B (bnk w') d = supply_of B (bnk w) d
       + (if d = MicroUSMDenom then Amount (mbsr_MintOut r) + Amount (mbsr_MintFee r) else 0)
       - (if d = AttoIronDenom then Amount (mbsr_IronIn r) else 0)"
proof -
  let ?d = "Denom (mbs_BackingInMax m)"
  obtain sd rc b i mo mf mt w0 w1 w2 w3 w4 lt where
    calc: "calculateMintBySwapOut S w (mbs_BackingInMax m) (mbs_IronInMax m) (mbs_FullBacking m) = Ok (b, i, mo, mf)" and
    mt: "Coin_Add S mo mf = Ok mt" and
    w1: "takeCoins S B sd [b, i] (w\<lparr>mk := w0\<rparr>) = Ok w1" and
    w2: "whenb (coin_IsPositive i) (burnCoins S B [i]) w1 = Ok w2" and
    w3: "mintCoins S B [mt] w2 = Ok w3" and w4: "payCoins S B rc [mo] w3 = Ok w4" and
    w5: "whenb (coin_IsPositive mf) (feeCoins S B [mf]) w4 = Ok w'" and
    sl: "Coin_IsLT S mo (mbs_MintOutMin m) = Ok lt" "\<not> lt" and
    r: "r = \<lparr>mbsr_BackingIn = b, mbsr_IronIn = i, mbsr_MintOut = mo, mbsr_MintFee = mf\<rparr>"
    using assms(1) by (rule MintBySwap_ok) (rule that)
  obtain params :: BackingRiskParams and bp ip b0 i0 v mt' t p' bk where
    q: "getAvailableBackingParams w ?d = Ok params" and
    n: "NewCoin S ?d 0 = Ok b0" "NewCoin S AttoIronDenom 0 = Ok i0" and
    inp: "mintSwapInputs S (GetBackingRatio (mk w)) (mbs_FullBacking m) bp ip (mbs_BackingInMax m)
      (mbs_IronInMax m) b0 i0 = Ok (v, b, i)" and
    p': "getBacking w ?d = Ok (t, p')" and
    c1: "\<not> over (brp_MaxGridMint params) (Amount (pb_GridMinted p') + Amount mt')" and
    bk: "Coin_Add S (pb_Backing p') b = Ok bk" and c2: "\<not> over (brp_MaxBacking params) (Amount bk)" and
    mo: "Coin_Sub S mt' mf = Ok mo"
    using calc by (rule calculateMintBySwapOut_ok) (rule that)
  note sh = calculateMintBySwapOut_shape [OF calc]
  have qq: "params = q" using q assms(3)
    by (auto simp: getAvailableBackingParams_def res_simps split: option.splits)
  have pp: "p' = p" using p' assms(4) by (auto simp: getBacking_def split: option.splits)
  have amt: "Amount mt' = Amount mo + Amount mf" "Amount bk = Amount (pb_Backing p') + Amount b"
    using mo bk by (auto simp: sdk_simps split: if_splits)
  have z: "Denom b0 = ?d" "Denom i0 = Denom (mbs_IronInMax m)" "Amount b0 = 0" "Amount i0 = 0"
    using n assms(2) by (auto simp: sdk_simps split: if_splits)
  show "Amount (mbs_MintOutMin m) \<le> Amount (mbsr_MintOut r)"
    using sl by (auto simp: r sdk_simps split: if_splits)
  show "0 < Amount (mbs_BackingInMax m) \<longrightarrow> Amount (mbsr_BackingIn r) \<le> Amount (mbs_BackingInMax m)"
    "0 < Amount (mbs_IronInMax m) \<longrightarrow> Amount (mbsr_IronIn r) \<le> Amount (mbs_IronInMax m)"
    using mintSwapInputs_limits [OF inp z] by (simp_all add: r)
  show "\<not> over (brp_MaxGridMint q) (Amount (pb_GridMinted p) + Amount (mbsr_MintOut r) + Amount (mbsr_MintFee r))"
    "\<not> over (brp_MaxBacking q) (Amount (pb_Backing p) + Amount (mbsr_BackingIn r))"
    using c1 c2 by (simp_all add: r qq pp amt add.assoc)
  have nb: "0 \<le> Amount i" using takeCoins_ok(3) [OF w1] by simp
  have mt'': "mt = coin_AddAmount mo (Amount mf)" using Coin_Add_ok [OF mt] by simp
  show "supply_of B (bnk w') d = supply_of B (bnk w) d
       + (if d = MicroUSMDenom then Amount (mbsr_MintOut r) + Amount (mbsr_MintFee r) else 0)
       - (if d = AttoIronDenom then Amount (mbsr_IronIn r) else 0)"
    unfolding whenb_fee(4) [OF w5 sh(5)] payCoins_ok(5) [OF w4] mintCoins_ok(5) [OF w3]
      whenb_burn(4) [OF w2 nb] takeCoins_ok(5) [OF w1]
    by (simp add: r mt'' sh)
qed

end

text \<open>
  C9: a mint by swap gives at least the minimum the message asks for, takes at most the maxima it
  allows (a zero maximum means no limit on that coin), respects the ceilings of the backing on the
  minted stablecoin and on the backing, and changes the supplies by exactly what it mints, fee
  included, and by the iron it burns.
\<close>

theorem mint_by_swap_limits:
  assumes "chain_laws S B" "MsgMintBySwap_ValidateBasic S m = Ok ()" "MintBySwap S B m w = Ok (w', r)"
    and "GetBackingRiskParams (mk w) (Denom (mbs_BackingInMax m)) = Some q"
    and "GetPoolBacking (mk w) (Denom (mbs_BackingInMax m)) = Some p"
  shows "Amount (mbs_MintOutMin m) \<le> Amount (mbsr_MintOut r) \<and>
    (0 < Amount (mbs_BackingInMax m) \<longrightarrow> Amount (mbsr_BackingIn r) \<le> Amount (mbs_BackingInMax m)) \<and>
    (0 < Amount (mbs_IronInMax m) \<longrightarrow> Amount (mbsr_IronIn r) \<le> Amount (mbs_IronInMax m)) \<and>
    \<not> over (brp_MaxGridMint q) (Amount (pb_GridMinted p) + Amount (mbsr_MintOut r) + Amount (mbsr_MintFee r)) \<and>
    \<not> over (brp_MaxBacking q) (Amount (pb_Backing p) + Amount (mbsr_BackingIn r)) \<and>
    supply_of B (bnk w') d = supply_of B (bnk w) d
      + (if d = MicroUSMDenom then Amount (mbsr_MintOut r) + Amount (mbsr_MintFee r) else 0)
      - (if d = AttoIronDenom then Amount (mbsr_IronIn r) else 0)"
proof -
  have "Denom (mbs_IronInMax m) = AttoIronDenom"
    using assms(2) by (auto simp: MsgMintBySwap_ValidateBasic_def res_simps)
  from chain_laws.MintBySwap_guarantees [OF assms(1,3) this assms(4,5)] show ?thesis by blast
qed

theorem mint_by_swap_limits_witness:
  "supply_of ledger (bnk demo_swap) ''uusm'' = supply_of ledger (bnk demo_loan) ''uusm'' + 2000 \<and>
   \<not> over (Some 5000) (0 + 1980 + 20)"
proof -
  let ?q = "demo_brp\<lparr>brp_BurnFee := Some 0, brp_BuybackFee := Some 0, brp_RebackFee := Some 0\<rparr>"
  let ?p = "\<lparr>pb_GridMinted = usm 0, pb_Backing = ueth 0, pb_IronBurned = iron 0\<rparr>"
  have "MsgMintBySwap_ValidateBasic cosmos_sdk demo_mint = Ok ()"
    by (simp add: MsgMintBySwap_ValidateBasic_def run_eval validAddr_def validTo_def)
  from mint_by_swap_limits [OF plain_chain.chain_laws_axioms this demo_swap_run, of ?q ?p "''uusm''"]
  show ?thesis
    by (simp add: demo_mint_def demo_loan_def demo_world_def demo_brp_def maker_accessors MicroUSMDenom_def
        AttoIronDenom_def)
qed

section \<open>The backing ratio\<close>

context chain_laws
begin

lemma target_mul: "Dec_Mul S MicroUSMTarget x = x"
  by (rule Mul_exact) (simp add: MicroUSMTarget_def)

lemma AdjustBackingRatio_step:
  assumes "AdjustBackingRatio S ctx w = Ok w'" "inv_ratio (mk w)"
    and "GetExchangeRate (orc w) MicroUSMDenom = Ok price"
  defines "r \<equiv> GetBackingRatio (mk w)" and "r' \<equiv> GetBackingRatio (mk w')"
    and "band \<equiv> BackingRatioPriceBand (mk w)"
  shows "\<bar>r' - r\<bar> \<le> BackingRatioStep (mk w)"
    "MicroUSMTarget + band < price \<longrightarrow> r' \<le> r" "price < MicroUSMTarget - band \<longrightarrow> r \<le> r'"
    "MicroUSMTarget - band \<le> price \<and> price \<le> MicroUSMTarget + band \<longrightarrow> r' = r"
    "r' \<noteq> r \<longrightarrow> BackingRatioCooldownPeriod (mk w) \<le> BlockHeight ctx - GetBackingRatioLastBlock (mk w) \<and>
       backing_ratio_last_block (mk w') = Some (u64_of_int (BlockHeight ctx))"
    "0 \<le> r'" "r' \<le> dec_one"
proof -
  have st: "0 \<le> BackingRatioStep (mk w)" "0 \<le> r" "r \<le> dec_one" "0 \<le> band"
    using assms(2) by (auto simp: inv_ratio_def maker_params_ok_def validateBackingRatioStep_def
        validateBackingRatioPriceBand_def BackingRatioStep_def BackingRatioPriceBand_def band_def r_def)
  have cases: "w' = w \<or> (w' = w\<lparr>mk := (mk w)\<lparr>backing_ratio := Some r', backing_ratio_last_block :=
         Some (u64_of_int (BlockHeight ctx))\<rparr>\<rparr> \<and>
       BackingRatioCooldownPeriod (mk w) \<le> BlockHeight ctx - GetBackingRatioLastBlock (mk w) \<and>
       r' = (if price > MicroUSMTarget + band then max (r - BackingRatioStep (mk w)) 0
             else if price < MicroUSMTarget - band then min (r + BackingRatioStep (mk w)) dec_one else r))"
    using assms(1,3) unfolding AdjustBackingRatio_def target_mul r'_def r_def band_def
    by (auto simp: Let_def res_simps SetBackingRatioLastBlock_def SetBackingRatio_def GetBackingRatio_def
        split: if_splits)
  show "\<bar>r' - r\<bar> \<le> BackingRatioStep (mk w)" using cases st by (auto simp: r'_def r_def)
  show "MicroUSMTarget + band < price \<longrightarrow> r' \<le> r" using cases st by (auto simp: r'_def r_def)
  show "price < MicroUSMTarget - band \<longrightarrow> r \<le> r'" using cases st by (auto simp: r'_def r_def)
  show "MicroUSMTarget - band \<le> price \<and> price \<le> MicroUSMTarget + band \<longrightarrow> r' = r"
    using cases by (auto simp: r'_def r_def)
  show "r' \<noteq> r \<longrightarrow> BackingRatioCooldownPeriod (mk w) \<le> BlockHeight ctx - GetBackingRatioLastBlock (mk w) \<and>
       backing_ratio_last_block (mk w') = Some (u64_of_int (BlockHeight ctx))"
    using cases by (auto simp: r'_def r_def)
  show "0 \<le> r'" "r' \<le> dec_one" using cases st by (auto simp: r'_def r_def)
qed

end

text \<open>
  C10: the end of a block leaves the backing ratio between zero and one and moves it by at most one
  step, down when the stablecoin trades above its band, up when below, not at all inside the band, and
  only when the cooldown has elapsed, in which case the block is recorded.
\<close>

theorem adjust_backing_ratio_step:
  assumes "chain_laws S B" "maker_reach S B (h, w)" "maker_EndBlocker S ctx w = Ok w'"
    and "GetExchangeRate (orc w) MicroUSMDenom = Ok price"
  shows "0 \<le> GetBackingRatio (mk w') \<and> GetBackingRatio (mk w') \<le> dec_one \<and>
    \<bar>GetBackingRatio (mk w') - GetBackingRatio (mk w)\<bar> \<le> BackingRatioStep (mk w) \<and>
    (MicroUSMTarget + BackingRatioPriceBand (mk w) < price \<longrightarrow> GetBackingRatio (mk w') \<le> GetBackingRatio (mk w)) \<and>
    (price < MicroUSMTarget - BackingRatioPriceBand (mk w) \<longrightarrow> GetBackingRatio (mk w) \<le> GetBackingRatio (mk w')) \<and>
    (MicroUSMTarget - BackingRatioPriceBand (mk w) \<le> price \<and> price \<le> MicroUSMTarget + BackingRatioPriceBand (mk w)
       \<longrightarrow> GetBackingRatio (mk w') = GetBackingRatio (mk w)) \<and>
    (GetBackingRatio (mk w') \<noteq> GetBackingRatio (mk w) \<longrightarrow>
       BackingRatioCooldownPeriod (mk w) \<le> BlockHeight ctx - GetBackingRatioLastBlock (mk w) \<and>
       backing_ratio_last_block (mk w') = Some (u64_of_int (BlockHeight ctx)))"
  using chain_laws.AdjustBackingRatio_step [OF assms(1) assms(3) [unfolded maker_EndBlocker_def]
      reach_invD(4) [OF assms(1,2)] assms(4)] by blast

definition demo_late :: ctx where
  "demo_late = \<lparr>BlockHeight = 1000, BlockTime = 6000\<rparr>"

lemma band_num: "Dec_Mul cosmos_sdk 1000000000000000000 5000000000000000 = 5000000000000000"
  by (rule Dec_Mul_eval [where r = 0]) (simp_all add: dec_one_def)

lemma demo_adjust_run:
  "maker_EndBlocker cosmos_sdk demo_late demo_swap = Ok (demo_swap\<lparr>mk := (mk demo_swap)\<lparr>
     backing_ratio := Some 997500000000000000, backing_ratio_last_block := Some 1000\<rparr>\<rparr>)"
  by (simp add: maker_EndBlocker_def AdjustBackingRatio_def band_num demo_late_def run_eval
      GetBackingRatioLastBlock_def BackingRatioCooldownPeriod_def BackingRatioStep_def blocks_defs
      BackingRatioPriceBand_def SetBackingRatioLastBlock_def u64_of_int_def u64_mod_def cong: eval_cong)

theorem adjust_backing_ratio_step_witness:
  "(997500000000000000 :: int) \<le> dec_one \<and> \<bar>997500000000000000 - dec_one\<bar> \<le> (2500000000000000 :: int)"
  using adjust_backing_ratio_step [OF plain_chain.chain_laws_axioms demo_swap_reach demo_adjust_run,
      of "102 * 10 ^ 16"]
  by (simp add: run_eval BackingRatioStep_def BackingRatioPriceBand_def)

text \<open>
  The end of a block panics when the cooldown has elapsed and the oracle has no price for the
  stablecoin.
\<close>

lemma end_block_panics_without_price:
  assumes "GetExchangeRate (orc w) MicroUSMDenom = Err e" "BackingRatioStep (mk w) \<noteq> 0"
    and "BackingRatioCooldownPeriod (mk w) \<le> BlockHeight ctx - GetBackingRatioLastBlock (mk w)"
  shows "maker_EndBlocker S ctx w = Panic"
  using assms by (simp add: maker_EndBlocker_def AdjustBackingRatio_def Let_def)

end
