(* ===== verification/MakerLoanProps.thy ===== *)
theory MakerLoanProps
  imports MakerProps
begin

text \<open>
  What the collateral messages of the maker guarantee: a deposit can be taken back in the block it
  was made, a repayment reduces the debt by what is paid and burns all but the interest, interest
  accrues on the principal only, and the inputs on which governance and redemption panic.
\<close>

section \<open>Settlement\<close>

text \<open>
  The interest an account owes since its last settlement, on its principal, and the account, its pool
  and the total once it is settled.
\<close>

definition accrued :: "sdk \<Rightarrow> ctx \<Rightarrow> AccountCollateral \<Rightarrow> dec \<Rightarrow> int res" where
  "accrued S ctx c apr =
     (if ac_LastSettlementBlock c = BlockHeight ctx then Ok 0
      else interestOfPeriod S (Amount (ac_GridDebt c) - Amount (ac_LastInterest c)) apr
        (BlockHeight ctx - ac_LastSettlementBlock c))"

definition settled_account :: "ctx \<Rightarrow> int \<Rightarrow> AccountCollateral \<Rightarrow> AccountCollateral" where
  "settled_account ctx i c = c\<lparr>ac_LastInterest := coin_AddAmount (ac_LastInterest c) i,
     ac_GridDebt := coin_AddAmount (ac_GridDebt c) i, ac_LastSettlementBlock := BlockHeight ctx\<rparr>"

definition settled_pool :: "int \<Rightarrow> PoolCollateral \<Rightarrow> PoolCollateral" where
  "settled_pool i p = p\<lparr>pc_GridDebt := coin_AddAmount (pc_GridDebt p) i\<rparr>"

definition settled_total :: "int \<Rightarrow> TotalCollateral \<Rightarrow> TotalCollateral" where
  "settled_total i t = t\<lparr>tc_GridDebt := coin_AddAmount (tc_GridDebt t) i\<rparr>"

lemmas settled_defs = settled_account_def settled_pool_def settled_total_def

lemma settled_account_fields:
  "Amount (ac_GridDebt (settled_account ctx i c)) = Amount (ac_GridDebt c) + i"
  "Amount (ac_LastInterest (settled_account ctx i c)) = Amount (ac_LastInterest c) + i"
  "ac_LastSettlementBlock (settled_account ctx i c) = BlockHeight ctx"
  by (simp_all add: settled_account_def)

context chain_laws
begin

lemma settleInterestFee_accrued:
  assumes "settleInterestFee S ctx c p t apr = Ok (c', p', t')"
  obtains i where "accrued S ctx c apr = Ok i" "c' = settled_account ctx i c" "p' = settled_pool i p"
    "t' = settled_total i t"
proof (cases "ac_LastSettlementBlock c = BlockHeight ctx")
  case True
  with assms show ?thesis by (intro that [of 0]) (simp_all add: accrued_def settleInterestFee_def settled_defs)
next
  case False
  with assms obtain d i where d: "Coin_Sub S (ac_GridDebt c) (ac_LastInterest c) = Ok d"
    and i: "interestOfPeriod S (Amount d) apr (BlockHeight ctx - ac_LastSettlementBlock c) = Ok i"
    and eqs: "c' = settled_account ctx i c" "p' = settled_pool i p" "t' = settled_total i t"
    by (auto simp: settleInterestFee_def settled_defs Let_def res_simps)
  have "Amount d = Amount (ac_GridDebt c) - Amount (ac_LastInterest c)"
    using d by (auto simp: sdk_simps split: if_splits)
  with i False eqs show ?thesis by (intro that [of i]) (simp_all add: accrued_def)
qed

end

section \<open>Deposit and redemption\<close>

lemma coin_add_sub:
  assumes "sdk_laws S" "Coin_Add S c x = Ok c'" "Coin_Sub S c' x = Ok c''"
  shows "c'' = c"
  using assms(2,3) unfolding sdk_laws.Coin_Add_eq [OF assms(1)] sdk_laws.Coin_Sub_eq [OF assms(1)]
  by (auto split: if_splits)

context chain_laws
begin

text \<open>The redemption finds what the deposit has stored, settled in this block, and takes the same coins off.\<close>

lemma deposit_redeem:
  assumes "DepositCollateral S B ctx m w = Ok w1" "RedeemCollateral S B ctx n w1 = Ok w2"
    and "rc_Sender n = dc_Sender m" "dc_To m = []" "rc_To n = []"
    and "rc_CollateralOut n = dc_CollateralIn m" "rc_IronOut n = dc_IronIn m"
    and "inv_coll (BlockHeight ctx) (mk w)" "inv_params (mk w)"
    and "AccAddressFromBech32 S (dc_Sender m) = Some a" "a \<noteq> GetModuleAddress B ''maker''"
  shows "bal B (bnk w2) x d = bal B (bnk w) x d" "supply_of B (bnk w2) d = supply_of B (bnk w) d"
    "\<exists>t p c q apr i. getCollateral S ctx w a (Denom (dc_CollateralIn m)) True = Ok (t, p, c) \<and>
      GetCollateralRiskParams (mk w) (Denom (dc_CollateralIn m)) = Some q \<and> crp_InterestFee q = Some apr \<and>
      accrued S ctx c apr = Ok i \<and>
      GetAccountCollateral (mk w2) a (Denom (dc_CollateralIn m)) = Some (settled_account ctx i c) \<and>
      GetPoolCollateral (mk w2) (Denom (dc_CollateralIn m)) = Some (settled_pool i p) \<and>
      GetTotalCollateral (mk w2) = Some (settled_total i t)"
proof -
  let ?d = "Denom (dc_CollateralIn m)"
  have sdk: "sdk_laws S" by unfold_locales
  obtain sd rc q t0 p0 c0 apr c p t ac pc ai pi ti where
    sd: "getSenderReceiver S (dc_Sender m) (dc_To m) = Ok (sd, rc)" and
    q: "getAvailableCollateralParams w ?d = Ok q" and
    g: "getCollateral S ctx w rc ?d True = Ok (t0, p0, c0)" and apr: "deref (crp_InterestFee q) = Ok apr" and
    se: "settleInterestFee S ctx c0 p0 t0 apr = Ok (c, p, t)" and
    ac: "Coin_Add S (ac_Collateral c) (dc_CollateralIn m) = Ok ac" and
    pc: "Coin_Add S (pc_Collateral p) (dc_CollateralIn m) = Ok pc" and
    ai: "Coin_Add S (ac_IronCollateralized c) (dc_IronIn m) = Ok ai" and
    pi: "Coin_Add S (pc_IronCollateralized p) (dc_IronIn m) = Ok pi" and
    ti: "Coin_Add S (tc_IronCollateralized t) (dc_IronIn m) = Ok ti" and
    w1: "takeCoins S B sd [dc_CollateralIn m, dc_IronIn m] (setCollateral rc
          (c\<lparr>ac_Collateral := ac, ac_IronCollateralized := ai\<rparr>)
          (p\<lparr>pc_Collateral := pc, pc_IronCollateralized := pi\<rparr>)
          (t\<lparr>tc_IronCollateralized := ti\<rparr>) w) = Ok w1"
    using assms(1) by (rule DepositCollateral_ok) (rule that)
  obtain sd' rc' u0 s0 e0 apr' e s u ac' pc' ai' pi' ti' where
    sd': "getSenderReceiver S (rc_Sender n) (rc_To n) = Ok (sd', rc')" and
    g': "getCollateral S ctx w1 sd' (Denom (rc_CollateralOut n)) False = Ok (u0, s0, e0)" and
    se': "settleInterestFee S ctx e0 s0 u0 apr' = Ok (e, s, u)" and
    ac': "Coin_Sub S (ac_Collateral e) (rc_CollateralOut n) = Ok ac'" and
    pc': "Coin_Sub S (pc_Collateral s) (rc_CollateralOut n) = Ok pc'" and
    ai': "Coin_Sub S (ac_IronCollateralized e) (rc_IronOut n) = Ok ai'" and
    pi': "Coin_Sub S (pc_IronCollateralized s) (rc_IronOut n) = Ok pi'" and
    ti': "Coin_Sub S (tc_IronCollateralized u) (rc_IronOut n) = Ok ti'" and
    w2: "payCoins S B rc' [rc_CollateralOut n, rc_IronOut n] (setCollateral sd'
          (e\<lparr>ac_Collateral := ac', ac_IronCollateralized := ai'\<rparr>)
          (s\<lparr>pc_Collateral := pc', pc_IronCollateralized := pi'\<rparr>)
          (u\<lparr>tc_IronCollateralized := ti'\<rparr>) w1) = Ok w2"
    using assms(2) by (rule RedeemCollateral_ok) (rule that)
  have adr: "sd = a" "rc = a" "sd' = a" "rc' = a"
    using sd sd' assms(3-5,10) by (auto simp: getSenderReceiver_def accAddress_def res_simps)
  have sh: "ac_shape (BlockHeight ctx) ?d c" and psh: "Denom (pc_Collateral p) = ?d"
    by (rule settled [OF q g apr se assms(8,9), unfolded adr]; simp add: pc_shape_def)+
  let ?e = "c\<lparr>ac_Collateral := ac, ac_IronCollateralized := ai\<rparr>"
  let ?s = "p\<lparr>pc_Collateral := pc, pc_IronCollateralized := pi\<rparr>" and ?u = "t\<lparr>tc_IronCollateralized := ti\<rparr>"
  have den: "Denom ac = ?d" "Denom pc = ?d"
    using Coin_Add_ok [OF ac] Coin_Add_ok [OF pc] sh psh by (simp_all add: ac_shape_def)
  have "getCollateral S ctx w1 a ?d False = Ok (?u, ?s, ?e)"
    by (simp add: takeCoins_ok(1) [OF w1] getCollateral_def setCollateral_def maker_accessors adr den)
  with g' have st: "u0 = ?u" "s0 = ?s" "e0 = ?e" by (simp_all add: adr assms(6))
  moreover have "ac_LastSettlementBlock ?e = BlockHeight ctx" using settleInterestFee_block [OF se] by simp
  ultimately have es: "e = ?e" "s = ?s" "u = ?u"
    using se' settleInterestFee_same_block [of ?e ctx ?s ?u apr'] by simp_all
  have bk: "ac' = ac_Collateral c" "ai' = ac_IronCollateralized c" "pc' = pc_Collateral p"
      "pi' = pc_IronCollateralized p" "ti' = tc_IronCollateralized t"
    using coin_add_sub [OF sdk ac] coin_add_sub [OF sdk ai] coin_add_sub [OF sdk pc] coin_add_sub [OF sdk pi]
      coin_add_sub [OF sdk ti] ac' ai' pc' pi' ti' by (simp_all add: es assms(6,7))
  have orig: "GetAccountCollateral (mk w2) a ?d = Some c" "GetPoolCollateral (mk w2) ?d = Some p"
      "GetTotalCollateral (mk w2) = Some t"
    using sh psh by (simp_all add: payCoins_ok(1) [OF w2] setCollateral_def maker_accessors adr es bk ac_shape_def)
  from settleInterestFee_accrued [OF se] obtain i where i: "accrued S ctx c0 apr = Ok i"
      "c = settled_account ctx i c0" "p = settled_pool i p0" "t = settled_total i t0" .
  from g apr i orig getAvailableCollateralParams_ok [OF q]
  show "\<exists>t p c q apr i. getCollateral S ctx w a ?d True = Ok (t, p, c) \<and>
      GetCollateralRiskParams (mk w) ?d = Some q \<and> crp_InterestFee q = Some apr \<and> accrued S ctx c apr = Ok i \<and>
      GetAccountCollateral (mk w2) a ?d = Some (settled_account ctx i c) \<and>
      GetPoolCollateral (mk w2) ?d = Some (settled_pool i p) \<and> GetTotalCollateral (mk w2) = Some (settled_total i t)"
    by (intro exI [of _ t0] exI [of _ p0] exI [of _ c0] exI [of _ q] exI [of _ apr] exI [of _ i])
      (simp add: adr deref_ok GetCollateralRiskParams_def)
  show "bal B (bnk w2) x d = bal B (bnk w) x d"
    unfolding payCoins_ok(6) [OF w2] using takeCoins_ok(6) [OF w1, of x d] assms(11)
    by (simp add: setCollateral_def adr assms(6,7))
  show "supply_of B (bnk w2) d = supply_of B (bnk w) d"
    unfolding payCoins_ok(5) [OF w2] using takeCoins_ok(5) [OF w1, of d] by (simp add: setCollateral_def)
qed

end

text \<open>
  C11: a deposit and a redemption of the same coins by the same account in one block leave every
  balance and the supplies as they were, and of the account, of its pool and of the total nothing is
  changed but the settlement of the interest due: that interest is added to the account's interest and
  to the three debts, and the settlement block is the current one.  An account without a position is
  compared with the empty position a first deposit opens.
\<close>

theorem deposit_redeem_roundtrip:
  assumes "chain_laws S B" "maker_reach S B (BlockHeight ctx, w)"
    and "DepositCollateral S B ctx m w = Ok w1" "RedeemCollateral S B ctx n w1 = Ok w2"
    and "rc_Sender n = dc_Sender m" "dc_To m = []" "rc_To n = []"
    and "rc_CollateralOut n = dc_CollateralIn m" "rc_IronOut n = dc_IronIn m"
    and "AccAddressFromBech32 S (dc_Sender m) = Some a" "a \<noteq> GetModuleAddress B ''maker''"
  shows "bal B (bnk w2) x d = bal B (bnk w) x d \<and> supply_of B (bnk w2) d = supply_of B (bnk w) d \<and>
    (\<exists>t p c q apr i. getCollateral S ctx w a (Denom (dc_CollateralIn m)) True = Ok (t, p, c) \<and>
      GetCollateralRiskParams (mk w) (Denom (dc_CollateralIn m)) = Some q \<and> crp_InterestFee q = Some apr \<and>
      accrued S ctx c apr = Ok i \<and>
      GetAccountCollateral (mk w2) a (Denom (dc_CollateralIn m)) = Some (settled_account ctx i c) \<and>
      GetPoolCollateral (mk w2) (Denom (dc_CollateralIn m)) = Some (settled_pool i p) \<and>
      GetTotalCollateral (mk w2) = Some (settled_total i t))"
  using chain_laws.deposit_redeem [OF assms(1,3-9) reach_invD(2,3) [OF assms(1,2)] assms(10,11)] by blast

definition demo_redeem :: MsgRedeemCollateral where
  "demo_redeem = \<lparr>rc_Sender = ''alice'', rc_To = [], rc_CollateralOut = ueth 1000, rc_IronOut = iron 100\<rparr>"

definition demo_redeemed :: "ledger_state maker_world" where
  "demo_redeemed = demo_world (demo_bpool 0 0) 0 (demo_cpool 0 0 0) 0 0
     [((''alice'', ''ueth''), (demo_position 0)\<lparr>ac_Collateral := ueth 0, ac_IronCollateralized := iron 0\<rparr>)]
     \<lparr>balances = [((''alice'', ''airon''), 5000), ((''alice'', ''ueth''), 5000),
         ((''bob'', ''ueth''), 9000), ((''module/maker'', ''airon''), 0), ((''module/maker'', ''ueth''), 0)],
       supplies = [(''airon'', 5000), (''ueth'', 14000)]\<rparr>"

lemma redeem_nums:
  "Dec_Mul cosmos_sdk 0 x = 0"
  by (rule cosmos.Mul_zero)

lemma demo_redeem_run: "RedeemCollateral cosmos_sdk ledger demo_ctx demo_redeem demo_dep = Ok demo_redeemed"
  by (simp add: run_eval redeem_nums demo_redeem_def demo_redeemed_def RedeemCollateral_def
      maxLoanToValueForAccount_def cong: eval_cong)

theorem deposit_redeem_roundtrip_witness:
  "bal ledger (bnk demo_redeemed) ''alice'' ''ueth'' = bal ledger (bnk demo_reg) ''alice'' ''ueth''"
proof -
  have "maker_reach cosmos_sdk ledger (BlockHeight demo_ctx, demo_reg)"
    using demo_reg_reach by (simp add: demo_ctx_def)
  from deposit_redeem_roundtrip [OF plain_chain.chain_laws_axioms this demo_dep_run demo_redeem_run,
      of "''alice''" "''alice''" "''ueth''"]
  show ?thesis by (simp add: demo_redeem_def demo_deposit_def cosmos_fields ledger_def ledger_mod_def AttoIronDenom_def)
qed

section \<open>Interest\<close>

lemma two_abs_le: "2 * \<bar>x\<bar> \<le> d \<Longrightarrow> 2 * x \<le> d \<and> - d \<le> 2 * x" for x d :: int
  by arith

context chain_laws
begin

lemma settleInterestFee_principal:
  assumes "settleInterestFee S ctx acc pool tot apr = Ok (acc', pool', tot')"
  obtains i where "Amount (ac_LastInterest acc') = Amount (ac_LastInterest acc) + i"
    "Amount (ac_GridDebt acc') = Amount (ac_GridDebt acc) + i"
    "Amount (pc_GridDebt pool') = Amount (pc_GridDebt pool) + i"
    "Amount (tc_GridDebt tot') = Amount (tc_GridDebt tot) + i"
    "ac_LastSettlementBlock acc' = BlockHeight ctx"
    "BlockHeight ctx = ac_LastSettlementBlock acc \<longrightarrow> i = 0"
    "BlockHeight ctx \<noteq> ac_LastSettlementBlock acc \<longrightarrow>
       interestOfPeriod S (Amount (ac_GridDebt acc) - Amount (ac_LastInterest acc)) apr
         (BlockHeight ctx - ac_LastSettlementBlock acc) = Ok i"
proof (cases "BlockHeight ctx = ac_LastSettlementBlock acc")
  case True
  with assms that [of 0] show ?thesis by (simp add: settleInterestFee_def)
next
  case False
  with assms obtain p i where p: "Coin_Sub S (ac_GridDebt acc) (ac_LastInterest acc) = Ok p"
    and i: "interestOfPeriod S (Amount p) apr (BlockHeight ctx - ac_LastSettlementBlock acc) = Ok i"
    and eqs: "acc' = acc\<lparr>ac_LastInterest := coin_AddAmount (ac_LastInterest acc) i,
                ac_GridDebt := coin_AddAmount (ac_GridDebt acc) i,
                ac_LastSettlementBlock := BlockHeight ctx\<rparr>"
    "pool' = pool\<lparr>pc_GridDebt := coin_AddAmount (pc_GridDebt pool) i\<rparr>"
    "tot' = tot\<lparr>tc_GridDebt := coin_AddAmount (tc_GridDebt tot) i\<rparr>"
    by (auto simp: settleInterestFee_def Let_def res_simps)
  have "Amount p = Amount (ac_GridDebt acc) - Amount (ac_LastInterest acc)"
    using p by (auto simp: sdk_simps split: if_splits)
  with i False show ?thesis by (intro that [of i]) (simp_all add: eqs)
qed

lemma interestOfPeriod_near:
  assumes "interestOfPeriod S P apr n = Ok i" "0 \<le> P" "0 \<le> apr" "0 \<le> n"
  shows "2 * \<bar>i * dec_one - (P * apr * n) div int BlocksPerYear\<bar> \<le> dec_one"
proof -
  have "i = Dec_RoundInt S ((P * apr * n) div int BlocksPerYear)"
    using assms by (auto simp: interestOfPeriod_def QuoInt_sdiv sdk_simps res_simps blocks_defs sdiv_div)
  then show ?thesis using RoundInt_near by simp
qed

lemma interestOfPeriod_zero:
  assumes "interestOfPeriod S P apr n = Ok i" "0 \<le> P" "0 \<le> apr" "0 \<le> n"
    and "2 * (P * apr * n) < dec_one * int BlocksPerYear"
  shows "i = 0"
proof -
  let ?q = "(P * apr * n) div int BlocksPerYear"
  have Y: "0 < int BlocksPerYear" by (simp add: blocks_defs)
  have "0 \<le> ?q" using assms(2-4) Y by (simp add: pos_imp_zdiv_nonneg_iff)
  moreover have "2 * ?q * int BlocksPerYear < dec_one * int BlocksPerYear"
    using int_div_mult_le [OF Y, of "P * apr * n"] assms(5) by (simp add: ac_simps)
  then have "2 * ?q < dec_one" using Y by simp
  moreover have "2 * (i * dec_one - ?q) \<le> dec_one" "- dec_one \<le> 2 * (i * dec_one - ?q)"
    using two_abs_le [OF interestOfPeriod_near [OF assms(1-4)]] by blast+
  ultimately have "i * dec_one < dec_one" "- dec_one < i * dec_one"
    unfolding right_diff_distrib by linarith+
  then show ?thesis by (simp add: dec_one_def)
qed

end

text \<open>
  C12: settling the interest adds one amount to the interest and the debt of the account, to the debt
  of its pool and to the total debt; the principal, on which the interest is computed, stays, and the
  account is settled at the current block.  The amount is the nearest integer to the interest of the
  elapsed blocks.
\<close>

theorem settle_interest_exact:
  assumes "chain_laws S B" "settleInterestFee S ctx acc pool tot apr = Ok (acc', pool', tot')"
    and "Amount (ac_LastInterest acc) \<le> Amount (ac_GridDebt acc)" "0 \<le> apr"
    and "ac_LastSettlementBlock acc \<le> BlockHeight ctx"
  shows "\<exists>i. Amount (ac_LastInterest acc') = Amount (ac_LastInterest acc) + i \<and>
    Amount (ac_GridDebt acc') = Amount (ac_GridDebt acc) + i \<and>
    Amount (pc_GridDebt pool') = Amount (pc_GridDebt pool) + i \<and>
    Amount (tc_GridDebt tot') = Amount (tc_GridDebt tot) + i \<and>
    ac_LastSettlementBlock acc' = BlockHeight ctx \<and>
    2 * \<bar>i * dec_one - ((Amount (ac_GridDebt acc) - Amount (ac_LastInterest acc)) * apr
        * (BlockHeight ctx - ac_LastSettlementBlock acc)) div int BlocksPerYear\<bar> \<le> dec_one"
proof -
  from chain_laws.settleInterestFee_principal [OF assms(1,2)] obtain i where
    i: "Amount (ac_LastInterest acc') = Amount (ac_LastInterest acc) + i"
    "Amount (ac_GridDebt acc') = Amount (ac_GridDebt acc) + i"
    "Amount (pc_GridDebt pool') = Amount (pc_GridDebt pool) + i"
    "Amount (tc_GridDebt tot') = Amount (tc_GridDebt tot) + i"
    "ac_LastSettlementBlock acc' = BlockHeight ctx"
    "BlockHeight ctx = ac_LastSettlementBlock acc \<longrightarrow> i = 0"
    "BlockHeight ctx \<noteq> ac_LastSettlementBlock acc \<longrightarrow>
       interestOfPeriod S (Amount (ac_GridDebt acc) - Amount (ac_LastInterest acc)) apr
         (BlockHeight ctx - ac_LastSettlementBlock acc) = Ok i" .
  moreover have "2 * \<bar>i * dec_one - ((Amount (ac_GridDebt acc) - Amount (ac_LastInterest acc)) * apr
        * (BlockHeight ctx - ac_LastSettlementBlock acc)) div int BlocksPerYear\<bar> \<le> dec_one"
    using i(6,7) chain_laws.interestOfPeriod_near [OF assms(1) _ _ assms(4)] assms(3,5)
    by (cases "BlockHeight ctx = ac_LastSettlementBlock acc") (simp_all add: dec_one_def)
  ultimately show ?thesis by blast
qed

theorem settle_interest_exact_witness:
  "settleInterestFee cosmos_sdk \<lparr>BlockHeight = 5256007, BlockTime = 0\<rparr> (demo_position 402)
     \<lparr>pc_Collateral = ueth 1000, pc_GridDebt = usm 402, pc_IronCollateralized = iron 100\<rparr>
     \<lparr>tc_GridDebt = usm 402, tc_IronCollateralized = iron 100\<rparr> (10 ^ 16)
   = Ok ((demo_position 402)\<lparr>ac_LastInterest := usm 4, ac_GridDebt := usm 406, ac_LastSettlementBlock := 5256007\<rparr>,
       \<lparr>pc_Collateral = ueth 1000, pc_GridDebt = usm 406, pc_IronCollateralized = iron 100\<rparr>,
       \<lparr>tc_GridDebt = usm 406, tc_IronCollateralized = iron 100\<rparr>) \<and>
   2 * \<bar>4 * dec_one - (402 * 10 ^ 16 * 5256000) div int BlocksPerYear\<bar> \<le> dec_one"
proof -
  let ?ctx = "\<lparr>BlockHeight = 5256007, BlockTime = 0\<rparr>"
  let ?pool = "\<lparr>pc_Collateral = ueth 1000, pc_GridDebt = usm 402, pc_IronCollateralized = iron 100\<rparr>"
  let ?tot = "\<lparr>tc_GridDebt = usm 402, tc_IronCollateralized = iron 100\<rparr>"
  have run: "settleInterestFee cosmos_sdk ?ctx (demo_position 402) ?pool ?tot (10 ^ 16)
     = Ok ((demo_position 402)\<lparr>ac_LastInterest := usm 4, ac_GridDebt := usm 406,
             ac_LastSettlementBlock := 5256007\<rparr>,
           ?pool\<lparr>pc_GridDebt := usm 406\<rparr>, ?tot\<lparr>tc_GridDebt := usm 406\<rparr>)"
  proof -
    have "Dec_Mul cosmos_sdk 402000000000000000000 10000000000000000 = 4020000000000000000"
      by (rule Dec_Mul_eval [where r = 0]) (simp_all add: dec_one_def)
    moreover have "Dec_QuoInt cosmos_sdk 21129120000000000000000000 5256000 = Ok 4020000000000000000"
      by (simp add: cosmos.QuoInt_sdiv sdiv_exact [of 5256000 4020000000000000000, simplified])
    moreover have "Dec_RoundInt cosmos_sdk 4020000000000000000 = 4"
      by (rule Dec_RoundInt_eval [where r = 20000000000000000]) (simp_all add: dec_one_def)
    ultimately show ?thesis
      by (simp add: run_eval blocks_defs cong: eval_cong)
  qed
  from settle_interest_exact [OF plain_chain.chain_laws_axioms run]
  obtain i where "402 + i = (406 :: int)"
    "2 * \<bar>i * dec_one - (402 * 10 ^ 16 * 5256000) div int BlocksPerYear\<bar> \<le> dec_one"
    by (auto simp: demo_position_def)
  moreover from this(1) have "i = 4" by simp
  ultimately show ?thesis using run by simp
qed

text \<open>
  C13: interest below half a unit is lost.  When the principal times the rate times the elapsed blocks
  is below half a year's unit, settling changes no amount but still moves the settlement block, so an
  account settled often enough never pays: at one percent a year and one settlement per block this
  holds for every principal below 262800000.
\<close>

theorem interest_rounds_to_zero:
  assumes "chain_laws S B" "settleInterestFee S ctx acc pool tot apr = Ok (acc', pool', tot')"
    and "Amount (ac_LastInterest acc) \<le> Amount (ac_GridDebt acc)" "0 \<le> apr"
    and "ac_LastSettlementBlock acc \<le> BlockHeight ctx"
    and "2 * ((Amount (ac_GridDebt acc) - Amount (ac_LastInterest acc)) * apr
        * (BlockHeight ctx - ac_LastSettlementBlock acc)) < dec_one * int BlocksPerYear"
  shows "Amount (ac_GridDebt acc') = Amount (ac_GridDebt acc) \<and>
    Amount (ac_LastInterest acc') = Amount (ac_LastInterest acc) \<and> ac_LastSettlementBlock acc' = BlockHeight ctx"
proof -
  from chain_laws.settleInterestFee_principal [OF assms(1,2)] obtain i where
    i: "Amount (ac_LastInterest acc') = Amount (ac_LastInterest acc) + i"
    "Amount (ac_GridDebt acc') = Amount (ac_GridDebt acc) + i"
    "ac_LastSettlementBlock acc' = BlockHeight ctx"
    "BlockHeight ctx = ac_LastSettlementBlock acc \<longrightarrow> i = 0"
    "BlockHeight ctx \<noteq> ac_LastSettlementBlock acc \<longrightarrow>
       interestOfPeriod S (Amount (ac_GridDebt acc) - Amount (ac_LastInterest acc)) apr
         (BlockHeight ctx - ac_LastSettlementBlock acc) = Ok i" .
  have "i = 0"
    using i(4,5) chain_laws.interestOfPeriod_zero [OF assms(1) _ _ assms(4)] assms(3,5,6)
    by (cases "BlockHeight ctx = ac_LastSettlementBlock acc") simp_all
  with i show ?thesis by simp
qed

theorem interest_rounds_to_zero_witness:
  "\<exists>acc' pool' tot'. settleInterestFee cosmos_sdk \<lparr>BlockHeight = 8, BlockTime = 0\<rparr> (demo_position 262799999)
     \<lparr>pc_Collateral = ueth 1000, pc_GridDebt = usm 262799999, pc_IronCollateralized = iron 100\<rparr>
     \<lparr>tc_GridDebt = usm 262799999, tc_IronCollateralized = iron 100\<rparr> (10 ^ 16) = Ok (acc', pool', tot') \<and>
     Amount (ac_GridDebt acc') = 262799999 \<and> ac_LastSettlementBlock acc' = 8"
proof -
  let ?ctx = "\<lparr>BlockHeight = 8, BlockTime = 0\<rparr>"
  obtain acc' pool' tot' where run: "settleInterestFee cosmos_sdk ?ctx (demo_position 262799999)
     \<lparr>pc_Collateral = ueth 1000, pc_GridDebt = usm 262799999, pc_IronCollateralized = iron 100\<rparr>
     \<lparr>tc_GridDebt = usm 262799999, tc_IronCollateralized = iron 100\<rparr> (10 ^ 16) = Ok (acc', pool', tot')"
    by (simp add: settleInterestFee_def interestOfPeriod_def demo_position_def cosmos.QuoInt_sdiv
        cosmos_fields res_simps blocks_defs Let_def cong: eval_cong)
  from interest_rounds_to_zero [OF plain_chain.chain_laws_axioms run] run show ?thesis
    by (simp add: demo_position_def dec_one_def blocks_defs)
qed

section \<open>Repayment\<close>

context chain_laws
begin

lemma whenb_bal:
  "whenb (coin_IsPositive c) (burnCoins S B [c]) w = Ok w' \<Longrightarrow> 0 \<le> Amount c \<Longrightarrow>
     bal B (bnk w') x d = bal B (bnk w) x d - (if x = GetModuleAddress B ''maker'' then cs_amt [c] d else 0)"
  "whenb (coin_IsPositive c) (feeCoins S B [c]) w = Ok w' \<Longrightarrow> 0 \<le> Amount c \<Longrightarrow>
     bal B (bnk w') x d = bal B (bnk w) x d + (if x = GetModuleAddress B ''oracle'' then cs_amt [c] d else 0)
       - (if x = GetModuleAddress B ''maker'' then cs_amt [c] d else 0)"
  using burnCoins_ok [of "[c]" w w'] feeCoins_ok [of "[c]" w w']
  by (auto simp: whenb_def coin_IsPositive_def split: if_splits)

lemma BurnByCollateral_flows:
  assumes "BurnByCollateral S B ctx m w = Ok (w', r)"
    and "inv_coll (BlockHeight ctx) (mk w)" "inv_params (mk w)"
    and "AccAddressFromBech32 S (bbc_Sender m) = Some a" "a \<noteq> GetModuleAddress B ''maker''"
    and "a \<noteq> GetModuleAddress B ''oracle''"
  obtains c q apr i c' where "GetAccountCollateral (mk w) a (bbc_CollateralDenom m) = Some c"
    "GetCollateralRiskParams (mk w) (bbc_CollateralDenom m) = Some q" "crp_InterestFee q = Some apr"
    "accrued S ctx c apr = Ok i" "Denom r = MicroUSMDenom"
    "Amount r = min (Amount (ac_GridDebt c) + i) (Amount (bbc_RepayInMax m))"
    "GetAccountCollateral (mk w') a (bbc_CollateralDenom m) = Some c'"
    "Amount (ac_GridDebt c') = Amount (ac_GridDebt c) + i - Amount r"
    "Amount (ac_LastInterest c') = Amount (ac_LastInterest c) + i - min (Amount (ac_LastInterest c) + i) (Amount r)"
    "ac_LastSettlementBlock c' = BlockHeight ctx"
    "supply_of B (bnk w') MicroUSMDenom = supply_of B (bnk w) MicroUSMDenom
       - (Amount r - min (Amount (ac_LastInterest c) + i) (Amount r))"
    "bal B (bnk w') a MicroUSMDenom = bal B (bnk w) a MicroUSMDenom - Amount r"
    "bal B (bnk w') (GetModuleAddress B ''oracle'') MicroUSMDenom
       = bal B (bnk w) (GetModuleAddress B ''oracle'') MicroUSMDenom + min (Amount (ac_LastInterest c) + i) (Amount r)"
proof -
  let ?d = "bbc_CollateralDenom m" and ?rd = "Denom (bbc_RepayInMax m)"
  obtain sd rc q t0 p0 c0 apr c p t rt bn li ad pd td w1 w2 where
    sd: "getSenderReceiver S (bbc_Sender m) [] = Ok (sd, rc)" and
    q: "getAvailableCollateralParams w ?d = Ok q" and
    g: "getCollateral S ctx w sd ?d False = Ok (t0, p0, c0)" and
    apr: "deref (crp_InterestFee q) = Ok apr" and se: "settleInterestFee S ctx c0 p0 t0 apr = Ok (c, p, t)" and
    ri: "NewCoin S ?rd (min (Amount (ac_GridDebt c)) (Amount (bbc_RepayInMax m))) = Ok r" and
    rt: "NewCoin S ?rd (min (Amount (ac_LastInterest c)) (Amount r)) = Ok rt" and
    bn: "Coin_Sub S r rt = Ok bn" and li: "Coin_Sub S (ac_LastInterest c) rt = Ok li" and
    ad: "Coin_Sub S (ac_GridDebt c) r = Ok ad" and
    w1: "takeCoins S B sd [r] (setCollateral sd (c\<lparr>ac_LastInterest := li, ac_GridDebt := ad\<rparr>)
          (p\<lparr>pc_GridDebt := pd\<rparr>) (t\<lparr>tc_GridDebt := td\<rparr>) w) = Ok w1" and
    w2: "whenb (coin_IsPositive bn) (burnCoins S B [bn]) w1 = Ok w2" and
    w3: "whenb (coin_IsPositive rt) (feeCoins S B [rt]) w2 = Ok w'"
    using assms(1) by (rule BurnByCollateral_ok) (use that in blast)
  have [simp]: "sd = a" using sender_is [OF sd] assms(4) by simp
  have sh: "ac_shape (BlockHeight ctx) ?d c" by (rule settled [OF q g apr se assms(2,3)])
  from settleInterestFee_accrued [OF se] obtain i where i: "accrued S ctx c0 apr = Ok i"
      "c = settled_account ctx i c0" "p = settled_pool i p0" "t = settled_total i t0" .
  have ci: "Amount (ac_GridDebt c) = Amount (ac_GridDebt c0) + i"
      "Amount (ac_LastInterest c) = Amount (ac_LastInterest c0) + i"
      "ac_LastSettlementBlock c = BlockHeight ctx"
    unfolding i(2) by (rule settled_account_fields)+
  have ri': "Denom r = ?rd" "0 \<le> Amount r" "Amount r = min (Amount (ac_GridDebt c)) (Amount (bbc_RepayInMax m))"
    and rt': "Denom rt = ?rd" "0 \<le> Amount rt" "Amount rt = min (Amount (ac_LastInterest c)) (Amount r)"
    using NewCoin_ok [OF ri] NewCoin_ok [OF rt] by simp_all
  have bn': "Denom bn = ?rd" "0 \<le> Amount bn" "Amount bn = Amount r - Amount rt"
    using Coin_Sub_ok [OF bn] ri'(1) rt'(3) by auto
  have ad': "Denom r = MicroUSMDenom" "Amount ad = Amount (ac_GridDebt c) - Amount r"
      "Amount li = Amount (ac_LastInterest c) - Amount rt"
    using Coin_Sub_ok [OF ad] Coin_Sub_ok [OF li] sh by (auto simp: ac_shape_def)
  note t1 = takeCoins_ok [OF w1] and t2 = whenb_burn [OF w2 bn'(2)] and t3 = whenb_fee [OF w3 rt'(2)]
  have mo: "GetModuleAddress B ''oracle'' \<noteq> GetModuleAddress B ''maker''"
    using GetModuleAddress_inj [of "''maker''" "''oracle''"] by (auto simp: pool_account_def)
  have acc: "GetAccountCollateral (mk w) a ?d = Some c0"
    using g by (auto simp: getCollateral_def split: option.splits)
  have acc': "GetAccountCollateral (mk w') a ?d = Some (c\<lparr>ac_LastInterest := li, ac_GridDebt := ad\<rparr>)"
    using sh by (simp add: t3(1) t2(1) t1(1) setCollateral_def maker_accessors ac_shape_def)
  have flows: "supply_of B (bnk w') MicroUSMDenom = supply_of B (bnk w) MicroUSMDenom - Amount bn"
      "bal B (bnk w') a MicroUSMDenom = bal B (bnk w) a MicroUSMDenom - Amount r"
      "bal B (bnk w') (GetModuleAddress B ''oracle'') MicroUSMDenom
         = bal B (bnk w) (GetModuleAddress B ''oracle'') MicroUSMDenom + Amount rt"
    using ri'(1) rt'(1) bn'(1) ad'(1) mo assms(5,6)
    by (auto simp: whenb_bal(1) [OF w2 bn'(2)] whenb_bal(2) [OF w3 rt'(2)] t1 t2 t3 setCollateral_def)
  have rt: "min (Amount (ac_LastInterest c0) + i) (Amount r) = Amount rt" by (simp only: rt'(3) ci(2))
  show thesis
  proof (rule that [OF acc _ _ i(1) ad'(1) _ acc'])
    show "GetCollateralRiskParams (mk w) ?d = Some q" "crp_InterestFee q = Some apr"
      using getAvailableCollateralParams_ok [OF q] apr by (simp_all add: GetCollateralRiskParams_def deref_ok)
    show "Amount r = min (Amount (ac_GridDebt c0) + i) (Amount (bbc_RepayInMax m))" by (simp only: ri'(3) ci(1))
  qed (simp_all only: rt flows bn'(3), simp_all add: ad' ci)
qed

end

text \<open>
  C14: repaying a loan.  With the interest \<open>i\<close> accrued since the last settlement, what is taken from the
  sender is the debt, interest included, or the offered maximum if that is less, and the account's debt
  falls by exactly that.  Interest is paid first: of the amount the part \<open>p\<close> that the account owes as
  interest, and not more, goes to the oracle's account and is taken off the account's interest, and the
  rest leaves the supply.
\<close>

theorem burn_by_collateral_flows:
  assumes "chain_laws S B" "maker_reach S B (BlockHeight ctx, w)" "BurnByCollateral S B ctx m w = Ok (w', r)"
    and "AccAddressFromBech32 S (bbc_Sender m) = Some a"
    and "a \<noteq> GetModuleAddress B ''maker''" "a \<noteq> GetModuleAddress B ''oracle''"
  shows "\<exists>c q apr i c' p. GetAccountCollateral (mk w) a (bbc_CollateralDenom m) = Some c \<and>
    GetCollateralRiskParams (mk w) (bbc_CollateralDenom m) = Some q \<and> crp_InterestFee q = Some apr \<and>
    accrued S ctx c apr = Ok i \<and>
    Amount r = min (Amount (ac_GridDebt c) + i) (Amount (bbc_RepayInMax m)) \<and>
    p = min (Amount (ac_LastInterest c) + i) (Amount r) \<and>
    GetAccountCollateral (mk w') a (bbc_CollateralDenom m) = Some c' \<and>
    Amount (ac_GridDebt c') = Amount (ac_GridDebt c) + i - Amount r \<and>
    Amount (ac_LastInterest c') = Amount (ac_LastInterest c) + i - p \<and>
    ac_LastSettlementBlock c' = BlockHeight ctx \<and>
    supply_of B (bnk w') MicroUSMDenom = supply_of B (bnk w) MicroUSMDenom - (Amount r - p) \<and>
    bal B (bnk w') a MicroUSMDenom = bal B (bnk w) a MicroUSMDenom - Amount r \<and>
    bal B (bnk w') (GetModuleAddress B ''oracle'') MicroUSMDenom
       = bal B (bnk w) (GetModuleAddress B ''oracle'') MicroUSMDenom + p"
  by (rule chain_laws.BurnByCollateral_flows [OF assms(1,3) reach_invD(2,3) [OF assms(1,2)] assms(4-6)]) blast

definition demo_repay :: MsgBurnByCollateral where
  "demo_repay = \<lparr>bbc_Sender = ''alice'', bbc_CollateralDenom = ''ueth'', bbc_RepayInMax = usm 100\<rparr>"

definition demo_repaid :: "ledger_state maker_world" where
  "demo_repaid = demo_world (demo_bpool 0 0) 0 (demo_cpool 1000 302 100) 302 100
     [((''alice'', ''ueth''), demo_position 302)]
     \<lparr>balances = [((''alice'', ''airon''), 4900), ((''alice'', ''ueth''), 4000),
         ((''alice'', ''uusm''), 300), ((''bob'', ''ueth''), 9000),
         ((''module/maker'', ''airon''), 100), ((''module/maker'', ''ueth''), 1000),
         ((''module/maker'', ''uusm''), 0), ((''module/oracle'', ''uusm''), 2)],
       supplies = [(''airon'', 5000), (''ueth'', 14000), (''uusm'', 302)]\<rparr>"

lemma demo_repay_run:
  "BurnByCollateral cosmos_sdk ledger demo_ctx demo_repay demo_loan = Ok (demo_repaid, usm 100)"
  by (simp add: run_eval demo_repay_def demo_repaid_def BurnByCollateral_def cong: eval_cong)

theorem burn_by_collateral_flows_witness:
  "supply_of ledger (bnk demo_repaid) MicroUSMDenom = supply_of ledger (bnk demo_loan) MicroUSMDenom - 100"
proof -
  have "maker_reach cosmos_sdk ledger (BlockHeight demo_ctx, demo_loan)"
    using demo_loan_reach by (simp add: demo_ctx_def)
  note flows = burn_by_collateral_flows [OF plain_chain.chain_laws_axioms this demo_repay_run, of "''alice''"]
  have "GetAccountCollateral (mk demo_loan) ''alice'' ''ueth'' = Some (demo_position 402)"
    by (simp add: demo_loan_def demo_world_def GetAccountCollateral_def)
  moreover have "accrued cosmos_sdk demo_ctx (demo_position 402) apr = Ok 0" for apr
    by (simp add: accrued_def demo_position_def demo_ctx_def)
  moreover have "Amount (ac_LastInterest (demo_position 402)) = 0" "Amount (ac_GridDebt (demo_position 402)) = 402"
    by (simp_all add: demo_position_def)
  moreover have "bbc_CollateralDenom demo_repay = ''ueth''" "bbc_RepayInMax demo_repay = usm 100"
      "AccAddressFromBech32 cosmos_sdk (bbc_Sender demo_repay) = Some ''alice''"
      "''alice'' \<noteq> GetModuleAddress ledger ''maker''" "''alice'' \<noteq> GetModuleAddress ledger ''oracle''"
    by (simp_all add: demo_repay_def sdk_eval ledger_def ledger_mod_def)
  ultimately show ?thesis using flows by auto
qed

section \<open>Inputs that panic\<close>

lemma registered_cap:
  assumes "HandleRegisterCollateralProposal S B p w = Ok w1"
  obtains q where "kv_get (collateral_params (mk w1)) (crp_CollateralDenom p) = Some q"
    "crp_MaxCollateral q = crp_MaxCollateral p"
  using assms that unfolding HandleRegisterCollateralProposal_def
  by (cases "collateral_total (mk w)"; force simp: res_simps Let_def maker_accessors)

text \<open>
  C15: a cap of a collateral that was registered without it can never be set: the proposal that sets
  it assigns through the absent value and panics, whatever else it changes.
\<close>

theorem unset_cap_panics:
  assumes "HandleRegisterCollateralProposal S B p w = Ok w1"
    and "crp_CollateralDenom patch = crp_CollateralDenom p"
    and "crp_MaxCollateral p = None" "crp_MaxCollateral patch = Some v"
  shows "HandleBatchSetCollateralRiskParamsProposal (patch # ps) w1 = Panic"
  using assms(1) by (rule registered_cap)
    (use assms(2-4) in \<open>simp add: setCollateralRiskParamsProposal_def updateInt_def maker_accessors\<close>)

theorem unset_cap_panics_witness:
  "HandleBatchSetCollateralRiskParamsProposal [demo_crp\<lparr>crp_MaxCollateral := Some 5000\<rparr>] demo_coll = Panic"
  by (rule unset_cap_panics [OF demo_coll_run]) (simp_all add: demo_crp_def)

text \<open>
  A catalytic ratio of zero passes the validation of the proposals and is handled by the mint, but the
  limit that a redemption checks divides by it.
\<close>

lemma zero_catalytic_ratio_panics:
  assumes "chain_laws S B" "GetExchangeRate (orc w) (Denom (ac_Collateral acc)) = Ok price"
    and "GetExchangeRate (orc w) AttoIronDenom = Ok ironPrice"
    and "0 < Dec_Mul S (ToDec (Amount (ac_Collateral acc))) price"
    and "crp_CatalyticIronRatio params = Some 0" "crp_LoanToValue params = Some l" "crp_BasicLoanToValue params = Some b"
  shows "maxLoanToValueForAccount S w acc params = Panic"
proof -
  have S: "sdk_laws S" by (rule chain_laws.axioms(1) [OF assms(1)])
  from sdk_laws.Quo_near [OF S, of "Dec_Mul S (ToDec (Amount (ac_Collateral acc))) price"] assms(4)
  obtain q where "Dec_Quo S (Dec_Mul S (ToDec (Amount (ac_IronCollateralized acc))) ironPrice)
      (Dec_Mul S (ToDec (Amount (ac_Collateral acc))) price) = Ok q"
    by (metis less_irrefl)
  with assms show ?thesis
    by (simp add: maxLoanToValueForAccount_def deref_def sdk_laws.Quo_zero [OF S])
qed

text \<open>
  The bound on burning is computed from the bias for minting; the bias for burning has no effect.
\<close>

lemma burn_price_bias_unused:
  "checkBurnPriceUpperBound S (w\<lparr>mk := (mk w)\<lparr>maker_params := (maker_params (mk w))\<lparr>mp_BurnPriceBias := b\<rparr>\<rparr>\<rparr>)
   = checkBurnPriceUpperBound S w"
  by (simp add: checkBurnPriceUpperBound_def BurnPriceBias_def)

text \<open>
  An exported genesis, imported again, has the parameters and the backing ratio of the state it was
  exported from, but none of its pools, risk parameters and positions.
\<close>

lemma export_import_keeps:
  "maker_GetParams (maker_InitGenesis (maker_ExportGenesis s) s0) = maker_GetParams s \<and>
   GetBackingRatio (maker_InitGenesis (maker_ExportGenesis s) s0) = GetBackingRatio s"
  by (simp add: maker_InitGenesis_def maker_ExportGenesis_def maker_GetParams_def maker_SetParams_def GetBackingRatio_def
      SetBackingRatio_def)

lemma export_import_loses:
  "maker_InitGenesis (maker_ExportGenesis (s\<lparr>collateral_account := acs, collateral_pool := cp, backing_pool := bp\<rparr>)) s0
   = maker_InitGenesis (maker_ExportGenesis s) s0"
  by (simp add: maker_InitGenesis_def maker_ExportGenesis_def maker_GetParams_def GetBackingRatio_def)

end
