(* ===== verification/AppEnd.thy ===== *)
theory AppEnd
  imports OracleProps MakerSwapProps MakerLoanProps
begin

text \<open>
  The end of a block of the application: the end blockers of the oracle and of the maker in the order in
  which the module manager runs them, and which rates can be left after a vote period.
\<close>

section \<open>The end of a block of the two modules (app.go)\<close>

text \<open>
  The end blockers run in the order of \<open>SetOrderEndBlockers\<close>: the oracle sets its rates and then the
  maker reads them.  The state is the maker's world with the keepers the oracle also uses.
\<close>

definition EndBlockers ::
  "sdk \<Rightarrow> 'b bank \<Rightarrow> 'k staking \<Rightarrow> 'd distribution \<Rightarrow> (dec \<Rightarrow> dec option) \<Rightarrow> orders \<Rightarrow> ctx \<Rightarrow>
   'b maker_world \<times> 'k \<times> 'd \<Rightarrow> ('b maker_world \<times> 'k \<times> 'd) res" where
  "EndBlockers S B K D fsqrt ords ctx st =
     (case st of (w, k, d) \<Rightarrow>
      rbind (oracle_EndBlocker S B K D fsqrt ords ctx \<lparr>ost = orc w, stk = k, dst = d, obk = bnk w\<rparr>) (\<lambda>ow.
      rbind (maker_EndBlocker S ctx (w\<lparr>orc := ost ow, bnk := obk ow\<rparr>)) (\<lambda>w'.
      Ok (w', stk ow, dst ow))))"

lemmas kv_dom_set = kv_keys_set [simplified]

definition voted :: "denom \<Rightarrow> oracle_store \<Rightarrow> bool" where
  "voted d os \<longleftrightarrow> (\<exists>e \<in> set (votes os). \<exists>t \<in> set (av_ExchangeRateTuples (snd e)). ert_Denom t = d)"

lemma addVotes_dom: "d \<in> fst ` set (fold (addVote a p) ts vs) \<Longrightarrow> d \<in> ert_Denom ` set ts \<or> d \<in> fst ` set vs"
proof (induction ts arbitrary: vs)
  case (Cons t ts)
  from Cons.IH [of "addVote a p t vs"] Cons.prems show ?case by (auto simp: addVote_def Let_def kv_dom_set)
qed simp

lemma ballots_dom: "d \<in> fst ` set (OrganizeBallotByDenom m os) \<Longrightarrow> voted d os"
proof -
  have "\<exists>e \<in> set es. \<exists>t \<in> set (av_ExchangeRateTuples (snd e)). ert_Denom t = d"
    if "d \<in> fst ` set (fold (aggregateHandler m) es vs)" "d \<notin> fst ` set vs" for es vs
    using that
  proof (induction es arbitrary: vs)
    case (Cons e es)
    show ?case
    proof (cases "d \<in> fst ` set (aggregateHandler m e vs)")
      case True
      with Cons.prems(2) show ?thesis
        by (auto simp: aggregateHandler_def split: option.splits dest!: addVotes_dom)
    next
      case False
      with Cons.IH [OF _ False] Cons.prems show ?thesis by auto
    qed
  qed simp
  from this [of "votes os" "[]"] show "d \<in> fst ` set (OrganizeBallotByDenom m os) \<Longrightarrow> voted d os"
    by (force simp: OrganizeBallotByDenom_def voted_def)
qed

lemma pick_dom:
  "pickLoop th ds ts vm l r = (ts', vm', r') \<Longrightarrow> fst ` set vm' \<subseteq> fst ` set vm"
proof (induction ds arbitrary: ts vm l r)
  case (Cons d ds)
  have del: "fst ` set (kv_delete d vm) \<subseteq> fst ` set vm" by (auto simp: kv_delete_def)
  from Cons.prems show ?case
    by (simp split: option.splits prod.splits if_splits)
      (use Cons.IH del in \<open>blast intro: order_trans\<close>)+
qed simp

lemma rateLoop_dom:
  "rateLoop S fsqrt band ref rm vmr vm ds (m, os) = Ok (m', os') \<Longrightarrow>
   fst ` set (exchange_rates os') \<subseteq> fst ` set (exchange_rates os) \<union> fst ` set vm"
proof (induction ds arbitrary: m os)
  case (Cons d ds)
  from Cons.prems obtain m1 os1 where 1: "rateStep S fsqrt band ref rm vmr vm d (m, os) = Ok (m1, os1)"
    and 2: "rateLoop S fsqrt band ref rm vmr vm ds (m1, os1) = Ok (m', os')"
    by (auto simp: res_inv)
  from 1 have "os1 = os \<or> (\<exists>r. os1 = SetExchangeRate d r os) \<and> kv_get vm d \<noteq> None"
    by (auto simp: rateStep_def res_inv split: option.splits if_splits)
  then have "fst ` set (exchange_rates os1) \<subseteq> fst ` set (exchange_rates os) \<union> fst ` set vm"
  proof
    assume "(\<exists>r. os1 = SetExchangeRate d r os) \<and> kv_get vm d \<noteq> None"
    moreover from this kv_get_notin [of d vm] have "d \<in> fst ` set vm" by force
    ultimately show ?thesis unfolding SetExchangeRate_def by (elim conjE exE) (simp add: kv_dom_set)
  qed simp
  with Cons.IH [OF 2] show ?case by blast
qed simp


lemma setRates_dom:
  assumes "setRates S fsqrt ords band ref vm (m, os) = Ok (m', os')"
  shows "fst ` set (exchange_rates os') \<subseteq> fst ` set (exchange_rates os) \<union> fst ` set vm"
  using assms by (auto simp: setRates_def Let_def res_inv dest!: rateLoop_dom split: if_splits)

lemma fold_inv: "(\<And>x s. P s \<Longrightarrow> P (f x s)) \<Longrightarrow> P s \<Longrightarrow> P (fold f xs s)"
  by (induction xs arbitrary: s) auto

lemma miss_keeps_rates: "exchange_rates (fold (missStep m n) ks os) = exchange_rates os"
  by (rule fold_inv [where P = "\<lambda>s. exchange_rates s = exchange_rates os"])
    (auto simp: missStep_def SetMissCounter_def Let_def)

lemma reward_keeps_store: "RewardBallotWinners S B K D ords a b ts m w = Ok w' \<Longrightarrow> ost w' = ost w"
  by (auto simp: RewardBallotWinners_def Let_def res_inv case_Ok_or_Panic split: if_splits)

lemma clear_keeps_rates: "exchange_rates (ClearBallots ctx n os) = exchange_rates os"
  unfolding ClearBallots_def Let_def
  by (intro fold_inv [where P = "\<lambda>s. exchange_rates s = exchange_rates os"])
    (auto simp: clearPrevote_def DeleteAggregateExchangeRatePrevote_def DeleteAggregateExchangeRateVote_def)

lemma slashLoop_rates: "slashLoop S K p h n es (k, os) = Ok (k', os') \<Longrightarrow> exchange_rates os' = exchange_rates os"
proof (induction es arbitrary: k os)
  case (Cons e es)
  from Cons.prems obtain k1 os1 where 1: "slashStep S K p h n e (k, os) = Ok (k1, os1)"
    and 2: "slashLoop S K p h n es (k1, os1) = Ok (k', os')"
    by (auto simp: res_inv)
  have "exchange_rates os1 = exchange_rates os"
    using 1 by (auto simp: slashStep_def res_inv DeleteMissCounter_def)
  with Cons.IH [OF 2] show ?case by simp
qed simp

lemma slash_keeps_rates: "SlashAndResetMissCounters S K ctx w = Ok w' \<Longrightarrow> exchange_rates (ost w') = exchange_rates (ost w)"
  by (auto simp: SlashAndResetMissCounters_def Let_def res_inv dest!: slashLoop_rates)

text \<open>After a vote period only the denominations that somebody voted for can have a rate.\<close>

lemma endVotePeriod_rates:
  assumes "endVotePeriod S B K D fsqrt ords ctx w = Ok w'" "d \<in> fst ` set (exchange_rates (ost w'))"
  shows "voted d (ost w)"
proof -
  from assms(1) obtain th c0 ts vm ref c1 os2 w4 where
      pick: "pickLoop th (ord_pick ords (map fst (OrganizeBallotByDenom c0 (clearRates (ost w)))))
        (GetVoteTargets (ost w)) (OrganizeBallotByDenom c0 (clearRates (ost w))) 0 [] = (ts, vm, ref)"
    and rates: "setRates S fsqrt ords (op_RewardBand (oracle_params (ost w))) ref vm (c0, clearRates (ost w)) = Ok (c1, os2)"
    and rew: "RewardBallotWinners S B K D ords (i64_of_u64 (op_VotePeriod (oracle_params (ost w))))
        (i64_of_u64 (op_RewardDistributionWindow (oracle_params (ost w)))) ts c1
        (w\<lparr>ost := fold (missStep c1 (length ts)) (ord_miss ords (map fst c1)) os2\<rparr>) = Ok w4"
    and w': "w' = w4\<lparr>ost := ClearBallots ctx (op_VotePeriod (oracle_params (ost w))) (ost w4)\<rparr>"
    unfolding endVotePeriod_def PickReferenceGridb_def Let_def res_inv by auto
  have "exchange_rates (ost w') = exchange_rates os2"
    by (simp add: w' clear_keeps_rates reward_keeps_store [OF rew] miss_keeps_rates)
  with assms(2) setRates_dom [OF rates] pick_dom [OF pick]
  have "d \<in> fst ` set (OrganizeBallotByDenom c0 (clearRates (ost w)))" by auto
  then show ?thesis by (auto dest!: ballots_dom simp: voted_def)
qed


text \<open>A price that no vote of the closing period gives is gone when the maker runs.\<close>

lemma oracle_EndBlocker_rates:
  assumes "oracle_EndBlocker S B K D fsqrt ords ctx w = Ok w'"
    and "IsPeriodLastBlock ctx (op_VotePeriod (oracle_params (ost w))) = Ok True" "\<not> voted d (ost w)"
  shows "GetExchangeRate (ost w') d = Err (OracleErr ErrUnknownDenom)"
proof -
  from assms(1,2) obtain w1 where w1: "endVotePeriod S B K D fsqrt ords ctx w = Ok w1"
    and "exchange_rates (ost w') = exchange_rates (ost w1)"
    by (auto simp: oracle_EndBlocker_def Let_def res_inv slash_keeps_rates split: if_splits)
  moreover from endVotePeriod_rates [OF w1, of d] assms(3) have "d \<notin> set (map fst (exchange_rates (ost w1)))" by auto
  ultimately show ?thesis by (simp add: GetExchangeRate_def kv_get_notin)
qed

end
