(* ===== verification/Nft.thy ===== *)
theory Nft
  imports Sdk
begin

text \<open>
  The NFT keeper of the SDK, as the ve module uses it (\<open>x/ve/types/expected_keepers.go\<close>): a parameter,
  with its documented behaviour in the locale \<open>nft_laws\<close>.  A token is named by its class and its
  identifier; the owner of a token that does not exist is the empty address.
\<close>

record 'n nft =
  nft_SaveClass :: "'n \<Rightarrow> string \<Rightarrow> 'n res"
  nft_HasClass :: "'n \<Rightarrow> string \<Rightarrow> bool"
  nft_Mint :: "'n \<Rightarrow> string \<Rightarrow> string \<Rightarrow> addr \<Rightarrow> 'n res"
  nft_Burn :: "'n \<Rightarrow> string \<Rightarrow> string \<Rightarrow> 'n res"
  nft_HasNFT :: "'n \<Rightarrow> string \<Rightarrow> string \<Rightarrow> bool"
  nft_GetOwner :: "'n \<Rightarrow> string \<Rightarrow> string \<Rightarrow> addr"
  nft_Send :: "'n \<Rightarrow> string \<Rightarrow> string \<Rightarrow> addr \<Rightarrow> addr \<Rightarrow> 'n res"

locale nft_laws =
  fixes N :: "'n nft"
  assumes SaveClass_ok: "nft_SaveClass N n c = Ok n' \<Longrightarrow>
      nft_HasClass N n' x = (x = c \<or> nft_HasClass N n x) \<and> nft_HasNFT N n' x i = nft_HasNFT N n x i \<and>
      nft_GetOwner N n' x i = nft_GetOwner N n x i"
    and Mint_ok: "nft_Mint N n c i a = Ok n' \<Longrightarrow> nft_HasClass N n c \<and> \<not> nft_HasNFT N n c i \<and>
      nft_HasClass N n' x = nft_HasClass N n x \<and>
      nft_HasNFT N n' x j = ((x = c \<and> j = i) \<or> nft_HasNFT N n x j) \<and>
      nft_GetOwner N n' x j = (if x = c \<and> j = i then a else nft_GetOwner N n x j)"
    and Burn_ok: "nft_Burn N n c i = Ok n' \<Longrightarrow> nft_HasNFT N n c i \<and>
      nft_HasClass N n' x = nft_HasClass N n x \<and>
      nft_HasNFT N n' x j = (\<not> (x = c \<and> j = i) \<and> nft_HasNFT N n x j) \<and>
      nft_GetOwner N n' x j = (if x = c \<and> j = i then [] else nft_GetOwner N n x j)"
    and Burn_total: "nft_HasClass N n c \<Longrightarrow> nft_HasNFT N n c i \<Longrightarrow> \<exists>n'. nft_Burn N n c i = Ok n'"
    and Send_ok: "nft_Send N n c i a b = Ok n' \<Longrightarrow> nft_GetOwner N n c i = a \<and>
      nft_HasClass N n' x = nft_HasClass N n x \<and> nft_HasNFT N n' x j = nft_HasNFT N n x j \<and>
      nft_GetOwner N n' x j = (if x = c \<and> j = i then b else nft_GetOwner N n x j)"
    and Owner_none: "\<not> nft_HasNFT N n c i \<Longrightarrow> nft_GetOwner N n c i = []"

section \<open>An executable keeper\<close>

text \<open>The classes and the owners of the tokens, in association lists.\<close>

type_synonym nft_state = "string list \<times> ((string \<times> string) \<times> addr) list"

definition demo_nft :: "nft_state nft" where
  "demo_nft =
   \<lparr>nft_SaveClass = (\<lambda>(cs, ts) c. if c \<in> set cs then Err (SdkErr (ErrOther ''nft class already exists'')) else Ok (c # cs, ts)),
    nft_HasClass = (\<lambda>(cs, ts) c. c \<in> set cs),
    nft_Mint = (\<lambda>(cs, ts) c i a. if c \<in> set cs \<and> map_of ts (c, i) = None then Ok (cs, ((c, i), a) # ts)
       else Err (SdkErr (ErrOther ''nft already exists''))),
    nft_Burn = (\<lambda>(cs, ts) c i. if c \<in> set cs \<and> map_of ts (c, i) \<noteq> None then Ok (cs, filter (\<lambda>t. fst t \<noteq> (c, i)) ts)
       else Err (SdkErr (ErrOther ''nft does not exist''))),
    nft_HasNFT = (\<lambda>(cs, ts) c i. map_of ts (c, i) \<noteq> None),
    nft_GetOwner = (\<lambda>(cs, ts) c i. case map_of ts (c, i) of None \<Rightarrow> [] | Some a \<Rightarrow> a),
    nft_Send = (\<lambda>(cs, ts) c i a b. if map_of ts (c, i) = Some a then Ok (cs, ((c, i), b) # ts)
       else Err (SdkErr ErrUnauthorized))\<rparr>"

lemma map_of_filter_neq: "map_of (filter (\<lambda>t. fst t \<noteq> k) ts) j = (if j = k then None else map_of ts j)"
  by (induction ts) auto

interpretation demo_nft: nft_laws demo_nft
  by unfold_locales (auto simp: demo_nft_def map_of_filter_neq split: if_splits option.splits prod.splits)

end
