(* ===== verification/VeTypes.thy ===== *)
theory VeTypes
  imports Chain Nft
begin

text \<open>
  The store of the ve module and its types: the constants (\<open>types/constants.go\<close>), the regulated times
  (\<open>types/duration.go\<close>), the identifiers of the tokens (\<open>types/nft.go\<close>), the parameters
  (\<open>types/params.go\<close>) and the getters and setters of \<open>keeper/locked.go\<close>, \<open>keeper/nft.go\<close>,
  \<open>keeper/checkpoint.go\<close>, \<open>keeper/emission.go\<close> and \<open>keeper/distribution.go\<close>.

  A timestamp, an epoch and an identifier are \<open>uint64\<close>, hence natural numbers.  The time of a block has
  whole seconds.
\<close>

section \<open>Constants (constants.go)\<close>

definition EmptyVeID :: nat where
  "EmptyVeID = 0"

definition FirstVeID :: nat where
  "FirstVeID = 1"

definition MaxVeID :: nat where
  "MaxVeID = 2 ^ 64 - 2"

definition MaxLockTimeWeeks :: nat where
  "MaxLockTimeWeeks = DaysPer4Years div 7 + 1"

definition MaxLockTime :: nat where
  "MaxLockTime = MaxLockTimeWeeks * SecondsPerWeek"

definition MaxUnixTime :: nat where
  "MaxUnixTime = 2 ^ 63 - 1"

definition RegulatedPeriod :: nat where
  "RegulatedPeriod = SecondsPerWeek"

definition EmptyEpoch :: nat where
  "EmptyEpoch = 0"

definition EmissionRatio :: dec where
  "EmissionRatio = 996688999803577700"

definition MinEmissionCirculating :: dec where
  "MinEmissionCirculating = 10 ^ 8"

definition EmissionPoolName :: string where
  "EmissionPoolName = ''ve_emission_pool''"

definition DistributionPoolName :: string where
  "DistributionPoolName = ''ve_distribution_pool''"

lemma MaxLockTime_eq: "MaxLockTime = 126403200"
  by (simp add: MaxLockTime_def MaxLockTimeWeeks_def times_defs)

lemma RegulatedPeriod_eq: "RegulatedPeriod = 604800"
  by (simp add: RegulatedPeriod_def times_defs)

section \<open>Regulated times (duration.go)\<close>

definition RegulatedUnixTime :: "nat \<Rightarrow> nat" where
  "RegulatedUnixTime timestamp = timestamp div RegulatedPeriod * RegulatedPeriod"

definition now_of :: "ctx \<Rightarrow> nat" where
  "now_of ctx = u64_of_int (BlockTime ctx)"

text \<open>
  \<open>time.Duration(seconds) * time.Second\<close> is a signed 64-bit number of nanoseconds, which wraps.
\<close>

definition durationSeconds :: "nat \<Rightarrow> int" where
  "durationSeconds seconds = i64_of_u64 (u64_of_int (i64_of_u64 seconds * 10 ^ 9)) div 10 ^ 9"

definition RegulatedUnixTimeFromNow :: "ctx \<Rightarrow> nat \<Rightarrow> nat" where
  "RegulatedUnixTimeFromNow ctx seconds =
     RegulatedUnixTime (u64_of_int (BlockTime ctx + durationSeconds seconds))"

definition CheckRegulatedUnixTime :: "nat \<Rightarrow> unit res" where
  "CheckRegulatedUnixTime timestamp = (if RegulatedUnixTime timestamp \<noteq> timestamp then Panic else Ok ())"

definition NextRegulatedUnixTime :: "nat \<Rightarrow> nat res" where
  "NextRegulatedUnixTime timestamp =
     rbind (CheckRegulatedUnixTime timestamp) (\<lambda>_.
     if timestamp > MaxUnixTime - RegulatedPeriod then Panic else Ok (timestamp + RegulatedPeriod))"

definition PreviousRegulatedUnixTime :: "nat \<Rightarrow> nat res" where
  "PreviousRegulatedUnixTime timestamp =
     rbind (CheckRegulatedUnixTime timestamp) (\<lambda>_.
     if timestamp < RegulatedPeriod then Panic else Ok (timestamp - RegulatedPeriod))"

section \<open>Identifiers (nft.go)\<close>

definition VeNftClass :: string where
  "VeNftClass = ''veNFT''"

fun show_nat :: "nat \<Rightarrow> string" where
  "show_nat n = (if n < 10 then [char_of (48 + n)] else show_nat (n div 10) @ [char_of (48 + n mod 10)])"

declare show_nat.simps [simp del]

fun digits_nat :: "nat \<Rightarrow> string \<Rightarrow> nat option" where
  "digits_nat acc [] = Some acc"
| "digits_nat acc (c # cs) =
     (let d = of_char c :: nat in if 48 \<le> d \<and> d \<le> 57 then digits_nat (10 * acc + (d - 48)) cs else None)"

text \<open>\<open>strconv.ParseUint\<close> in base 10 with 64 bits.\<close>

definition ParseUint :: "string \<Rightarrow> nat option" where
  "ParseUint s = (if s = [] then None else
     case digits_nat 0 s of None \<Rightarrow> None | Some n \<Rightarrow> if n < u64_mod then Some n else None)"

definition VeIDFromUint64 :: "nat \<Rightarrow> string" where
  "VeIDFromUint64 idNumber = ''ve-'' @ show_nat idNumber"

definition Uint64FromVeID :: "string \<Rightarrow> nat" where
  "Uint64FromVeID veID =
     (case Split veID CHR ''-'' of
        [s0, s1] \<Rightarrow>
          if s0 \<noteq> ''ve'' then EmptyVeID
          else (case ParseUint s1 of None \<Rightarrow> EmptyVeID | Some n \<Rightarrow> n)
      | _ \<Rightarrow> EmptyVeID)"

section \<open>Data (ve.pb.go)\<close>

record LockedBalance =
  lb_Amount :: int
  lb_End :: nat

record Checkpoint =
  cp_Bias :: int
  cp_Slope :: int
  cp_Timestamp :: nat
  cp_Block :: int

definition NewLockedBalance :: LockedBalance where
  "NewLockedBalance = \<lparr>lb_Amount = 0, lb_End = 0\<rparr>"

text \<open>The checkpoint a missing store entry is read as.\<close>

definition ZeroCheckpoint :: Checkpoint where
  "ZeroCheckpoint = \<lparr>cp_Bias = 0, cp_Slope = 0, cp_Timestamp = 0, cp_Block = 0\<rparr>"

text \<open>The sections of the store, one per key prefix of \<open>types/keys.go\<close>, and the module's parameter.\<close>

record ve_store =
  ve_total_locked :: "int option"
  ve_locked :: "(nat, LockedBalance) kv"
  ve_next_id :: "nat option"
  ve_epoch :: "nat option"
  ve_points :: "(nat, Checkpoint) kv"
  ve_user_epochs :: "(nat, nat) kv"
  ve_user_points :: "(nat \<times> nat, Checkpoint) kv"
  ve_slope_changes :: "(nat, int) kv"
  ve_attached :: "(nat, nat) kv"
  ve_voted :: "(nat, bool) kv"
  ve_total_emission :: "int option"
  ve_emission_last :: "int option"
  ve_emission_time :: "nat option"
  ve_distr_time :: "nat option"
  ve_distr_total :: "int option"
  ve_distr_period :: "(nat, int) kv"
  ve_distr_claim :: "(nat, nat) kv"
  ve_lock_denom :: denom

definition or_zero :: "'a::zero option \<Rightarrow> 'a" where
  "or_zero x = (case x of None \<Rightarrow> 0 | Some y \<Rightarrow> y)"

lemma or_zero_simps [simp]: "or_zero None = 0" "or_zero (Some x) = x"
  by (simp_all add: or_zero_def)

section \<open>Locked amounts (locked.go)\<close>

definition SetTotalLockedAmount :: "int \<Rightarrow> ve_store \<Rightarrow> ve_store" where
  "SetTotalLockedAmount amount s = s\<lparr>ve_total_locked := Some amount\<rparr>"

definition GetTotalLockedAmount :: "ve_store \<Rightarrow> int" where
  "GetTotalLockedAmount s = or_zero (ve_total_locked s)"

definition SetLockedAmountByUser :: "nat \<Rightarrow> LockedBalance \<Rightarrow> ve_store \<Rightarrow> ve_store" where
  "SetLockedAmountByUser veID amount s = s\<lparr>ve_locked := kv_set veID amount (ve_locked s)\<rparr>"

definition GetLockedAmountByUser :: "ve_store \<Rightarrow> nat \<Rightarrow> LockedBalance" where
  "GetLockedAmountByUser s veID = (case kv_get (ve_locked s) veID of None \<Rightarrow> NewLockedBalance | Some l \<Rightarrow> l)"

definition DeleteLockedAmountByUser :: "nat \<Rightarrow> ve_store \<Rightarrow> ve_store" where
  "DeleteLockedAmountByUser veID s = s\<lparr>ve_locked := kv_delete veID (ve_locked s)\<rparr>"

section \<open>Checkpoints (checkpoint.go)\<close>

definition SetEpoch :: "nat \<Rightarrow> ve_store \<Rightarrow> ve_store" where
  "SetEpoch epoch s = s\<lparr>ve_epoch := Some epoch\<rparr>"

definition GetEpoch :: "ve_store \<Rightarrow> nat" where
  "GetEpoch s = or_zero (ve_epoch s)"

definition SetCheckpoint :: "nat \<Rightarrow> Checkpoint \<Rightarrow> ve_store \<Rightarrow> ve_store" where
  "SetCheckpoint epoch point s = s\<lparr>ve_points := kv_set epoch point (ve_points s)\<rparr>"

definition GetCheckpoint :: "ve_store \<Rightarrow> nat \<Rightarrow> Checkpoint" where
  "GetCheckpoint s epoch = (case kv_get (ve_points s) epoch of None \<Rightarrow> ZeroCheckpoint | Some p \<Rightarrow> p)"

definition SetUserEpoch :: "nat \<Rightarrow> nat \<Rightarrow> ve_store \<Rightarrow> ve_store" where
  "SetUserEpoch veID epoch s = s\<lparr>ve_user_epochs := kv_set veID epoch (ve_user_epochs s)\<rparr>"

definition GetUserEpoch :: "ve_store \<Rightarrow> nat \<Rightarrow> nat" where
  "GetUserEpoch s veID = or_zero (kv_get (ve_user_epochs s) veID)"

definition SetUserCheckpoint :: "nat \<Rightarrow> nat \<Rightarrow> Checkpoint \<Rightarrow> ve_store \<Rightarrow> ve_store" where
  "SetUserCheckpoint veID epoch point s = s\<lparr>ve_user_points := kv_set (veID, epoch) point (ve_user_points s)\<rparr>"

definition GetUserCheckpoint :: "ve_store \<Rightarrow> nat \<Rightarrow> nat \<Rightarrow> Checkpoint" where
  "GetUserCheckpoint s veID epoch =
     (case kv_get (ve_user_points s) (veID, epoch) of None \<Rightarrow> ZeroCheckpoint | Some p \<Rightarrow> p)"

definition SetSlopeChange :: "nat \<Rightarrow> int \<Rightarrow> ve_store \<Rightarrow> ve_store" where
  "SetSlopeChange timestamp slopeChange s = s\<lparr>ve_slope_changes := kv_set timestamp slopeChange (ve_slope_changes s)\<rparr>"

definition GetSlopeChange :: "ve_store \<Rightarrow> nat \<Rightarrow> int" where
  "GetSlopeChange s timestamp = or_zero (kv_get (ve_slope_changes s) timestamp)"

section \<open>Tokens, attachment and votes (keeper/nft.go)\<close>

definition SetNextVeID :: "nat \<Rightarrow> ve_store \<Rightarrow> ve_store" where
  "SetNextVeID nextVeID s = s\<lparr>ve_next_id := Some nextVeID\<rparr>"

definition GetNextVeID :: "ve_store \<Rightarrow> nat" where
  "GetNextVeID s = or_zero (ve_next_id s)"

definition SetVeAttached :: "nat \<Rightarrow> nat \<Rightarrow> ve_store \<Rightarrow> ve_store" where
  "SetVeAttached veID n s = s\<lparr>ve_attached := kv_set veID n (ve_attached s)\<rparr>"

definition GetVeAttached :: "ve_store \<Rightarrow> nat \<Rightarrow> nat" where
  "GetVeAttached s veID = or_zero (kv_get (ve_attached s) veID)"

definition IncVeAttached :: "nat \<Rightarrow> ve_store \<Rightarrow> ve_store" where
  "IncVeAttached veID s = SetVeAttached veID (u64_add (GetVeAttached s veID) 1) s"

definition DecVeAttached :: "nat \<Rightarrow> ve_store \<Rightarrow> ve_store res" where
  "DecVeAttached veID s =
     (if GetVeAttached s veID = 0 then Panic else Ok (SetVeAttached veID (GetVeAttached s veID - 1) s))"

definition SetVeVoted :: "nat \<Rightarrow> bool \<Rightarrow> ve_store \<Rightarrow> ve_store" where
  "SetVeVoted veID b s = s\<lparr>ve_voted := kv_set veID b (ve_voted s)\<rparr>"

definition GetVeVoted :: "ve_store \<Rightarrow> nat \<Rightarrow> bool" where
  "GetVeVoted s veID = (kv_get (ve_voted s) veID = Some True)"

definition CheckVeAttached :: "ve_store \<Rightarrow> nat \<Rightarrow> unit res" where
  "CheckVeAttached s veID =
     ensure (\<not> (GetVeAttached s veID \<noteq> 0 \<or> GetVeVoted s veID)) (VeErr ErrVeAttached) (Ok ())"

section \<open>Emission and distribution (emission.go, distribution.go)\<close>

definition SetTotalEmission :: "int \<Rightarrow> ve_store \<Rightarrow> ve_store" where
  "SetTotalEmission x s = s\<lparr>ve_total_emission := Some x\<rparr>"

definition GetTotalEmission :: "ve_store \<Rightarrow> int" where
  "GetTotalEmission s = or_zero (ve_total_emission s)"

definition SetEmissionAtLastPeriod :: "int \<Rightarrow> ve_store \<Rightarrow> ve_store" where
  "SetEmissionAtLastPeriod x s = s\<lparr>ve_emission_last := Some x\<rparr>"

definition GetEmissionAtLastPeriod :: "ve_store \<Rightarrow> int" where
  "GetEmissionAtLastPeriod s = or_zero (ve_emission_last s)"

definition SetEmissionLastTimestamp :: "nat \<Rightarrow> ve_store \<Rightarrow> ve_store" where
  "SetEmissionLastTimestamp t s = s\<lparr>ve_emission_time := Some t\<rparr>"

definition GetEmissionLastTimestamp :: "ve_store \<Rightarrow> nat" where
  "GetEmissionLastTimestamp s = or_zero (ve_emission_time s)"

definition SetDistributionAccruedLastTimestamp :: "nat \<Rightarrow> ve_store \<Rightarrow> ve_store" where
  "SetDistributionAccruedLastTimestamp t s = s\<lparr>ve_distr_time := Some t\<rparr>"

definition GetDistributionAccruedLastTimestamp :: "ve_store \<Rightarrow> nat" where
  "GetDistributionAccruedLastTimestamp s = or_zero (ve_distr_time s)"

definition SetDistributionTotalAmount :: "int \<Rightarrow> ve_store \<Rightarrow> ve_store" where
  "SetDistributionTotalAmount x s = s\<lparr>ve_distr_total := Some x\<rparr>"

definition GetDistributionTotalAmount :: "ve_store \<Rightarrow> int" where
  "GetDistributionTotalAmount s = or_zero (ve_distr_total s)"

definition SetDistributionPerPeriod :: "nat \<Rightarrow> int \<Rightarrow> ve_store \<Rightarrow> ve_store" where
  "SetDistributionPerPeriod t x s = s\<lparr>ve_distr_period := kv_set t x (ve_distr_period s)\<rparr>"

definition GetDistributionPerPeriod :: "ve_store \<Rightarrow> nat \<Rightarrow> int" where
  "GetDistributionPerPeriod s t = or_zero (kv_get (ve_distr_period s) t)"

definition SetDistributionClaimLastTimestampByUser :: "nat \<Rightarrow> nat \<Rightarrow> ve_store \<Rightarrow> ve_store" where
  "SetDistributionClaimLastTimestampByUser veID t s = s\<lparr>ve_distr_claim := kv_set veID t (ve_distr_claim s)\<rparr>"

definition GetDistributionClaimLastTimestampByUser :: "ve_store \<Rightarrow> nat \<Rightarrow> nat" where
  "GetDistributionClaimLastTimestampByUser s veID = or_zero (kv_get (ve_distr_claim s) veID)"

section \<open>Lemmas\<close>

lemma RegulatedPeriod_pos [simp]: "0 < RegulatedPeriod" "RegulatedPeriod \<noteq> 0"
  by (simp_all add: RegulatedPeriod_eq)

lemma RegulatedUnixTime_le: "RegulatedUnixTime t \<le> t"
  by (simp add: RegulatedUnixTime_def)

lemma RegulatedUnixTime_next: "t < RegulatedUnixTime t + RegulatedPeriod"
  using mod_less_divisor [OF RegulatedPeriod_pos(1), of t] div_mult_mod_eq [of t RegulatedPeriod]
  unfolding RegulatedUnixTime_def by linarith

lemma RegulatedUnixTime_dvd [simp]: "RegulatedPeriod dvd RegulatedUnixTime t"
  by (simp add: RegulatedUnixTime_def)

lemma RegulatedUnixTime_id: "RegulatedUnixTime t = t \<longleftrightarrow> RegulatedPeriod dvd t"
  by (auto simp: RegulatedUnixTime_def) (metis dvd_triv_right)

lemma RegulatedUnixTime_idem [simp]: "RegulatedUnixTime (RegulatedUnixTime t) = RegulatedUnixTime t"
  by (simp add: RegulatedUnixTime_id)

text \<open>The next regulated time after a time is at most any later regulated time.\<close>

lemma RegulatedUnixTime_least:
  assumes "RegulatedPeriod dvd e" "t < e"
  shows "RegulatedUnixTime t + RegulatedPeriod \<le> e"
proof -
  from assms(1) obtain k where e: "e = RegulatedPeriod * k" by (elim dvdE)
  with assms(2) have "t div RegulatedPeriod < k"
    by (simp add: less_mult_imp_div_less mult.commute)
  then have "(t div RegulatedPeriod + 1) * RegulatedPeriod \<le> k * RegulatedPeriod" by (intro mult_le_mono1) simp
  then show ?thesis by (simp add: RegulatedUnixTime_def e algebra_simps)
qed

lemma CheckRegulated_Ok: "CheckRegulatedUnixTime t = Ok u \<longleftrightarrow> RegulatedPeriod dvd t"
  by (simp add: CheckRegulatedUnixTime_def RegulatedUnixTime_id)

lemma NextRegulated_Ok:
  "NextRegulatedUnixTime t = Ok n \<longleftrightarrow>
     RegulatedPeriod dvd t \<and> t \<le> MaxUnixTime - RegulatedPeriod \<and> n = t + RegulatedPeriod"
  by (auto simp: NextRegulatedUnixTime_def res_simps CheckRegulated_Ok split: if_splits)

lemma show_nat_digits: "digits_nat acc (show_nat n @ s) = digits_nat (acc * 10 ^ length (show_nat n) + n) s"
proof (induction n arbitrary: acc s rule: show_nat.induct)
  case (1 n)
  show ?case
  proof (cases "n < 10")
    case True
    then show ?thesis by (simp add: show_nat.simps of_char_of mult.commute)
  next
    case False
    let ?m = "acc * 10 ^ length (show_nat (n div 10)) + n div 10"
    have s: "show_nat n = show_nat (n div 10) @ [char_of (48 + n mod 10)]"
      using False by (subst show_nat.simps) simp
    have "n mod 10 \<le> 9" by presburger
    then have d: "digits_nat ?m (char_of (48 + n mod 10) # s) = digits_nat (10 * ?m + n mod 10) s"
      by (simp add: of_char_of)
    have "10 * ?m + n mod 10 = acc * 10 ^ length (show_nat n) + n"
      by (simp add: s algebra_simps)
    with d 1 [OF False, of acc "char_of (48 + n mod 10) # s"] show ?thesis by (simp add: s algebra_simps)
  qed
qed

lemma show_nat_chars: "c \<in> set (show_nat n) \<Longrightarrow> 48 \<le> (of_char c :: nat)"
proof (induction n rule: show_nat.induct)
  case (1 n)
  then show ?case
    by (cases "n < 10") (auto simp: show_nat.simps [of n] of_char_of)
qed

lemma show_nat_nonempty: "show_nat n \<noteq> []"
  by (subst show_nat.simps) simp

lemma ParseUint_show: "n < u64_mod \<Longrightarrow> ParseUint (show_nat n) = Some n"
  using show_nat_digits [of 0 n "[]"] by (simp add: ParseUint_def show_nat_nonempty)

lemma show_nat_no_dash: "CHR ''-'' \<notin> set (show_nat n)"
  using show_nat_chars [of "CHR ''-''" n] by auto

lemma Uint64FromVeID_inverse: "n < u64_mod \<Longrightarrow> Uint64FromVeID (VeIDFromUint64 n) = n"
proof -
  assume n: "n < u64_mod"
  have "Split (''ve'' @ CHR ''-'' # show_nat n) CHR ''-'' = [''ve'', show_nat n]"
    by (subst Split_append) (simp_all add: Split_single show_nat_no_dash)
  with n show ?thesis by (simp add: Uint64FromVeID_def VeIDFromUint64_def ParseUint_show)
qed

lemma VeIDFromUint64_inj: "m < u64_mod \<Longrightarrow> n < u64_mod \<Longrightarrow> VeIDFromUint64 m = VeIDFromUint64 n \<Longrightarrow> m = n"
  using Uint64FromVeID_inverse by metis

lemmas ve_store_defs = SetTotalLockedAmount_def GetTotalLockedAmount_def SetLockedAmountByUser_def
  GetLockedAmountByUser_def DeleteLockedAmountByUser_def SetEpoch_def GetEpoch_def SetCheckpoint_def
  GetCheckpoint_def SetUserEpoch_def GetUserEpoch_def SetUserCheckpoint_def GetUserCheckpoint_def
  SetSlopeChange_def GetSlopeChange_def SetNextVeID_def GetNextVeID_def SetVeAttached_def GetVeAttached_def
  SetVeVoted_def GetVeVoted_def

end
