(* ===== verification/VeCheckpoint.thy ===== *)
theory VeCheckpoint
  imports VeTypes
begin

text \<open>
  The history of the voting power: \<open>keeper/checkpoint.go\<close> and the queries over it,
  \<open>keeper/grpc_query.go\<close>.  A checkpoint is a line, the power from its time on; the slope changes say by
  how much the slope changes at a later regulated time, when locks run out.
\<close>

section \<open>Regulation of the system's checkpoints (checkpoint.go)\<close>

text \<open>
  The loop of \<open>regulateCheckpoint\<close>, with the number of rounds left: the source panics when it enters
  the third.  It returns the last point, not yet stored, with its epoch.
\<close>

fun regulateLoop ::
  "sdk \<Rightarrow> ctx \<Rightarrow> nat \<Rightarrow> Checkpoint \<Rightarrow> dec \<Rightarrow> nat \<Rightarrow> nat \<Rightarrow> nat \<Rightarrow> Checkpoint \<Rightarrow> nat \<Rightarrow> ve_store \<Rightarrow>
   (Checkpoint \<times> nat \<times> ve_store) res" where
  "regulateLoop S ctx now pointLastInitial blockSlope 0 ti0 timeLast pointLast epoch s = Panic"
| "regulateLoop S ctx now pointLastInitial blockSlope (Suc rounds) ti0 timeLast pointLast epoch s =
     rbind (NextRegulatedUnixTime ti0) (\<lambda>next.
     let (ti, slopeChange) = (if next > now then (now, 0) else (next, GetSlopeChange s next));
         bias = cp_Bias pointLast - cp_Slope pointLast * i64_of_u64 (u64_sub ti timeLast);
         bias = (if bias < 0 then 0 else bias);
         slope = cp_Slope pointLast + slopeChange;
         slope = (if slope < 0 then 0 else slope);
         block = cp_Block pointLastInitial
           + Dec_TruncateInt S (blockSlope * i64_of_u64 (u64_sub ti (cp_Timestamp pointLastInitial)));
         point = \<lparr>cp_Bias = bias, cp_Slope = slope, cp_Timestamp = ti, cp_Block = block\<rparr>;
         epoch' = u64_add epoch 1 in
     if ti = now then Ok (point\<lparr>cp_Block := BlockHeight ctx\<rparr>, epoch', s)
     else regulateLoop S ctx now pointLastInitial blockSlope rounds ti ti point epoch' (SetCheckpoint epoch' point s))"

definition addChange :: "int \<Rightarrow> int \<Rightarrow> int" where
  "addChange x change = (if change > 0 then (if x + change < 0 then 0 else x + change) else x)"

definition regulateCheckpoint_changes :: "sdk \<Rightarrow> ctx \<Rightarrow> int \<Rightarrow> int \<Rightarrow> ve_store \<Rightarrow> ve_store res" where
  "regulateCheckpoint_changes S ctx userSlopeChange userBiasChange s =
     (let now = now_of ctx;
          epoch = GetEpoch s;
          pointLast = (if epoch > 0 then GetCheckpoint s epoch
             else \<lparr>cp_Bias = 0, cp_Slope = 0, cp_Timestamp = now, cp_Block = BlockHeight ctx\<rparr>);
          timeLast = cp_Timestamp pointLast in
      rbind (if timeLast < now
             then Dec_QuoInt S (ToDec (BlockHeight ctx - cp_Block pointLast)) (i64_of_u64 (u64_sub now timeLast))
             else Ok 0) (\<lambda>blockSlope.
      rbind (regulateLoop S ctx now pointLast blockSlope 2 (RegulatedUnixTime timeLast) timeLast pointLast epoch s)
        (\<lambda>(point, epoch', s').
      Ok (SetCheckpoint epoch'
            (point\<lparr>cp_Bias := addChange (cp_Bias point) userBiasChange,
                   cp_Slope := addChange (cp_Slope point) userSlopeChange\<rparr>) (SetEpoch epoch' s')))))"

definition RegulateCheckpoint :: "sdk \<Rightarrow> ctx \<Rightarrow> ve_store \<Rightarrow> ve_store res" where
  "RegulateCheckpoint S ctx s =
     (if u64_sub (now_of ctx) (cp_Timestamp (GetCheckpoint s (GetEpoch s))) \<ge> RegulatedPeriod
      then regulateCheckpoint_changes S ctx 0 0 s else Ok s)"

section \<open>Checkpoints of a token (checkpoint.go)\<close>

text \<open>The line of a lock from now on: zero when nothing is locked or the lock has run out.\<close>

definition lockPoint :: "nat \<Rightarrow> LockedBalance \<Rightarrow> Checkpoint" where
  "lockPoint now l =
     (if lb_End l > now \<and> lb_Amount l > 0
      then let slope = lb_Amount l sdiv int MaxLockTime in
           \<lparr>cp_Bias = slope * i64_of_u64 (u64_sub (lb_End l) now), cp_Slope = slope, cp_Timestamp = 0, cp_Block = 0\<rparr>
      else ZeroCheckpoint)"

definition scheduleSlopes ::
  "nat \<Rightarrow> LockedBalance \<Rightarrow> LockedBalance \<Rightarrow> int \<Rightarrow> int \<Rightarrow> ve_store \<Rightarrow> ve_store" where
  "scheduleSlopes now lockedOld lockedNew slopeOld slopeNew s =
     (let slopeChangeOld = GetSlopeChange s (lb_End lockedOld);
          slopeChangeNew = GetSlopeChange s (lb_End lockedNew);
          s1 = (if lb_End lockedOld > now
                then SetSlopeChange (lb_End lockedOld)
                       (slopeChangeOld + slopeOld - (if lb_End lockedNew = lb_End lockedOld then slopeNew else 0)) s
                else s) in
      if lb_End lockedNew > now \<and> lb_End lockedNew > lb_End lockedOld
      then SetSlopeChange (lb_End lockedNew) (slopeChangeNew - slopeNew) s1 else s1)"

definition RegulateUserCheckpoint ::
  "sdk \<Rightarrow> ctx \<Rightarrow> nat \<Rightarrow> LockedBalance \<Rightarrow> LockedBalance \<Rightarrow> ve_store \<Rightarrow> ve_store res" where
  "RegulateUserCheckpoint S ctx veID lockedOld lockedNew s =
     rbind (CheckRegulatedUnixTime (lb_End lockedOld)) (\<lambda>_.
     rbind (CheckRegulatedUnixTime (lb_End lockedNew)) (\<lambda>_.
     let now = now_of ctx;
         userPointOld = lockPoint now lockedOld;
         userPointNew = lockPoint now lockedNew in
     rbind (regulateCheckpoint_changes S ctx (cp_Slope userPointNew - cp_Slope userPointOld)
              (cp_Bias userPointNew - cp_Bias userPointOld) s) (\<lambda>s1.
     let s2 = scheduleSlopes now lockedOld lockedNew (cp_Slope userPointOld) (cp_Slope userPointNew) s1;
         userEpoch = u64_add (GetUserEpoch s2 veID) 1 in
     Ok (SetUserCheckpoint veID userEpoch (userPointNew\<lparr>cp_Timestamp := now, cp_Block := BlockHeight ctx\<rparr>)
           (SetUserEpoch veID userEpoch s2)))))"

section \<open>Searching the history (grpc_query.go)\<close>

text \<open>
  The binary searches of \<open>findTimeEpoch\<close> and \<open>findBlockEpoch\<close>, over the attribute of the checkpoint they
  compare.  The middle is computed in unsigned 64-bit arithmetic, \<open>(min + max + 1) / 2\<close>, and so the loop may
  not end: the search is \<open>None\<close> then.
\<close>

partial_function (option) searchEpoch :: "(nat \<Rightarrow> bool) \<Rightarrow> nat \<Rightarrow> nat \<Rightarrow> nat option" where
  [code]: "searchEpoch earlier lo hi =
     (if lo \<ge> hi then Some lo
      else let mid = u64_add (u64_add lo hi) 1 div 2 in
           if earlier mid then searchEpoch earlier mid hi else searchEpoch earlier lo (u64_sub mid 1))"

definition pointOf :: "ve_store \<Rightarrow> nat \<Rightarrow> nat \<Rightarrow> Checkpoint" where
  "pointOf s veID epoch = (if veID \<noteq> EmptyVeID then GetUserCheckpoint s veID epoch else GetCheckpoint s epoch)"

definition findTimeEpoch :: "ve_store \<Rightarrow> nat \<Rightarrow> nat \<Rightarrow> nat \<Rightarrow> nat option" where
  "findTimeEpoch s veID timestamp maxEpoch =
     searchEpoch (\<lambda>mid. cp_Timestamp (pointOf s veID mid) \<le> timestamp) 0 maxEpoch"

definition findBlockEpoch :: "ve_store \<Rightarrow> nat \<Rightarrow> int \<Rightarrow> nat \<Rightarrow> nat option" where
  "findBlockEpoch s veID block maxEpoch =
     searchEpoch (\<lambda>mid. cp_Block (pointOf s veID mid) \<le> block) 0 maxEpoch"

section \<open>Voting power (grpc_query.go)\<close>

text \<open>
  The seconds between a checkpoint and a later block, interpolated to the next checkpoint or, after the
  last one, to the current block, in 64-bit arithmetic.
\<close>

definition i64_wrap :: "int \<Rightarrow> int" where
  "i64_wrap x = i64_of_u64 (u64_of_int x)"

definition blockSeconds :: "ctx \<Rightarrow> ve_store \<Rightarrow> nat \<Rightarrow> nat \<Rightarrow> int \<Rightarrow> int" where
  "blockSeconds ctx s epoch targetEpoch atBlock =
     (let point = GetCheckpoint s targetEpoch in
      if targetEpoch < epoch then
        (let pointNext = GetCheckpoint s (u64_add targetEpoch 1) in
         if cp_Block point \<noteq> cp_Block pointNext
         then i64_wrap ((atBlock - cp_Block point) * i64_of_u64 (u64_sub (cp_Timestamp pointNext) (cp_Timestamp point)))
              sdiv (cp_Block pointNext - cp_Block point)
         else 0)
      else if cp_Block point \<noteq> BlockHeight ctx
        then i64_wrap ((atBlock - cp_Block point) * (BlockTime ctx - i64_of_u64 (cp_Timestamp point)))
             sdiv (BlockHeight ctx - cp_Block point)
        else 0)"

text \<open>
  The loop over the regulated times after the last checkpoint.  It ends because the time grows by one
  period in each round; the panic of \<open>NextRegulatedUnixTime\<close> ends it as well.
\<close>

function futurePower :: "ve_store \<Rightarrow> nat \<Rightarrow> nat \<Rightarrow> Checkpoint \<Rightarrow> int res" where
  "futurePower s atTime ti0 point =
     (case NextRegulatedUnixTime ti0 of
        Ok next \<Rightarrow>
          if next \<ge> atTime
          then Ok (cp_Bias point - cp_Slope point * i64_of_u64 (u64_sub atTime (cp_Timestamp point)))
          else futurePower s atTime next
                 (point\<lparr>cp_Bias := cp_Bias point - cp_Slope point * i64_of_u64 (u64_sub next (cp_Timestamp point)),
                        cp_Slope := cp_Slope point + GetSlopeChange s next,
                        cp_Timestamp := next\<rparr>)
      | Err e \<Rightarrow> Err e
      | Panic \<Rightarrow> Panic)"
  by pat_completeness auto
termination
  by (relation "measure (\<lambda>(_, atTime, ti0, _). atTime - ti0)") (auto simp: NextRegulated_Ok RegulatedPeriod_eq)

declare futurePower.simps [simp del]

definition not_below_zero :: "int \<Rightarrow> int" where
  "not_below_zero x = (if x < 0 then 0 else x)"

definition GetTotalVotingPower :: "ctx \<Rightarrow> ve_store \<Rightarrow> nat \<Rightarrow> int \<Rightarrow> int res" where
  "GetTotalVotingPower ctx s atTime atBlock =
     (let epoch = GetEpoch s in
      rbind
       (if atTime > 0 then
          (let pointLast = GetCheckpoint s epoch in
           if atTime \<le> cp_Timestamp pointLast then
             rbind (ended (findTimeEpoch s EmptyVeID atTime epoch)) (\<lambda>targetEpoch.
             let point = GetCheckpoint s targetEpoch;
                 dt = (if targetEpoch < epoch then
                         (if cp_Block point \<noteq> cp_Block (GetCheckpoint s (u64_add targetEpoch 1))
                          then i64_of_u64 (u64_sub atTime (cp_Timestamp point)) else 0)
                       else if cp_Block point \<noteq> BlockHeight ctx
                         then i64_of_u64 (u64_sub atTime (cp_Timestamp point)) else 0) in
             Ok (cp_Bias point - cp_Slope point * dt))
           else futurePower s atTime (RegulatedUnixTime (cp_Timestamp pointLast)) pointLast)
        else if atBlock > 0 then
          rbind (ended (findBlockEpoch s EmptyVeID atBlock epoch)) (\<lambda>targetEpoch.
          let point = GetCheckpoint s targetEpoch in
          Ok (cp_Bias point - cp_Slope point * blockSeconds ctx s epoch targetEpoch atBlock))
        else Panic)
       (\<lambda>power. Ok (not_below_zero power)))"

definition GetVotingPower :: "ctx \<Rightarrow> ve_store \<Rightarrow> nat \<Rightarrow> nat \<Rightarrow> int \<Rightarrow> int res" where
  "GetVotingPower ctx s veID atTime atBlock =
     (let epoch = GetEpoch s;
          userEpoch = GetUserEpoch s veID in
      rbind
       (if atTime > 0 then
          (let userPoint0 = GetUserCheckpoint s veID userEpoch in
           rbind (if atTime \<le> cp_Timestamp userPoint0
                  then rbind (ended (findTimeEpoch s veID atTime userEpoch)) (\<lambda>targetUserEpoch.
                       Ok (GetUserCheckpoint s veID targetUserEpoch))
                  else Ok userPoint0) (\<lambda>userPoint.
           Ok (cp_Bias userPoint - cp_Slope userPoint * i64_of_u64 (u64_sub atTime (cp_Timestamp userPoint)))))
        else if atBlock > 0 then
          rbind (ended (findBlockEpoch s EmptyVeID atBlock epoch)) (\<lambda>targetEpoch.
          let point = GetCheckpoint s targetEpoch;
              blockTimestamp = u64_add (cp_Timestamp point)
                (u64_of_int (blockSeconds ctx s epoch targetEpoch atBlock)) in
          rbind (ended (findBlockEpoch s veID atBlock userEpoch)) (\<lambda>targetUserEpoch.
          let userPoint = GetUserCheckpoint s veID targetUserEpoch in
          Ok (cp_Bias userPoint
              - cp_Slope userPoint * i64_of_u64 (u64_sub blockTimestamp (cp_Timestamp userPoint)))))
        else Panic)
       (\<lambda>power. Ok (not_below_zero power)))"

end
