(* ===== verification/VeMsg.thy ===== *)
theory VeMsg
  imports VeCheckpoint
begin

text \<open>
  What changes the state of the ve module: the messages and their stateless checks (\<open>types/msgs.go\<close>,
  \<open>keeper/msg_server.go\<close>), the slashing of a lock (\<open>keeper/staking.go\<close>), the transfer of a token
  (\<open>keeper/nft.go\<close>), emission and distribution (\<open>keeper/emission.go\<close>, \<open>keeper/distribution.go\<close>), the end
  of a block and the genesis.

  \<open>getDelegated\<close> is the function of the staking module that the keeper may have been given.
\<close>

section \<open>State\<close>

record ('b, 'n) ve_world =
  vst :: ve_store
  vnf :: 'n
  vbk :: 'b

definition on_store :: "(ve_store \<Rightarrow> ve_store) \<Rightarrow> ('b, 'n) ve_world \<Rightarrow> ('b, 'n) ve_world" where
  "on_store f w = w\<lparr>vst := f (vst w)\<rparr>"

definition on_store_res :: "(ve_store \<Rightarrow> ve_store res) \<Rightarrow> ('b, 'n) ve_world \<Rightarrow> ('b, 'n) ve_world res" where
  "on_store_res f w = rbind (f (vst w)) (\<lambda>s. Ok (w\<lparr>vst := s\<rparr>))"

section \<open>Messages (msgs.go)\<close>

record MsgCreate =
  mcr_Sender :: string
  mcr_To :: string
  mcr_Amount :: coin
  mcr_LockDuration :: nat

record MsgDeposit =
  mde_Sender :: string
  mde_VeId :: string
  mde_Amount :: coin

record MsgExtendTime =
  met_Sender :: string
  met_VeId :: string
  met_LockDuration :: nat

record MsgMerge =
  mme_Sender :: string
  mme_FromVeId :: string
  mme_ToVeId :: string

record MsgWithdraw =
  mwd_Sender :: string
  mwd_VeId :: string

definition MsgCreate_ValidateBasic :: "sdk \<Rightarrow> MsgCreate \<Rightarrow> unit res" where
  "MsgCreate_ValidateBasic S m =
     ensure (AccAddressFromBech32 S (mcr_Sender m) \<noteq> None) (SdkErr ErrInvalidAddress) (
     ensure (mcr_To m = [] \<or> AccAddressFromBech32 S (mcr_To m) \<noteq> None) (SdkErr ErrInvalidAddress) (
     ensure (coin_IsPositive (mcr_Amount m)) (VeErr ErrAmountNotPositive) (
     ensure (mcr_LockDuration m \<noteq> 0) (VeErr ErrPastLockTime) (
     ensure (\<not> mcr_LockDuration m > MaxLockTime) (VeErr ErrTooLongLockTime) (Ok ())))))"

definition MsgDeposit_ValidateBasic :: "sdk \<Rightarrow> MsgDeposit \<Rightarrow> unit res" where
  "MsgDeposit_ValidateBasic S m =
     ensure (AccAddressFromBech32 S (mde_Sender m) \<noteq> None) (SdkErr ErrInvalidAddress) (
     ensure (Uint64FromVeID (mde_VeId m) \<noteq> EmptyVeID) (VeErr ErrInvalidVeID) (
     ensure (coin_IsPositive (mde_Amount m)) (VeErr ErrAmountNotPositive) (Ok ())))"

definition MsgExtendTime_ValidateBasic :: "sdk \<Rightarrow> MsgExtendTime \<Rightarrow> unit res" where
  "MsgExtendTime_ValidateBasic S m =
     ensure (AccAddressFromBech32 S (met_Sender m) \<noteq> None) (SdkErr ErrInvalidAddress) (
     ensure (Uint64FromVeID (met_VeId m) \<noteq> EmptyVeID) (VeErr ErrInvalidVeID) (
     ensure (met_LockDuration m \<noteq> 0) (VeErr ErrPastLockTime) (
     ensure (\<not> met_LockDuration m > MaxLockTime) (VeErr ErrTooLongLockTime) (Ok ()))))"

definition MsgMerge_ValidateBasic :: "sdk \<Rightarrow> MsgMerge \<Rightarrow> unit res" where
  "MsgMerge_ValidateBasic S m =
     ensure (AccAddressFromBech32 S (mme_Sender m) \<noteq> None) (SdkErr ErrInvalidAddress) (
     ensure (Uint64FromVeID (mme_FromVeId m) \<noteq> EmptyVeID) (VeErr ErrInvalidVeID) (
     ensure (Uint64FromVeID (mme_ToVeId m) \<noteq> EmptyVeID) (VeErr ErrInvalidVeID) (
     ensure (mme_FromVeId m \<noteq> mme_ToVeId m) (VeErr ErrSameVeID) (Ok ()))))"

definition MsgWithdraw_ValidateBasic :: "sdk \<Rightarrow> MsgWithdraw \<Rightarrow> unit res" where
  "MsgWithdraw_ValidateBasic S m =
     ensure (AccAddressFromBech32 S (mwd_Sender m) \<noteq> None) (SdkErr ErrInvalidAddress) (
     ensure (Uint64FromVeID (mwd_VeId m) \<noteq> EmptyVeID) (VeErr ErrInvalidVeID) (Ok ()))"

section \<open>Depositing (msg_server.go)\<close>

definition checkLockDenom :: "ve_store \<Rightarrow> coin \<Rightarrow> unit res" where
  "checkLockDenom s amount = ensure (Denom amount = ve_lock_denom s) (VeErr ErrInvalidLockDenom) (Ok ())"

definition veTakeCoins :: "sdk \<Rightarrow> 'b bank \<Rightarrow> addr \<Rightarrow> int \<Rightarrow> ('b, 'n) ve_world \<Rightarrow> ('b, 'n) ve_world res" where
  "veTakeCoins S B sender amount w =
     rbind (NewCoin S (ve_lock_denom (vst w)) amount) (\<lambda>coin.
     rbind (NewCoins S [coin]) (\<lambda>cs.
     rbind (SendCoinsFromAccountToModule B (vbk w) sender ''ve'' cs) (\<lambda>b. Ok (w\<lparr>vbk := b\<rparr>))))"

definition vePayCoins :: "sdk \<Rightarrow> 'b bank \<Rightarrow> string \<Rightarrow> addr \<Rightarrow> int \<Rightarrow> ('b, 'n) ve_world \<Rightarrow> ('b, 'n) ve_world res" where
  "vePayCoins S B pool receiver amount w =
     rbind (NewCoin S (ve_lock_denom (vst w)) amount) (\<lambda>coin.
     rbind (NewCoins S [coin]) (\<lambda>cs.
     rbind (SendCoinsFromModuleToAccount B (vbk w) pool receiver cs) (\<lambda>b. Ok (w\<lparr>vbk := b\<rparr>))))"

definition DepositFor ::
  "sdk \<Rightarrow> 'b bank \<Rightarrow> ctx \<Rightarrow> addr \<Rightarrow> nat \<Rightarrow> int \<Rightarrow> nat \<Rightarrow> LockedBalance \<Rightarrow> bool \<Rightarrow> ('b, 'n) ve_world \<Rightarrow>
   ('b, 'n) ve_world res" where
  "DepositFor S B ctx sender veID amount unlockTime lockedOld sendCoins w =
     rbind (if amount > 0 \<and> sendCoins then veTakeCoins S B sender amount w else Ok w) (\<lambda>w1.
     let w2 = (if amount > 0
               then on_store (\<lambda>s. SetTotalLockedAmount (GetTotalLockedAmount s + amount) s) w1 else w1);
         locked = \<lparr>lb_Amount = lb_Amount lockedOld + amount,
                   lb_End = (if unlockTime > 0 then unlockTime else lb_End lockedOld)\<rparr> in
     on_store_res (RegulateUserCheckpoint S ctx veID lockedOld locked)
       (on_store (SetLockedAmountByUser veID locked) w2))"

section \<open>The message server (msg_server.go)\<close>

definition Create ::
  "sdk \<Rightarrow> 'b bank \<Rightarrow> 'n nft \<Rightarrow> ctx \<Rightarrow> MsgCreate \<Rightarrow> ('b, 'n) ve_world \<Rightarrow> (('b, 'n) ve_world \<times> nat \<times> nat) res" where
  "Create S B N ctx m w =
     rbind (checkLockDenom (vst w) (mcr_Amount m)) (\<lambda>_.
     rbind (getSenderReceiver S (mcr_Sender m) (mcr_To m)) (\<lambda>(sender, receiver).
     let unlockTime = RegulatedUnixTimeFromNow ctx (mcr_LockDuration m) in
     ensure (\<not> unlockTime \<le> now_of ctx) (VeErr ErrPastLockTime) (
     ensure (\<not> unlockTime > u64_add (now_of ctx) MaxLockTime) (VeErr ErrTooLongLockTime) (
     let veID = GetNextVeID (vst w) in
     ensure (\<not> (veID > MaxVeID \<or> veID = EmptyVeID)) (VeErr ErrInvalidVeID) (
     let w1 = on_store (SetNextVeID (u64_add veID 1)) w in
     rbind (nft_Mint N (vnf w1) VeNftClass (VeIDFromUint64 veID) receiver) (\<lambda>n.
     rbind (DepositFor S B ctx sender veID (Amount (mcr_Amount m)) unlockTime NewLockedBalance True (w1\<lparr>vnf := n\<rparr>))
       (\<lambda>w2. Ok (w2, veID, unlockTime))))))))"

text \<open>The checks \<open>Deposit\<close> and \<open>ExtendTime\<close> share: an existing token with a lock that has not run out.\<close>

definition liveLock ::
  "'n nft \<Rightarrow> ctx \<Rightarrow> ('b, 'n) ve_world \<Rightarrow> string \<Rightarrow> (nat \<times> LockedBalance) res" where
  "liveLock N ctx w veId =
     ensure (nft_HasNFT N (vnf w) VeNftClass veId) (VeErr ErrInvalidVeID) (
     let veID = Uint64FromVeID veId;
         locked = GetLockedAmountByUser (vst w) veID in
     ensure (0 < lb_Amount locked) (VeErr ErrAmountNotPositive) (
     ensure (\<not> lb_End locked \<le> now_of ctx) (VeErr ErrLockExpired) (Ok (veID, locked))))"

definition Deposit ::
  "sdk \<Rightarrow> 'b bank \<Rightarrow> 'n nft \<Rightarrow> ctx \<Rightarrow> MsgDeposit \<Rightarrow> ('b, 'n) ve_world \<Rightarrow> ('b, 'n) ve_world res" where
  "Deposit S B N ctx m w =
     rbind (checkLockDenom (vst w) (mde_Amount m)) (\<lambda>_.
     rbind (accAddress S (mde_Sender m)) (\<lambda>sender.
     rbind (liveLock N ctx w (mde_VeId m)) (\<lambda>(veID, locked).
     DepositFor S B ctx sender veID (Amount (mde_Amount m)) 0 locked True w)))"

definition ExtendTime ::
  "sdk \<Rightarrow> 'b bank \<Rightarrow> 'n nft \<Rightarrow> ctx \<Rightarrow> MsgExtendTime \<Rightarrow> ('b, 'n) ve_world \<Rightarrow> ('b, 'n) ve_world res" where
  "ExtendTime S B N ctx m w =
     rbind (accAddress S (met_Sender m)) (\<lambda>sender.
     rbind (liveLock N ctx w (met_VeId m)) (\<lambda>(veID, locked).
     ensure (sender = nft_GetOwner N (vnf w) VeNftClass (met_VeId m)) (SdkErr ErrUnauthorized) (
     let unlockTime = RegulatedUnixTimeFromNow ctx (met_LockDuration m) in
     ensure (\<not> unlockTime \<le> lb_End locked) (VeErr ErrNotIncreasedLockTime) (
     ensure (\<not> unlockTime > u64_add (now_of ctx) MaxLockTime) (VeErr ErrTooLongLockTime) (
     DepositFor S B ctx sender veID 0 unlockTime locked False w)))))"

definition notDelegated :: "(nat \<Rightarrow> int) option \<Rightarrow> nat \<Rightarrow> bool" where
  "notDelegated getDelegated veID = (case getDelegated of None \<Rightarrow> True | Some f \<Rightarrow> \<not> f veID > 0)"

definition Merge ::
  "sdk \<Rightarrow> 'b bank \<Rightarrow> 'n nft \<Rightarrow> (nat \<Rightarrow> int) option \<Rightarrow> ctx \<Rightarrow> MsgMerge \<Rightarrow> ('b, 'n) ve_world \<Rightarrow> ('b, 'n) ve_world res" where
  "Merge S B N getDelegated ctx m w =
     rbind (accAddress S (mme_Sender m)) (\<lambda>sender.
     ensure (sender = nft_GetOwner N (vnf w) VeNftClass (mme_FromVeId m)) (SdkErr ErrUnauthorized) (
     ensure (sender = nft_GetOwner N (vnf w) VeNftClass (mme_ToVeId m)) (SdkErr ErrUnauthorized) (
     let fromVeID = Uint64FromVeID (mme_FromVeId m); toVeID = Uint64FromVeID (mme_ToVeId m) in
     rbind (CheckVeAttached (vst w) fromVeID) (\<lambda>_.
     let lockedFrom = GetLockedAmountByUser (vst w) fromVeID;
         lockedTo = GetLockedAmountByUser (vst w) toVeID in
     ensure (notDelegated getDelegated fromVeID) (SdkErr ErrInvalidRequest) (
     let unlock = (if lb_End lockedTo > lb_End lockedFrom then lb_End lockedTo else lb_End lockedFrom);
         w1 = on_store (DeleteLockedAmountByUser fromVeID) w in
     rbind (on_store_res (RegulateUserCheckpoint S ctx fromVeID lockedFrom NewLockedBalance) w1) (\<lambda>w2.
     rbind (nft_Burn N (vnf w2) VeNftClass (mme_FromVeId m)) (\<lambda>n.
     DepositFor S B ctx sender toVeID (lb_Amount lockedFrom) unlock lockedTo False (w2\<lparr>vnf := n\<rparr>))))))))"

definition Withdraw ::
  "sdk \<Rightarrow> 'b bank \<Rightarrow> 'n nft \<Rightarrow> (nat \<Rightarrow> int) option \<Rightarrow> ctx \<Rightarrow> MsgWithdraw \<Rightarrow> ('b, 'n) ve_world \<Rightarrow> ('b, 'n) ve_world res" where
  "Withdraw S B N getDelegated ctx m w =
     rbind (accAddress S (mwd_Sender m)) (\<lambda>sender.
     ensure (sender = nft_GetOwner N (vnf w) VeNftClass (mwd_VeId m)) (SdkErr ErrUnauthorized) (
     let veID = Uint64FromVeID (mwd_VeId m) in
     rbind (CheckVeAttached (vst w) veID) (\<lambda>_.
     let locked = GetLockedAmountByUser (vst w) veID in
     ensure (\<not> lb_End locked > now_of ctx) (VeErr ErrLockNotExpired) (
     ensure (notDelegated getDelegated veID) (SdkErr ErrInvalidRequest) (
     let s1 = DeleteLockedAmountByUser veID (vst w);
         totalLocked = GetTotalLockedAmount s1 - lb_Amount locked in
     if totalLocked < 0 then Panic
     else
     rbind (on_store_res (RegulateUserCheckpoint S ctx veID locked NewLockedBalance)
              (w\<lparr>vst := SetTotalLockedAmount totalLocked s1\<rparr>)) (\<lambda>w2.
     rbind (nft_Burn N (vnf w2) VeNftClass (mwd_VeId m)) (\<lambda>n.
     vePayCoins S B ''ve'' sender (lb_Amount locked) (w2\<lparr>vnf := n\<rparr>))))))))"

section \<open>Queries (grpc_query.go)\<close>

text \<open>The tests both queries of the power make on their request.\<close>

definition checkPowerRequest :: "ctx \<Rightarrow> nat \<Rightarrow> int \<Rightarrow> unit res" where
  "checkPowerRequest ctx atTime atBlock =
     (if atTime > 0 then
        ensure (\<not> atBlock > 0) (SdkErr (ErrOther ''at time and at block cannot both be specified'')) (Ok ())
      else if atBlock > 0 then
        ensure (\<not> atBlock > BlockHeight ctx) (SdkErr (ErrOther ''invalid block'')) (Ok ())
      else Err (SdkErr (ErrOther ''at time and at block cannot both be zero'')))"

definition TotalVotingPower :: "ctx \<Rightarrow> nat \<Rightarrow> int \<Rightarrow> ve_store \<Rightarrow> int res" where
  "TotalVotingPower ctx atTime atBlock s =
     rbind (checkPowerRequest ctx atTime atBlock) (\<lambda>_. GetTotalVotingPower ctx s atTime atBlock)"

definition VotingPower :: "'n nft \<Rightarrow> ctx \<Rightarrow> string \<Rightarrow> nat \<Rightarrow> int \<Rightarrow> ('b, 'n) ve_world \<Rightarrow> int res" where
  "VotingPower N ctx veId atTime atBlock w =
     ensure (nft_HasNFT N (vnf w) VeNftClass veId) (VeErr ErrInvalidVeID) (
     rbind (checkPowerRequest ctx atTime atBlock) (\<lambda>_.
     GetVotingPower ctx (vst w) (Uint64FromVeID veId) atTime atBlock))"

section \<open>Staking (staking.go)\<close>

definition SlashLockedAmountByUser ::
  "sdk \<Rightarrow> 'b bank \<Rightarrow> ctx \<Rightarrow> nat \<Rightarrow> int \<Rightarrow> ('b, 'n) ve_world \<Rightarrow> ('b, 'n) ve_world res" where
  "SlashLockedAmountByUser S B ctx veID amount w =
     rbind (NewCoin S (ve_lock_denom (vst w)) amount) (\<lambda>coin.
     rbind (NewCoins S [coin]) (\<lambda>cs.
     case BurnCoins B (vbk w) ''ve'' cs of
       Ok b \<Rightarrow>
         let s1 = SetTotalLockedAmount (GetTotalLockedAmount (vst w) - amount) (vst w);
             lockedOld = GetLockedAmountByUser s1 veID;
             locked = lockedOld\<lparr>lb_Amount := lb_Amount lockedOld - amount\<rparr> in
         on_store_res (RegulateUserCheckpoint S ctx veID lockedOld locked)
           (w\<lparr>vbk := b, vst := SetLockedAmountByUser veID locked s1\<rparr>)
     | _ \<Rightarrow> Panic))"

text \<open>The receiver of \<open>SetGetDelegatedAmountByUser\<close> is a value: the field of a copy is set.\<close>

definition SetGetDelegatedAmountByUser ::
  "(nat \<Rightarrow> int) option \<Rightarrow> (nat \<Rightarrow> int) \<Rightarrow> (nat \<Rightarrow> int) option" where
  "SetGetDelegatedAmountByUser keeperField getDelegatedAmount = keeperField"

section \<open>Transfer of a token (keeper/nft.go)\<close>

definition NftSend ::
  "'n nft \<Rightarrow> string \<Rightarrow> string \<Rightarrow> addr \<Rightarrow> addr \<Rightarrow> ('b, 'n) ve_world \<Rightarrow> ('b, 'n) ve_world res" where
  "NftSend N classId tokenId sender receiver w =
     rbind (if classId = VeNftClass then CheckVeAttached (vst w) (Uint64FromVeID tokenId) else Ok ()) (\<lambda>_.
     rbind (nft_Send N (vnf w) classId tokenId sender receiver) (\<lambda>n. Ok (w\<lparr>vnf := n\<rparr>)))"

section \<open>Distribution (distribution.go)\<close>

text \<open>
  The loop of \<open>DistributePerPeriod\<close>: \<open>timeLast\<close> stays what it was before the loop.
\<close>

function distributeLoop :: "nat \<Rightarrow> nat \<Rightarrow> nat \<Rightarrow> int \<Rightarrow> nat \<Rightarrow> ve_store \<Rightarrow> ve_store res" where
  "distributeLoop now timeLast duration amount epochTime s =
     (let amountExisting = GetDistributionPerPeriod s epochTime in
      if duration = 0 \<or> epochTime \<ge> now then Ok (SetDistributionPerPeriod epochTime (amountExisting + amount) s)
      else
        (case NextRegulatedUnixTime epochTime of
           Ok nextEpochTime \<Rightarrow>
             let endTime = min nextEpochTime now;
                 amountAdd = (amount * i64_of_u64 (u64_sub endTime timeLast)) sdiv i64_of_u64 duration;
                 s1 = SetDistributionPerPeriod epochTime (amountExisting + amountAdd) s in
             if nextEpochTime \<ge> now then Ok s1
             else distributeLoop now timeLast duration amount nextEpochTime s1
         | Err e \<Rightarrow> Err e
         | Panic \<Rightarrow> Panic))"
  by pat_completeness auto
termination
  by (relation "measure (\<lambda>(now, _, _, _, epochTime, _). now - epochTime)") (auto simp: NextRegulated_Ok RegulatedPeriod_eq)

declare distributeLoop.simps [simp del]

definition DistributePerPeriod :: "'b bank \<Rightarrow> ctx \<Rightarrow> ('b, 'n) ve_world \<Rightarrow> ('b, 'n) ve_world res" where
  "DistributePerPeriod B ctx w =
     (let totalAmount = Amount (GetBalance B (vbk w) (GetModuleAddress B DistributionPoolName) (ve_lock_denom (vst w)));
          amount = totalAmount - GetDistributionTotalAmount (vst w);
          now = now_of ctx;
          timeLast = GetDistributionAccruedLastTimestamp (vst w);
          s1 = SetDistributionAccruedLastTimestamp now (SetDistributionTotalAmount totalAmount (vst w)) in
      rbind (distributeLoop now timeLast (u64_sub now timeLast) amount (RegulatedUnixTime timeLast) s1)
        (\<lambda>s2. Ok (w\<lparr>vst := s2\<rparr>)))"

function claimPeriods :: "ctx \<Rightarrow> ve_store \<Rightarrow> nat \<Rightarrow> nat \<Rightarrow> nat \<Rightarrow> int \<Rightarrow> int res" where
  "claimPeriods ctx s veID now epochTime0 amount =
     (case NextRegulatedUnixTime epochTime0 of
        Ok epochTime \<Rightarrow>
          if epochTime > RegulatedUnixTime now then Ok amount
          else
            (case rbind (PreviousRegulatedUnixTime epochTime) (\<lambda>prev.
               rbind (GetVotingPower ctx s veID epochTime 0) (\<lambda>votingPower.
               rbind (GetTotalVotingPower ctx s epochTime 0) (\<lambda>totalVotingPower.
               if totalVotingPower = 0 then Panic
               else Ok ((GetDistributionPerPeriod s prev * votingPower) sdiv totalVotingPower)))) of
               Ok share \<Rightarrow> claimPeriods ctx s veID now epochTime (amount + share)
             | Err e \<Rightarrow> Err e
             | Panic \<Rightarrow> Panic)
      | Err e \<Rightarrow> Err e
      | Panic \<Rightarrow> Panic)"
  by pat_completeness auto
termination
proof (relation "measure (\<lambda>(_, _, _, now, epochTime0, _). RegulatedUnixTime now - epochTime0)")
  fix now epochTime0 epochTime :: nat
  assume "NextRegulatedUnixTime epochTime0 = Ok epochTime" "\<not> RegulatedUnixTime now < epochTime"
  then show "\<And>ctx s veID amount share. ((ctx, s, veID, now, epochTime, amount + share), ctx, s, veID, now, epochTime0, amount)
      \<in> measure (\<lambda>(_, _, _, now, epochTime0, _). RegulatedUnixTime now - epochTime0)"
    by (simp add: NextRegulated_Ok RegulatedPeriod_eq)
qed simp

declare claimPeriods.simps [simp del]

definition DistributionClaim ::
  "sdk \<Rightarrow> 'b bank \<Rightarrow> 'n nft \<Rightarrow> ctx \<Rightarrow> nat \<Rightarrow> ('b, 'n) ve_world \<Rightarrow> ('b, 'n) ve_world res" where
  "DistributionClaim S B N ctx veID w =
     rbind (on_store_res (RegulateCheckpoint S ctx) w) (\<lambda>w1.
     let owner = nft_GetOwner N (vnf w1) VeNftClass (VeIDFromUint64 veID);
         now = now_of ctx;
         timeLast = GetDistributionClaimLastTimestampByUser (vst w1) veID in
     if u64_sub now timeLast < RegulatedPeriod then Ok w1
     else
       let w2 = on_store (SetDistributionClaimLastTimestampByUser veID now) w1 in
       rbind (claimPeriods ctx (vst w2) veID now (RegulatedUnixTime timeLast) 0) (\<lambda>amount.
       if \<not> amount > 0 then Ok w2
       else vePayCoins S B DistributionPoolName owner amount w2))"

section \<open>Emission (emission.go)\<close>

text \<open>\<open>Dec.Power\<close> is the SDK's and an argument.\<close>

definition AddTotalEmission :: "sdk \<Rightarrow> (dec \<Rightarrow> nat \<Rightarrow> dec) \<Rightarrow> int \<Rightarrow> ve_store \<Rightarrow> ve_store res" where
  "AddTotalEmission S Dec_Power emission s =
     (if \<not> emission > 0 then Panic
      else
        let s1 = SetTotalEmission (GetTotalEmission s + emission) s in
        rbind (Dec_Quo S (Dec_Mul S (ToDec emission) (dec_one - EmissionRatio))
                 (dec_one - Dec_Power EmissionRatio MaxLockTimeWeeks)) (\<lambda>q.
        Ok (SetEmissionAtLastPeriod (GetEmissionAtLastPeriod s1 + Dec_TruncateInt S q) s1)))"

definition CirculationSupply :: "'b bank \<Rightarrow> ctx \<Rightarrow> ('b, 'n) ve_world \<Rightarrow> int res" where
  "CirculationSupply B ctx w =
     rbind (GetTotalVotingPower ctx (vst w) 0 (BlockHeight ctx)) (\<lambda>veLocked.
     Ok (Amount (GetSupply B (vbk w) (ve_lock_denom (vst w))) - veLocked))"

definition CirculationRate :: "sdk \<Rightarrow> 'b bank \<Rightarrow> ctx \<Rightarrow> ('b, 'n) ve_world \<Rightarrow> dec res" where
  "CirculationRate S B ctx w =
     rbind (CirculationSupply B ctx w) (\<lambda>c.
     Dec_QuoInt S (ToDec c) (Amount (GetSupply B (vbk w) (ve_lock_denom (vst w)))))"

definition Emission :: "sdk \<Rightarrow> 'b bank \<Rightarrow> ctx \<Rightarrow> ('b, 'n) ve_world \<Rightarrow> int res" where
  "Emission S B ctx w =
     (let emission = Dec_Mul S (ToDec (GetEmissionAtLastPeriod (vst w))) EmissionRatio in
      rbind (CirculationRate S B ctx w) (\<lambda>rate.
      Ok (Dec_TruncateInt S (Dec_Mul S emission (if rate < MinEmissionCirculating then MinEmissionCirculating else rate)))))"

definition EmissionCompensation :: "sdk \<Rightarrow> 'b bank \<Rightarrow> ctx \<Rightarrow> int \<Rightarrow> ('b, 'n) ve_world \<Rightarrow> int res" where
  "EmissionCompensation S B ctx emission w =
     rbind (CirculationRate S B ctx w) (\<lambda>rate.
     Ok (Dec_TruncateInt S (Dec_Mul S (ToDec emission) (dec_one - rate))))"

text \<open>
  \<open>Emit\<close>: after the test of the period comes an unconditional return, so what follows it in the source
  is never executed.
\<close>

definition Emit :: "ctx \<Rightarrow> ('b, 'n) ve_world \<Rightarrow> (('b, 'n) ve_world \<times> int) res" where
  "Emit ctx w =
     (let timestamp = RegulatedUnixTimeFromNow ctx 0;
          timeLast = GetEmissionLastTimestamp (vst w) in
      if u64_sub timestamp timeLast < RegulatedPeriod then Ok (w, 0) else Ok (w, 0))"

section \<open>End of block and genesis (abci.go, genesis.go)\<close>

definition ve_EndBlocker :: "sdk \<Rightarrow> ctx \<Rightarrow> ('b, 'n) ve_world \<Rightarrow> ('b, 'n) ve_world res" where
  "ve_EndBlocker S ctx w = on_store_res (RegulateCheckpoint S ctx) w"

definition ve_empty :: ve_store where
  "ve_empty = \<lparr>ve_total_locked = None, ve_locked = [], ve_next_id = None, ve_epoch = None, ve_points = [],
     ve_user_epochs = [], ve_user_points = [], ve_slope_changes = [], ve_attached = [], ve_voted = [],
     ve_total_emission = None, ve_emission_last = None, ve_emission_time = None, ve_distr_time = None,
     ve_distr_total = None, ve_distr_period = [], ve_distr_claim = [], ve_lock_denom = []\<rparr>"

definition ve_InitGenesis :: "'n nft \<Rightarrow> denom \<Rightarrow> ('b, 'n) ve_world \<Rightarrow> ('b, 'n) ve_world res" where
  "ve_InitGenesis N lockDenom w =
     (let w1 = on_store (\<lambda>s. s\<lparr>ve_lock_denom := lockDenom\<rparr>) w in
      if nft_HasClass N (vnf w1) VeNftClass then Ok w1
      else
        (case nft_SaveClass N (vnf w1) VeNftClass of
           Ok n \<Rightarrow> Ok (on_store (\<lambda>s. SetCheckpoint EmptyEpoch ZeroCheckpoint (SetEpoch EmptyEpoch
                      (SetNextVeID FirstVeID (SetTotalLockedAmount 0 s)))) (w1\<lparr>vnf := n\<rparr>))
         | _ \<Rightarrow> Panic))"

definition ve_ExportGenesis :: "('b, 'n) ve_world \<Rightarrow> denom" where
  "ve_ExportGenesis w = ve_lock_denom (vst w)"

end
