(* ===== verification/VeLine.thy ===== *)
theory VeLine
  imports VeMsg
begin

text \<open>
  The specification of the voting power, a sum over the locks, and that the checkpoints implement it: the
  last checkpoint is the sum's line at its time and the scheduled slope changes are those of the locks
  that run out later.
\<close>

section \<open>The power of a lock\<close>

definition lockSlope :: "LockedBalance \<Rightarrow> int" where
  "lockSlope l = lb_Amount l sdiv int MaxLockTime"

definition lockPower :: "nat \<Rightarrow> LockedBalance \<Rightarrow> int" where
  "lockPower t l = (if lb_End l > t then lockSlope l * (int (lb_End l) - int t) else 0)"

definition activeSlope :: "nat \<Rightarrow> LockedBalance \<Rightarrow> int" where
  "activeSlope t l = (if lb_End l > t then lockSlope l else 0)"

definition endSlope :: "nat \<Rightarrow> LockedBalance \<Rightarrow> int" where
  "endSlope e l = (if lb_End l = e then lockSlope l else 0)"

definition lock_ok :: "LockedBalance \<Rightarrow> bool" where
  "lock_ok l \<longleftrightarrow> 0 \<le> lb_Amount l \<and> RegulatedPeriod dvd lb_End l \<and> lb_End l < 2 ^ 62"

text \<open>The sums over all locks.\<close>

definition locksPower :: "(nat, LockedBalance) kv \<Rightarrow> nat \<Rightarrow> int" where
  "locksPower L t = kv_sum (\<lambda>_. lockPower t) L"

definition locksSlope :: "(nat, LockedBalance) kv \<Rightarrow> nat \<Rightarrow> int" where
  "locksSlope L t = kv_sum (\<lambda>_. activeSlope t) L"

definition locksEnding :: "(nat, LockedBalance) kv \<Rightarrow> nat \<Rightarrow> int" where
  "locksEnding L e = kv_sum (\<lambda>_. endSlope e) L"

definition locks_ok :: "(nat, LockedBalance) kv \<Rightarrow> bool" where
  "locks_ok L \<longleftrightarrow> kv_wf L \<and> (\<forall>(i, l) \<in> set L. lock_ok l)"

lemma MaxLockTime_pos [simp]: "0 < MaxLockTime" "MaxLockTime \<noteq> 0"
  by (simp_all add: MaxLockTime_eq)

lemma lockSlope_div: "0 \<le> lb_Amount l \<Longrightarrow> lockSlope l = lb_Amount l div int MaxLockTime"
  by (cases "lb_Amount l = 0") (simp_all add: lockSlope_def signed_divide_int_def sgn_if)

lemma lockSlope_nonneg: "0 \<le> lb_Amount l \<Longrightarrow> 0 \<le> lockSlope l"
  by (simp add: lockSlope_div pos_imp_zdiv_nonneg_iff)

lemma lockPower_nonneg: "0 \<le> lb_Amount l \<Longrightarrow> 0 \<le> lockPower t l"
  by (simp add: lockPower_def lockSlope_nonneg)

lemma lockSlope_mono: "0 \<le> lb_Amount l \<Longrightarrow> lb_Amount l \<le> lb_Amount l' \<Longrightarrow> lockSlope l \<le> lockSlope l'"
  by (simp add: lockSlope_div zdiv_mono1)

lemma activeSlope_nonneg: "0 \<le> lb_Amount l \<Longrightarrow> 0 \<le> activeSlope t l"
  by (simp add: activeSlope_def lockSlope_nonneg)

text \<open>The power never exceeds what is locked, for a lock of at most the longest time.\<close>

lemma lockPower_le:
  assumes "0 \<le> lb_Amount l" "lb_End l \<le> t + MaxLockTime"
  shows "lockPower t l \<le> lb_Amount l"
proof (cases "lb_End l > t")
  case True
  have "lockSlope l * (int (lb_End l) - int t) \<le> lockSlope l * int MaxLockTime"
    using assms lockSlope_nonneg [OF assms(1)] by (intro mult_left_mono) auto
  also have "\<dots> \<le> lb_Amount l"
    using int_div_mult_le [of "int MaxLockTime" "lb_Amount l"] assms(1) by (simp add: lockSlope_div)
  finally show ?thesis using True by (simp add: lockPower_def)
next
  case False
  with assms(1) show ?thesis by (simp add: lockPower_def)
qed

section \<open>From one time to the next\<close>

text \<open>Between two regulated times no lock runs out.\<close>

lemma lockPower_advance:
  assumes "lock_ok l" "t \<le> ti" "ti \<le> RegulatedUnixTime t + RegulatedPeriod"
  shows "lockPower ti l = lockPower t l - activeSlope t l * (int ti - int t)"
proof (cases "lb_End l > t")
  case True
  with assms have "ti \<le> lb_End l" using RegulatedUnixTime_least [of "lb_End l" t] by (auto simp: lock_ok_def)
  with True show ?thesis by (auto simp: lockPower_def activeSlope_def algebra_simps)
next
  case False
  with assms(2) show ?thesis by (simp add: lockPower_def activeSlope_def)
qed

lemma activeSlope_advance:
  assumes "lock_ok l" "t \<le> ti" "ti \<le> RegulatedUnixTime t + RegulatedPeriod"
  shows "activeSlope ti l = activeSlope t l - (if ti = RegulatedUnixTime t + RegulatedPeriod then endSlope ti l else 0)"
proof (cases "lb_End l > t")
  case True
  with assms have "RegulatedUnixTime t + RegulatedPeriod \<le> lb_End l"
    using RegulatedUnixTime_least [of "lb_End l" t] by (auto simp: lock_ok_def)
  with True assms(2,3) show ?thesis by (auto simp: activeSlope_def endSlope_def)
next
  case False
  with assms(2) RegulatedUnixTime_next [of t] show ?thesis by (auto simp: activeSlope_def endSlope_def)
qed

lemma kv_sum_lin:
  "(\<And>k v. (k, v) \<in> set s \<Longrightarrow> f k v = g k v - h k v * c) \<Longrightarrow> kv_sum f s = kv_sum g s - kv_sum h s * (c::int)"
  by (induction s) (auto simp: algebra_simps)

lemma locksPower_advance:
  assumes "locks_ok L" "t \<le> ti" "ti \<le> RegulatedUnixTime t + RegulatedPeriod"
  shows "locksPower L ti = locksPower L t - locksSlope L t * (int ti - int t)"
  unfolding locksPower_def locksSlope_def
  by (rule kv_sum_lin) (use assms lockPower_advance in \<open>auto simp: locks_ok_def\<close>)

lemma locksSlope_advance:
  assumes "locks_ok L" "t \<le> ti" "ti \<le> RegulatedUnixTime t + RegulatedPeriod"
  shows "locksSlope L ti = locksSlope L t - (if ti = RegulatedUnixTime t + RegulatedPeriod then locksEnding L ti else 0)"
proof -
  have "locksSlope L ti = locksSlope L t - locksEnding L ti * (if ti = RegulatedUnixTime t + RegulatedPeriod then 1 else 0)"
    unfolding locksEnding_def locksSlope_def
    by (rule kv_sum_lin) (use assms activeSlope_advance in \<open>auto simp: locks_ok_def\<close>)
  then show ?thesis by simp
qed

lemma locks_nonneg: "locks_ok L \<Longrightarrow> 0 \<le> locksPower L t" "locks_ok L \<Longrightarrow> 0 \<le> locksSlope L t"
  unfolding locksPower_def locksSlope_def
  by (rule kv_sum_nonneg; force simp: locks_ok_def lock_ok_def lockPower_nonneg activeSlope_nonneg)+

section \<open>The line of the last checkpoint\<close>

definition line :: "(nat, LockedBalance) kv \<Rightarrow> Checkpoint \<Rightarrow> nat \<Rightarrow> bool" where
  "line L p t \<longleftrightarrow> cp_Bias p = locksPower L t \<and> cp_Slope p = locksSlope L t \<and> cp_Timestamp p = t"

definition scheduled :: "(nat, LockedBalance) kv \<Rightarrow> ve_store \<Rightarrow> nat \<Rightarrow> bool" where
  "scheduled L s t \<longleftrightarrow> (\<forall>e > t. GetSlopeChange s e = - locksEnding L e)"

lemma i64_of_diff: "t \<le> ti \<Longrightarrow> ti < 2 ^ 62 \<Longrightarrow> i64_of_u64 (u64_sub ti t) = int ti - int t"
  by (simp add: i64_of_u64_def u64_mod_def of_nat_diff)

lemma scheduled_mono: "scheduled L s t \<Longrightarrow> t \<le> u \<Longrightarrow> scheduled L s u"
  by (auto simp: scheduled_def)

text \<open>One round of the loop, on a point that is the line of the locks.\<close>

lemma round_line:
  assumes "locks_ok L" "line L p t" "scheduled L s t" "t \<le> ti" "ti < 2 ^ 62"
    and "ti < RegulatedUnixTime t + RegulatedPeriod \<and> sc = 0 \<or>
         ti = RegulatedUnixTime t + RegulatedPeriod \<and> sc = GetSlopeChange s ti"
  shows "cp_Bias p - cp_Slope p * i64_of_u64 (u64_sub ti t) = locksPower L ti"
    and "cp_Slope p + sc = locksSlope L ti"
proof -
  have le: "ti \<le> RegulatedUnixTime t + RegulatedPeriod" using assms(6) by auto
  show "cp_Bias p - cp_Slope p * i64_of_u64 (u64_sub ti t) = locksPower L ti"
    using assms(2,4,5) locksPower_advance [OF assms(1,4) le] by (simp add: line_def i64_of_diff)
  have "t < RegulatedUnixTime t + RegulatedPeriod" by (rule RegulatedUnixTime_next)
  with assms(2,3,6) locksSlope_advance [OF assms(1,4) le] show "cp_Slope p + sc = locksSlope L ti"
    by (auto simp: line_def scheduled_def)
qed

text \<open>Only the history changes in the loop.\<close>

definition same_but_points :: "ve_store \<Rightarrow> ve_store \<Rightarrow> bool" where
  "same_but_points s s' \<longleftrightarrow> (\<exists>ps. s' = s\<lparr>ve_points := ps\<rparr>)"

lemma same_but_points_refl [simp]: "same_but_points s s"
  unfolding same_but_points_def by (rule exI [of _ "ve_points s"]) simp

lemma same_but_points_set: "same_but_points (SetCheckpoint e p s) s' \<Longrightarrow> same_but_points s s'"
  by (auto simp: same_but_points_def SetCheckpoint_def)

lemma same_but_points_slope: "same_but_points s s' \<Longrightarrow> GetSlopeChange s' e = GetSlopeChange s e"
  by (auto simp: same_but_points_def GetSlopeChange_def)

lemma regulateLoop_line:
  assumes "locks_ok L" "line L p t" "scheduled L s t" "t \<le> now" "now < 2 ^ 62"
    and "regulateLoop S ctx now init bs rounds (RegulatedUnixTime t) t p epoch s = Ok (p', epoch', s')"
    and "epoch + rounds < u64_mod"
  shows "line L p' now \<and> same_but_points s s' \<and> epoch < epoch' \<and> epoch' \<le> epoch + rounds"
  using assms(2-4,6,7)
proof (induction rounds arbitrary: t p epoch s)
  case (Suc rounds)
  let ?next = "RegulatedUnixTime t + RegulatedPeriod"
  let ?ti = "if ?next > now then now else ?next"
  let ?sc = "if ?next > now then 0 else GetSlopeChange s ?next"
  have ti: "t \<le> ?ti" "?ti < 2 ^ 62"
    using Suc.prems(3) assms(5) RegulatedUnixTime_next [of t] by auto
  have sc: "?ti < ?next \<and> ?sc = 0 \<or> ?ti = ?next \<and> ?sc = GetSlopeChange s ?ti" by auto
  note r = round_line [OF assms(1) Suc.prems(1,2) ti sc]
  have nn: "\<not> locksPower L ?ti < 0" "\<not> locksSlope L ?ti < 0" using locks_nonneg [OF assms(1), of ?ti] by auto
  have next_ok: "NextRegulatedUnixTime (RegulatedUnixTime t) = Ok ?next"
    using Suc.prems(4) by (auto simp: res_simps NextRegulated_Ok)
  let ?pt = "\<lparr>cp_Bias = locksPower L ?ti, cp_Slope = locksSlope L ?ti, cp_Timestamp = ?ti,
      cp_Block = cp_Block init + Dec_TruncateInt S (bs * i64_of_u64 (u64_sub ?ti (cp_Timestamp init)))\<rparr>"
  have step: "(if ?ti = now then Ok (?pt\<lparr>cp_Block := BlockHeight ctx\<rparr>, epoch + 1, s)
      else regulateLoop S ctx now init bs rounds ?ti ?ti ?pt (epoch + 1) (SetCheckpoint (epoch + 1) ?pt s)) = Ok (p', epoch', s')"
    using Suc.prems(4,5) next_ok nn r by (auto simp: Let_def split: if_splits)
  show ?case
  proof (cases "?ti = now")
    case True
    with step show ?thesis by (auto simp: line_def)
  next
    case False
    then have eq: "?ti = ?next" "?next \<le> now" by (auto split: if_splits)
    have l: "line L ?pt ?ti" by (simp add: line_def)
    have sch: "scheduled L (SetCheckpoint (epoch + 1) ?pt s) ?ti"
      using scheduled_mono [OF Suc.prems(2) ti(1)] by (simp add: scheduled_def GetSlopeChange_def SetCheckpoint_def)
    have reg: "RegulatedUnixTime ?ti = ?ti" using eq(1) by (simp add: RegulatedUnixTime_id)
    have "regulateLoop S ctx now init bs rounds (RegulatedUnixTime ?ti) ?ti ?pt (epoch + 1) (SetCheckpoint (epoch + 1) ?pt s) = Ok (p', epoch', s')"
      unfolding reg using step False by simp
    from Suc.IH [OF l sch _ this] eq Suc.prems(5) show ?thesis
      using same_but_points_set by auto
  qed
qed simp


text \<open>
  What the store says of the locks \<open>L\<close>: the last checkpoint is their line, the schedule is theirs.
\<close>

definition last_time :: "ve_store \<Rightarrow> nat" where
  "last_time s = cp_Timestamp (GetCheckpoint s (GetEpoch s))"

definition tracked :: "(nat, LockedBalance) kv \<Rightarrow> ve_store \<Rightarrow> bool" where
  "tracked L s \<longleftrightarrow> line L (GetCheckpoint s (GetEpoch s)) (last_time s) \<and> scheduled L s (last_time s) \<and>
     (GetEpoch s = 0 \<longrightarrow> L = [])"

lemma addChange_nonneg: "0 \<le> x \<Longrightarrow> 0 \<le> c \<Longrightarrow> addChange x c = x + c"
  by (auto simp: addChange_def)

lemma addChange_nonpos: "c \<le> 0 \<Longrightarrow> addChange x c = x"
  by (simp add: addChange_def)

lemma line_Nil: "line [] p t \<longleftrightarrow> cp_Bias p = 0 \<and> cp_Slope p = 0 \<and> cp_Timestamp p = t"
  by (simp add: line_def locksPower_def locksSlope_def)

lemma scheduled_Nil: "scheduled [] s t \<longleftrightarrow> (\<forall>e > t. GetSlopeChange s e = 0)"
  by (simp add: scheduled_def locksEnding_def)

lemma regulate_line:
  assumes "locks_ok L" "tracked L s" "last_time s \<le> now_of ctx" "now_of ctx < 2 ^ 62" "GetEpoch s < 2 ^ 63"
    and "regulateCheckpoint_changes S ctx sc bc s = Ok s'"
  shows "\<exists>e ps. s' = s\<lparr>ve_points := ps, ve_epoch := Some e\<rparr> \<and> 0 < e \<and> GetEpoch s < e \<and> e \<le> GetEpoch s + 2 \<and>
    (\<exists>p. GetCheckpoint s' e = p \<and> cp_Timestamp p = now_of ctx \<and>
       cp_Bias p = addChange (locksPower L (now_of ctx)) bc \<and> cp_Slope p = addChange (locksSlope L (now_of ctx)) sc)"
proof -
  let ?now = "now_of ctx"
  let ?p = "if GetEpoch s > 0 then GetCheckpoint s (GetEpoch s)
     else \<lparr>cp_Bias = 0, cp_Slope = 0, cp_Timestamp = ?now, cp_Block = BlockHeight ctx\<rparr>"
  let ?t = "cp_Timestamp ?p"
  from assms(6) obtain bs p1 e s1 where
      loop: "regulateLoop S ctx ?now ?p bs 2 (RegulatedUnixTime ?t) ?t ?p (GetEpoch s) s = Ok (p1, e, s1)"
    and s': "s' = SetCheckpoint e (p1\<lparr>cp_Bias := addChange (cp_Bias p1) bc, cp_Slope := addChange (cp_Slope p1) sc\<rparr>) (SetEpoch e s1)"
    unfolding regulateCheckpoint_changes_def Let_def by (auto simp: res_simps)
  have pre: "line L ?p ?t" "scheduled L s ?t" "?t \<le> ?now"
    using assms(2,3) scheduled_mono [of "[]" s "last_time s" ?now]
    by (auto simp: tracked_def last_time_def line_def locksPower_def locksSlope_def)
  have "GetEpoch s + 2 < u64_mod" using assms(5) by (simp add: u64_mod_def)
  from regulateLoop_line [OF assms(1) pre assms(4) loop this]
  have r: "line L p1 ?now" "same_but_points s s1" "GetEpoch s < e" "e \<le> GetEpoch s + 2" by auto
  from r(2) obtain ps where "s1 = s\<lparr>ve_points := ps\<rparr>" by (auto simp: same_but_points_def)
  with s' have "s' = s\<lparr>ve_points := kv_set e (p1\<lparr>cp_Bias := addChange (cp_Bias p1) bc, cp_Slope := addChange (cp_Slope p1) sc\<rparr>) ps, ve_epoch := Some e\<rparr>"
    by (simp add: SetCheckpoint_def SetEpoch_def)
  with r(1,3,4) show ?thesis by (auto simp: GetCheckpoint_def line_def)
qed

section \<open>Changing one lock\<close>

lemma lockPoint_power:
  assumes "lock_ok l" "now < 2 ^ 62"
  shows "cp_Bias (lockPoint now l) = lockPower now l" "cp_Slope (lockPoint now l) = activeSlope now l"
  using assms
  by (auto simp: lockPoint_def lockPower_def activeSlope_def lockSlope_def lock_ok_def i64_of_diff ZeroCheckpoint_def Let_def)

text \<open>The lock of a token grows: more is locked, or the same until a later time.\<close>

definition lock_grows :: "nat \<Rightarrow> LockedBalance \<Rightarrow> LockedBalance \<Rightarrow> bool" where
  "lock_grows now old new \<longleftrightarrow> activeSlope now old \<le> activeSlope now new \<and> lockPower now old \<le> lockPower now new \<and>
     (lb_End old > now \<longrightarrow> lb_End old \<le> lb_End new)"

lemma schedule_slopes:
  assumes "lb_End new > now \<and> lb_End old > now \<longrightarrow> lb_End old \<le> lb_End new" "now < e"
  shows "GetSlopeChange (scheduleSlopes now old new (activeSlope now old) (activeSlope now new) s) e =
     GetSlopeChange s e + endSlope e old - endSlope e new"
  using assms
  by (auto simp: scheduleSlopes_def Let_def SetSlopeChange_def GetSlopeChange_def activeSlope_def endSlope_def)

lemma scheduleSlopes_frame:
  "\<exists>c. scheduleSlopes now old new a b s = s\<lparr>ve_slope_changes := c\<rparr>"
  by (auto simp: scheduleSlopes_def Let_def SetSlopeChange_def intro: exI [of _ "ve_slope_changes s"])

text \<open>The sums after replacing or removing one lock.\<close>

definition old_lock :: "(nat, LockedBalance) kv \<Rightarrow> nat \<Rightarrow> LockedBalance" where
  "old_lock L i = (case kv_get L i of None \<Rightarrow> NewLockedBalance | Some l \<Rightarrow> l)"

lemma zero_lock [simp]:
  "lockPower t NewLockedBalance = 0" "activeSlope t NewLockedBalance = 0" "endSlope e NewLockedBalance = 0"
  "lock_ok NewLockedBalance"
  by (simp_all add: lockPower_def activeSlope_def endSlope_def lockSlope_def NewLockedBalance_def lock_ok_def)

lemma old_lock_ok: "locks_ok L \<Longrightarrow> lock_ok (old_lock L i)"
  by (auto simp: old_lock_def locks_ok_def kv_get_mem split: option.splits)

lemma kv_sum_replace:
  assumes "kv_wf L" "g NewLockedBalance = 0"
  shows "kv_sum (\<lambda>_. g) (kv_set i new L) = kv_sum (\<lambda>_. g) L - g (old_lock L i) + g new"
    and "kv_sum (\<lambda>_. g) (kv_delete i L) = kv_sum (\<lambda>_. g) L - g (old_lock L i)"
  using assms by (simp_all add: kv_sum_set kv_sum_delete kv_at_def old_lock_def split: option.split)

lemma locks_ok_set: "locks_ok L \<Longrightarrow> lock_ok l \<Longrightarrow> locks_ok (kv_set i l L)"
  using kvs.entries_put [of L i l] by (auto simp: locks_ok_def)

lemma locks_ok_delete: "locks_ok L \<Longrightarrow> locks_ok (kv_delete i L)"
  by (auto simp: locks_ok_def kv_delete_def kv_wf_delete [unfolded kv_delete_def])

text \<open>The locks after the lock of a token has become \<open>new\<close>; no lock at all when it is the empty one.\<close>

definition with_lock :: "nat \<Rightarrow> LockedBalance \<Rightarrow> (nat, LockedBalance) kv \<Rightarrow> (nat, LockedBalance) kv \<Rightarrow> bool" where
  "with_lock i new L L' \<longleftrightarrow> L' = kv_set i new L \<or> L' = kv_delete i L \<and> new = NewLockedBalance"

lemma with_lock_sums:
  assumes "kv_wf L" "with_lock i new L L'"
  shows "locksPower L' t = locksPower L t - lockPower t (old_lock L i) + lockPower t new"
    and "locksSlope L' t = locksSlope L t - activeSlope t (old_lock L i) + activeSlope t new"
    and "locksEnding L' e = locksEnding L e - endSlope e (old_lock L i) + endSlope e new"
  using assms unfolding with_lock_def locksPower_def locksSlope_def locksEnding_def
  by (auto simp: kv_sum_replace [where g = "lockPower t"] kv_sum_replace [where g = "activeSlope t"]
      kv_sum_replace [where g = "endSlope e"])

text \<open>
  A user's checkpoint keeps the store in step with the locks, provided the lock grows.
\<close>

lemma user_checkpoint_tracks:
  assumes "locks_ok L" "tracked L s" "last_time s \<le> now_of ctx" "now_of ctx < 2 ^ 62" "GetEpoch s < 2 ^ 63"
    and "with_lock i new L L'" "lock_ok new" "lock_grows (now_of ctx) (old_lock L i) new \<or>
       new = NewLockedBalance \<and> lb_End (old_lock L i) \<le> now_of ctx"
    and "RegulateUserCheckpoint S ctx i (old_lock L i) new s = Ok s'"
  shows "tracked L' s' \<and> last_time s' = now_of ctx"
proof -
  let ?now = "now_of ctx" and ?old = "old_lock L i"
  let ?sc = "activeSlope ?now new - activeSlope ?now ?old" and ?bc = "lockPower ?now new - lockPower ?now ?old"
  note ok = old_lock_ok [OF assms(1), of i]
  from assms(9) obtain s1 where reg: "regulateCheckpoint_changes S ctx ?sc ?bc s = Ok s1"
    and s': "\<exists>ue us. s' = (scheduleSlopes ?now ?old new (activeSlope ?now ?old) (activeSlope ?now new) s1)
        \<lparr>ve_user_epochs := ue, ve_user_points := us\<rparr>"
    unfolding RegulateUserCheckpoint_def Let_def
    by (auto simp: res_simps lockPoint_power [OF ok assms(4)] lockPoint_power [OF assms(7,4)] SetUserCheckpoint_def SetUserEpoch_def)
  have nn: "0 \<le> ?sc" "0 \<le> ?bc"
    using assms(8) by (auto simp: lock_grows_def lockPower_def activeSlope_def NewLockedBalance_def)
  from regulate_line [OF assms(1-5) reg] obtain e ps p where
    r: "s1 = s\<lparr>ve_points := ps, ve_epoch := Some e\<rparr>" "0 < e" "GetCheckpoint s1 e = p" "cp_Timestamp p = ?now"
      "cp_Bias p = locksPower L ?now + ?bc" "cp_Slope p = locksSlope L ?now + ?sc"
    using locks_nonneg [OF assms(1), of ?now] nn by (auto simp: addChange_nonneg)
  obtain c where c: "scheduleSlopes ?now ?old new (activeSlope ?now ?old) (activeSlope ?now new) s1 = s1\<lparr>ve_slope_changes := c\<rparr>"
    using scheduleSlopes_frame by blast
  have sum: "cp_Bias p = locksPower L' ?now" "cp_Slope p = locksSlope L' ?now"
    using r(5,6) with_lock_sums [OF _ assms(6)] assms(1) by (simp_all add: locks_ok_def)
  have grow: "lb_End new > ?now \<and> lb_End ?old > ?now \<longrightarrow> lb_End ?old \<le> lb_End new"
    using assms(8) by (auto simp: lock_grows_def NewLockedBalance_def)
  have sch0: "scheduled L s ?now" using assms(2,3) scheduled_mono by (auto simp: tracked_def)
  have sch: "GetSlopeChange (s1\<lparr>ve_slope_changes := c\<rparr>) e' = - locksEnding L' e'" if "?now < e'" for e'
  proof -
    have "GetSlopeChange s1 e' = - locksEnding L e'" using sch0 that by (simp add: scheduled_def GetSlopeChange_def r(1))
    with schedule_slopes [OF grow that, of s1, unfolded c] with_lock_sums(3) [OF _ assms(6), of e'] assms(1) that
    show ?thesis by (simp add: locks_ok_def)
  qed
  from s' c r(1) obtain ue us where s'': "s' = s\<lparr>ve_points := ps, ve_epoch := Some e, ve_slope_changes := c,
      ve_user_epochs := ue, ve_user_points := us\<rparr>" by auto
  have p: "GetCheckpoint s' (GetEpoch s') = p" using r(1,3) by (simp add: s'' GetCheckpoint_def GetEpoch_def)
  show ?thesis
    using p r(2,4) sum sch by (simp add: tracked_def last_time_def line_def scheduled_def s'' GetSlopeChange_def GetEpoch_def r(1))
qed


section \<open>When the regulation panics\<close>

lemma next_regulated:
  "t < 2 ^ 62 \<Longrightarrow> RegulatedPeriod dvd t \<Longrightarrow> NextRegulatedUnixTime t = Ok (t + RegulatedPeriod)"
  by (simp add: NextRegulated_Ok MaxUnixTime_def RegulatedPeriod_eq)

lemma regulateLoop_ends:
  assumes "ti < 2 ^ 62" "RegulatedPeriod dvd ti" "now < 2 ^ 62" "ti \<le> now"
  shows "now \<le> ti + n * RegulatedPeriod \<Longrightarrow> 0 < n \<Longrightarrow> \<exists>r. regulateLoop S ctx now init bs n ti u p e s = Ok r"
    and "ti + n * RegulatedPeriod < now \<Longrightarrow> regulateLoop S ctx now init bs n ti u p e s = Panic"
  using assms
proof (induction n arbitrary: ti u p e s)
  case (Suc n)
  {
    case 1
    show ?case
    proof (cases "now \<le> ti + RegulatedPeriod")
      case True
      with 1 show ?thesis by (auto simp: next_regulated Let_def)
    next
      case False
      with 1 have "0 < n" by (cases n) auto
      with 1 False Suc.IH(1) [of "ti + RegulatedPeriod"] show ?thesis
        by (auto simp: next_regulated Let_def algebra_simps)
    qed
  next
    case 2
    then have "ti + RegulatedPeriod < now" by simp
    with 2 Suc.IH(2) [of "ti + RegulatedPeriod"] show ?case
      by (auto simp: next_regulated Let_def algebra_simps)
  }
qed auto

definition base_time :: "ctx \<Rightarrow> ve_store \<Rightarrow> nat" where
  "base_time ctx s = (if GetEpoch s > 0 then last_time s else now_of ctx)"

lemma regulate_ends:
  assumes "sdk_laws S" "last_time s \<le> now_of ctx" "now_of ctx < 2 ^ 62"
  shows "now_of ctx \<le> RegulatedUnixTime (base_time ctx s) + 2 * RegulatedPeriod \<Longrightarrow>
      \<exists>s'. regulateCheckpoint_changes S ctx a b s = Ok s'"
    and "RegulatedUnixTime (base_time ctx s) + 2 * RegulatedPeriod < now_of ctx \<Longrightarrow>
      regulateCheckpoint_changes S ctx a b s = Panic"
proof -
  let ?now = "now_of ctx" and ?t = "base_time ctx s"
  let ?p = "if GetEpoch s > 0 then GetCheckpoint s (GetEpoch s)
     else \<lparr>cp_Bias = 0, cp_Slope = 0, cp_Timestamp = ?now, cp_Block = BlockHeight ctx\<rparr>"
  have t: "cp_Timestamp ?p = ?t" by (simp add: base_time_def last_time_def)
  have le: "?t \<le> ?now" using assms(2) by (simp add: base_time_def)
  with assms(3) RegulatedUnixTime_le [of ?t] have R: "RegulatedUnixTime ?t < 2 ^ 62" "RegulatedUnixTime ?t \<le> ?now" by auto
  have "\<exists>bs. (if ?t < ?now then Dec_QuoInt S (ToDec (BlockHeight ctx - cp_Block ?p)) (i64_of_u64 (u64_sub ?now ?t)) else Ok 0) = Ok bs"
    using le assms(3) by (auto simp: sdk_laws.QuoInt_sdiv [OF assms(1)] i64_of_diff)
  then obtain bs where "regulateCheckpoint_changes S ctx a b s =
      rbind (regulateLoop S ctx ?now ?p bs 2 (RegulatedUnixTime ?t) ?t ?p (GetEpoch s) s)
        (\<lambda>(point, epoch', s'). Ok (SetCheckpoint epoch'
            (point\<lparr>cp_Bias := addChange (cp_Bias point) b, cp_Slope := addChange (cp_Slope point) a\<rparr>) (SetEpoch epoch' s')))"
    unfolding regulateCheckpoint_changes_def Let_def t by auto
  with regulateLoop_ends [OF R(1) RegulatedUnixTime_dvd assms(3) R(2), of 2 S ctx ?p bs ?t ?p "GetEpoch s" s]
  show "?now \<le> RegulatedUnixTime ?t + 2 * RegulatedPeriod \<Longrightarrow> \<exists>s'. regulateCheckpoint_changes S ctx a b s = Ok s'"
    and "RegulatedUnixTime ?t + 2 * RegulatedPeriod < ?now \<Longrightarrow> regulateCheckpoint_changes S ctx a b s = Panic"
    by (auto simp: split: prod.splits)
qed

section \<open>The power at a later time\<close>

lemma futurePower_line:
  assumes "locks_ok L" "line L p t" "scheduled L s t" "t < u" "u < 2 ^ 62"
  shows "futurePower s u (RegulatedUnixTime t) p = Ok (locksPower L u)"
  using assms(2-4)
proof (induction "u - t" arbitrary: t p rule: less_induct)
  case less
  let ?next = "RegulatedUnixTime t + RegulatedPeriod"
  have nx: "NextRegulatedUnixTime (RegulatedUnixTime t) = Ok ?next"
    using less.prems(3) assms(5) RegulatedUnixTime_le [of t] by (intro next_regulated) auto
  show ?case
  proof (cases "u \<le> ?next")
    case True
    with less.prems assms(5) locksPower_advance [OF assms(1) _ True] show ?thesis
      by (subst futurePower.simps) (simp add: nx line_def i64_of_diff)
  next
    case False
    have lt: "t < ?next" by (rule RegulatedUnixTime_next)
    with False assms(5) have ti: "t \<le> ?next" "?next < 2 ^ 62" by auto
    note r = round_line [OF assms(1) less.prems(1,2) ti, of "GetSlopeChange s ?next"]
    have reg: "RegulatedUnixTime ?next = ?next" by (simp add: RegulatedUnixTime_id)
    let ?p = "p\<lparr>cp_Bias := locksPower L ?next, cp_Slope := locksSlope L ?next, cp_Timestamp := ?next\<rparr>"
    have "futurePower s u (RegulatedUnixTime t) p = futurePower s u (RegulatedUnixTime ?next) ?p"
      unfolding reg using False r less.prems(1) by (subst futurePower.simps) (simp add: nx line_def)
    also have "\<dots> = Ok (locksPower L u)"
      using False lt less.prems(2,3) by (intro less.hyps) (auto simp: line_def scheduled_def)
    finally show ?thesis .
  qed
qed

lemma total_power_future:
  assumes "locks_ok L" "tracked L s" "last_time s < u" "u < 2 ^ 62"
  shows "GetTotalVotingPower ctx s u b = Ok (locksPower L u)"
  using futurePower_line [OF assms(1), of "GetCheckpoint s (GetEpoch s)" "last_time s" s u] assms locks_nonneg(1) [OF assms(1), of u]
  by (simp add: GetTotalVotingPower_def tracked_def last_time_def not_below_zero_def Let_def)

text \<open>The user's own checkpoint gives the power of the lock it was made for.\<close>

definition user_tracked :: "nat \<Rightarrow> LockedBalance \<Rightarrow> ve_store \<Rightarrow> bool" where
  "user_tracked i l s \<longleftrightarrow> (let p = GetUserCheckpoint s i (GetUserEpoch s i) in
     cp_Timestamp p \<le> last_time s \<and> cp_Bias p = lockPower (cp_Timestamp p) l \<and>
     cp_Slope p = activeSlope (cp_Timestamp p) l)"

lemma user_power_after:
  assumes "lock_ok l" "user_tracked i l s" "cp_Timestamp (GetUserCheckpoint s i (GetUserEpoch s i)) < u" "u < 2 ^ 62"
  shows "GetVotingPower ctx s i u b = Ok (lockPower u l)"
proof -
  let ?p = "GetUserCheckpoint s i (GetUserEpoch s i)"
  let ?t = "cp_Timestamp ?p"
  have t: "?t < u" "cp_Bias ?p = lockPower ?t l" "cp_Slope ?p = activeSlope ?t l"
    using assms(2,3) by (auto simp: user_tracked_def Let_def)
  have "not_below_zero (lockPower ?t l - activeSlope ?t l * (int u - int ?t)) = lockPower u l"
  proof (cases "lb_End l > u")
    case True
    with t(1) lockPower_nonneg [of l u] assms(1) show ?thesis
      by (simp add: lockPower_def activeSlope_def not_below_zero_def lock_ok_def algebra_simps)
  next
    case False
    have "lockSlope l * (int (lb_End l) - int ?t) - lockSlope l * (int u - int ?t) = lockSlope l * (int (lb_End l) - int u)"
      by (simp add: algebra_simps)
    moreover have "\<dots> \<le> 0" using False assms(1) lockSlope_nonneg [of l] by (intro mult_nonneg_nonpos) (auto simp: lock_ok_def)
    ultimately have "not_below_zero (lockSlope l * (int (lb_End l) - int ?t) - lockSlope l * (int u - int ?t)) = 0"
      by (simp add: not_below_zero_def)
    with False t(1) show ?thesis by (auto simp: lockPower_def activeSlope_def not_below_zero_def)
  qed
  with t assms(4) show ?thesis
    by (simp add: GetVotingPower_def Let_def i64_of_diff)
qed

lemma user_power_future:
  "lock_ok l \<Longrightarrow> user_tracked i l s \<Longrightarrow> last_time s < u \<Longrightarrow> u < 2 ^ 62 \<Longrightarrow> GetVotingPower ctx s i u b = Ok (lockPower u l)"
  by (rule user_power_after) (auto simp: user_tracked_def Let_def)

end
