(* ===== verification/VeHistory.thy ===== *)
theory VeHistory
  imports VeLine
begin

text \<open>
  The histories of checkpoints: the times in them never decrease, whatever is done, so that the binary
  searches over them, in 64-bit arithmetic, end with the last checkpoint that is not after the time looked
  for; and the voting power from the current time on.
\<close>

section \<open>The search\<close>

definition last_before :: "(nat \<Rightarrow> bool) \<Rightarrow> nat \<Rightarrow> nat \<Rightarrow> bool" where
  "last_before earlier hi e \<longleftrightarrow> e \<le> hi \<and> earlier e \<and> (\<forall>e'. e < e' \<longrightarrow> e' \<le> hi \<longrightarrow> \<not> earlier e')"

lemma last_before_Max: "last_before earlier hi e \<Longrightarrow> e = Max {e. e \<le> hi \<and> earlier e}"
  by (rule Max_eqI [symmetric]) (auto simp: last_before_def intro: leI)

text \<open>One round: below \<open>2 ^ 63\<close> the sum of the bounds does not wrap around.\<close>

lemma searchEpoch_round:
  assumes "lo < hi" "hi < 2 ^ 63"
  shows "searchEpoch earlier lo hi =
    (if earlier ((lo + hi + 1) div 2) then searchEpoch earlier ((lo + hi + 1) div 2) hi
     else searchEpoch earlier lo ((lo + hi + 1) div 2 - 1))"
proof -
  have m: "u64_add (u64_add lo hi) 1 div 2 = (lo + hi + 1) div 2" "u64_sub ((lo + hi + 1) div 2) 1 = (lo + hi + 1) div 2 - 1"
    using assms by (auto simp: u64_mod_def)
  have "(lo \<ge> hi) = False" using assms(1) by simp
  then show ?thesis by (subst searchEpoch.simps) (simp only: m Let_def if_False)
qed

lemma searchEpoch_stop [simp]: "hi \<le> lo \<Longrightarrow> searchEpoch earlier lo hi = Some lo"
  by (subst searchEpoch.simps) simp

text \<open>The search ends, on any history of fewer than \<open>2 ^ 63\<close> checkpoints.\<close>

lemma searchEpoch_total: "hi < 2 ^ 63 \<Longrightarrow> \<exists>e. searchEpoch earlier lo hi = Some e"
proof (induction "hi - lo" arbitrary: lo hi rule: less_induct)
  case less
  show ?case
  proof (cases "lo < hi")
    case True
    then show ?thesis using less by (subst searchEpoch_round) (auto intro!: less.hyps)
  qed (use searchEpoch_stop in auto)
qed

lemma searchEpoch_spec:
  assumes "lo \<le> hi" "hi < 2 ^ 63" "earlier lo" "\<And>a b. a \<le> b \<Longrightarrow> b \<le> hi \<Longrightarrow> earlier b \<Longrightarrow> earlier a"
  shows "\<exists>e. searchEpoch earlier lo hi = Some e \<and> last_before earlier hi e"
  using assms
proof (induction "hi - lo" arbitrary: lo hi rule: less_induct)
  case less
  let ?mid = "(lo + hi + 1) div 2"
  show ?case
  proof (cases "lo < hi")
    case False
    with less.prems show ?thesis by (auto simp: last_before_def)
  next
    case True
    then have mid: "lo < ?mid" "?mid \<le> hi" by auto
    show ?thesis
    proof (cases "earlier ?mid")
      case e: True
      with less.hyps [of hi ?mid, OF _ mid(2) less.prems(2) e less.prems(4)] True mid less.prems(2) show ?thesis
        by (simp add: searchEpoch_round)
    next
      case nb: False
      have after: "\<not> earlier e" if "?mid \<le> e" "e \<le> hi" for e using less.prems(4) [OF that] nb by blast
      have "\<exists>e. searchEpoch earlier lo (?mid - 1) = Some e \<and> last_before earlier (?mid - 1) e"
        using mid less.prems by (intro less.hyps) auto
      then obtain e where e: "searchEpoch earlier lo (?mid - 1) = Some e" "last_before earlier (?mid - 1) e" by blast
      have "last_before earlier hi e"
        unfolding last_before_def
      proof (intro conjI allI impI)
        show "e \<le> hi" "earlier e" using e(2) mid by (auto simp: last_before_def)
        fix e' assume "e < e'" "e' \<le> hi"
        with e(2) after [of e'] show "\<not> earlier e'" by (cases "?mid \<le> e'") (auto simp: last_before_def)
      qed
      with e(1) True nb less.prems(2) show ?thesis by (auto simp: searchEpoch_round)
    qed
  qed
qed

text \<open>Without that bound it need not end: the bounds of all numbers of 64 bits give the middle zero.\<close>

lemma searchEpoch_wraps:
  assumes "earlier 0"
  shows "searchEpoch earlier 0 (2 ^ 64 - 1) = None"
proof (rule ccontr)
  assume "searchEpoch earlier 0 (2 ^ 64 - 1) \<noteq> None"
  then obtain e where e: "searchEpoch earlier 0 (2 ^ 64 - 1) = Some e" by blast
  have "\<not> (0 = (0::nat) \<and> 2 ^ 64 - 1 = (2 ^ 64 - 1 :: nat) \<and> earlier 0)"
    by (rule searchEpoch.raw_induct [OF _ e, of "\<lambda>f lo hi e. \<not> (lo = 0 \<and> hi = 2 ^ 64 - 1 \<and> f 0)"])
       (auto simp: u64_add_def u64_mod_def split: if_splits, metis less_irrefl)
  with assms show False by simp
qed

section \<open>Histories\<close>

text \<open>The times of the checkpoints up to \<open>n\<close>, the first of them at time zero.\<close>

definition times_ok :: "(nat \<Rightarrow> Checkpoint) \<Rightarrow> nat \<Rightarrow> bool" where
  "times_ok P n \<longleftrightarrow> cp_Timestamp (P 0) = 0 \<and>
     (\<forall>a b. a \<le> b \<longrightarrow> b \<le> n \<longrightarrow> cp_Timestamp (P a) \<le> cp_Timestamp (P b))"

definition history_ok :: "ve_store \<Rightarrow> bool" where
  "history_ok s \<longleftrightarrow> times_ok (GetCheckpoint s) (GetEpoch s) \<and>
     (\<forall>i. times_ok (GetUserCheckpoint s i) (GetUserEpoch s i) \<and> GetUserEpoch s i \<le> GetEpoch s \<and>
        cp_Timestamp (GetUserCheckpoint s i (GetUserEpoch s i)) \<le> last_time s)"

text \<open>A history goes on: the old checkpoints stay and the new ones are not before the last of them.\<close>

definition goes_on :: "(nat \<Rightarrow> Checkpoint) \<Rightarrow> nat \<Rightarrow> (nat \<Rightarrow> Checkpoint) \<Rightarrow> nat \<Rightarrow> bool" where
  "goes_on P n P' n' \<longleftrightarrow> n \<le> n' \<and> (\<forall>e \<le> n. P' e = P e) \<and>
     (\<forall>a b. n \<le> a \<longrightarrow> a \<le> b \<longrightarrow> b \<le> n' \<longrightarrow> cp_Timestamp (P' a) \<le> cp_Timestamp (P' b))"

lemma goes_on_times:
  assumes "goes_on P n P' n'" "times_ok P n"
  shows "times_ok P' n'"
  unfolding times_ok_def
proof (intro conjI allI impI)
  show "cp_Timestamp (P' 0) = 0" using assms by (simp add: goes_on_def times_ok_def)
  fix a b assume ab: "a \<le> b" "b \<le> n'"
  consider "b \<le> n" | "a \<le> n" "n \<le> b" | "n \<le> a" by linarith
  then show "cp_Timestamp (P' a) \<le> cp_Timestamp (P' b)"
  proof cases
    case 1
    with assms ab show ?thesis by (auto simp: goes_on_def times_ok_def)
  next
    case 2
    have "cp_Timestamp (P' a) \<le> cp_Timestamp (P' n)" using assms 2(1) by (auto simp: goes_on_def times_ok_def)
    also have "\<dots> \<le> cp_Timestamp (P' b)" using assms(1) 2(2) ab by (auto simp: goes_on_def)
    finally show ?thesis .
  next
    case 3
    with assms(1) ab show ?thesis by (auto simp: goes_on_def)
  qed
qed

lemma goes_on_next:
  "P' n = P n \<Longrightarrow> (\<forall>e < n. P' e = P e) \<Longrightarrow> cp_Timestamp (P n) \<le> cp_Timestamp (P' (n + 1)) \<Longrightarrow> goes_on P n P' (n + 1)"
  unfolding goes_on_def by (auto simp: le_Suc_eq order.order_iff_strict)

lemma goes_on_trans:
  assumes "goes_on P n Q m" "goes_on Q m R k"
  shows "goes_on P n R k"
proof -
  have "cp_Timestamp (R a) \<le> cp_Timestamp (R b)" if ab: "n \<le> a" "a \<le> b" "b \<le> k" for a b
  proof -
    consider "b \<le> m" | "a \<le> m" "m \<le> b" | "m \<le> a" by linarith
    then show ?thesis
    proof cases
      case 1
      with assms ab show ?thesis by (auto simp: goes_on_def)
    next
      case 2
      have "cp_Timestamp (R a) \<le> cp_Timestamp (R m)" using assms 2(1) ab(1) by (auto simp: goes_on_def)
      also have "\<dots> \<le> cp_Timestamp (R b)" using assms(2) 2(2) ab by (auto simp: goes_on_def)
      finally show ?thesis .
    next
      case 3
      with assms(2) ab show ?thesis by (auto simp: goes_on_def)
    qed
  qed
  with assms show ?thesis by (auto simp: goes_on_def)
qed

text \<open>The loop over the regulated times; the point it returns is for the epoch it returns.\<close>

lemma regulateLoop_round:
  assumes "NextRegulatedUnixTime ti0 = Ok nx" "ti = (if nx > now then now else nx)"
  shows "\<exists>pt. cp_Timestamp pt = ti \<and> regulateLoop S ctx now init bs (Suc rounds) ti0 t p epoch s =
    (if ti = now then Ok (pt\<lparr>cp_Block := BlockHeight ctx\<rparr>, u64_add epoch 1, s)
     else regulateLoop S ctx now init bs rounds ti ti pt (u64_add epoch 1) (SetCheckpoint (u64_add epoch 1) pt s))"
proof -
  obtain sc where "(if nx > now then (now, 0) else (nx, GetSlopeChange s nx)) = (ti, sc)"
    using assms(2) by (cases "nx > now") auto
  then show ?thesis
    unfolding regulateLoop.simps assms(1) rbind.simps Let_def
    by (simp only: prod.case) (rule exI, rule conjI [rotated], rule refl, simp)
qed

lemma regulateLoop_points:
  "regulateLoop S ctx now init bs rounds ti t p epoch s = Ok (p', epoch', s') \<Longrightarrow> same_but_points s s'"
proof (induction rounds arbitrary: ti t p epoch s)
  case (Suc rounds)
  from Suc.prems show ?case
    by (auto simp: res_simps Let_def split: if_splits dest!: Suc.IH intro: same_but_points_set)
qed simp

lemma regulateLoop_history:
  assumes "regulateLoop S ctx now init bs rounds ti t p epoch s = Ok (p', epoch', s')"
    and "epoch + rounds < u64_mod" "cp_Timestamp (GetCheckpoint s epoch) \<le> t" "t \<le> now" "t < ti + RegulatedPeriod"
  shows "epoch < epoch' \<and> cp_Timestamp p' = now \<and> goes_on (GetCheckpoint s) epoch (GetCheckpoint s') (epoch' - 1) \<and>
     cp_Timestamp (GetCheckpoint s' (epoch' - 1)) \<le> now"
  using assms
proof (induction rounds arbitrary: ti t p epoch s)
  case (Suc rounds)
  obtain nx where nx: "NextRegulatedUnixTime ti = Ok nx" "nx = ti + RegulatedPeriod"
    using Suc.prems(1) by (auto simp: res_simps NextRegulated_Ok)
  have ep: "u64_add epoch 1 = epoch + 1" using Suc.prems(2) by simp
  define tt where "tt = (if nx > now then now else nx)"
  obtain q where q0: "cp_Timestamp q = tt" "(if tt = now then Ok (q\<lparr>cp_Block := BlockHeight ctx\<rparr>, epoch + 1, s)
     else regulateLoop S ctx now init bs rounds tt tt q (epoch + 1) (SetCheckpoint (epoch + 1) q s)) = Ok (p', epoch', s')"
    using regulateLoop_round [OF nx(1) tt_def, of S ctx init bs rounds t p epoch s] Suc.prems(1) unfolding ep by metis
  show ?case
  proof (cases "tt = now")
    case True
    with q0 have "epoch' = epoch + 1" "s' = s" "cp_Timestamp p' = now" by auto
    with Suc.prems(3,4) show ?thesis by (auto simp: goes_on_def dest: antisym)
  next
    case False
    then have lt: "nx < now" "tt = nx" by (auto simp: tt_def split: if_splits)
    have q: "cp_Timestamp q = nx"
      "regulateLoop S ctx now init bs rounds nx nx q (epoch + 1) (SetCheckpoint (epoch + 1) q s) = Ok (p', epoch', s')"
      using q0 lt by auto
    let ?s = "SetCheckpoint (epoch + 1) q s"
    have get: "GetCheckpoint ?s (epoch + 1) = q" "e \<le> epoch \<Longrightarrow> GetCheckpoint ?s e = GetCheckpoint s e" for e
      by (simp_all add: GetCheckpoint_def SetCheckpoint_def)
    have ih: "epoch + 1 < epoch'" "cp_Timestamp p' = now" "goes_on (GetCheckpoint ?s) (epoch + 1) (GetCheckpoint s') (epoch' - 1)"
      "cp_Timestamp (GetCheckpoint s' (epoch' - 1)) \<le> now"
      using Suc.IH [OF q(2)] Suc.prems(2) get(1) q(1) lt(1) by (auto simp: RegulatedPeriod_eq)
    have old: "GetCheckpoint s' e = GetCheckpoint s e" if "e \<le> epoch" for e using ih(3) get(2) that by (simp add: goes_on_def)
    have first: "cp_Timestamp (GetCheckpoint s' epoch) \<le> cp_Timestamp (GetCheckpoint s' (epoch + 1))"
      using ih(3) get(1) q(1) old [of epoch] Suc.prems(3,5) nx(2) by (simp add: goes_on_def)
    have "cp_Timestamp (GetCheckpoint s' a) \<le> cp_Timestamp (GetCheckpoint s' b)" if "epoch \<le> a" "a \<le> b" "b \<le> epoch' - 1" for a b
    proof -
      have m: "cp_Timestamp (GetCheckpoint s' x) \<le> cp_Timestamp (GetCheckpoint s' b)" if "epoch + 1 \<le> x" "x \<le> b" for x
        using ih(3) that \<open>b \<le> epoch' - 1\<close> by (simp add: goes_on_def)
      show ?thesis
      proof (cases "a = epoch")
        case True
        with m [of "epoch + 1"] first that(2) show ?thesis by (cases "b = epoch") auto
      next
        case False
        with m [of a] that show ?thesis by simp
      qed
    qed
    with ih old show ?thesis by (auto simp: goes_on_def)
  qed
qed simp

lemma regulate_history:
  assumes "regulateCheckpoint_changes S ctx a b s = Ok s'" "last_time s \<le> now_of ctx" "GetEpoch s < 2 ^ 63"
  shows "GetEpoch s < GetEpoch s' \<and> goes_on (GetCheckpoint s) (GetEpoch s) (GetCheckpoint s') (GetEpoch s') \<and>
    last_time s' = now_of ctx \<and> ve_user_epochs s' = ve_user_epochs s \<and> ve_user_points s' = ve_user_points s"
proof -
  let ?now = "now_of ctx"
  let ?p = "if GetEpoch s > 0 then GetCheckpoint s (GetEpoch s)
     else \<lparr>cp_Bias = 0, cp_Slope = 0, cp_Timestamp = ?now, cp_Block = BlockHeight ctx\<rparr>"
  let ?t = "cp_Timestamp ?p"
  from assms(1) obtain bs p1 e s1 where
      loop: "regulateLoop S ctx ?now ?p bs 2 (RegulatedUnixTime ?t) ?t ?p (GetEpoch s) s = Ok (p1, e, s1)"
    and s': "s' = SetCheckpoint e (p1\<lparr>cp_Bias := addChange (cp_Bias p1) b, cp_Slope := addChange (cp_Slope p1) a\<rparr>) (SetEpoch e s1)"
    unfolding regulateCheckpoint_changes_def Let_def by (auto simp: res_simps)
  have "GetEpoch s + 2 < u64_mod" using assms(3) by (simp add: u64_mod_def)
  with regulateLoop_history [OF loop] assms(2) RegulatedUnixTime_next [of ?t]
  have h: "GetEpoch s < e" "cp_Timestamp p1 = ?now" "goes_on (GetCheckpoint s) (GetEpoch s) (GetCheckpoint s1) (e - 1)"
    "cp_Timestamp (GetCheckpoint s1 (e - 1)) \<le> ?now"
    by (auto simp: last_time_def split: if_splits)
  have get: "cp_Timestamp (GetCheckpoint s' e) = ?now" "x < e \<Longrightarrow> GetCheckpoint s' x = GetCheckpoint s1 x" "GetEpoch s' = e" for x
    using h(2) by (simp_all add: s' GetCheckpoint_def SetCheckpoint_def GetEpoch_def SetEpoch_def)
  have "goes_on (GetCheckpoint s1) (e - 1) (GetCheckpoint s') (e - 1 + 1)"
    using h(1,4) get by (intro goes_on_next) auto
  then have "goes_on (GetCheckpoint s1) (e - 1) (GetCheckpoint s') e" using h(1) by simp
  with h(1,3) have "goes_on (GetCheckpoint s) (GetEpoch s) (GetCheckpoint s') e" by (auto intro: goes_on_trans)
  moreover have "ve_user_epochs s' = ve_user_epochs s \<and> ve_user_points s' = ve_user_points s"
    using regulateLoop_points [OF loop] by (auto simp: same_but_points_def s' SetCheckpoint_def SetEpoch_def)
  ultimately show ?thesis using h(1) get by (simp add: last_time_def)
qed

lemma history_regulate:
  assumes "regulateCheckpoint_changes S ctx a b s = Ok s'" "last_time s \<le> now_of ctx" "GetEpoch s < 2 ^ 63" "history_ok s"
  shows "history_ok s'"
proof -
  note h = regulate_history [OF assms(1-3)]
  have u: "GetUserCheckpoint s' i = GetUserCheckpoint s i" "GetUserEpoch s' i = GetUserEpoch s i" for i
    using h by (auto simp: GetUserCheckpoint_def GetUserEpoch_def)
  have "times_ok (GetCheckpoint s') (GetEpoch s')" using h assms(4) goes_on_times by (auto simp: history_ok_def)
  moreover have "GetUserEpoch s i \<le> GetEpoch s'" "cp_Timestamp (GetUserCheckpoint s i (GetUserEpoch s i)) \<le> last_time s'" for i
    using h assms(2,4) by (auto simp: history_ok_def intro: order_trans less_imp_le)
  ultimately show ?thesis using assms(4) by (simp add: history_ok_def u)
qed

lemma history_user:
  assumes "RegulateUserCheckpoint S ctx i old new s = Ok s'" "last_time s \<le> now_of ctx" "GetEpoch s < 2 ^ 63" "history_ok s"
  shows "history_ok s'"
proof -
  let ?now = "now_of ctx"
  from assms(1) obtain s1 a b sl ue where reg: "regulateCheckpoint_changes S ctx a b s = Ok s1"
    and ue0: "ue = u64_add (GetUserEpoch (scheduleSlopes ?now old new (cp_Slope (lockPoint ?now old)) sl s1) i) 1"
    and s': "s' = SetUserCheckpoint i ue ((lockPoint ?now new)\<lparr>cp_Timestamp := ?now, cp_Block := BlockHeight ctx\<rparr>)
        (SetUserEpoch i ue (scheduleSlopes ?now old new (cp_Slope (lockPoint ?now old)) sl s1))"
    unfolding RegulateUserCheckpoint_def res_inv by blast
  note r = regulate_history [OF reg assms(2,3)] and ok = history_regulate [OF reg assms(2-4)]
  obtain c where c: "scheduleSlopes ?now old new (cp_Slope (lockPoint ?now old)) sl s1 = s1\<lparr>ve_slope_changes := c\<rparr>"
    using scheduleSlopes_frame by blast
  have same: "GetUserEpoch s1 i = GetUserEpoch s i" "GetUserEpoch (s1\<lparr>ve_slope_changes := c\<rparr>) i = GetUserEpoch s i"
    using r by (simp_all add: GetUserEpoch_def)
  have le: "GetUserEpoch s i \<le> GetEpoch s" using assms(4) by (simp add: history_ok_def)
  with assms(3) have "u64_add (GetUserEpoch s i) 1 = GetUserEpoch s i + 1" by (simp add: u64_add_def u64_mod_def)
  with ue0 c same le r have ue: "ue = GetUserEpoch s1 i + 1" "ue \<le> GetEpoch s1" by auto
  have sys: "GetCheckpoint s' = GetCheckpoint s1" "GetEpoch s' = GetEpoch s1" "last_time s' = last_time s1"
    by (simp_all add: s' c fun_eq_iff GetCheckpoint_def GetEpoch_def SetUserCheckpoint_def SetUserEpoch_def last_time_def)
  have other: "GetUserCheckpoint s' j = GetUserCheckpoint s1 j" "GetUserEpoch s' j = GetUserEpoch s1 j" if "j \<noteq> i" for j
    using that by (simp_all add: s' c fun_eq_iff GetUserCheckpoint_def GetUserEpoch_def SetUserCheckpoint_def SetUserEpoch_def)
  have own: "GetUserEpoch s' i = ue" "cp_Timestamp (GetUserCheckpoint s' i ue) = ?now"
    "e \<noteq> ue \<Longrightarrow> GetUserCheckpoint s' i e = GetUserCheckpoint s1 i e" for e
    by (simp_all add: s' c GetUserCheckpoint_def GetUserEpoch_def SetUserCheckpoint_def SetUserEpoch_def)
  have "goes_on (GetUserCheckpoint s1 i) (GetUserEpoch s1 i) (GetUserCheckpoint s' i) (GetUserEpoch s1 i + 1)"
    using own ue(1) ok r by (intro goes_on_next) (auto simp: history_ok_def)
  with ok have "times_ok (GetUserCheckpoint s' i) ue" using goes_on_times by (auto simp: history_ok_def ue(1))
  with ok sys other own ue(2) r show ?thesis
    unfolding history_ok_def by (metis order_refl)
qed

text \<open>The search over a history of the store.\<close>

definition epochs_of :: "ve_store \<Rightarrow> nat \<Rightarrow> nat" where
  "epochs_of s veID = (if veID = EmptyVeID then GetEpoch s else GetUserEpoch s veID)"

lemma findTimeEpoch_history:
  assumes "history_ok s" "GetEpoch s < 2 ^ 63"
  shows "\<exists>e. findTimeEpoch s veID t (epochs_of s veID) = Some e \<and>
    last_before (\<lambda>e. cp_Timestamp (pointOf s veID e) \<le> t) (epochs_of s veID) e"
proof -
  have t: "times_ok (pointOf s veID) (epochs_of s veID)" "epochs_of s veID < 2 ^ 63"
    using assms by (auto simp: history_ok_def pointOf_def epochs_of_def fun_eq_iff times_ok_def intro: le_less_trans)
  show ?thesis unfolding findTimeEpoch_def
    using t by (intro searchEpoch_spec) (auto simp: times_ok_def intro: order_trans)
qed

text \<open>The power of a token from the time of the last checkpoint on.\<close>

lemma user_power_now:
  assumes "lock_ok l" "user_tracked i l s" "history_ok s" "GetEpoch s < 2 ^ 63" "i \<noteq> EmptyVeID" "last_time s \<le> u" "0 < u" "u < 2 ^ 62"
  shows "GetVotingPower ctx s i u b = Ok (lockPower u l)"
proof (cases "u \<le> cp_Timestamp (GetUserCheckpoint s i (GetUserEpoch s i))")
  case False
  then show ?thesis using user_power_after [OF assms(1,2) _ assms(8)] by simp
next
  case True
  let ?p = "GetUserCheckpoint s i (GetUserEpoch s i)"
  have t0: "cp_Timestamp ?p = u" using True assms(2,6) by (auto simp: user_tracked_def Let_def)
  moreover have "cp_Bias ?p = lockPower (cp_Timestamp ?p) l" using assms(2) by (simp add: user_tracked_def Let_def)
  ultimately have t: "cp_Timestamp ?p = u" "cp_Bias ?p = lockPower u l" by simp_all
  obtain e where e: "findTimeEpoch s i u (GetUserEpoch s i) = Some e"
    "last_before (\<lambda>e. cp_Timestamp (GetUserCheckpoint s i e) \<le> u) (GetUserEpoch s i) e"
    using findTimeEpoch_history [OF assms(3,4), of i u] assms(5) by (auto simp: epochs_of_def pointOf_def)
  have "\<not> e < GetUserEpoch s i" using e(2) t(1) by (auto simp: last_before_def)
  with e(2) have "e = GetUserEpoch s i" by (simp add: last_before_def)
  with e(1) t assms(1,7) i64_of_diff [OF order_refl assms(8)] lockPower_nonneg [of l u] show ?thesis
    by (simp add: GetVotingPower_def Let_def not_below_zero_def lock_ok_def)
qed

end
