(* ===== verification/VeReach.thy ===== *)
theory VeReach
  imports VeHistory
begin

text \<open>
  The ve module as a transition system: every message with its stateless checks, the slashing of a lock
  by the staking module, transfers of tokens, the calls of the other modules and the end of a block.  The
  invariant ties the locks to the tokens, to the coins the module holds and to the checkpoints.
\<close>

section \<open>What a user's checkpoint changes\<close>

lemma u64_add_le: "u64_add a b \<le> a + b"
  by (simp add: u64_add_def)

lemma regulateLoop_frame:
  "regulateLoop S ctx now init bs rounds ti t p epoch s = Ok (p', epoch', s') \<Longrightarrow>
   cp_Timestamp p' = now \<and> same_but_points s s' \<and> epoch' \<le> epoch + rounds"
proof (induction rounds arbitrary: ti t p epoch s)
  case (Suc rounds)
  from Suc.prems show ?case
    using u64_add_le [of epoch 1]
    by (auto simp: res_simps Let_def split: if_splits dest!: Suc.IH intro: same_but_points_set)
qed simp

lemma regulate_frame:
  assumes "regulateCheckpoint_changes S ctx a b s = Ok s'"
  shows "\<exists>ps e. s' = s\<lparr>ve_points := ps, ve_epoch := Some e\<rparr> \<and> last_time s' = now_of ctx \<and> e \<le> GetEpoch s + 2"
proof -
  from assms obtain init bs ti t p0 p e s1 where
      loop: "regulateLoop S ctx (now_of ctx) init bs 2 ti t p0 (GetEpoch s) s = Ok (p, e, s1)"
    and s': "s' = SetCheckpoint e (p\<lparr>cp_Bias := addChange (cp_Bias p) b, cp_Slope := addChange (cp_Slope p) a\<rparr>) (SetEpoch e s1)"
    unfolding regulateCheckpoint_changes_def res_inv by blast
  from regulateLoop_frame [OF loop] obtain ps where "s1 = s\<lparr>ve_points := ps\<rparr>" "cp_Timestamp p = now_of ctx"
    and e: "e \<le> GetEpoch s + 2"
    by (auto simp: same_but_points_def)
  then have "s' = s\<lparr>ve_points := kv_set e (p\<lparr>cp_Bias := addChange (cp_Bias p) b, cp_Slope := addChange (cp_Slope p) a\<rparr>) ps,
      ve_epoch := Some e\<rparr>" "cp_Timestamp p = now_of ctx"
    using s' by (simp_all add: SetCheckpoint_def SetEpoch_def)
  then show ?thesis
    by (intro exI conjI) (assumption, simp add: last_time_def GetCheckpoint_def GetEpoch_def, rule e)
qed

lemma user_checkpoint_frame:
  assumes "RegulateUserCheckpoint S ctx i old new s = Ok s'"
  shows "\<exists>ps e c ue. s' = s\<lparr>ve_points := ps, ve_epoch := Some e, ve_slope_changes := c,
      ve_user_epochs := kv_set i ue (ve_user_epochs s),
      ve_user_points := kv_set (i, ue) ((lockPoint (now_of ctx) new)\<lparr>cp_Timestamp := now_of ctx, cp_Block := BlockHeight ctx\<rparr>)
        (ve_user_points s)\<rparr> \<and> last_time s' = now_of ctx \<and> e \<le> GetEpoch s + 2"
proof -
  let ?now = "now_of ctx"
  from assms obtain s1 a b sl ue where reg: "regulateCheckpoint_changes S ctx a b s = Ok s1"
    and s': "s' = SetUserCheckpoint i ue ((lockPoint ?now new)\<lparr>cp_Timestamp := ?now, cp_Block := BlockHeight ctx\<rparr>)
        (SetUserEpoch i ue (scheduleSlopes ?now old new (cp_Slope (lockPoint ?now old)) sl s1))"
    unfolding RegulateUserCheckpoint_def res_inv by blast
  from regulate_frame [OF reg] obtain ps e where 1: "s1 = s\<lparr>ve_points := ps, ve_epoch := Some e\<rparr>" "last_time s1 = ?now" "e \<le> GetEpoch s + 2"
    by auto
  obtain c where "scheduleSlopes ?now old new (cp_Slope (lockPoint ?now old)) sl s1 = s1\<lparr>ve_slope_changes := c\<rparr>"
    using scheduleSlopes_frame by blast
  with s' 1 show ?thesis
    by (auto simp: SetUserCheckpoint_def SetUserEpoch_def last_time_def GetCheckpoint_def GetEpoch_def)
qed

lemma user_tracked_new:
  assumes "RegulateUserCheckpoint S ctx i old new s = Ok s'" "lock_ok new" "now_of ctx < 2 ^ 62"
  shows "user_tracked i new s'"
proof -
  from user_checkpoint_frame [OF assms(1)] obtain ue where
    "GetUserEpoch s' i = ue" "GetUserCheckpoint s' i ue = (lockPoint (now_of ctx) new)\<lparr>cp_Timestamp := now_of ctx, cp_Block := BlockHeight ctx\<rparr>"
    "last_time s' = now_of ctx"
    by (auto simp: GetUserEpoch_def GetUserCheckpoint_def)
  with lockPoint_power [OF assms(2,3)] show ?thesis by (simp add: user_tracked_def)
qed

lemma user_tracked_other:
  assumes "RegulateUserCheckpoint S ctx i old new s = Ok s'" "last_time s \<le> now_of ctx" "j \<noteq> i" "user_tracked j l s"
  shows "user_tracked j l s'"
proof -
  from user_checkpoint_frame [OF assms(1)] assms(3) have
    "GetUserEpoch s' j = GetUserEpoch s j" "GetUserCheckpoint s' j e = GetUserCheckpoint s j e" "last_time s' = now_of ctx" for e
    by (auto simp: GetUserEpoch_def GetUserCheckpoint_def)
  with assms(2,4) show ?thesis by (auto simp: user_tracked_def Let_def)
qed

section \<open>Invariant\<close>

definition lockedSum :: "ve_store \<Rightarrow> int" where
  "lockedSum s = kv_sum (\<lambda>_. lb_Amount) (ve_locked s)"

definition vbal :: "'b bank \<Rightarrow> ('b, 'n) ve_world \<Rightarrow> int" where
  "vbal B w = bal B (vbk w) (GetModuleAddress B ''ve'') (ve_lock_denom (vst w))"

text \<open>The checkpoints: their times are in order, and \<open>exact\<close> says that the system's line is the sum over the locks.\<close>

definition points_inv :: "bool \<Rightarrow> nat \<Rightarrow> ve_store \<Rightarrow> bool" where
  "points_inv exact now s \<longleftrightarrow> now < 2 ^ 61 \<and> last_time s \<le> now \<and> history_ok s \<and> locks_ok (ve_locked s) \<and>
     (\<forall>(i, l) \<in> set (ve_locked s). user_tracked i l s \<and> lb_End l \<le> now + MaxLockTime) \<and> (exact \<longrightarrow> tracked (ve_locked s) s)"

definition tokens_inv :: "'n nft \<Rightarrow> ('b, 'n) ve_world \<Rightarrow> bool" where
  "tokens_inv N w \<longleftrightarrow> nft_HasClass N (vnf w) VeNftClass \<and>
     0 < GetNextVeID (vst w) \<and> GetNextVeID (vst w) < u64_mod \<and>
     (\<forall>i \<in> fst ` set (ve_locked (vst w)). 0 < i \<and> i < GetNextVeID (vst w)) \<and>
     (\<forall>t. nft_HasNFT N (vnf w) VeNftClass t \<longleftrightarrow> (\<exists>i \<in> fst ` set (ve_locked (vst w)). t = VeIDFromUint64 i))"

definition coins_inv :: "'b bank \<Rightarrow> bool \<Rightarrow> ('b, 'n) ve_world \<Rightarrow> bool" where
  "coins_inv B exact w \<longleftrightarrow> lockedSum (vst w) \<le> vbal B w \<and>
     (if exact then GetTotalLockedAmount (vst w) = lockedSum (vst w)
      else lockedSum (vst w) \<le> GetTotalLockedAmount (vst w))"

definition ve_inv :: "'b bank \<Rightarrow> 'n nft \<Rightarrow> bool \<Rightarrow> ctx \<times> ('b, 'n) ve_world \<Rightarrow> bool" where
  "ve_inv B N exact st \<longleftrightarrow> (case st of (ctx, w) \<Rightarrow>
     points_inv exact (now_of ctx) (vst w) \<and> tokens_inv N w \<and> coins_inv B exact w)"

lemma NewLockedBalance_simps [simp]: "lb_Amount NewLockedBalance = 0" "lb_End NewLockedBalance = 0"
  by (simp_all add: NewLockedBalance_def)

lemma old_lock_GetLocked: "GetLockedAmountByUser s i = old_lock (ve_locked s) i"
  by (simp add: GetLockedAmountByUser_def old_lock_def)

lemma lockedSum_replace:
  "kv_wf (ve_locked s) \<Longrightarrow> with_lock i new (ve_locked s) L' \<Longrightarrow>
   kv_sum (\<lambda>_. lb_Amount) L' = lockedSum s - lb_Amount (old_lock (ve_locked s) i) + lb_Amount new"
  unfolding with_lock_def lockedSum_def
  by (auto simp: kv_sum_replace [where g = lb_Amount] NewLockedBalance_def)

lemma history_ok_frame [simp]:
  "history_ok (s\<lparr>ve_locked := L\<rparr>) = history_ok s" "history_ok (s\<lparr>ve_total_locked := tot\<rparr>) = history_ok s"
  "history_ok (s\<lparr>ve_next_id := ni\<rparr>) = history_ok s" "history_ok (s\<lparr>ve_attached := att\<rparr>) = history_ok s"
  "history_ok (s\<lparr>ve_voted := vt\<rparr>) = history_ok s" "history_ok (s\<lparr>ve_total_emission := em\<rparr>) = history_ok s"
  "history_ok (s\<lparr>ve_emission_last := el\<rparr>) = history_ok s"
  by (simp_all add: history_ok_def times_ok_def last_time_def GetCheckpoint_def GetEpoch_def GetUserCheckpoint_def GetUserEpoch_def)

text \<open>
  The common step: the lock of token \<open>i\<close> becomes \<open>new\<close> and its checkpoint is made, on a store that has
  the new locks already.
\<close>

lemma points_step:
  assumes "points_inv exact (now_of ctx) s" "GetEpoch s < 2 ^ 63"
    and "with_lock i new (ve_locked s) L'" "lock_ok new" "lb_End new \<le> now_of ctx + MaxLockTime"
    and "exact \<longrightarrow> lock_grows (now_of ctx) (old_lock (ve_locked s) i) new \<or>
       new = NewLockedBalance \<and> lb_End (old_lock (ve_locked s) i) \<le> now_of ctx"
    and "RegulateUserCheckpoint S ctx i (old_lock (ve_locked s) i) new
       (s\<lparr>ve_locked := L', ve_total_locked := tot, ve_next_id := ni\<rparr>) = Ok s'"
  shows "points_inv exact (now_of ctx) s' \<and> ve_locked s' = L' \<and> ve_total_locked s' = tot \<and> ve_next_id s' = ni \<and>
     ve_lock_denom s' = ve_lock_denom s"
proof -
  let ?s = "s\<lparr>ve_locked := L', ve_total_locked := tot, ve_next_id := ni\<rparr>" and ?now = "now_of ctx"
  have inv: "?now < 2 ^ 62" "?now < 2 ^ 61" "last_time s \<le> ?now" "locks_ok (ve_locked s)" and hist: "history_ok s"
    and us: "\<forall>(i, l) \<in> set (ve_locked s). user_tracked i l s \<and> lb_End l \<le> ?now + MaxLockTime" and tr: "exact \<longrightarrow> tracked (ve_locked s) s"
    using assms(1) by (auto simp: points_inv_def)
  have same: "GetEpoch ?s = GetEpoch s" "last_time ?s = last_time s" "tracked L ?s = tracked L s" "user_tracked j l ?s = user_tracked j l s" for j l L
    by (simp_all add: GetEpoch_def last_time_def GetCheckpoint_def tracked_def scheduled_def GetSlopeChange_def
        user_tracked_def GetUserCheckpoint_def GetUserEpoch_def)
  from user_checkpoint_frame [OF assms(7)] have fr: "ve_locked s' = L'" "ve_total_locked s' = tot" "ve_next_id s' = ni"
    "ve_lock_denom s' = ve_lock_denom s" "last_time s' = ?now" by auto
  have ok: "locks_ok L'" using assms(3,4) inv(4) locks_ok_set locks_ok_delete by (auto simp: with_lock_def)
  have L': "\<forall>(j, l) \<in> set L'. (j = i \<and> l = new) \<or> (j \<noteq> i \<and> (j, l) \<in> set (ve_locked s))"
    using assms(3) inv(4) kvs.entries_put [of "ve_locked s" i new] by (auto simp: with_lock_def kv_delete_def locks_ok_def)
  have "user_tracked j l s' \<and> lb_End l \<le> ?now + MaxLockTime" if "(j, l) \<in> set L'" for j l
  proof -
    from that L' consider "j = i" "l = new" | "j \<noteq> i" "(j, l) \<in> set (ve_locked s)" by auto
    then show ?thesis
    proof cases
      case 1
      with user_tracked_new [OF assms(7,4) inv(1)] assms(5) show ?thesis by simp
    next
      case 2
      with us have "user_tracked j l ?s" "lb_End l \<le> ?now + MaxLockTime" by (auto simp: same)
      with user_tracked_other [OF assms(7) _ 2(1)] inv(3) show ?thesis by (simp add: same)
    qed
  qed
  moreover have "exact \<longrightarrow> tracked L' s'"
    using user_checkpoint_tracks [OF inv(4), of ?s ctx i new L' S s'] tr assms inv same by auto
  moreover have "history_ok s'"
    using history_user [OF assms(7)] hist inv(3) assms(2) by (simp add: same history_ok_frame)
  ultimately show ?thesis using fr ok inv(2) by (auto simp: points_inv_def)
qed


section \<open>Deposits\<close>

definition signs_ve :: "sdk \<Rightarrow> 'b bank \<Rightarrow> string \<Rightarrow> bool" where
  "signs_ve S B sender \<longleftrightarrow> AccAddressFromBech32 S sender \<noteq> Some (GetModuleAddress B ''ve'')"

context chain_laws
begin

lemma NewCoins_single: "NewCoins S [c] = Ok cs \<Longrightarrow> cs_amt cs (Denom c) = Amount c"
  using NewCoins_amt [of "[c]" cs "Denom c"] by (simp add: cs_amt_def)

lemma veTakeCoins_effect:
  assumes "veTakeCoins S B sender amount w = Ok w1" "sender \<noteq> GetModuleAddress B ''ve''"
  shows "\<exists>b. w1 = w\<lparr>vbk := b\<rparr>" "vbal B w1 = vbal B w + amount"
proof -
  from assms(1) obtain c cs b where 1: "NewCoin S (ve_lock_denom (vst w)) amount = Ok c" "NewCoins S [c] = Ok cs"
    "SendCoinsFromAccountToModule B (vbk w) sender ''ve'' cs = Ok b" "w1 = w\<lparr>vbk := b\<rparr>"
    unfolding veTakeCoins_def res_inv by blast
  then show "\<exists>b. w1 = w\<lparr>vbk := b\<rparr>" by blast
  from 1(1) have c: "Denom c = ve_lock_denom (vst w)" "Amount c = amount" by (auto simp: NewCoin_eq split: if_splits)
  show "vbal B w1 = vbal B w + amount"
    using moved_bal(2) [OF 1(3), of "GetModuleAddress B ''ve''" "ve_lock_denom (vst w)"] NewCoins_single [OF 1(2)] assms(2)
    by (simp add: 1(4) vbal_def c)
qed

lemma vePayCoins_effect:
  assumes "vePayCoins S B ''ve'' receiver amount w = Ok w1"
  shows "\<exists>b. w1 = w\<lparr>vbk := b\<rparr>" "vbal B w - amount \<le> vbal B w1" "0 \<le> amount"
proof -
  from assms(1) obtain c cs b where 1: "NewCoin S (ve_lock_denom (vst w)) amount = Ok c" "NewCoins S [c] = Ok cs"
    "SendCoinsFromModuleToAccount B (vbk w) ''ve'' receiver cs = Ok b" "w1 = w\<lparr>vbk := b\<rparr>"
    unfolding vePayCoins_def res_inv by blast
  then show "\<exists>b. w1 = w\<lparr>vbk := b\<rparr>" by blast
  from 1(1) have c: "Denom c = ve_lock_denom (vst w)" "Amount c = amount" "0 \<le> amount" by (auto simp: NewCoin_eq split: if_splits)
  then show "0 \<le> amount" by simp
  show "vbal B w - amount \<le> vbal B w1"
    using moved_bal(3) [OF 1(3), of "GetModuleAddress B ''ve''" "ve_lock_denom (vst w)"] NewCoins_single [OF 1(2)] c
    by (simp add: 1(4) vbal_def)
qed

lemma DepositFor_effect:
  assumes "DepositFor S B ctx sender i amount unlock old send w = Ok w'"
    and "old = old_lock (ve_locked (vst w)) i" "0 \<le> amount"
    and "new = \<lparr>lb_Amount = lb_Amount old + amount, lb_End = (if unlock > 0 then unlock else lb_End old)\<rparr>"
    and "send \<longrightarrow> sender \<noteq> GetModuleAddress B ''ve''"
    and "points_inv exact (now_of ctx) (vst w)" "GetEpoch (vst w) < 2 ^ 63" "lock_ok new" "lb_End new \<le> now_of ctx + MaxLockTime"
    and "exact \<longrightarrow> lock_grows (now_of ctx) old new"
  shows "points_inv exact (now_of ctx) (vst w') \<and> ve_locked (vst w') = kv_set i new (ve_locked (vst w)) \<and>
    GetTotalLockedAmount (vst w') = GetTotalLockedAmount (vst w) + amount \<and> ve_next_id (vst w') = ve_next_id (vst w) \<and>
    vnf w' = vnf w \<and> vbal B w' = vbal B w + (if send then amount else 0)"
proof -
  from assms(1) obtain w1 where take: "(if amount > 0 \<and> send then veTakeCoins S B sender amount w else Ok w) = Ok w1"
    and reg: "on_store_res (RegulateUserCheckpoint S ctx i old new)
       (on_store (SetLockedAmountByUser i new) (if amount > 0
               then on_store (\<lambda>s. SetTotalLockedAmount (GetTotalLockedAmount s + amount) s) w1 else w1)) = Ok w'"
    unfolding DepositFor_def res_inv assms(4) [symmetric] by blast
  from take have w1: "\<exists>b. w1 = w\<lparr>vbk := b\<rparr>" "vbal B w1 = vbal B w + (if send then amount else 0)"
    using veTakeCoins_effect [of sender amount w w1] assms(3,5) by (auto split: if_splits intro: exI [of _ "vbk w"])
  then obtain b where b: "w1 = w\<lparr>vbk := b\<rparr>" by blast
  let ?tot = "if amount > 0 then Some (GetTotalLockedAmount (vst w) + amount) else ve_total_locked (vst w)"
  let ?s = "(vst w)\<lparr>ve_locked := kv_set i new (ve_locked (vst w)), ve_total_locked := ?tot, ve_next_id := ve_next_id (vst w)\<rparr>"
  let ?w2 = "on_store (SetLockedAmountByUser i new) (if amount > 0
               then on_store (\<lambda>s. SetTotalLockedAmount (GetTotalLockedAmount s + amount) s) w1 else w1)"
  have w2: "vst ?w2 = ?s" "?w2\<lparr>vst := x\<rparr> = w1\<lparr>vst := x\<rparr>" for x
    by (simp_all add: on_store_def b SetTotalLockedAmount_def SetLockedAmountByUser_def GetTotalLockedAmount_def)
  from reg obtain s' where s': "RegulateUserCheckpoint S ctx i old new ?s = Ok s'"
    and w': "w' = w1\<lparr>vst := s'\<rparr>"
    unfolding on_store_res_def w2 res_inv by metis
  have wl: "with_lock i new (ve_locked (vst w)) (kv_set i new (ve_locked (vst w)))" by (simp add: with_lock_def)
  have "points_inv exact (now_of ctx) s' \<and> ve_locked s' = kv_set i new (ve_locked (vst w)) \<and> ve_total_locked s' = ?tot \<and>
      ve_next_id s' = ve_next_id (vst w) \<and> ve_lock_denom s' = ve_lock_denom (vst w)"
    by (rule points_step [OF assms(6,7) wl assms(8,9)]) (use assms(10,2) s' in auto)
  with w' b w1(2) assms(3) show ?thesis by (auto simp: GetTotalLockedAmount_def vbal_def)
qed

end

section \<open>The handlers keep the invariant\<close>

locale ve_laws = chain_laws S B + nft_laws N + text_laws S for S :: sdk and B :: "'b bank" and N :: "'n nft"
begin

lemma owner_token:
  assumes "tokens_inv N w" "AccAddressFromBech32 S str = Some a" "a = nft_GetOwner N (vnf w) VeNftClass t"
  obtains i where "i \<in> fst ` set (ve_locked (vst w))" "t = VeIDFromUint64 i" "Uint64FromVeID t = i"
proof -
  have "nft_HasNFT N (vnf w) VeNftClass t"
    using Owner_none [of "vnf w" VeNftClass t] AccAddress_nonempty [OF assms(2)] assms(3) by auto
  with assms(1) obtain i where i: "i \<in> fst ` set (ve_locked (vst w))" "t = VeIDFromUint64 i" by (auto simp: tokens_inv_def)
  with assms(1) have "Uint64FromVeID t = i" by (auto simp: tokens_inv_def intro!: Uint64FromVeID_inverse)
  with i show ?thesis by (rule that)
qed

lemma liveLock_ok:
  assumes "liveLock N ctx w t = Ok (i, l)" "tokens_inv N w"
  shows "i \<in> fst ` set (ve_locked (vst w))" "l = old_lock (ve_locked (vst w)) i" "0 < lb_Amount l" "now_of ctx < lb_End l"
proof -
  have h: "nft_HasNFT N (vnf w) VeNftClass t" "i = Uint64FromVeID t" "l = old_lock (ve_locked (vst w)) i"
      "0 < lb_Amount l" "now_of ctx < lb_End l"
    using assms(1) by (auto simp: liveLock_def res_simps Let_def old_lock_GetLocked)
  from h(1) assms(2) obtain j where j: "j \<in> fst ` set (ve_locked (vst w))" "t = VeIDFromUint64 j" by (auto simp: tokens_inv_def)
  with assms(2) h(2) have "i = j" by (auto simp: tokens_inv_def intro!: Uint64FromVeID_inverse)
  with j h show "i \<in> fst ` set (ve_locked (vst w))" "l = old_lock (ve_locked (vst w)) i" "0 < lb_Amount l" "now_of ctx < lb_End l"
    by auto
qed

lemma unlock_time:
  assumes "RegulatedUnixTimeFromNow ctx d = e" "e \<le> u64_add (now_of ctx) MaxLockTime" "now_of ctx < 2 ^ 61"
  shows "RegulatedPeriod dvd e" "e < 2 ^ 62"
  using assms by (auto simp: RegulatedUnixTimeFromNow_def MaxLockTime_eq u64_mod_def)

text \<open>Replacing the lock of an existing token keeps the tokens.\<close>

lemma tokens_replace:
  assumes "tokens_inv N w" "i \<in> fst ` set (ve_locked (vst w))"
    and "fst ` set (ve_locked (vst w')) = insert i (fst ` set (ve_locked (vst w)))"
    and "ve_next_id (vst w') = ve_next_id (vst w)" "vnf w' = vnf w"
  shows "tokens_inv N w'"
proof -
  have "fst ` set (ve_locked (vst w')) = fst ` set (ve_locked (vst w))" using assms(2,3) by auto
  with assms(1,4,5) show ?thesis by (simp add: tokens_inv_def GetNextVeID_def)
qed

lemma Create_inv:
  assumes "Create S B N ctx m w = Ok (w', i, t)" "MsgCreate_ValidateBasic S m = Ok ()" "signs_ve S B (mcr_Sender m)"
    and "ve_inv B N exact (ctx, w)" "GetEpoch (vst w) < 2 ^ 63"
  shows "ve_inv B N exact (ctx, w')"
proof -
  let ?L = "ve_locked (vst w)"
  from assms(1) obtain sender receiver n where h: "getSenderReceiver S (mcr_Sender m) (mcr_To m) = Ok (sender, receiver)"
      "RegulatedUnixTimeFromNow ctx (mcr_LockDuration m) = t" "\<not> t \<le> now_of ctx" "\<not> t > u64_add (now_of ctx) MaxLockTime"
      "i = GetNextVeID (vst w)" "\<not> (i > MaxVeID \<or> i = EmptyVeID)"
      "nft_Mint N (vnf (on_store (SetNextVeID (u64_add i 1)) w)) VeNftClass (VeIDFromUint64 i) receiver = Ok n"
      "DepositFor S B ctx sender i (Amount (mcr_Amount m)) t NewLockedBalance True
        ((on_store (SetNextVeID (u64_add i 1)) w)\<lparr>vnf := n\<rparr>) = Ok w'"
    unfolding Create_def res_inv by blast
  have inv: "points_inv exact (now_of ctx) (vst w)" "tokens_inv N w" "coins_inv B exact w"
    using assms(4) by (auto simp: ve_inv_def)
  have amt: "0 < Amount (mcr_Amount m)" using assms(2) by (auto simp: MsgCreate_ValidateBasic_def res_simps coin_IsPositive_def)
  have sender: "sender \<noteq> GetModuleAddress B ''ve''"
    using h(1) assms(3) by (auto simp: getSenderReceiver_def accAddress_def signs_ve_def res_simps split: option.splits if_splits)
  have next': "u64_add i 1 = i + 1" "i + 1 < u64_mod" using h(6) by (auto simp: MaxVeID_def u64_mod_def)
  define w1 where "w1 = (on_store (SetNextVeID (u64_add i 1)) w)\<lparr>vnf := n\<rparr>"
  have w1: "vst w1 = (vst w)\<lparr>ve_next_id := Some (i + 1)\<rparr>" "vnf w1 = n" "vbal B w1 = vbal B w"
    using next' by (simp_all add: w1_def on_store_def SetNextVeID_def vbal_def)
  have fresh: "i \<notin> fst ` set ?L" using inv(2) h(5) by (auto simp: tokens_inv_def)
  then have old: "NewLockedBalance = old_lock (ve_locked (vst w1)) i"
    using kv_get_notin [of i ?L] by (simp add: old_lock_def w1(1))
  let ?new = "\<lparr>lb_Amount = Amount (mcr_Amount m), lb_End = t\<rparr>"
  have new: "?new = \<lparr>lb_Amount = lb_Amount NewLockedBalance + Amount (mcr_Amount m), lb_End = (if t > 0 then t else lb_End NewLockedBalance)\<rparr>"
    using h(3) by (auto simp: NewLockedBalance_def)
  have tm: "RegulatedPeriod dvd t" "t < 2 ^ 62" using unlock_time [OF h(2)] h(4) inv(1) by (auto simp: points_inv_def)
  have ok: "lock_ok ?new" using amt tm by (simp add: lock_ok_def)
  have pts: "points_inv exact (now_of ctx) (vst w1)"
    using inv(1) by (simp add: w1 points_inv_def last_time_def GetCheckpoint_def GetEpoch_def user_tracked_def
        GetUserCheckpoint_def GetUserEpoch_def tracked_def scheduled_def GetSlopeChange_def)
  have ep: "GetEpoch (vst w1) < 2 ^ 63" using assms(5) by (simp add: w1 GetEpoch_def)
  have grow: "exact \<longrightarrow> lock_grows (now_of ctx) NewLockedBalance ?new"
    using activeSlope_nonneg [of ?new] lockPower_nonneg [of ?new] amt by (simp add: lock_grows_def) 
  have "lb_End ?new \<le> now_of ctx + MaxLockTime" using h(4) u64_add_le [of "now_of ctx" MaxLockTime] by simp
  from DepositFor_effect [OF h(8) [folded w1_def] old less_imp_le [OF amt] new _ pts ep ok this grow] sender
  have eff: "points_inv exact (now_of ctx) (vst w')" "ve_locked (vst w') = kv_set i ?new ?L"
      "GetTotalLockedAmount (vst w') = GetTotalLockedAmount (vst w) + Amount (mcr_Amount m)"
      "ve_next_id (vst w') = Some (i + 1)" "vnf w' = n" "vbal B w' = vbal B w + Amount (mcr_Amount m)"
    by (auto simp: w1 GetTotalLockedAmount_def)
  have mint: "nft_HasClass N n VeNftClass = nft_HasClass N (vnf w) VeNftClass"
      "nft_HasNFT N n VeNftClass j = (j = VeIDFromUint64 i \<or> nft_HasNFT N (vnf w) VeNftClass j)" for j
    using Mint_ok [OF h(7)] by (auto simp: on_store_def)
  have keys: "fst ` set (ve_locked (vst w')) = insert i (fst ` set ?L)"
    using kv_keys_set [of i ?new ?L] by (simp add: eff(2))
  have "tokens_inv N w'"
    using inv(2) h(5,6) next' by (auto simp: tokens_inv_def mint eff(4,5) keys GetNextVeID_def EmptyVeID_def)
  moreover have "lockedSum (vst w') = lockedSum (vst w) + Amount (mcr_Amount m)"
    using lockedSum_replace [of "vst w" i ?new "kv_set i ?new ?L"] inv(1) old [symmetric]
    by (simp add: lockedSum_def [of "vst w'"] eff(2) with_lock_def points_inv_def locks_ok_def w1)
  ultimately show ?thesis using inv(3) eff by (auto simp: ve_inv_def coins_inv_def)
qed

text \<open>A deposit into an existing token, by \<open>Deposit\<close> or \<open>ExtendTime\<close>.\<close>

lemma deposit_existing_inv:
  assumes "DepositFor S B ctx sender i amount unlock old send w = Ok w'" "ve_inv B N exact (ctx, w)" "GetEpoch (vst w) < 2 ^ 63"
    and "i \<in> fst ` set (ve_locked (vst w))" "old = old_lock (ve_locked (vst w)) i" "0 \<le> amount" "send \<or> amount = 0"
    and "now_of ctx < lb_End old" "send \<longrightarrow> sender \<noteq> GetModuleAddress B ''ve''"
    and "unlock = 0 \<or> lb_End old < unlock \<and> RegulatedPeriod dvd unlock \<and> unlock < 2 ^ 62 \<and>
       unlock \<le> now_of ctx + MaxLockTime"
  shows "ve_inv B N exact (ctx, w')"
proof -
  let ?L = "ve_locked (vst w)"
  have inv: "points_inv exact (now_of ctx) (vst w)" "tokens_inv N w" "coins_inv B exact w"
    using assms(2) by (auto simp: ve_inv_def)
  have old: "lock_ok old" using inv(1) assms(5) old_lock_ok by (auto simp: points_inv_def)
  define new where "new = \<lparr>lb_Amount = lb_Amount old + amount, lb_End = (if unlock > 0 then unlock else lb_End old)\<rparr>"
  have ok: "lock_ok new" using old assms(6,10) by (auto simp: new_def lock_ok_def)
  have "lockSlope old \<le> lockSlope new" using old assms(6) by (intro lockSlope_mono) (auto simp: new_def lock_ok_def)
  moreover have e: "lb_End old \<le> lb_End new" using assms(10) by (auto simp: new_def)
  ultimately have grow: "lock_grows (now_of ctx) old new"
    using assms(8) old lockSlope_nonneg [of old]
    by (auto simp: lock_grows_def activeSlope_def lockPower_def lock_ok_def intro!: mult_mono)
  have "lb_End old \<le> now_of ctx + MaxLockTime"
    using inv(1) assms(5) kv_get_mem [of ?L i] by (auto simp: points_inv_def locks_ok_def old_lock_def split: option.splits)
  then have "lb_End new \<le> now_of ctx + MaxLockTime" using assms(10) by (auto simp: new_def)
  from DepositFor_effect [OF assms(1,5,6) new_def assms(9) inv(1) assms(3) ok this] grow
  have eff: "points_inv exact (now_of ctx) (vst w')" "ve_locked (vst w') = kv_set i new ?L"
      "GetTotalLockedAmount (vst w') = GetTotalLockedAmount (vst w) + amount"
      "ve_next_id (vst w') = ve_next_id (vst w)" "vnf w' = vnf w" "vbal B w' = vbal B w + amount"
    using assms(7) by auto
  have "tokens_inv N w'"
    using kv_keys_set [of i new ?L] by (intro tokens_replace [OF inv(2) assms(4)]) (simp_all add: eff)
  moreover have "lockedSum (vst w') = lockedSum (vst w) + amount"
    using lockedSum_replace [of "vst w" i new "kv_set i new ?L"] inv(1) assms(5)
    by (simp add: lockedSum_def [of "vst w'"] eff(2) with_lock_def points_inv_def locks_ok_def new_def)
  ultimately show ?thesis using inv(3) eff by (auto simp: ve_inv_def coins_inv_def)
qed

lemma Deposit_inv:
  assumes "Deposit S B N ctx m w = Ok w'" "MsgDeposit_ValidateBasic S m = Ok ()" "signs_ve S B (mde_Sender m)"
    and "ve_inv B N exact (ctx, w)" "GetEpoch (vst w) < 2 ^ 63"
  shows "ve_inv B N exact (ctx, w')"
proof -
  from assms(1) obtain sender i l where h: "accAddress S (mde_Sender m) = Ok sender" "liveLock N ctx w (mde_VeId m) = Ok (i, l)"
      "DepositFor S B ctx sender i (Amount (mde_Amount m)) 0 l True w = Ok w'"
    unfolding Deposit_def res_inv by blast
  have "tokens_inv N w" using assms(4) by (simp add: ve_inv_def)
  note l = liveLock_ok [OF h(2) this]
  have "sender \<noteq> GetModuleAddress B ''ve''" "0 \<le> Amount (mde_Amount m)"
    using h(1) assms(2,3) by (auto simp: accAddress_def signs_ve_def MsgDeposit_ValidateBasic_def res_simps coin_IsPositive_def split: option.splits)
  with deposit_existing_inv [OF h(3) assms(4,5) l(1,2)] l(4) show ?thesis by simp
qed

lemma ExtendTime_inv:
  assumes "ExtendTime S B N ctx m w = Ok w'" "ve_inv B N exact (ctx, w)" "GetEpoch (vst w) < 2 ^ 63"
  shows "ve_inv B N exact (ctx, w')"
proof -
  from assms(1) obtain sender i l t where h: "liveLock N ctx w (met_VeId m) = Ok (i, l)"
      "RegulatedUnixTimeFromNow ctx (met_LockDuration m) = t" "\<not> t \<le> lb_End l" "\<not> t > u64_add (now_of ctx) MaxLockTime"
      "DepositFor S B ctx sender i 0 t l False w = Ok w'"
    unfolding ExtendTime_def res_inv by blast
  have "tokens_inv N w" "now_of ctx < 2 ^ 61" using assms(2) by (simp_all add: ve_inv_def points_inv_def)
  note l = liveLock_ok [OF h(1) this(1)] and t = unlock_time [OF h(2) _ this(2)]
  from deposit_existing_inv [OF h(5) assms(2,3) l(1,2)] l(4) t h(3,4) u64_add_le [of "now_of ctx" MaxLockTime] show ?thesis by simp
qed

text \<open>The token and the lock are deleted together.\<close>

lemma tokens_burn:
  assumes "tokens_inv N w" "i \<in> fst ` set (ve_locked (vst w))" "t = VeIDFromUint64 i"
    and "nft_Burn N (vnf w) VeNftClass t = Ok n" "vnf w' = n" "ve_next_id (vst w') = ve_next_id (vst w)"
    and "ve_locked (vst w') = kv_delete i (ve_locked (vst w))"
  shows "tokens_inv N w'"
proof -
  have keys: "fst ` set (ve_locked (vst w')) = fst ` set (ve_locked (vst w)) - {i}"
    by (auto simp: assms(7) kv_delete_def image_iff)
  have inj: "VeIDFromUint64 j = VeIDFromUint64 i \<longleftrightarrow> j = i" if "j \<in> fst ` set (ve_locked (vst w))" for j
    using that assms(1,2) VeIDFromUint64_inj [of j i] by (force simp: tokens_inv_def)
  have burn: "nft_HasClass N n VeNftClass = nft_HasClass N (vnf w) VeNftClass"
      "nft_HasNFT N n VeNftClass x = (x \<noteq> t \<and> nft_HasNFT N (vnf w) VeNftClass x)" for x
    using Burn_ok [OF assms(4)] by auto
  show ?thesis using assms(1) inj by (auto simp: tokens_inv_def keys burn assms(3,5,6) GetNextVeID_def)
qed

lemma Withdraw_inv:
  assumes "Withdraw S B N G ctx m w = Ok w'" "ve_inv B N exact (ctx, w)" "GetEpoch (vst w) < 2 ^ 63"
  shows "ve_inv B N exact (ctx, w')"
proof -
  let ?L = "ve_locked (vst w)"
  let ?i = "Uint64FromVeID (mwd_VeId m)"
  let ?l = "GetLockedAmountByUser (vst w) ?i"
  let ?s1 = "DeleteLockedAmountByUser ?i (vst w)"
  from assms(1) obtain sender w2 n where h: "accAddress S (mwd_Sender m) = Ok sender"
      "sender = nft_GetOwner N (vnf w) VeNftClass (mwd_VeId m)" "\<not> lb_End ?l > now_of ctx"
      "on_store_res (RegulateUserCheckpoint S ctx ?i ?l NewLockedBalance)
         (w\<lparr>vst := SetTotalLockedAmount (GetTotalLockedAmount ?s1 - lb_Amount ?l) ?s1\<rparr>) = Ok w2"
      "nft_Burn N (vnf w2) VeNftClass (mwd_VeId m) = Ok n"
      "vePayCoins S B ''ve'' sender (lb_Amount ?l) (w2\<lparr>vnf := n\<rparr>) = Ok w'"
    unfolding Withdraw_def res_inv by (auto simp: res_simps split: if_splits)
  have inv: "points_inv exact (now_of ctx) (vst w)" "tokens_inv N w" "coins_inv B exact w"
    using assms(2) by (auto simp: ve_inv_def)
  have "AccAddressFromBech32 S (mwd_Sender m) = Some sender" using h(1) by (auto simp: accAddress_def split: option.splits)
  from owner_token [OF inv(2) this h(2)] obtain i where i: "i \<in> fst ` set ?L" "mwd_VeId m = VeIDFromUint64 i" "?i = i" .
  let ?s = "(vst w)\<lparr>ve_locked := kv_delete i ?L, ve_total_locked := Some (GetTotalLockedAmount (vst w) - lb_Amount ?l), ve_next_id := ve_next_id (vst w)\<rparr>"
  have s: "SetTotalLockedAmount (GetTotalLockedAmount ?s1 - lb_Amount ?l) ?s1 = ?s"
    by (simp add: SetTotalLockedAmount_def GetTotalLockedAmount_def DeleteLockedAmountByUser_def i(3))
  from h(4) obtain s2 where s2: "RegulateUserCheckpoint S ctx i (old_lock ?L i) NewLockedBalance ?s = Ok s2" "w2 = w\<lparr>vst := s2\<rparr>"
    unfolding on_store_res_def s by (auto simp: res_simps i(3) old_lock_GetLocked)
  have wl: "with_lock i NewLockedBalance ?L (kv_delete i ?L)" by (simp add: with_lock_def)
  have "exact \<longrightarrow> lock_grows (now_of ctx) (old_lock ?L i) NewLockedBalance \<or> NewLockedBalance = NewLockedBalance \<and> lb_End (old_lock ?L i) \<le> now_of ctx"
    using h(3) by (simp add: i(3) old_lock_GetLocked)
  from points_step [OF inv(1) assms(3) wl zero_lock(4) _ this s2(1)]
  have eff: "points_inv exact (now_of ctx) s2" "ve_locked s2 = kv_delete i ?L"
      "ve_total_locked s2 = Some (GetTotalLockedAmount (vst w) - lb_Amount ?l)" "ve_next_id s2 = ve_next_id (vst w)"
      "ve_lock_denom s2 = ve_lock_denom (vst w)" by auto
  from vePayCoins_effect [OF h(6)] obtain b where w': "w' = w2\<lparr>vnf := n, vbk := b\<rparr>" "vbal B (w2\<lparr>vnf := n\<rparr>) - lb_Amount ?l \<le> vbal B w'"
    by auto
  have "tokens_inv N w'"
    by (rule tokens_burn [OF inv(2) i(1,2), of n]) (use h(5) in \<open>simp_all add: w'(1) s2(2) eff\<close>)
  moreover have "lockedSum (vst w') = lockedSum (vst w) - lb_Amount ?l"
    using lockedSum_replace [OF _ wl] inv(1)
    by (simp add: lockedSum_def [of s2] w'(1) s2(2) eff(2) points_inv_def locks_ok_def i(3) old_lock_GetLocked)
  moreover have "vbal B (w2\<lparr>vnf := n\<rparr>) = vbal B w" by (simp add: vbal_def s2(2) eff(5))
  ultimately show ?thesis using inv(3) eff w' by (auto simp: ve_inv_def coins_inv_def s2(2) GetTotalLockedAmount_def)
qed

lemma Merge_inv:
  assumes "Merge S B N G ctx m w = Ok w'" "MsgMerge_ValidateBasic S m = Ok ()"
    and "ve_inv B N False (ctx, w)" "GetEpoch (vst w) < 2 ^ 62"
  shows "ve_inv B N False (ctx, w')"
    and "lockedSum (vst w') = lockedSum (vst w)"
    and "GetTotalLockedAmount (vst w') = GetTotalLockedAmount (vst w)
      + lb_Amount (GetLockedAmountByUser (vst w) (Uint64FromVeID (mme_FromVeId m)))"
proof -
  let ?L = "ve_locked (vst w)"
  let ?i = "Uint64FromVeID (mme_FromVeId m)" and ?j = "Uint64FromVeID (mme_ToVeId m)"
  let ?from = "GetLockedAmountByUser (vst w) ?i" and ?to = "GetLockedAmountByUser (vst w) ?j"
  let ?unlock = "if lb_End ?to > lb_End ?from then lb_End ?to else lb_End ?from"
  from assms(1) obtain sender w2 n where h: "accAddress S (mme_Sender m) = Ok sender"
      "sender = nft_GetOwner N (vnf w) VeNftClass (mme_FromVeId m)" "sender = nft_GetOwner N (vnf w) VeNftClass (mme_ToVeId m)"
      "on_store_res (RegulateUserCheckpoint S ctx ?i ?from NewLockedBalance) (on_store (DeleteLockedAmountByUser ?i) w) = Ok w2"
      "nft_Burn N (vnf w2) VeNftClass (mme_FromVeId m) = Ok n"
      "DepositFor S B ctx sender ?j (lb_Amount ?from) ?unlock ?to False (w2\<lparr>vnf := n\<rparr>) = Ok w'"
    unfolding Merge_def res_inv by blast
  have inv: "points_inv False (now_of ctx) (vst w)" "tokens_inv N w" "coins_inv B False w"
    using assms(3) by (auto simp: ve_inv_def)
  have snd: "AccAddressFromBech32 S (mme_Sender m) = Some sender" using h(1) by (auto simp: accAddress_def split: option.splits)
  from owner_token [OF inv(2) snd h(2)] obtain i where i: "i \<in> fst ` set ?L" "mme_FromVeId m = VeIDFromUint64 i" "?i = i" .
  from owner_token [OF inv(2) snd h(3)] obtain j where j: "j \<in> fst ` set ?L" "mme_ToVeId m = VeIDFromUint64 j" "?j = j" .
  have ij: "j \<noteq> i" using assms(2) i(2) j(2) by (auto simp: MsgMerge_ValidateBasic_def res_simps)
  let ?s = "(vst w)\<lparr>ve_locked := kv_delete i ?L, ve_total_locked := ve_total_locked (vst w), ve_next_id := ve_next_id (vst w)\<rparr>"
  have s: "vst (on_store (DeleteLockedAmountByUser ?i) w) = ?s"
    by (simp add: on_store_def DeleteLockedAmountByUser_def i(3))
  from h(4) obtain s2 where s2: "RegulateUserCheckpoint S ctx i (old_lock ?L i) NewLockedBalance ?s = Ok s2" "w2 = w\<lparr>vst := s2\<rparr>"
    unfolding on_store_res_def s by (auto simp: res_simps i(3) old_lock_GetLocked on_store_def)
  have wl: "with_lock i NewLockedBalance ?L (kv_delete i ?L)" by (simp add: with_lock_def)
  have "GetEpoch (vst w) < 2 ^ 63" using assms(4) by simp
  from points_step [OF inv(1) this wl zero_lock(4) _ _ s2(1)]
  have eff: "points_inv False (now_of ctx) s2" "ve_locked s2 = kv_delete i ?L" "ve_total_locked s2 = ve_total_locked (vst w)"
      "ve_next_id s2 = ve_next_id (vst w)" "ve_lock_denom s2 = ve_lock_denom (vst w)" by auto
  have ep: "GetEpoch s2 < 2 ^ 63"
    using user_checkpoint_frame [OF s2(1)] assms(4) by (auto simp: GetEpoch_def)
  have oks: "lock_ok ?from" "lock_ok ?to" using inv(1) old_lock_ok by (auto simp: points_inv_def old_lock_GetLocked)
  define new where "new = \<lparr>lb_Amount = lb_Amount ?to + lb_Amount ?from, lb_End = (if ?unlock > 0 then ?unlock else lb_End ?to)\<rparr>"
  have ok: "lock_ok new" using oks by (auto simp: new_def lock_ok_def)
  have bound: "lb_End (old_lock ?L k) \<le> now_of ctx + MaxLockTime" for k
    using inv(1) kv_get_mem [of ?L k] by (auto simp: points_inv_def locks_ok_def old_lock_def split: option.splits)
  then have "lb_End new \<le> now_of ctx + MaxLockTime" by (simp add: new_def old_lock_GetLocked)
  define w3 where "w3 = w2\<lparr>vnf := n\<rparr>"
  have w3: "vst w3 = s2" "vnf w3 = n" by (simp_all add: w3_def s2(2))
  have old: "?to = old_lock (ve_locked (vst w3)) ?j"
    using ij by (simp add: w3 eff(2) old_lock_GetLocked old_lock_def j(3))
  have a: "0 \<le> lb_Amount ?from" using oks by (simp add: lock_ok_def)
  from DepositFor_effect [OF h(6) [folded w3_def] old a new_def, of False] eff(1) ep ok \<open>lb_End new \<le> now_of ctx + MaxLockTime\<close>
  have eff2: "points_inv False (now_of ctx) (vst w')" "ve_locked (vst w') = kv_set j new (kv_delete i ?L)"
      "GetTotalLockedAmount (vst w') = GetTotalLockedAmount (vst w) + lb_Amount ?from"
      "ve_next_id (vst w') = ve_next_id (vst w)" "vnf w' = n" "vbal B w' = vbal B w"
    by (auto simp: w3 eff(2-5) j(3) GetTotalLockedAmount_def vbal_def w3_def s2(2))
  then show "GetTotalLockedAmount (vst w') = GetTotalLockedAmount (vst w) + lb_Amount ?from" by simp
  have "tokens_inv N (w3)"
    by (rule tokens_burn [OF inv(2) i(1,2), of n]) (use h(5) in \<open>simp_all add: w3 s2(2) eff\<close>)
  moreover have "j \<in> fst ` set (ve_locked (vst w3))" using j(1) ij by (auto simp: w3 eff(2) kv_delete_def image_iff)
  ultimately have tok: "tokens_inv N w'"
    using kv_keys_set [of j new "kv_delete i ?L"] by (elim tokens_replace) (simp_all add: eff2 w3 eff)
  have wf: "kv_wf ?L" "kv_wf (ve_locked s2)" using inv(1) eff(1) by (simp_all add: points_inv_def locks_ok_def)
  have "lockedSum s2 = lockedSum (vst w) - lb_Amount ?from"
    using lockedSum_replace [OF wf(1) wl] by (simp add: lockedSum_def [of s2] eff(2) i(3) old_lock_GetLocked)
  moreover have "kv_sum (\<lambda>_. lb_Amount) (kv_set j new (ve_locked s2)) = lockedSum s2 - lb_Amount (old_lock (ve_locked s2) j) + lb_Amount new"
    by (rule lockedSum_replace [OF wf(2)]) (simp add: with_lock_def)
  moreover have "lb_Amount (old_lock (ve_locked s2) j) = lb_Amount ?to" using old by (simp add: w3 j(3))
  ultimately show sum: "lockedSum (vst w') = lockedSum (vst w)"
    by (simp add: lockedSum_def [of "vst w'"] eff2(2) eff(2) new_def)
  show "ve_inv B N False (ctx, w')" using inv(3) eff2 tok sum a by (auto simp: ve_inv_def coins_inv_def)
qed

lemma Slash_inv:
  assumes "SlashLockedAmountByUser S B ctx i amount w = Ok w'" "ve_inv B N False (ctx, w)" "GetEpoch (vst w) < 2 ^ 63"
    and "i \<in> fst ` set (ve_locked (vst w))" "0 \<le> amount" "amount \<le> lb_Amount (GetLockedAmountByUser (vst w) i)"
  shows "ve_inv B N False (ctx, w')"
proof -
  let ?L = "ve_locked (vst w)" and ?old = "old_lock (ve_locked (vst w)) i"
  define new where "new = ?old\<lparr>lb_Amount := lb_Amount ?old - amount\<rparr>"
  let ?s1 = "SetTotalLockedAmount (GetTotalLockedAmount (vst w) - amount) (vst w)"
  have lk: "GetLockedAmountByUser ?s1 i = ?old"
    by (simp add: GetLockedAmountByUser_def old_lock_def SetTotalLockedAmount_def)
  from assms(1) obtain c cs b where h: "NewCoin S (ve_lock_denom (vst w)) amount = Ok c" "NewCoins S [c] = Ok cs"
      "BurnCoins B (vbk w) ''ve'' cs = Ok b"
      "on_store_res (RegulateUserCheckpoint S ctx i ?old new) (w\<lparr>vbk := b, vst := SetLockedAmountByUser i new ?s1\<rparr>) = Ok w'"
    unfolding SlashLockedAmountByUser_def res_inv lk case_Ok_or_Panic new_def by blast
  have inv: "points_inv False (now_of ctx) (vst w)" "tokens_inv N w" "coins_inv B False w"
    using assms(2) by (auto simp: ve_inv_def)
  let ?s = "(vst w)\<lparr>ve_locked := kv_set i new ?L, ve_total_locked := Some (GetTotalLockedAmount (vst w) - amount), ve_next_id := ve_next_id (vst w)\<rparr>"
  have s: "SetLockedAmountByUser i new ?s1 = ?s"
    by (simp add: SetLockedAmountByUser_def SetTotalLockedAmount_def)
  from h(4) obtain s2 where s2: "RegulateUserCheckpoint S ctx i ?old new ?s = Ok s2" "w' = w\<lparr>vbk := b, vst := s2\<rparr>"
    unfolding s by (auto simp: on_store_res_def res_simps)
  have wl: "with_lock i new ?L (kv_set i new ?L)" by (simp add: with_lock_def)
  have ok: "lock_ok new"
    using inv(1) old_lock_ok [of ?L i] assms(6) by (auto simp: new_def lock_ok_def points_inv_def old_lock_GetLocked)
  have "lb_End new \<le> now_of ctx + MaxLockTime"
    using inv(1) kv_get_mem [of ?L i] by (auto simp: new_def points_inv_def locks_ok_def old_lock_def split: option.splits)
  from points_step [OF inv(1) assms(3) wl ok this _ s2(1)]
  have eff: "points_inv False (now_of ctx) s2" "ve_locked s2 = kv_set i new ?L"
      "ve_total_locked s2 = Some (GetTotalLockedAmount (vst w) - amount)"
      "ve_next_id s2 = ve_next_id (vst w)" "ve_lock_denom s2 = ve_lock_denom (vst w)" by auto
  have "tokens_inv N w'"
    using kv_keys_set [of i new ?L] by (intro tokens_replace [OF inv(2) assms(4)]) (simp_all add: s2(2) eff)
  moreover have "lockedSum s2 = lockedSum (vst w) - amount"
    using lockedSum_replace [OF _ wl] inv(1) by (simp add: lockedSum_def [of s2] eff(2) points_inv_def locks_ok_def new_def)
  moreover have "vbal B w' = vbal B w - amount"
    using moved_bal(6) [OF h(3), of "GetModuleAddress B ''ve''" "ve_lock_denom (vst w)"] NewCoins_single [OF h(2)] h(1)
    by (auto simp: vbal_def s2(2) eff(5) NewCoin_eq split: if_splits)
  ultimately show ?thesis using inv(3) eff by (auto simp: ve_inv_def coins_inv_def s2(2) GetTotalLockedAmount_def)
qed

text \<open>A regulation without a change of a lock.\<close>

lemma points_regulate:
  assumes "RegulateCheckpoint S ctx s = Ok s'" "points_inv exact (now_of ctx) s" "GetEpoch s < 2 ^ 63"
  shows "points_inv exact (now_of ctx) s'" "\<exists>ps e. s' = s\<lparr>ve_points := ps, ve_epoch := e\<rparr>"
proof -
  have "points_inv exact (now_of ctx) s' \<and> (\<exists>ps e. s' = s\<lparr>ve_points := ps, ve_epoch := e\<rparr>)"
  proof (cases "s' = s")
    case True
    with assms(2) show ?thesis by (intro conjI exI [of _ "ve_points s"] exI [of _ "ve_epoch s"]) simp_all
  next
    case False
    with assms(1) have reg: "regulateCheckpoint_changes S ctx 0 0 s = Ok s'"
      by (auto simp: RegulateCheckpoint_def split: if_splits)
    from regulate_frame [OF reg] obtain ps e where fr: "s' = s\<lparr>ve_points := ps, ve_epoch := Some e\<rparr>" "last_time s' = now_of ctx"
      by auto
    have inv: "now_of ctx < 2 ^ 62" "last_time s \<le> now_of ctx" "locks_ok (ve_locked s)" "exact \<longrightarrow> tracked (ve_locked s) s"
      using assms(2) by (auto simp: points_inv_def)
    have ut: "user_tracked i l s'" if "user_tracked i l s" for i l
      using that inv(2) fr(2) by (auto simp: user_tracked_def Let_def fr(1) GetUserCheckpoint_def GetUserEpoch_def)
    have "tracked (ve_locked s) s'" if exact
    proof -
      from that inv(4) have tr: "tracked (ve_locked s) s" by simp
      from regulate_line [OF inv(3) tr inv(2,1) assms(3) reg]
      show ?thesis
        using tr inv(2) scheduled_mono [of "ve_locked s" s "last_time s" "now_of ctx"]
        by (auto simp: tracked_def line_def last_time_def addChange_nonpos scheduled_def GetSlopeChange_def GetEpoch_def)
    qed
    moreover have "history_ok s'" using history_regulate [OF reg inv(2) assms(3)] assms(2) by (simp add: points_inv_def)
    ultimately show ?thesis using assms(2) fr ut by (auto simp: points_inv_def)
  qed
  then show "points_inv exact (now_of ctx) s'" "\<exists>ps e. s' = s\<lparr>ve_points := ps, ve_epoch := e\<rparr>" by auto
qed

lemma EndBlocker_inv:
  assumes "ve_EndBlocker S ctx w = Ok w'" "ve_inv B N exact (ctx, w)" "GetEpoch (vst w) < 2 ^ 63"
    and "BlockTime ctx \<le> BlockTime ctx'" "0 \<le> BlockTime ctx" "BlockTime ctx' < 2 ^ 61"
  shows "ve_inv B N exact (ctx', w')"
proof -
  from assms(1) obtain s where s: "RegulateCheckpoint S ctx (vst w) = Ok s" "w' = w\<lparr>vst := s\<rparr>"
    by (auto simp: ve_EndBlocker_def on_store_res_def res_simps)
  have inv: "points_inv exact (now_of ctx) (vst w)" "tokens_inv N w" "coins_inv B exact w"
    using assms(2) by (auto simp: ve_inv_def)
  note p = points_regulate [OF s(1) inv(1) assms(3)]
  have "now_of ctx \<le> now_of ctx'" "now_of ctx' < 2 ^ 61" using assms(4-6) by (auto simp: now_of_def)
  with p(1) have "points_inv exact (now_of ctx') s" by (auto simp: points_inv_def)
  moreover from p(2) obtain ps e where "s = (vst w)\<lparr>ve_points := ps, ve_epoch := e\<rparr>" by blast
  ultimately show ?thesis using inv(2,3)
    by (cases exact) (simp_all add: ve_inv_def s(2) tokens_inv_def coins_inv_def GetNextVeID_def GetTotalLockedAmount_def lockedSum_def vbal_def)
qed

lemma NftSend_inv:
  assumes "NftSend N c t a b w = Ok w'" "ve_inv B N exact (ctx, w)"
  shows "ve_inv B N exact (ctx, w')"
proof -
  from assms(1) obtain n where n: "nft_Send N (vnf w) c t a b = Ok n" "w' = w\<lparr>vnf := n\<rparr>"
    unfolding NftSend_def res_inv by blast
  from Send_ok [OF n(1)] have "nft_HasClass N n x = nft_HasClass N (vnf w) x" "nft_HasNFT N n x j = nft_HasNFT N (vnf w) x j" for x j
    by auto
  with assms(2) show ?thesis by (simp add: ve_inv_def n(2) tokens_inv_def coins_inv_def vbal_def)
qed

end

section \<open>Steps\<close>

text \<open>
  The state has the context of the current block.  \<open>exact\<close> leaves out the two operations that lower the
  power of a lock that has not run out: a merge and a slashing.  A slashing is of an existing lock and by no
  more than its amount; \<open>SlashVeDelegatedAmount\<close> of the staking module, which is not modelled, computes the amount from
  what is delegated and does not check that itself.  The parameter \<open>LockDenom\<close> stays what the genesis set it
  to: a proposal that changes it would leave the coins of the locks behind in the old denomination.  Blocks
  go on in time, the time stays below \<open>2 ^ 61\<close> seconds and the epoch below \<open>2 ^ 62\<close>.
\<close>

inductive ve_step ::
  "sdk \<Rightarrow> 'b bank \<Rightarrow> 'n nft \<Rightarrow> (nat \<Rightarrow> int) option \<Rightarrow> bool \<Rightarrow> ctx \<times> ('b, 'n) ve_world \<Rightarrow> ctx \<times> ('b, 'n) ve_world \<Rightarrow> bool"
  for S :: sdk and B :: "'b bank" and N :: "'n nft" and G :: "(nat \<Rightarrow> int) option" and exact :: bool where
  create: "MsgCreate_ValidateBasic S m1 = Ok () \<Longrightarrow> signs_ve S B (mcr_Sender m1) \<Longrightarrow> GetEpoch (vst w) < 2 ^ 62 \<Longrightarrow>
    Create S B N ctx m1 w = Ok (w', i, t) \<Longrightarrow> ve_step S B N G exact (ctx, w) (ctx, w')"
| deposit: "MsgDeposit_ValidateBasic S m2 = Ok () \<Longrightarrow> signs_ve S B (mde_Sender m2) \<Longrightarrow> GetEpoch (vst w) < 2 ^ 62 \<Longrightarrow>
    Deposit S B N ctx m2 w = Ok w' \<Longrightarrow> ve_step S B N G exact (ctx, w) (ctx, w')"
| extend_time: "MsgExtendTime_ValidateBasic S m3 = Ok () \<Longrightarrow> GetEpoch (vst w) < 2 ^ 62 \<Longrightarrow>
    ExtendTime S B N ctx m3 w = Ok w' \<Longrightarrow> ve_step S B N G exact (ctx, w) (ctx, w')"
| merge: "\<not> exact \<Longrightarrow> MsgMerge_ValidateBasic S m4 = Ok () \<Longrightarrow> GetEpoch (vst w) < 2 ^ 62 \<Longrightarrow>
    Merge S B N G ctx m4 w = Ok w' \<Longrightarrow> ve_step S B N G exact (ctx, w) (ctx, w')"
| withdraw: "MsgWithdraw_ValidateBasic S m5 = Ok () \<Longrightarrow> GetEpoch (vst w) < 2 ^ 62 \<Longrightarrow>
    Withdraw S B N G ctx m5 w = Ok w' \<Longrightarrow> ve_step S B N G exact (ctx, w) (ctx, w')"
| slash: "\<not> exact \<Longrightarrow> GetEpoch (vst w) < 2 ^ 62 \<Longrightarrow> i \<in> fst ` set (ve_locked (vst w)) \<Longrightarrow> 0 \<le> amount \<Longrightarrow>
    amount \<le> lb_Amount (GetLockedAmountByUser (vst w) i) \<Longrightarrow>
    SlashLockedAmountByUser S B ctx i amount w = Ok w' \<Longrightarrow> ve_step S B N G exact (ctx, w) (ctx, w')"
| nft_send: "NftSend N c t1 a b w = Ok w' \<Longrightarrow> ve_step S B N G exact (ctx, w) (ctx, w')"
| attach: "ve_step S B N G exact (ctx, w) (ctx, on_store (IncVeAttached i) w)"
| detach: "on_store_res (DecVeAttached i) w = Ok w' \<Longrightarrow> ve_step S B N G exact (ctx, w) (ctx, w')"
| vote: "ve_step S B N G exact (ctx, w) (ctx, on_store (SetVeVoted i v) w)"
| emission: "AddTotalEmission S Dec_Power amount (vst w) = Ok s \<Longrightarrow> ve_step S B N G exact (ctx, w) (ctx, w\<lparr>vst := s\<rparr>)"
| end_block: "GetEpoch (vst w) < 2 ^ 62 \<Longrightarrow> ve_EndBlocker S ctx w = Ok w' \<Longrightarrow> BlockHeight ctx' = BlockHeight ctx + 1 \<Longrightarrow>
    BlockTime ctx \<le> BlockTime ctx' \<Longrightarrow> 0 \<le> BlockTime ctx \<Longrightarrow> BlockTime ctx' < 2 ^ 61 \<Longrightarrow>
    ve_step S B N G exact (ctx, w) (ctx', w')"
| environment: "vst w' = vst w \<Longrightarrow> vbal B w \<le> vbal B w' \<Longrightarrow> nft_HasClass N (vnf w') VeNftClass \<Longrightarrow>
    (\<forall>t. nft_HasNFT N (vnf w') VeNftClass t = nft_HasNFT N (vnf w) VeNftClass t) \<Longrightarrow>
    ve_step S B N G exact (ctx, w) (ctx, w')"

inductive_cases ve_stepE: "ve_step S B N G exact st st'"

definition ve_init :: "'b bank \<Rightarrow> 'n nft \<Rightarrow> ctx \<times> ('b, 'n) ve_world \<Rightarrow> bool" where
  "ve_init B N st \<longleftrightarrow> (\<exists>d w. ve_InitGenesis N d w = Ok (snd st) \<and> vst w = ve_empty \<and>
     \<not> nft_HasClass N (vnf w) VeNftClass \<and> (\<forall>t. \<not> nft_HasNFT N (vnf w) VeNftClass t) \<and>
     0 \<le> vbal B (snd st) \<and> 0 \<le> BlockTime (fst st) \<and> BlockTime (fst st) < 2 ^ 61)"

inductive ve_reach ::
  "sdk \<Rightarrow> 'b bank \<Rightarrow> 'n nft \<Rightarrow> (nat \<Rightarrow> int) option \<Rightarrow> bool \<Rightarrow> ctx \<times> ('b, 'n) ve_world \<Rightarrow> bool"
  for S :: sdk and B :: "'b bank" and N :: "'n nft" and G :: "(nat \<Rightarrow> int) option" and exact :: bool where
  start: "ve_init B N st \<Longrightarrow> ve_reach S B N G exact st"
| step: "ve_reach S B N G exact st \<Longrightarrow> ve_step S B N G exact st st' \<Longrightarrow> ve_reach S B N G exact st'"

lemma points_inv_other:
  "points_inv exact now (s\<lparr>ve_attached := a\<rparr>) = points_inv exact now s"
  "points_inv exact now (s\<lparr>ve_voted := v\<rparr>) = points_inv exact now s"
  "points_inv exact now (s\<lparr>ve_total_emission := em, ve_emission_last := el\<rparr>) = points_inv exact now s"
  by (simp_all add: points_inv_def last_time_def GetCheckpoint_def GetEpoch_def user_tracked_def
      GetUserCheckpoint_def GetUserEpoch_def tracked_def scheduled_def GetSlopeChange_def)

lemma ve_inv_other:
  "ve_inv B N exact (ctx, w\<lparr>vst := (vst w)\<lparr>ve_attached := a\<rparr>\<rparr>) = ve_inv B N exact (ctx, w)"
  "ve_inv B N exact (ctx, w\<lparr>vst := (vst w)\<lparr>ve_voted := v\<rparr>\<rparr>) = ve_inv B N exact (ctx, w)"
  "ve_inv B N exact (ctx, w\<lparr>vst := (vst w)\<lparr>ve_total_emission := em, ve_emission_last := el\<rparr>\<rparr>) = ve_inv B N exact (ctx, w)"
  by (simp_all add: ve_inv_def points_inv_other tokens_inv_def coins_inv_def GetNextVeID_def GetTotalLockedAmount_def lockedSum_def vbal_def)

lemma ve_step_inv:
  assumes "ve_laws S B N" "ve_step S B N G exact st st'" "ve_inv B N exact st"
  shows "ve_inv B N exact st'"
  using assms(2,3)
proof (cases rule: ve_step.cases)
  case (create m1 w ctx w' i t)
  with ve_laws.Create_inv [OF assms(1) create(6,3,4), of exact] assms(3) show ?thesis by simp
next
  case (deposit m2 w ctx w')
  with ve_laws.Deposit_inv [OF assms(1) deposit(6,3,4), of exact] assms(3) show ?thesis by simp
next
  case (extend_time m3 w ctx w')
  with ve_laws.ExtendTime_inv [OF assms(1) extend_time(5), of exact] assms(3) show ?thesis by simp
next
  case (merge m4 w ctx w')
  with ve_laws.Merge_inv(1) [OF assms(1) merge(6,4)] assms(3) show ?thesis by simp
next
  case (withdraw m5 w ctx w')
  with ve_laws.Withdraw_inv [OF assms(1) withdraw(5), of exact] assms(3) show ?thesis by simp
next
  case (slash w i amount ctx w')
  with ve_laws.Slash_inv [OF assms(1) slash(8) _ _ slash(5-7)] assms(3) show ?thesis by simp
next
  case (nft_send c t1 a b w w' ctx)
  with ve_laws.NftSend_inv [OF assms(1) nft_send(3)] assms(3) show ?thesis by simp
next
  case (attach ctx w i)
  with assms(3) show ?thesis by (simp add: on_store_def IncVeAttached_def SetVeAttached_def ve_inv_other)
next
  case (detach i w w' ctx)
  with assms(3) show ?thesis
    by (auto simp: on_store_res_def DecVeAttached_def SetVeAttached_def res_simps ve_inv_other split: if_splits)
next
  case (vote ctx w i v)
  with assms(3) show ?thesis by (simp add: on_store_def SetVeVoted_def ve_inv_other)
next
  case (emission Dec_Power amount w s ctx)
  then obtain em el where "s = (vst w)\<lparr>ve_total_emission := em, ve_emission_last := el\<rparr>"
    by (auto simp: AddTotalEmission_def SetTotalEmission_def SetEmissionAtLastPeriod_def res_simps Let_def split: if_splits)
  with emission assms(3) show ?thesis by (simp only: ve_inv_other)
next
  case (end_block w ctx w' ctx')
  with ve_laws.EndBlocker_inv [OF assms(1) end_block(4) _ _ end_block(6-8)] assms(3) show ?thesis by simp
next
  case (environment w' w ctx)
  with assms(3) show ?thesis by (auto simp: ve_inv_def tokens_inv_def coins_inv_def)
qed

lemma ve_init_inv:
  assumes "nft_laws N" "ve_init B N st"
  shows "ve_inv B N exact st"
proof -
  obtain ctx w' where st: "st = (ctx, w')" by (cases st)
  from assms(2) obtain d w where i: "ve_InitGenesis N d w = Ok w'" "vst w = ve_empty" "\<not> nft_HasClass N (vnf w) VeNftClass"
      "\<forall>t. \<not> nft_HasNFT N (vnf w) VeNftClass t" "0 \<le> vbal B w'" "0 \<le> BlockTime ctx" "BlockTime ctx < 2 ^ 61"
    by (auto simp: ve_init_def st)
  from i(1,3) obtain n where n: "nft_SaveClass N (vnf w) VeNftClass = Ok n"
    and w': "w' = on_store (\<lambda>s. SetCheckpoint EmptyEpoch ZeroCheckpoint (SetEpoch EmptyEpoch
                      (SetNextVeID FirstVeID (SetTotalLockedAmount 0 s)))) (on_store (\<lambda>s. s\<lparr>ve_lock_denom := d\<rparr>) w\<lparr>vnf := n\<rparr>)"
    by (auto simp: ve_InitGenesis_def on_store_def split: res.splits)
  from nft_laws.SaveClass_ok [OF assms(1) n] i(4) show ?thesis
    using i(5-7)
    by (auto simp: st w' ve_inv_def points_inv_def tokens_inv_def coins_inv_def on_store_def i(2) ve_empty_def ve_store_defs
        last_time_def history_ok_def times_ok_def ZeroCheckpoint_def EmptyEpoch_def FirstVeID_def locks_ok_def tracked_def line_Nil scheduled_Nil
        lockedSum_def now_of_def u64_mod_def vbal_def)
qed

lemma ve_reach_inv:
  assumes "ve_laws S B N" "ve_reach S B N G exact st"
  shows "ve_inv B N exact st"
  using assms(2) by induction (auto intro: ve_step_inv [OF assms(1)] ve_init_inv [OF ve_laws.axioms(2) [OF assms(1)]])

end
