(* ===== verification/VeDemo.thy ===== *)
theory VeDemo
  imports VeReach MakerDemo
begin

text \<open>
  A run of the ve module from genesis on the executable keepers: two locks by one owner, and the block in
  which the first of them runs out.
\<close>

interpretation demo_ve: ve_laws cosmos_sdk ledger demo_nft
  by unfold_locales

abbreviation demo_lock :: "int \<Rightarrow> LockedBalance" where
  "demo_lock n \<equiv> \<lparr>lb_Amount = n, lb_End = 1814400\<rparr>"

abbreviation demo_point :: "int \<Rightarrow> int \<Rightarrow> Checkpoint" where
  "demo_point b m \<equiv> \<lparr>cp_Bias = b, cp_Slope = m, cp_Timestamp = 1000000, cp_Block = 7\<rparr>"

definition demo_ve_state :: "nat \<Rightarrow> (nat, LockedBalance) kv \<Rightarrow> int \<Rightarrow> nat \<Rightarrow> (nat, Checkpoint) kv \<Rightarrow> (nat, nat) kv \<Rightarrow>
    (nat \<times> nat, Checkpoint) kv \<Rightarrow> (nat, int) kv \<Rightarrow> ve_store" where
  "demo_ve_state next L tot ep ps ue us sl =
     \<lparr>ve_total_locked = Some tot, ve_locked = L, ve_next_id = Some next, ve_epoch = Some ep,
      ve_points = (0, ZeroCheckpoint) # ps, ve_user_epochs = ue, ve_user_points = us, ve_slope_changes = sl,
      ve_attached = [], ve_voted = [], ve_total_emission = None, ve_emission_last = None, ve_emission_time = None,
      ve_distr_time = None, ve_distr_total = None, ve_distr_period = [], ve_distr_claim = [], ve_lock_denom = ''airon''\<rparr>"

definition demo_ve_bank :: "nat \<Rightarrow> ledger_state" where
  "demo_ve_bank n = \<lparr>balances = [((''alice'', ''airon''), 10 ^ 10 - n)] @ (if n = 0 then [] else [((''module/ve'', ''airon''), n)]),
     supplies = [(''airon'', 10 ^ 10)]\<rparr>"

definition demo_ve0 :: "(ledger_state, nft_state) ve_world" where
  "demo_ve0 = \<lparr>vst = demo_ve_state 1 [] 0 0 [] [] [] [], vnf = ([''veNFT''], []), vbk = demo_ve_bank 0\<rparr>"

definition demo_ve1 :: "(ledger_state, nft_state) ve_world" where
  "demo_ve1 = \<lparr>vst = demo_ve_state 2 [(1, demo_lock 632016000)] 632016000 1 [(1, demo_point 4072000 5)] [(1, 1)]
      [((1, 1), demo_point 4072000 5)] [(1814400, - 5)],
    vnf = ([''veNFT''], [((''veNFT'', ''ve-1''), ''alice'')]), vbk = demo_ve_bank 632016000\<rparr>"

definition demo_ve2 :: "(ledger_state, nft_state) ve_world" where
  "demo_ve2 = \<lparr>vst = demo_ve_state 3 [(1, demo_lock 632016000), (2, demo_lock 252806400)] 884822400 2
      [(1, demo_point 4072000 5), (2, demo_point 5700800 7)] [(1, 1), (2, 1)]
      [((1, 1), demo_point 4072000 5), ((2, 1), demo_point 1628800 2)] [(1814400, - 7)],
    vnf = ([''veNFT''], [((''veNFT'', ''ve-2''), ''alice''), ((''veNFT'', ''ve-1''), ''alice'')]), vbk = demo_ve_bank 884822400\<rparr>"

definition demo_ve_ctx :: ctx where
  "demo_ve_ctx = \<lparr>BlockHeight = 7, BlockTime = 1000000\<rparr>"

definition demo_create :: "int \<Rightarrow> MsgCreate" where
  "demo_create n = \<lparr>mcr_Sender = ''alice'', mcr_To = [], mcr_Amount = \<lparr>Denom = ''airon'', Amount = n\<rparr>, mcr_LockDuration = 1209600\<rparr>"

lemma demo_ids: "VeIDFromUint64 1 = ''ve-1''" "VeIDFromUint64 (Suc 0) = ''ve-1''" "VeIDFromUint64 2 = ''ve-2''"
  by code_simp+

lemma demo_slopes: "(632016000 :: int) sdiv 126403200 = 5" "(252806400 :: int) sdiv 126403200 = 2"
  by (simp_all add: sdiv_div)

lemma demo_times:
  "now_of demo_ve_ctx = 1000000" "BlockHeight demo_ve_ctx = 7" "RegulatedUnixTime 1000000 = 604800"
  "CheckRegulatedUnixTime 0 = Ok ()" "CheckRegulatedUnixTime 1814400 = Ok ()" "NextRegulatedUnixTime 604800 = Ok 1209600"
  "RegulatedUnixTimeFromNow demo_ve_ctx 1209600 = 1814400"
  by (simp_all add: now_of_def demo_ve_ctx_def RegulatedUnixTime_def CheckRegulatedUnixTime_def NextRegulatedUnixTime_def
      RegulatedPeriod_eq MaxUnixTime_def RegulatedUnixTimeFromNow_def durationSeconds_def u64_of_int_def i64_of_u64_def)

lemma demo_lockPoints:
  "lockPoint 1000000 NewLockedBalance = ZeroCheckpoint"
  "lockPoint 1000000 (demo_lock 632016000) = \<lparr>cp_Bias = 4072000, cp_Slope = 5, cp_Timestamp = 0, cp_Block = 0\<rparr>"
  "lockPoint 1000000 (demo_lock 252806400) = \<lparr>cp_Bias = 1628800, cp_Slope = 2, cp_Timestamp = 0, cp_Block = 0\<rparr>"
  by (simp_all add: lockPoint_def NewLockedBalance_def MaxLockTime_eq demo_slopes i64_of_diff)

lemma demo_regulate1:
  "GetEpoch s = 0 \<Longrightarrow> regulateCheckpoint_changes cosmos_sdk demo_ve_ctx 5 4072000 s =
     Ok (SetCheckpoint 1 (demo_point 4072000 5) (SetEpoch 1 s))"
  by (simp add: regulateCheckpoint_changes_def demo_times numeral_2_eq_2 Let_def
      addChange_def i64_of_u64_def u64_mod_def u64_sub_def u64_add_def)

lemma demo_regulate2:
  "GetEpoch s = 1 \<Longrightarrow> GetCheckpoint s 1 = demo_point 4072000 5 \<Longrightarrow>
   regulateCheckpoint_changes cosmos_sdk demo_ve_ctx 2 1628800 s = Ok (SetCheckpoint 2 (demo_point 5700800 7) (SetEpoch 2 s))"
  by (simp add: regulateCheckpoint_changes_def demo_times Let_def numeral_2_eq_2
      addChange_def i64_of_u64_def u64_mod_def u64_sub_def u64_add_def)
    (simp flip: numeral_2_eq_2)

lemma demo_user1:
  "GetEpoch s = 0 \<Longrightarrow> GetSlopeChange s 1814400 = 0 \<Longrightarrow> GetUserEpoch s i = 0 \<Longrightarrow>
   RegulateUserCheckpoint cosmos_sdk demo_ve_ctx i NewLockedBalance (demo_lock 632016000) s =
     Ok (SetUserCheckpoint i 1 (demo_point 4072000 5) (SetUserEpoch i 1 (SetSlopeChange 1814400 (- 5)
          (SetCheckpoint 1 (demo_point 4072000 5) (SetEpoch 1 s)))))"
  by (simp add: RegulateUserCheckpoint_def demo_times demo_lockPoints scheduleSlopes_def Let_def demo_regulate1
      ZeroCheckpoint_def u64_add_def u64_mod_def)
    (simp add: ve_store_defs)

lemma demo_user2:
  "GetEpoch s = 1 \<Longrightarrow> GetCheckpoint s 1 = demo_point 4072000 5 \<Longrightarrow> GetSlopeChange s 1814400 = - 5 \<Longrightarrow> GetUserEpoch s i = 0 \<Longrightarrow>
   RegulateUserCheckpoint cosmos_sdk demo_ve_ctx i NewLockedBalance (demo_lock 252806400) s =
     Ok (SetUserCheckpoint i 1 (demo_point 1628800 2) (SetUserEpoch i 1 (SetSlopeChange 1814400 (- 7)
          (SetCheckpoint 2 (demo_point 5700800 7) (SetEpoch 2 s)))))"
  by (simp add: RegulateUserCheckpoint_def demo_times demo_lockPoints scheduleSlopes_def Let_def demo_regulate2
      ZeroCheckpoint_def u64_add_def u64_mod_def)
    (simp add: ve_store_defs)

lemmas demo_create_eval = Create_def checkLockDenom_def getSenderReceiver_def accAddress_def demo_times
  on_store_def on_store_res_def DepositFor_def veTakeCoins_def EmptyVeID_def MaxVeID_def VeNftClass_def
  MaxLockTime_eq u64_mod_def u64_add_def demo_ids demo_create_def demo_ve_bank_def sdk_eval ledger_eval Let_def

lemma demo_nft_fields:
  "nft_Mint demo_nft (cs, ts) c i a = (if c \<in> set cs \<and> map_of ts (c, i) = None then Ok (cs, ((c, i), a) # ts)
       else Err (SdkErr (ErrOther ''nft already exists'')))"
  "nft_HasClass demo_nft (cs, ts) c = (c \<in> set cs)"
  "nft_HasNFT demo_nft (cs, ts) c i = (map_of ts (c, i) \<noteq> None)"
  "nft_GetOwner demo_nft (cs, ts) c i = (case map_of ts (c, i) of None \<Rightarrow> [] | Some a \<Rightarrow> a)"
  by (simp_all add: demo_nft_def)

lemma demo_create_run1:
  "Create cosmos_sdk ledger demo_nft demo_ve_ctx (demo_create 632016000) demo_ve0 = Ok (demo_ve1, 1, 1814400)"
  by (simp add: demo_create_eval demo_nft_fields demo_ve0_def demo_ve1_def demo_user1 ve_store_defs demo_ve_state_def ZeroCheckpoint_def cong: eval_cong)

lemma demo_create_run2:
  "Create cosmos_sdk ledger demo_nft demo_ve_ctx (demo_create 252806400) demo_ve1 = Ok (demo_ve2, 2, 1814400)"
  by (simp add: demo_create_eval demo_nft_fields demo_ve1_def demo_ve2_def demo_user2 ve_store_defs demo_ve_state_def ZeroCheckpoint_def cong: eval_cong)

lemma demo_create_valid: "0 < n \<Longrightarrow> MsgCreate_ValidateBasic cosmos_sdk (demo_create n) = Ok ()"
  by (simp add: MsgCreate_ValidateBasic_def demo_create_def sdk_eval accAddress_def MaxLockTime_eq RegulatedPeriod_eq durationSeconds_def cong: eval_cong)

lemma demo_ve_signs: "signs_ve cosmos_sdk ledger ''alice''"
  by (simp add: signs_ve_def sdk_eval ledger_eval)

lemma demo_ve_init: "ve_init ledger demo_nft (demo_ve_ctx, demo_ve0)"
  unfolding ve_init_def
  by (rule exI [of _ "''airon''"], rule exI [of _ "\<lparr>vst = ve_empty, vnf = ([], []), vbk = demo_ve_bank 0\<rparr>"])
    (simp add: ve_InitGenesis_def demo_nft_def ve_empty_def demo_ve0_def demo_ve_state_def on_store_def ve_store_defs
      VeNftClass_def EmptyEpoch_def FirstVeID_def vbal_def bal_def demo_ve_bank_def ledger_eval demo_ve_ctx_def ZeroCheckpoint_def)

lemma demo_ve_reach1: "ve_reach cosmos_sdk ledger demo_nft G exact (demo_ve_ctx, demo_ve1)"
  by (rule ve_reach.step [OF ve_reach.start [OF demo_ve_init] ve_step.create [OF demo_create_valid _ _ demo_create_run1]])
    (simp_all add: demo_ve_signs demo_create_def demo_ve0_def demo_ve_state_def GetEpoch_def)

lemma demo_ve_reach2: "ve_reach cosmos_sdk ledger demo_nft G exact (demo_ve_ctx, demo_ve2)"
  by (rule ve_reach.step [OF demo_ve_reach1 ve_step.create [OF demo_create_valid _ _ demo_create_run2]])
    (simp_all add: demo_ve_signs demo_create_def demo_ve1_def demo_ve_state_def GetEpoch_def)

text \<open>The block at which both locks run out.\<close>

definition demo_ve_end :: ctx where
  "demo_ve_end = \<lparr>BlockHeight = 8, BlockTime = 1814400\<rparr>"

lemma demo_ve_reach3: "ve_reach cosmos_sdk ledger demo_nft G exact (demo_ve_end, demo_ve2)"
  by (rule ve_reach.step [OF demo_ve_reach2 ve_step.end_block])
    (simp_all add: demo_ve2_def demo_ve_state_def GetEpoch_def ve_EndBlocker_def on_store_res_def RegulateCheckpoint_def
      GetCheckpoint_def kv_get_def kv_at_def demo_times u64_sub_def RegulatedPeriod_eq demo_ve_end_def demo_ve_ctx_def now_of_def u64_of_int_def)

section \<open>A merge\<close>

definition demo_merge :: MsgMerge where
  "demo_merge = \<lparr>mme_Sender = ''alice'', mme_FromVeId = ''ve-2'', mme_ToVeId = ''ve-1''\<rparr>"

lemma demo_epoch: "GetEpoch (vst demo_ve2) = 2"
  by (simp add: demo_ve2_def demo_ve_state_def GetEpoch_def)

lemma demo_regulate3:
  "GetEpoch s = 2 \<Longrightarrow> GetCheckpoint s 2 = demo_point 5700800 7 \<Longrightarrow>
   regulateCheckpoint_changes cosmos_sdk demo_ve_ctx (- 2) (- 1628800) s = Ok (SetCheckpoint 3 (demo_point 5700800 7) (SetEpoch 3 s))"
  "GetEpoch s = 3 \<Longrightarrow> GetCheckpoint s 3 = demo_point 5700800 7 \<Longrightarrow>
   regulateCheckpoint_changes cosmos_sdk demo_ve_ctx 2 1628800 s = Ok (SetCheckpoint 4 (demo_point 7329600 9) (SetEpoch 4 s))"
  by (simp_all add: regulateCheckpoint_changes_def demo_times Let_def numeral_2_eq_2
      addChange_def i64_of_u64_def u64_mod_def u64_sub_def u64_add_def)
    (simp_all flip: numeral_2_eq_2)

text \<open>A regulation at the time of the last checkpoint that takes away a line keeps the power.\<close>

lemma demo_lockPoint_new:
  "lockPoint 1000000 (demo_lock 884822400) = \<lparr>cp_Bias = 5700800, cp_Slope = 7, cp_Timestamp = 0, cp_Block = 0\<rparr>"
  by (simp add: lockPoint_def MaxLockTime_eq i64_of_diff sdiv_div)

lemma demo_user3:
  "GetEpoch s = 2 \<Longrightarrow> GetCheckpoint s 2 = demo_point 5700800 7 \<Longrightarrow> GetSlopeChange s 1814400 = - 7 \<Longrightarrow> GetUserEpoch s i = 1 \<Longrightarrow>
   RegulateUserCheckpoint cosmos_sdk demo_ve_ctx i (demo_lock 252806400) NewLockedBalance s =
     Ok (SetUserCheckpoint i 2 (demo_point 0 0) (SetUserEpoch i 2 (SetSlopeChange 1814400 (- 5)
          (SetCheckpoint 3 (demo_point 5700800 7) (SetEpoch 3 s)))))"
  by (simp add: RegulateUserCheckpoint_def demo_times demo_lockPoints scheduleSlopes_def Let_def demo_regulate3
      ZeroCheckpoint_def u64_add_def u64_mod_def)
    (simp add: ve_store_defs numeral_2_eq_2)

lemma demo_user4:
  "GetEpoch s = 3 \<Longrightarrow> GetCheckpoint s 3 = demo_point 5700800 7 \<Longrightarrow> GetSlopeChange s 1814400 = - 5 \<Longrightarrow> GetUserEpoch s i = 1 \<Longrightarrow>
   RegulateUserCheckpoint cosmos_sdk demo_ve_ctx i (demo_lock 632016000) (demo_lock 884822400) s =
     Ok (SetUserCheckpoint i 2 (demo_point 5700800 7) (SetUserEpoch i 2 (SetSlopeChange 1814400 (- 7)
          (SetCheckpoint 4 (demo_point 7329600 9) (SetEpoch 4 s)))))"
  by (simp add: RegulateUserCheckpoint_def demo_times demo_lockPoints demo_lockPoint_new scheduleSlopes_def Let_def demo_regulate3
      ZeroCheckpoint_def u64_add_def u64_mod_def)
    (simp add: ve_store_defs numeral_2_eq_2)

lemma demo_id_back: "Uint64FromVeID ''ve-1'' = 1" "Uint64FromVeID ''ve-2'' = 2"
  using Uint64FromVeID_inverse [of 1] Uint64FromVeID_inverse [of 2] by (simp_all add: demo_ids u64_mod_def)

definition demo_ve3 :: "(ledger_state, nft_state) ve_world" where
  "demo_ve3 = \<lparr>vst = demo_ve_state 3 [(1, demo_lock 884822400)] 1137628800 4
      [(1, demo_point 4072000 5), (2, demo_point 5700800 7), (3, demo_point 5700800 7), (4, demo_point 7329600 9)] [(1, 2), (2, 2)]
      [((1, 1), demo_point 4072000 5), ((1, 2), demo_point 5700800 7), ((2, 1), demo_point 1628800 2), ((2, 2), demo_point 0 0)]
      [(1814400, - 7)],
    vnf = ([''veNFT''], [((''veNFT'', ''ve-1''), ''alice'')]), vbk = demo_ve_bank 884822400\<rparr>"

lemma demo_merge_run:
  "Merge cosmos_sdk ledger demo_nft None demo_ve_ctx demo_merge demo_ve2 = Ok demo_ve3"
  by (simp add: Merge_def demo_merge_def accAddress_def demo_times on_store_def on_store_res_def DepositFor_def
      VeNftClass_def sdk_eval Let_def demo_id_back demo_user3 demo_user4 demo_nft_fields demo_ve2_def demo_ve_state_def
      demo_nft_def CheckVeAttached_def notDelegated_def demo_ve3_def ve_store_defs kv_delete_def cong: eval_cong)

lemma demo_merge_valid: "MsgMerge_ValidateBasic cosmos_sdk demo_merge = Ok ()"
  by (simp add: MsgMerge_ValidateBasic_def demo_merge_def sdk_eval demo_id_back EmptyVeID_def cong: eval_cong)

text \<open>After the merge the total power is more than that of the one lock left.\<close>

lemma merged_power_exceeds_locks:
  "GetTotalVotingPower demo_ve_ctx (vst demo_ve3) 1000001 0 = Ok 7329591"
  "locksPower (ve_locked (vst demo_ve3)) 1000001 = 5700793"
  by (simp_all add: GetTotalVotingPower_def demo_ve3_def demo_ve_state_def ve_store_defs kv_get_def demo_times futurePower.simps
      i64_of_diff not_below_zero_def locksPower_def lockPower_def lockSlope_def MaxLockTime_eq sdiv_div)

end
