(* ===== verification/VeProps.thy ===== *)
theory VeProps
  imports VeDemo
begin

text \<open>
  The properties of the ve module: what the checkpoints, the tokens and the coins of the module are in
  every reachable state, and what the operations on them do.
\<close>

section \<open>Helpers\<close>

lemma reach_parts:
  assumes "ve_laws S B N" "ve_reach S B N G exact (ctx, w)"
  shows "points_inv exact (now_of ctx) (vst w)" "tokens_inv N w" "coins_inv B exact w"
  using ve_reach_inv [OF assms] by (simp_all add: ve_inv_def)


section \<open>Voting power\<close>

text \<open>
  C24: as long as no token is merged or slashed, the voting power the chain computes for a later time from
  its checkpoints and scheduled slope changes is the sum over all locks of the power of each, the slope of
  the amount times the time left; and the power of each token is that of its lock.
\<close>

theorem ve_total_power_refines:
  assumes "ve_laws S B N" "ve_reach S B N G True (ctx, w)" "now_of ctx < t" "t < 2 ^ 62"
  shows "GetTotalVotingPower ctx (vst w) t b = Ok (kv_sum (\<lambda>_. lockPower t) (ve_locked (vst w))) \<and>
    (\<forall>(i, l) \<in> set (ve_locked (vst w)). GetVotingPower ctx (vst w) i t b = Ok (lockPower t l))"
proof -
  have inv: "last_time (vst w) < t" "locks_ok (ve_locked (vst w))" "tracked (ve_locked (vst w)) (vst w)"
    and us: "\<forall>(i, l) \<in> set (ve_locked (vst w)). lock_ok l \<and> user_tracked i l (vst w)"
    using reach_parts(1) [OF assms(1,2)] assms(3) by (auto simp: points_inv_def locks_ok_def)
  from total_power_future [OF inv(2,3,1) assms(4)] us user_power_future [OF _ _ inv(1) assms(4)]
  show ?thesis by (auto simp: locksPower_def)
qed

theorem ve_total_power_refines_witness:
  "GetTotalVotingPower demo_ve_ctx (vst demo_ve2) 1200000 0 = Ok 4300800"
  using ve_total_power_refines [OF demo_ve.ve_laws_axioms demo_ve_reach2 [where G = None], where t = 1200000 and b = 0]
  by (simp add: demo_times demo_ve2_def demo_ve_state_def lockPower_def lockSlope_def MaxLockTime_eq demo_slopes)

text \<open>
  C27: the power of a token at the current block time, which is what the gauges and the votes are given, or at
  any later time below \<open>2 ^ 62\<close>, is never negative, never more than what the token has locked, and zero once
  the lock has run out; this holds in every history of fewer than \<open>2 ^ 63\<close> checkpoints, merges and
  slashings included.
\<close>

theorem voting_power_bounded:
  assumes "ve_laws S B N" "ve_reach S B N G exact (ctx, w)" "(i, l) \<in> set (ve_locked (vst w))" "GetEpoch (vst w) < 2 ^ 63"
    and "now_of ctx \<le> t" "0 < t" "t < 2 ^ 62"
  shows "\<exists>p. GetVotingPower ctx (vst w) i t b = Ok p \<and> 0 \<le> p \<and> p \<le> lb_Amount l \<and> (lb_End l \<le> t \<longrightarrow> p = 0)"
proof -
  have inv: "last_time (vst w) \<le> t" "lock_ok l" "user_tracked i l (vst w)" "lb_End l \<le> now_of ctx + MaxLockTime" "history_ok (vst w)"
    using reach_parts(1) [OF assms(1,2)] assms(3,5) by (auto simp: points_inv_def locks_ok_def)
  have "i \<noteq> EmptyVeID" using reach_parts(2) [OF assms(1,2)] assms(3) by (force simp: tokens_inv_def EmptyVeID_def)
  note p = user_power_now [OF inv(2,3,5) assms(4) this inv(1) assms(6,7)]
  have "0 \<le> lb_Amount l" "lb_End l \<le> t + MaxLockTime" using inv(2,4) assms(5) by (simp_all add: lock_ok_def)
  with p lockPower_nonneg lockPower_le show ?thesis by (auto simp: lockPower_def)
qed

theorem voting_power_bounded_witness:
  "(\<exists>p. GetVotingPower demo_ve_ctx (vst demo_ve2) 1 1000000 0 = Ok p \<and> 0 \<le> p \<and> p \<le> 632016000) \<and>
   (\<exists>p. GetVotingPower demo_ve_ctx (vst demo_ve2) 1 1814400 0 = Ok p \<and> p = 0)"
proof -
  have m: "(1, demo_lock 632016000) \<in> set (ve_locked (vst demo_ve2))" by (simp add: demo_ve2_def demo_ve_state_def)
  note b = voting_power_bounded [OF demo_ve.ve_laws_axioms demo_ve_reach2 [where G = None and exact = True] m, of _ 0]
  show ?thesis using b [of 1000000] b [of 1814400] by (simp add: demo_times demo_epoch)
qed

text \<open>
  C31: in every reachable state with fewer than \<open>2 ^ 63\<close> checkpoints, the binary search over the checkpoints
  of the system, or over those of a token, ends and finds the last checkpoint that is not after the time
  looked for: the times of both histories never decrease, and the middle of the bounds does not wrap around.
\<close>

theorem find_time_epoch_spec:
  assumes "ve_laws S B N" "ve_reach S B N G exact (ctx, w)" "GetEpoch (vst w) < 2 ^ 63"
    and "n = (if veID = EmptyVeID then GetEpoch (vst w) else GetUserEpoch (vst w) veID)"
  shows "findTimeEpoch (vst w) veID t n = Some (Max {e. e \<le> n \<and> cp_Timestamp (pointOf (vst w) veID e) \<le> t})"
proof -
  have "history_ok (vst w)" using reach_parts(1) [OF assms(1,2)] by (simp add: points_inv_def)
  from findTimeEpoch_history [OF this assms(3), of veID t] show ?thesis
    using last_before_Max by (auto simp: assms(4) epochs_of_def)
qed

theorem find_time_epoch_spec_witness:
  "findTimeEpoch (vst demo_ve2) 0 1000000 2 = Some (Max {e. e \<le> 2 \<and> cp_Timestamp (pointOf (vst demo_ve2) 0 e) \<le> 1000000}) \<and>
   findTimeEpoch (vst demo_ve2) 0 1000000 2 = Some 2"
proof
  show "findTimeEpoch (vst demo_ve2) 0 1000000 2 = Some (Max {e. e \<le> 2 \<and> cp_Timestamp (pointOf (vst demo_ve2) 0 e) \<le> 1000000})"
    by (rule find_time_epoch_spec [OF demo_ve.ve_laws_axioms demo_ve_reach2 [where G = None and exact = True]])
       (simp_all add: demo_epoch EmptyVeID_def)
  show "findTimeEpoch (vst demo_ve2) 0 1000000 2 = Some 2"
    by (simp add: findTimeEpoch_def searchEpoch_round demo_ve2_def demo_ve_state_def pointOf_def EmptyVeID_def
        GetCheckpoint_def kv_get_def)
qed

section \<open>Coins and tokens\<close>

text \<open>
  C25: the module's account always holds what all locks together hold, so every lock can be paid back; the
  recorded total is that sum as long as no token is merged or slashed, and never less than it otherwise.
\<close>

theorem ve_coins_cover_locks:
  assumes "ve_laws S B N" "ve_reach S B N G exact (ctx, w)"
  shows "lockedSum (vst w) \<le> vbal B w \<and> lockedSum (vst w) \<le> GetTotalLockedAmount (vst w) \<and>
    (exact \<longrightarrow> GetTotalLockedAmount (vst w) = lockedSum (vst w))"
  using reach_parts(3) [OF assms] by (simp add: coins_inv_def split: if_splits)

theorem ve_coins_cover_locks_witness:
  "lockedSum (vst demo_ve2) = 884822400 \<and> GetTotalLockedAmount (vst demo_ve2) = lockedSum (vst demo_ve2) \<and> 884822400 \<le> vbal ledger demo_ve2"
  using ve_coins_cover_locks [OF demo_ve.ve_laws_axioms demo_ve_reach2 [where G = None and exact = True]]
  by (simp add: lockedSum_def) (simp add: demo_ve2_def demo_ve_state_def)

text \<open>
  C28: the tokens of the class are exactly the locks, each named by the text of its number; so whoever signs
  for a token they own names an existing lock, and by its only name.
\<close>

theorem ve_tokens_are_locks:
  assumes "ve_laws S B N" "ve_reach S B N G exact (ctx, w)" "AccAddressFromBech32 S sender = Some a"
  shows "(nft_HasNFT N (vnf w) VeNftClass t \<longleftrightarrow> (\<exists>i \<in> fst ` set (ve_locked (vst w)). t = VeIDFromUint64 i)) \<and>
    (a = nft_GetOwner N (vnf w) VeNftClass t \<longrightarrow>
       Uint64FromVeID t \<in> fst ` set (ve_locked (vst w)) \<and> t = VeIDFromUint64 (Uint64FromVeID t))"
proof -
  note tok = reach_parts(2) [OF assms(1,2)]
  have "Uint64FromVeID t \<in> fst ` set (ve_locked (vst w)) \<and> t = VeIDFromUint64 (Uint64FromVeID t)"
    if "a = nft_GetOwner N (vnf w) VeNftClass t"
    using ve_laws.owner_token [OF assms(1) tok assms(3) that] by metis
  with tok show ?thesis by (auto simp: tokens_inv_def)
qed

theorem ve_tokens_are_locks_witness:
  "nft_HasNFT demo_nft (vnf demo_ve2) VeNftClass ''ve-2'' \<and> ''ve-2'' = VeIDFromUint64 (Uint64FromVeID ''ve-2'')"
proof -
  have "AccAddressFromBech32 cosmos_sdk ''alice'' = Some ''alice''" by (simp add: sdk_eval)
  from ve_tokens_are_locks [OF demo_ve.ve_laws_axioms demo_ve_reach2 [where G = None and exact = True] this, where t = "''ve-2''"]
  show ?thesis by (simp add: demo_ve2_def demo_ve_state_def demo_nft_def VeNftClass_def demo_ids)
qed

text \<open>
  C30: merging a token into another moves the locked amount but changes no coins, and the locks' sum stays;
  the recorded total grows by the merged amount all the same, so it is counted twice from then on.
\<close>

theorem merge_counts_twice:
  assumes "ve_laws S B N" "ve_reach S B N G False (ctx, w)" "GetEpoch (vst w) < 2 ^ 62"
    and "MsgMerge_ValidateBasic S m = Ok ()" "Merge S B N G ctx m w = Ok w'"
  shows "lockedSum (vst w') = lockedSum (vst w) \<and>
    GetTotalLockedAmount (vst w') = GetTotalLockedAmount (vst w)
      + lb_Amount (GetLockedAmountByUser (vst w) (Uint64FromVeID (mme_FromVeId m)))"
  using ve_laws.Merge_inv(2,3) [OF assms(1,5,4) ve_reach_inv [OF assms(1,2)] assms(3)] by simp

theorem merge_counts_twice_witness:
  "lockedSum (vst demo_ve3) = lockedSum (vst demo_ve2) \<and>
   GetTotalLockedAmount (vst demo_ve3) = GetTotalLockedAmount (vst demo_ve2) + 252806400"
proof -
  have "lb_Amount (GetLockedAmountByUser (vst demo_ve2) (Uint64FromVeID (mme_FromVeId demo_merge))) = 252806400"
    by (simp add: demo_merge_def demo_id_back demo_ve2_def demo_ve_state_def GetLockedAmountByUser_def kv_get_def)
  with merge_counts_twice [OF demo_ve.ve_laws_axioms demo_ve_reach2 _ demo_merge_valid demo_merge_run] show ?thesis
    by (simp add: demo_epoch)
qed



section \<open>Regulation at the end of a block\<close>

text \<open>
  C29: the end of a block panics exactly when the last checkpoint is so old that two rounds over the weeks
  do not reach the block's time; otherwise it returns.  A pause of the chain of a little more than a week can
  be enough.
\<close>

theorem ve_end_block_panics_iff:
  assumes "sdk_laws S" "last_time (vst w) \<le> now_of ctx" "now_of ctx < 2 ^ 62"
  shows "(ve_EndBlocker S ctx w = Panic \<longleftrightarrow>
      0 < GetEpoch (vst w) \<and> RegulatedUnixTime (last_time (vst w)) + 2 * RegulatedPeriod < now_of ctx) \<and>
    (ve_EndBlocker S ctx w \<noteq> Panic \<longrightarrow> (\<exists>w'. ve_EndBlocker S ctx w = Ok w'))"
proof -
  let ?s = "vst w" and ?now = "now_of ctx"
  have late: "last_time ?s + RegulatedPeriod < RegulatedUnixTime (last_time ?s) + 2 * RegulatedPeriod"
    using RegulatedUnixTime_next [of "last_time ?s"] by simp
  have due: "u64_sub ?now (last_time ?s) = ?now - last_time ?s" using assms(2,3) by (simp add: u64_mod_def)
  have run: "ve_EndBlocker S ctx w = rbind (if RegulatedPeriod \<le> ?now - last_time ?s then regulateCheckpoint_changes S ctx 0 0 ?s else Ok ?s)
      (\<lambda>s. Ok (w\<lparr>vst := s\<rparr>))"
    using due by (simp add: ve_EndBlocker_def on_store_res_def RegulateCheckpoint_def last_time_def)
  note e = regulate_ends [OF assms, of 0 0]
  have base: "?now \<le> RegulatedUnixTime (base_time ctx ?s) + 2 * RegulatedPeriod \<longleftrightarrow>
      \<not> (0 < GetEpoch ?s \<and> RegulatedUnixTime (last_time ?s) + 2 * RegulatedPeriod < ?now)"
    using RegulatedUnixTime_next [of ?now] by (auto simp: base_time_def)
  show ?thesis
  proof (cases "0 < GetEpoch ?s \<and> RegulatedUnixTime (last_time ?s) + 2 * RegulatedPeriod < ?now")
    case True
    with e(2) late base run show ?thesis by auto
  next
    case False
    with e(1) base obtain s' where "regulateCheckpoint_changes S ctx 0 0 ?s = Ok s'" by blast
    with False run show ?thesis by auto
  qed
qed

theorem ve_end_block_panics_iff_witness:
  "ve_EndBlocker cosmos_sdk \<lparr>BlockHeight = 9, BlockTime = 1814401\<rparr> demo_ve2 = Panic \<and>
   (\<exists>w'. ve_EndBlocker cosmos_sdk demo_ve_end demo_ve2 = Ok w')"
proof -
  have l: "last_time (vst demo_ve2) = 1000000"
    by (simp add: last_time_def demo_ve2_def demo_ve_state_def GetEpoch_def GetCheckpoint_def kv_get_def)
  show ?thesis
    using ve_end_block_panics_iff [OF cosmos.sdk_laws_axioms, of demo_ve2 "\<lparr>BlockHeight = 9, BlockTime = 1814401\<rparr>"]
      ve_end_block_panics_iff [OF cosmos.sdk_laws_axioms, of demo_ve2 demo_ve_end]
    by (simp add: l demo_epoch demo_times RegulatedPeriod_eq now_of_def demo_ve_end_def)
qed

section \<open>Queries\<close>




section \<open>Distribution\<close>

text \<open>What a distribution adds to the period that starts at a time: up to the end of the period from the last distribution on.\<close>

definition periodShare :: "nat \<Rightarrow> nat \<Rightarrow> int \<Rightarrow> nat \<Rightarrow> int" where
  "periodShare now timeLast amount e = (amount * (int (min (e + RegulatedPeriod) now) - int timeLast)) sdiv (int now - int timeLast)"

lemmas ve_distr_defs = GetDistributionPerPeriod_def SetDistributionPerPeriod_def GetDistributionTotalAmount_def
  SetDistributionTotalAmount_def GetDistributionAccruedLastTimestamp_def SetDistributionAccruedLastTimestamp_def

lemma distribution_set:
  "GetDistributionPerPeriod (SetDistributionPerPeriod e a s) e' = (if e' = e then a else GetDistributionPerPeriod s e')"
  by (simp add: GetDistributionPerPeriod_def SetDistributionPerPeriod_def)

lemma distributeLoop_shares:
  assumes "timeLast < now" "now < 2 ^ 62" "RegulatedPeriod dvd epochTime" "epochTime < now" "timeLast < epochTime + RegulatedPeriod"
  shows "\<exists>s'. distributeLoop now timeLast (u64_sub now timeLast) amount epochTime s = Ok s' \<and> (\<exists>ps. s' = s\<lparr>ve_distr_period := ps\<rparr>) \<and>
     (\<forall>e. GetDistributionPerPeriod s' e = GetDistributionPerPeriod s e
        + (if RegulatedPeriod dvd e \<and> epochTime \<le> e \<and> e < now then periodShare now timeLast amount e else 0))"
  using assms(3-5)
proof (induction "now - epochTime" arbitrary: epochTime s rule: less_induct)
  case less
  let ?next = "epochTime + RegulatedPeriod" and ?d = "u64_sub now timeLast"
  have nx: "NextRegulatedUnixTime epochTime = Ok ?next" using less.prems(1,2) assms(2) by (intro next_regulated) auto
  have dur: "?d \<noteq> 0" using assms(1,2) by (simp add: u64_mod_def)
  have i: "i64_of_u64 ?d = int now - int timeLast" by (rule i64_of_diff) (use assms in auto)
  have j: "i64_of_u64 (u64_sub (min ?next now) timeLast) = int (min ?next now) - int timeLast"
    by (rule i64_of_diff) (use assms less.prems in auto)
  define s1 where "s1 = SetDistributionPerPeriod epochTime (GetDistributionPerPeriod s epochTime + periodShare now timeLast amount epochTime) s"
  have fr: "\<exists>ps. s1 = s\<lparr>ve_distr_period := ps\<rparr>" by (auto simp: s1_def SetDistributionPerPeriod_def)
  then have fr1: "\<exists>ps. s1\<lparr>ve_distr_period := qs\<rparr> = s\<lparr>ve_distr_period := ps\<rparr>" for qs by auto
  have s1: "GetDistributionPerPeriod s1 e = GetDistributionPerPeriod s e + (if e = epochTime then periodShare now timeLast amount epochTime else 0)" for e
    by (simp add: s1_def distribution_set)
  have run: "distributeLoop now timeLast ?d amount epochTime s =
      (if ?next \<ge> now then Ok s1 else distributeLoop now timeLast ?d amount ?next s1)"
    using dur less.prems(2) nx i j by (cases "?next \<ge> now"; subst distributeLoop.simps) (simp_all add: Let_def s1_def not_le periodShare_def min_def)
  have period: "RegulatedPeriod dvd e \<and> epochTime \<le> e \<and> e < now \<longleftrightarrow>
      e = epochTime \<or> RegulatedPeriod dvd e \<and> ?next \<le> e \<and> e < now" for e
    using less.prems(1,2) by (auto elim!: dvdE simp: RegulatedPeriod_eq)
  show ?case
  proof (cases "?next \<ge> now")
    case True
    then show ?thesis unfolding period using run s1 fr by auto
  next
    case False
    have "now - ?next < now - epochTime" "RegulatedPeriod dvd ?next" "?next < now" "timeLast < ?next + RegulatedPeriod"
      using False less.prems by (auto simp: RegulatedPeriod_eq)
    from less.hyps [OF this, of s1] obtain s' where s': "distributeLoop now timeLast ?d amount ?next s1 = Ok s'" "\<exists>ps. s' = s1\<lparr>ve_distr_period := ps\<rparr>"
        "\<forall>e. GetDistributionPerPeriod s' e = GetDistributionPerPeriod s1 e
          + (if RegulatedPeriod dvd e \<and> ?next \<le> e \<and> e < now then periodShare now timeLast amount e else 0)" by blast
    have "\<not> ?next \<le> epochTime" by (simp add: RegulatedPeriod_eq)
    with False s' run s1 fr1 show ?thesis unfolding period by auto
  qed
qed

text \<open>
  C33: a distribution gives each period since the last one the part of the new coins up to the end of that
  period, counted from the last distribution and not from the start of the period: with more than one
  period the shares add up to more than was received.
\<close>

theorem distribute_per_period:
  assumes "timeLast = GetDistributionAccruedLastTimestamp (vst w)" "timeLast < now_of ctx" "now_of ctx < 2 ^ 62"
    and "received = Amount (GetBalance B (vbk w) (GetModuleAddress B DistributionPoolName) (ve_lock_denom (vst w)))"
  shows "\<exists>w'. DistributePerPeriod B ctx w = Ok w' \<and> GetDistributionTotalAmount (vst w') = received \<and>
    GetDistributionAccruedLastTimestamp (vst w') = now_of ctx \<and>
    (\<forall>e. GetDistributionPerPeriod (vst w') e = GetDistributionPerPeriod (vst w) e
      + (if RegulatedPeriod dvd e \<and> RegulatedUnixTime timeLast \<le> e \<and> e < now_of ctx
         then periodShare (now_of ctx) timeLast (received - GetDistributionTotalAmount (vst w)) e else 0))"
proof -
  let ?now = "now_of ctx" and ?R = "RegulatedUnixTime timeLast"
  define s1 where "s1 = SetDistributionAccruedLastTimestamp ?now (SetDistributionTotalAmount received (vst w))"
  have "?R < ?now" using RegulatedUnixTime_le [of timeLast] assms(2) by simp
  from distributeLoop_shares [OF assms(2,3) RegulatedUnixTime_dvd this RegulatedUnixTime_next, of "received - GetDistributionTotalAmount (vst w)" s1]
  obtain s' ps where s': "distributeLoop ?now timeLast (u64_sub ?now timeLast) (received - GetDistributionTotalAmount (vst w)) ?R s1 = Ok s'"
    "s' = s1\<lparr>ve_distr_period := ps\<rparr>"
    "\<forall>e. GetDistributionPerPeriod s' e = GetDistributionPerPeriod s1 e + (if RegulatedPeriod dvd e \<and> ?R \<le> e \<and> e < ?now
         then periodShare ?now timeLast (received - GetDistributionTotalAmount (vst w)) e else 0)" by blast
  have "DistributePerPeriod B ctx w = Ok (w\<lparr>vst := s'\<rparr>)"
    using s'(1) by (simp add: DistributePerPeriod_def Let_def assms(1,4) s1_def)
  moreover have "GetDistributionPerPeriod s1 e = GetDistributionPerPeriod (vst w) e" for e
    by (simp add: s1_def ve_distr_defs)
  moreover have "GetDistributionTotalAmount s' = received" "GetDistributionAccruedLastTimestamp s' = ?now"
    by (simp_all add: s'(2) s1_def ve_distr_defs)
  ultimately show ?thesis using s'(3) by simp
qed

definition demo_pool :: "(ledger_state, nft_state) ve_world" where
  "demo_pool = demo_ve0\<lparr>vbk := \<lparr>balances = [((''module/'' @ DistributionPoolName, ''airon''), 300)], supplies = []\<rparr>\<rparr>"

text \<open>Three weeks after the last distribution, the first of them gets a third, the second two, the third all.\<close>

theorem distribute_per_period_witness:
  "\<exists>w'. DistributePerPeriod ledger demo_ve_end demo_pool = Ok w' \<and> GetDistributionPerPeriod (vst w') 0 = 100 \<and>
    GetDistributionPerPeriod (vst w') 604800 = 200 \<and> GetDistributionPerPeriod (vst w') 1209600 = 300"
proof -
  have l: "0 = GetDistributionAccruedLastTimestamp (vst demo_pool)" "GetDistributionTotalAmount (vst demo_pool) = 0"
      "GetDistributionPerPeriod (vst demo_pool) e = 0" "ve_lock_denom (vst demo_pool) = ''airon''" for e
    by (simp_all add: demo_pool_def demo_ve0_def demo_ve_state_def ve_distr_defs)
  have n: "now_of demo_ve_end = 1814400" by (simp add: now_of_def demo_ve_end_def)
  have r: "300 = Amount (GetBalance ledger (vbk demo_pool) (GetModuleAddress ledger DistributionPoolName) (ve_lock_denom (vst demo_pool)))"
    by (simp add: l(4)) (simp add: demo_pool_def ledger_eval)
  show ?thesis
    using distribute_per_period [OF l(1) _ _ r, of demo_ve_end]
    by (auto simp: n l(2,3) periodShare_def RegulatedPeriod_eq RegulatedUnixTime_def sdiv_div)
qed

end
