(* ===== verification/Vesting.thy ===== *)
theory Vesting
  imports VeMsg
begin

text \<open>
  The vesting module, \<open>x/vesting\<close>: the allocation of the coins at genesis, the claims of what has vested,
  and the airdrops.  The account and distribution keepers and the spendable coins of the bank are
  parameters; the emission is the ve module's.
\<close>

section \<open>Constants (constants.go)\<close>

definition StakingRewardVestingName :: string where
  "StakingRewardVestingName = ''staking_reward_vesting''"

definition CommunityPoolVestingName :: string where
  "CommunityPoolVestingName = ''community_pool_vesting''"

definition TeamVestingName :: string where
  "TeamVestingName = ''team_vesting''"

definition StakingRewardVestingTime :: int where
  "StakingRewardVestingTime = int SecondsPer4Years"

definition CommunityPoolVestingTime :: int where
  "CommunityPoolVestingTime = int SecondsPer4Years"

definition TeamVestingTime :: int where
  "TeamVestingTime = int SecondsPer4Years"

definition ClaimVestedPeriod :: nat where
  "ClaimVestedPeriod = 10"

section \<open>Data (vesting.pb.go, genesis.pb.go)\<close>

record AllocationAmounts =
  al_TotalAmount :: int
  al_AirdropAmount :: int
  al_VeVestingAmount :: int
  al_StakingRewardAmount :: int
  al_CommunityPoolAmount :: int
  al_StrategicReserveAmount :: int
  al_TeamVestingAmount :: int

record AllocationAddresses =
  aa_TeamVestingAddr :: string
  aa_StrategicReserveCustodianAddr :: string

record Airdrop =
  ad_TargetAddr :: string
  ad_Amount :: coin

record vesting_genesis =
  vg_Allocation :: AllocationAmounts
  vg_Addresses :: AllocationAddresses

text \<open>An address in a key is prefixed by its length, so shorter addresses come first.\<close>

type_synonym airdrop_key = "nat \<times> addr"

record vesting_store =
  vs_allocation :: AllocationAmounts
  vs_addresses :: "AllocationAddresses option"
  vs_airdrops_total :: "int option"
  vs_airdrops :: "(airdrop_key, Airdrop) kv"
  vs_completed :: "(airdrop_key, Airdrop) kv"

text \<open>
  The world: the module's store, the joint state of the bank and of the accounts, and the store of the
  ve module, which records the emission.
\<close>

record 'b vesting_world =
  vss :: vesting_store
  vsb :: 'b
  vsv :: ve_store

text \<open>
  The keepers the module calls beyond the bank's transfers: the spendable coins of an account, the
  community pool, and setting up a continuous vesting account (its coins, start and end).
\<close>

record 'b vest_keepers =
  SpendableCoins :: "'b \<Rightarrow> addr \<Rightarrow> coin list"
  FundCommunityPool :: "'b \<Rightarrow> coin list \<Rightarrow> addr \<Rightarrow> 'b res"
  SetVestingAccount :: "'b \<Rightarrow> addr \<Rightarrow> coin list \<Rightarrow> int \<Rightarrow> int \<Rightarrow> 'b res"

section \<open>Parameters (params.go)\<close>

definition validateAllocationAmounts :: "AllocationAmounts \<Rightarrow> bool" where
  "validateAllocationAmounts v \<longleftrightarrow>
     al_TotalAmount v = al_AirdropAmount v + al_VeVestingAmount v + al_StakingRewardAmount v
       + al_CommunityPoolAmount v + al_StrategicReserveAmount v + al_TeamVestingAmount v"

definition DefaultTotalAmount :: int where
  "DefaultTotalAmount = 1000000000 * 10 ^ 18"

definition VestingDefaultParams :: "sdk \<Rightarrow> AllocationAmounts res" where
  "VestingDefaultParams S =
     (let share = (\<lambda>rate. Dec_TruncateInt S (Dec_Mul S (ToDec DefaultTotalAmount) (rate * 10 ^ 16)));
          v = \<lparr>al_TotalAmount = DefaultTotalAmount, al_AirdropAmount = share 5, al_VeVestingAmount = share 45,
               al_StakingRewardAmount = share 5, al_CommunityPoolAmount = share 5,
               al_StrategicReserveAmount = share 20, al_TeamVestingAmount = share 20\<rparr> in
      if validateAllocationAmounts v then Ok v else Panic)"

section \<open>The store (allocation.go, params.go, genesis.go)\<close>

text \<open>The parameter store panics on values that do not pass their validation.\<close>

definition vesting_SetParams :: "AllocationAmounts \<Rightarrow> vesting_store \<Rightarrow> vesting_store res" where
  "vesting_SetParams v s = (if validateAllocationAmounts v then Ok (s\<lparr>vs_allocation := v\<rparr>) else Panic)"

definition SetAllocationAddresses :: "AllocationAddresses \<Rightarrow> vesting_store \<Rightarrow> vesting_store" where
  "SetAllocationAddresses a s = s\<lparr>vs_addresses := Some a\<rparr>"

definition GetAllocationAddresses :: "vesting_store \<Rightarrow> AllocationAddresses" where
  "GetAllocationAddresses s = (case vs_addresses s of
       None \<Rightarrow> \<lparr>aa_TeamVestingAddr = [], aa_StrategicReserveCustodianAddr = []\<rparr> | Some a \<Rightarrow> a)"

definition SetAirdropTotalAmount :: "int \<Rightarrow> vesting_store \<Rightarrow> vesting_store" where
  "SetAirdropTotalAmount t s = s\<lparr>vs_airdrops_total := Some t\<rparr>"

definition GetAirdropTotalAmount :: "vesting_store \<Rightarrow> int" where
  "GetAirdropTotalAmount s = (case vs_airdrops_total s of None \<Rightarrow> 0 | Some t \<Rightarrow> t)"

definition AirdropsKey :: "addr \<Rightarrow> airdrop_key" where
  "AirdropsKey acc = (length acc, acc)"

definition emptyAirdrop :: Airdrop where
  "emptyAirdrop = \<lparr>ad_TargetAddr = [], ad_Amount = \<lparr>Denom = [], Amount = 0\<rparr>\<rparr>"

definition SetAirdrop :: "addr \<Rightarrow> Airdrop \<Rightarrow> vesting_store \<Rightarrow> vesting_store" where
  "SetAirdrop acc a s = s\<lparr>vs_airdrops := kv_set (AirdropsKey acc) a (vs_airdrops s)\<rparr>"

definition GetAirdrop :: "vesting_store \<Rightarrow> addr \<Rightarrow> Airdrop" where
  "GetAirdrop s acc = (case kv_get (vs_airdrops s) (AirdropsKey acc) of None \<Rightarrow> emptyAirdrop | Some a \<Rightarrow> a)"

definition DeleteAirdrop :: "addr \<Rightarrow> vesting_store \<Rightarrow> vesting_store" where
  "DeleteAirdrop acc s = s\<lparr>vs_airdrops := kv_delete (AirdropsKey acc) (vs_airdrops s)\<rparr>"

definition SetAirdropCompleted :: "addr \<Rightarrow> Airdrop \<Rightarrow> vesting_store \<Rightarrow> vesting_store" where
  "SetAirdropCompleted acc a s = s\<lparr>vs_completed := kv_set (AirdropsKey acc) a (vs_completed s)\<rparr>"

definition GetAirdropCompleted :: "vesting_store \<Rightarrow> addr \<Rightarrow> Airdrop" where
  "GetAirdropCompleted s acc = (case kv_get (vs_completed s) (AirdropsKey acc) of None \<Rightarrow> emptyAirdrop | Some a \<Rightarrow> a)"

text \<open>The address of a stored text: the empty address for the empty text, a panic for an invalid one.\<close>

definition storedAddr :: "sdk \<Rightarrow> string \<Rightarrow> addr res" where
  "storedAddr S t = (if t = [] then Ok [] else case AccAddressFromBech32 S t of None \<Rightarrow> Panic | Some a \<Rightarrow> Ok a)"

definition GetTeamVestingAddr :: "sdk \<Rightarrow> AllocationAddresses \<Rightarrow> addr res" where
  "GetTeamVestingAddr S a = storedAddr S (aa_TeamVestingAddr a)"

definition GetStrategicReserveCustodianAddr :: "sdk \<Rightarrow> AllocationAddresses \<Rightarrow> addr res" where
  "GetStrategicReserveCustodianAddr S a = storedAddr S (aa_StrategicReserveCustodianAddr a)"

definition Airdrop_GetTargetAddr :: "sdk \<Rightarrow> Airdrop \<Rightarrow> addr res" where
  "Airdrop_GetTargetAddr S a = storedAddr S (ad_TargetAddr a)"

section \<open>Allocation and claims (allocation.go)\<close>

text \<open>Coins minted by the module and paid to an account.\<close>

definition mintTo :: "sdk \<Rightarrow> 'b bank \<Rightarrow> coin \<Rightarrow> addr \<Rightarrow> 'b \<Rightarrow> 'b res" where
  "mintTo S B amt a b =
     rbind (NewCoins S [amt]) (\<lambda>cs.
     rbind (MintCoins B b ''vesting'' cs) (\<lambda>b1.
     SendCoinsFromModuleToAccount B b1 ''vesting'' a cs))"

definition createContinuousVestingAccount ::
  "sdk \<Rightarrow> 'b bank \<Rightarrow> 'b vest_keepers \<Rightarrow> string \<Rightarrow> int \<Rightarrow> int \<Rightarrow> int \<Rightarrow> 'b \<Rightarrow> 'b res" where
  "createContinuousVestingAccount S B K vestingName amount startTime duration b =
     (let vestingAddr = GetModuleAddress B vestingName in
      rbind (NewCoin S BaseDenom amount) (\<lambda>amt.
      rbind (NewCoins S [amt]) (\<lambda>cs.
      rbind (SetVestingAccount K b vestingAddr cs startTime (startTime + duration)) (\<lambda>b1.
      must (mintTo S B amt vestingAddr b1)))))"

definition AllocateAtGenesis ::
  "sdk \<Rightarrow> (dec \<Rightarrow> nat \<Rightarrow> dec) \<Rightarrow> 'b bank \<Rightarrow> 'b vest_keepers \<Rightarrow> ctx \<Rightarrow> vesting_genesis \<Rightarrow> 'b vesting_world \<Rightarrow>
   'b vesting_world res" where
  "AllocateAtGenesis S Dec_Power B K ctx g w =
     (let startTime = BlockTime ctx; alloc = vg_Allocation g in
      rbind (createContinuousVestingAccount S B K StakingRewardVestingName (al_StakingRewardAmount alloc) startTime
               StakingRewardVestingTime (vsb w)) (\<lambda>b1.
      rbind (createContinuousVestingAccount S B K CommunityPoolVestingName (al_CommunityPoolAmount alloc) startTime
               CommunityPoolVestingTime b1) (\<lambda>b2.
      rbind (createContinuousVestingAccount S B K TeamVestingName (al_TeamVestingAmount alloc) startTime
               TeamVestingTime b2) (\<lambda>b3.
      rbind (AddTotalEmission S Dec_Power (al_VeVestingAmount alloc) (vsv w)) (\<lambda>v.
      rbind (NewCoin S BaseDenom (al_StrategicReserveAmount alloc)) (\<lambda>srAmount.
      rbind (GetStrategicReserveCustodianAddr S (vg_Addresses g)) (\<lambda>custodian.
      rbind (must (mintTo S B srAmount custodian b3)) (\<lambda>b4.
      Ok (w\<lparr>vsb := b4, vsv := v\<rparr>)))))))))"

definition coins_IsAllPositive :: "coin list \<Rightarrow> bool" where
  "coins_IsAllPositive cs \<longleftrightarrow> cs \<noteq> [] \<and> list_all (\<lambda>c. 0 < Amount c) cs"

definition claimVestedStep ::
  "'b bank \<Rightarrow> 'b vest_keepers \<Rightarrow> string \<times> string \<times> addr \<Rightarrow> 'b \<Rightarrow> 'b res" where
  "claimVestedStep B K claim b =
     (case claim of (vestingName, destinationName, destinationAddr) \<Rightarrow>
      let vestingAddr = GetModuleAddress B vestingName;
          spendable = SpendableCoins K b vestingAddr in
      if \<not> coins_IsAllPositive spendable then Ok b
      else must
        (if destinationName \<noteq> [] then SendCoinsFromAccountToModule B b vestingAddr destinationName spendable
         else if destinationAddr \<noteq> [] then SendCoins B b vestingAddr destinationAddr spendable
         else FundCommunityPool K b spendable vestingAddr))"

fun claimVestedLoop :: "'b bank \<Rightarrow> 'b vest_keepers \<Rightarrow> (string \<times> string \<times> addr) list \<Rightarrow> 'b \<Rightarrow> 'b res" where
  "claimVestedLoop B K [] b = Ok b"
| "claimVestedLoop B K (c # cs) b = rbind (claimVestedStep B K c b) (claimVestedLoop B K cs)"

definition ClaimVested :: "sdk \<Rightarrow> 'b bank \<Rightarrow> 'b vest_keepers \<Rightarrow> string \<Rightarrow> 'b vesting_world \<Rightarrow> 'b vesting_world res" where
  "ClaimVested S B K feeCollectorName w =
     rbind (GetTeamVestingAddr S (GetAllocationAddresses (vss w))) (\<lambda>team.
     rbind (claimVestedLoop B K
              [(StakingRewardVestingName, feeCollectorName, []), (CommunityPoolVestingName, [], []), (TeamVestingName, [], team)]
              (vsb w)) (\<lambda>b.
     Ok (w\<lparr>vsb := b\<rparr>)))"

section \<open>Messages (msgs.go, msg_server.go)\<close>

record MsgAddAirdrops =
  maa_Sender :: string
  maa_Airdrops :: "Airdrop list"

record MsgExecuteAirdrops =
  mea_Sender :: string
  mea_MaxCount :: nat

record MsgSetAllocationAddress =
  msa_Sender :: string
  msa_TeamVestingAddr :: string
  msa_StrategicReserveCustodianAddr :: string

text \<open>\<open>ParseCoinNormalized\<close> of the SDK on the text of a coin is the argument \<open>P\<close>.\<close>

fun checkAirdrops :: "sdk \<Rightarrow> (coin \<Rightarrow> coin res) \<Rightarrow> Airdrop list \<Rightarrow> unit res" where
  "checkAirdrops S P [] = Ok ()"
| "checkAirdrops S P (a # as) =
     ensure (AccAddressFromBech32 S (ad_TargetAddr a) \<noteq> None) (SdkErr ErrInvalidAddress) (
     ensure (ValidateDenom S (Denom (ad_Amount a)) \<and> 0 \<le> Amount (ad_Amount a)) (SdkErr ErrInvalidCoins) (
     rbind (P (ad_Amount a)) (\<lambda>_. checkAirdrops S P as)))"

definition MsgAddAirdrops_ValidateBasic :: "sdk \<Rightarrow> (coin \<Rightarrow> coin res) \<Rightarrow> MsgAddAirdrops \<Rightarrow> unit res" where
  "MsgAddAirdrops_ValidateBasic S P m =
     ensure (AccAddressFromBech32 S (maa_Sender m) \<noteq> None) (SdkErr ErrInvalidAddress) (checkAirdrops S P (maa_Airdrops m))"

definition MsgExecuteAirdrops_ValidateBasic :: "sdk \<Rightarrow> MsgExecuteAirdrops \<Rightarrow> unit res" where
  "MsgExecuteAirdrops_ValidateBasic S m =
     ensure (AccAddressFromBech32 S (mea_Sender m) \<noteq> None) (SdkErr ErrInvalidAddress) (
     ensure (mea_MaxCount m \<noteq> 0) (SdkErr ErrInvalidRequest) (Ok ()))"

definition MsgSetAllocationAddress_ValidateBasic :: "sdk \<Rightarrow> MsgSetAllocationAddress \<Rightarrow> unit res" where
  "MsgSetAllocationAddress_ValidateBasic S m =
     ensure (AccAddressFromBech32 S (msa_Sender m) \<noteq> None) (SdkErr ErrInvalidAddress) (
     ensure (msa_TeamVestingAddr m = [] \<or> AccAddressFromBech32 S (msa_TeamVestingAddr m) \<noteq> None) (SdkErr ErrInvalidAddress) (
     ensure (msa_StrategicReserveCustodianAddr m = [] \<or> AccAddressFromBech32 S (msa_StrategicReserveCustodianAddr m) \<noteq> None)
       (SdkErr ErrInvalidAddress) (Ok ())))"

text \<open>The sender must be the team's address.\<close>

definition fromTeam :: "sdk \<Rightarrow> string \<Rightarrow> vesting_store \<Rightarrow> unit res" where
  "fromTeam S senderStr s =
     rbind (accAddress S senderStr) (\<lambda>sender.
     rbind (GetTeamVestingAddr S (GetAllocationAddresses s)) (\<lambda>teamAddr.
     ensure (sender = teamAddr) (SdkErr ErrUnauthorized) (Ok ())))"

fun addAirdropsLoop ::
  "sdk \<Rightarrow> (coin \<Rightarrow> coin res) \<Rightarrow> Airdrop list \<Rightarrow> int \<Rightarrow> vesting_store \<Rightarrow> (int \<times> vesting_store) res" where
  "addAirdropsLoop S P [] tot s = Ok (tot, s)"
| "addAirdropsLoop S P (airdrop # as) tot s =
     rbind (accAddress S (ad_TargetAddr airdrop)) (\<lambda>targetAddr.
     rbind (P (ad_Amount airdrop)) (\<lambda>amount.
     addAirdropsLoop S P as (tot + Amount amount) (SetAirdrop targetAddr (airdrop\<lparr>ad_Amount := amount\<rparr>) s)))"

definition AddAirdrops :: "sdk \<Rightarrow> (coin \<Rightarrow> coin res) \<Rightarrow> MsgAddAirdrops \<Rightarrow> 'b vesting_world \<Rightarrow> 'b vesting_world res" where
  "AddAirdrops S P m w =
     rbind (fromTeam S (maa_Sender m) (vss w)) (\<lambda>_.
     rbind (addAirdropsLoop S P (maa_Airdrops m) (GetAirdropTotalAmount (vss w)) (vss w)) (\<lambda>(tot, s).
     ensure (\<not> tot > al_AirdropAmount (vs_allocation s)) (SdkErr ErrInvalidRequest) (
     Ok (w\<lparr>vss := SetAirdropTotalAmount tot s\<rparr>))))"

text \<open>
  The iteration walks the airdrops as they were when it began; it stops after the last one, after
  \<open>MaxCount\<close> of them or at an error.
\<close>

fun executeLoop ::
  "sdk \<Rightarrow> 'b bank \<Rightarrow> nat \<Rightarrow> nat \<Rightarrow> (airdrop_key \<times> Airdrop) list \<Rightarrow> 'b vesting_world \<Rightarrow> 'b vesting_world res" where
  "executeLoop S B maxCount count [] w = Ok w"
| "executeLoop S B maxCount count ((k, airdrop) # as) w =
     rbind (NewCoins S [ad_Amount airdrop]) (\<lambda>cs.
     rbind (MintCoins B (vsb w) ''vesting'' cs) (\<lambda>b1.
     rbind (Airdrop_GetTargetAddr S airdrop) (\<lambda>target.
     rbind (SendCoinsFromModuleToAccount B b1 ''vesting'' target cs) (\<lambda>b2.
     let w1 = w\<lparr>vsb := b2, vss := SetAirdropCompleted target airdrop (DeleteAirdrop target (vss w))\<rparr>;
         count' = u64_add count 1 in
     if count' \<ge> maxCount then Ok w1 else executeLoop S B maxCount count' as w1))))"

definition ExecuteAirdrops :: "sdk \<Rightarrow> 'b bank \<Rightarrow> MsgExecuteAirdrops \<Rightarrow> 'b vesting_world \<Rightarrow> 'b vesting_world res" where
  "ExecuteAirdrops S B m w =
     rbind (fromTeam S (mea_Sender m) (vss w)) (\<lambda>_.
     executeLoop S B (mea_MaxCount m) 0 (vs_airdrops (vss w)) w)"

definition SetAllocationAddress :: "sdk \<Rightarrow> MsgSetAllocationAddress \<Rightarrow> 'b vesting_world \<Rightarrow> 'b vesting_world res" where
  "SetAllocationAddress S m w =
     rbind (accAddress S (msa_Sender m)) (\<lambda>sender.
     ensure (\<not> (msa_StrategicReserveCustodianAddr m \<noteq> [] \<and> msa_TeamVestingAddr m \<noteq> [] \<or>
                 msa_StrategicReserveCustodianAddr m = [] \<and> msa_TeamVestingAddr m = [])) (SdkErr ErrInvalidRequest) (
     let addr = GetAllocationAddresses (vss w) in
     rbind (if msa_StrategicReserveCustodianAddr m \<noteq> [] then
              rbind (accAddress S (msa_StrategicReserveCustodianAddr m)) (\<lambda>newSrca.
              rbind (GetStrategicReserveCustodianAddr S addr) (\<lambda>srca.
              ensure (sender = srca) (SdkErr ErrUnauthorized)
                (Ok (addr\<lparr>aa_StrategicReserveCustodianAddr := AccAddress_String S newSrca\<rparr>))))
            else Ok addr) (\<lambda>addr1.
     rbind (if msa_TeamVestingAddr m \<noteq> [] then
              rbind (accAddress S (msa_TeamVestingAddr m)) (\<lambda>newTva.
              rbind (GetTeamVestingAddr S addr1) (\<lambda>tva.
              ensure (sender = tva) (SdkErr ErrUnauthorized)
                (Ok (addr1\<lparr>aa_TeamVestingAddr := AccAddress_String S newTva\<rparr>))))
            else Ok addr1) (\<lambda>addr2.
     Ok (w\<lparr>vss := SetAllocationAddresses addr2 (vss w)\<rparr>)))))"

section \<open>Genesis and the end of a block (genesis.go, abci.go)\<close>

definition vesting_InitGenesis ::
  "sdk \<Rightarrow> (dec \<Rightarrow> nat \<Rightarrow> dec) \<Rightarrow> 'b bank \<Rightarrow> 'b vest_keepers \<Rightarrow> ctx \<Rightarrow> vesting_genesis \<Rightarrow> 'b vesting_world \<Rightarrow>
   'b vesting_world res" where
  "vesting_InitGenesis S Dec_Power B K ctx g w =
     rbind (vesting_SetParams (vg_Allocation g) (vss w)) (\<lambda>s.
     let addr = GetAllocationAddresses s in
     rbind (if aa_StrategicReserveCustodianAddr (vg_Addresses g) \<noteq> [] then
              rbind (must (accAddress S (aa_StrategicReserveCustodianAddr (vg_Addresses g)))) (\<lambda>newSrca.
              Ok (addr\<lparr>aa_StrategicReserveCustodianAddr := AccAddress_String S newSrca\<rparr>))
            else Ok addr) (\<lambda>addr1.
     rbind (if aa_TeamVestingAddr (vg_Addresses g) \<noteq> [] then
              rbind (must (accAddress S (aa_TeamVestingAddr (vg_Addresses g)))) (\<lambda>newTva.
              Ok (addr1\<lparr>aa_TeamVestingAddr := AccAddress_String S newTva\<rparr>))
            else Ok addr1) (\<lambda>addr2.
     let w1 = w\<lparr>vss := SetAllocationAddresses addr2 s\<rparr> in
     if BlockHeight ctx \<le> 1 then AllocateAtGenesis S Dec_Power B K ctx g w1 else Ok w1)))"

definition vesting_ExportGenesis :: "'b vesting_world \<Rightarrow> vesting_genesis" where
  "vesting_ExportGenesis w =
     \<lparr>vg_Allocation = vs_allocation (vss w), vg_Addresses = GetAllocationAddresses (vss w)\<rparr>"

definition vesting_EndBlocker ::
  "sdk \<Rightarrow> 'b bank \<Rightarrow> 'b vest_keepers \<Rightarrow> string \<Rightarrow> ctx \<Rightarrow> 'b vesting_world \<Rightarrow> 'b vesting_world res" where
  "vesting_EndBlocker S B K feeCollectorName ctx w =
     rbind (IsPeriodLastBlock ctx ClaimVestedPeriod) (\<lambda>last.
     if last then ClaimVested S B K feeCollectorName w else Ok w)"

end
