(* ===== verification/VestingProps.thy ===== *)
theory VestingProps
  imports Vesting MakerDemo
begin

text \<open>
  The properties of the vesting module: what is issued at genesis, and that the airdrops never issue more
  than their cap.
\<close>

section \<open>The keepers\<close>

text \<open>
  What the module relies on: setting up an account moves no coins, the community pool is paid from the
  sender's account, the empty text is no address, and a parsed amount is not negative.
\<close>

locale vest_laws = chain_laws S B for S :: sdk and B :: "'b bank" +
  fixes K :: "'b vest_keepers" and P :: "coin \<Rightarrow> coin res"
  assumes SetVestingAccount_bal: "SetVestingAccount K b a cs t0 t1 = Ok b' \<Longrightarrow> bal B b' x d = bal B b x d \<and> supply_of B b' d = supply_of B b d"
    and FundCommunityPool_moved: "FundCommunityPool K b cs a = Ok b' \<Longrightarrow> moved B b b' a (GetModuleAddress B ''distribution'') cs"
    and AccAddress_empty: "AccAddressFromBech32 S [] = None"
    and ParseCoin_nonneg: "P c = Ok c' \<Longrightarrow> 0 \<le> Amount c'"

text \<open>Executable keepers: everything is spendable, and amounts are taken as they are.\<close>

definition demo_vest :: "ledger_state vest_keepers" where
  "demo_vest = \<lparr>SpendableCoins = (\<lambda>b a. map (\<lambda>e. \<lparr>Denom = snd (fst e), Amount = int (snd e)\<rparr>)
       (filter (\<lambda>e. fst (fst e) = a \<and> snd e \<noteq> 0) (balances b))),
     FundCommunityPool = (\<lambda>b cs a. SendCoins ledger b a (GetModuleAddress ledger ''distribution'') cs),
     SetVestingAccount = (\<lambda>b a cs t0 t1. Ok b)\<rparr>"

definition demo_parse :: "coin \<Rightarrow> coin res" where
  "demo_parse c = (if 0 \<le> Amount c then Ok c else Err (SdkErr ErrInvalidCoins))"

interpretation demo_vest: vest_laws cosmos_sdk ledger demo_vest demo_parse
  by unfold_locales (auto simp: demo_vest_def demo_parse_def sdk_eval intro: ledger_bank.SendCoins_moved split: if_splits)

section \<open>Genesis\<close>

context chain_laws
begin

lemma mintTo_supply:
  assumes "mintTo S B amt a b = Ok b'"
  shows "supply_of B b' d = supply_of B b d + (if Denom amt = d then Amount amt else 0)" "0 \<le> Amount amt"
proof -
  from assms obtain cs b1 where h: "NewCoins S [amt] = Ok cs" "MintCoins B b ''vesting'' cs = Ok b1"
      "SendCoinsFromModuleToAccount B b1 ''vesting'' a cs = Ok b'"
    unfolding mintTo_def res_inv by blast
  show "supply_of B b' d = supply_of B b d + (if Denom amt = d then Amount amt else 0)"
    using Mint_issued [OF h(2)] SendM2A_moved [OF h(3)] NewCoins_amt [OF h(1), of d]
    by (simp add: issued_def moved_def cs_amt_single)
  show "0 \<le> Amount amt" using NewCoins_pos [OF h(1)] by simp
qed

lemma mintTo_bal:
  assumes "mintTo S B amt a b = Ok b'" "x \<noteq> GetModuleAddress B ''vesting''"
  shows "bal B b' x d = bal B b x d + (if x = a \<and> Denom amt = d then Amount amt else 0)"
proof -
  from assms(1) obtain cs b1 where h: "NewCoins S [amt] = Ok cs" "MintCoins B b ''vesting'' cs = Ok b1"
      "SendCoinsFromModuleToAccount B b1 ''vesting'' a cs = Ok b'"
    unfolding mintTo_def res_inv by blast
  show ?thesis
    using Mint_issued [OF h(2)] SendM2A_moved [OF h(3)] NewCoins_amt [OF h(1), of d] assms(2)
    by (simp add: issued_def moved_def cs_amt_single)
qed

end

context vest_laws
begin

lemma create_effect:
  assumes "createContinuousVestingAccount S B K n amount t0 dur b = Ok b'"
  shows "supply_of B b' d = supply_of B b d + (if d = BaseDenom then amount else 0)" "0 \<le> amount"
    and "x \<noteq> GetModuleAddress B ''vesting'' \<Longrightarrow>
      bal B b' x d = bal B b x d + (if x = GetModuleAddress B n \<and> d = BaseDenom then amount else 0)"
proof -
  from assms obtain amt cs b1 where h: "NewCoin S BaseDenom amount = Ok amt"
      "SetVestingAccount K b (GetModuleAddress B n) cs t0 (t0 + dur) = Ok b1"
      "mintTo S B amt (GetModuleAddress B n) b1 = Ok b'"
    unfolding createContinuousVestingAccount_def res_inv Let_def must_Ok by blast
  have amt: "Denom amt = BaseDenom" "Amount amt = amount" using h(1) by (auto simp: NewCoin_eq split: if_splits)
  note b1 = SetVestingAccount_bal [OF h(2)]
  show "supply_of B b' d = supply_of B b d + (if d = BaseDenom then amount else 0)" "0 \<le> amount"
    using mintTo_supply [OF h(3)] b1 by (auto simp: amt)
  show "x \<noteq> GetModuleAddress B ''vesting'' \<Longrightarrow>
      bal B b' x d = bal B b x d + (if x = GetModuleAddress B n \<and> d = BaseDenom then amount else 0)"
    using mintTo_bal [OF h(3)] b1 by (auto simp: amt)
qed

end

text \<open>
  C35: the allocation at genesis issues the base coin only, and exactly what the parameters name: with the
  airdrops and the emission still to come it adds up to the total amount.  The emission is recorded with
  the ve module, and each vesting account receives its part.
\<close>

theorem genesis_allocation:
  assumes "vest_laws S B K P" "vesting_InitGenesis S Dec_Power B K ctx g w = Ok w'" "BlockHeight ctx \<le> 1"
    and "alloc = vg_Allocation g"
  shows "supply_of B (vsb w') BaseDenom + al_AirdropAmount alloc + al_VeVestingAmount alloc
        = supply_of B (vsb w) BaseDenom + al_TotalAmount alloc \<and>
      (\<forall>d. d \<noteq> BaseDenom \<longrightarrow> supply_of B (vsb w') d = supply_of B (vsb w) d) \<and>
      GetTotalEmission (vsv w') = GetTotalEmission (vsv w) + al_VeVestingAmount alloc \<and>
      bal B (vsb w) (GetModuleAddress B TeamVestingName) BaseDenom + al_TeamVestingAmount alloc
        \<le> bal B (vsb w') (GetModuleAddress B TeamVestingName) BaseDenom"
proof -
  from assms(2) obtain s addr1 addr2 where p: "vesting_SetParams (vg_Allocation g) (vss w) = Ok s"
      "AllocateAtGenesis S Dec_Power B K ctx g (w\<lparr>vss := SetAllocationAddresses addr2 s\<rparr>) = Ok w'"
    unfolding vesting_InitGenesis_def Let_def res_inv using assms(3) by auto
  let ?t = "BlockTime ctx"
  from p(2) obtain b1 b2 b3 v sr c b4 where h:
      "createContinuousVestingAccount S B K StakingRewardVestingName (al_StakingRewardAmount alloc) ?t StakingRewardVestingTime (vsb w) = Ok b1"
      "createContinuousVestingAccount S B K CommunityPoolVestingName (al_CommunityPoolAmount alloc) ?t CommunityPoolVestingTime b1 = Ok b2"
      "createContinuousVestingAccount S B K TeamVestingName (al_TeamVestingAmount alloc) ?t TeamVestingTime b2 = Ok b3"
      "AddTotalEmission S Dec_Power (al_VeVestingAmount alloc) (vsv w) = Ok v"
      "NewCoin S BaseDenom (al_StrategicReserveAmount alloc) = Ok sr" "mintTo S B sr c b3 = Ok b4"
      "w' = w\<lparr>vss := SetAllocationAddresses addr2 s, vsb := b4, vsv := v\<rparr>"
    unfolding AllocateAtGenesis_def Let_def res_inv must_Ok by (auto simp: assms(4))
  note c1 = vest_laws.create_effect [OF assms(1) h(1)] and c2 = vest_laws.create_effect [OF assms(1) h(2)]
    and c3 = vest_laws.create_effect [OF assms(1) h(3)]
  have ch: "chain_laws S B" by (rule vest_laws.axioms(1) [OF assms(1)])
  then have laws: "sdk_laws S" "bank_laws B" by (simp_all add: chain_laws_def)
  note m = chain_laws.mintTo_supply [OF ch h(6)] and mb = chain_laws.mintTo_bal [OF ch h(6)]
  have sr: "Denom sr = BaseDenom" "Amount sr = al_StrategicReserveAmount alloc"
    using h(5) by (auto simp: sdk_laws.NewCoin_eq [OF laws(1)] split: if_splits)
  have team: "GetModuleAddress B TeamVestingName \<noteq> GetModuleAddress B ''vesting''"
    using bank_laws.GetModuleAddress_inj [OF laws(2), of TeamVestingName "''vesting''"] by (auto simp: TeamVestingName_def pool_account_def)
  have val: "al_TotalAmount alloc = al_AirdropAmount alloc + al_VeVestingAmount alloc + al_StakingRewardAmount alloc
       + al_CommunityPoolAmount alloc + al_StrategicReserveAmount alloc + al_TeamVestingAmount alloc"
    using p(1) by (simp add: vesting_SetParams_def validateAllocationAmounts_def assms(4) split: if_splits)
  have em: "GetTotalEmission v = GetTotalEmission (vsv w) + al_VeVestingAmount alloc"
    using h(4) by (auto simp: AddTotalEmission_def Let_def res_simps GetTotalEmission_def SetTotalEmission_def
        SetEmissionAtLastPeriod_def split: if_splits)
  show ?thesis
  proof (intro conjI allI impI)
    show "supply_of B (vsb w') BaseDenom + al_AirdropAmount alloc + al_VeVestingAmount alloc
        = supply_of B (vsb w) BaseDenom + al_TotalAmount alloc"
      using c1(1) [of BaseDenom] c2(1) [of BaseDenom] c3(1) [of BaseDenom] m(1) [of BaseDenom] by (simp add: h(7) sr val)
    show "supply_of B (vsb w') d = supply_of B (vsb w) d" if "d \<noteq> BaseDenom" for d
      using that c1(1) [of d] c2(1) [of d] c3(1) [of d] m(1) [of d] by (simp add: h(7) sr)
    show "GetTotalEmission (vsv w') = GetTotalEmission (vsv w) + al_VeVestingAmount alloc" by (simp add: h(7) em)
    show "bal B (vsb w) (GetModuleAddress B TeamVestingName) BaseDenom + al_TeamVestingAmount alloc
        \<le> bal B (vsb w') (GetModuleAddress B TeamVestingName) BaseDenom"
      using c1(2) c2(2) m(2) c1(3) [OF team, of BaseDenom] c2(3) [OF team, of BaseDenom] c3(3) [OF team, of BaseDenom]
        mb [OF team, of BaseDenom] by (simp add: h(7) sr split: if_splits)
  qed
qed

section \<open>Airdrops\<close>

text \<open>What the pending airdrops hold of a denomination.\<close>

definition airdropAmt :: "denom \<Rightarrow> airdrop_key \<Rightarrow> Airdrop \<Rightarrow> int" where
  "airdropAmt d k a = (if Denom (ad_Amount a) = d then Amount (ad_Amount a) else 0)"

definition pending :: "vesting_store \<Rightarrow> denom \<Rightarrow> int" where
  "pending s d = kv_sum (airdropAmt d) (vs_airdrops s)"

definition airdrops_ok :: "sdk \<Rightarrow> vesting_store \<Rightarrow> bool" where
  "airdrops_ok S s \<longleftrightarrow> kv_wf (vs_airdrops s) \<and>
     (\<forall>(k, a) \<in> set (vs_airdrops s). 0 \<le> Amount (ad_Amount a) \<and>
        (\<exists>t. AccAddressFromBech32 S (ad_TargetAddr a) = Some t \<and> k = AirdropsKey t))"

lemma airdropAmt_at: "airdrops_ok S s \<Longrightarrow> 0 \<le> kv_at (airdropAmt d) (vs_airdrops s) k"
  using kv_get_mem [of "vs_airdrops s" k] by (force simp: airdrops_ok_def kv_at_def airdropAmt_def split: option.splits)

lemma pending_nonneg: "airdrops_ok S s \<Longrightarrow> 0 \<le> pending s d"
  unfolding pending_def by (rule kv_sum_nonneg) (auto simp: airdrops_ok_def airdropAmt_def)

lemma airdrops_ok_set:
  assumes "airdrops_ok S s" "AccAddressFromBech32 S (ad_TargetAddr a) = Some t" "0 \<le> Amount (ad_Amount a)"
  shows "airdrops_ok S (SetAirdrop t a s)" "pending (SetAirdrop t a s) d \<le> pending s d + Amount (ad_Amount a)"
proof -
  have wf: "kv_wf (vs_airdrops s)" using assms(1) by (simp add: airdrops_ok_def)
  show "airdrops_ok S (SetAirdrop t a s)"
    using assms kvs.entries_put [OF wf, of "AirdropsKey t" a] wf by (auto simp: airdrops_ok_def SetAirdrop_def)
  show "pending (SetAirdrop t a s) d \<le> pending s d + Amount (ad_Amount a)"
    using airdropAmt_at [OF assms(1), of d "AirdropsKey t"] assms(3)
    by (simp add: pending_def SetAirdrop_def kv_sum_set [OF wf] airdropAmt_def)
qed

context vest_laws
begin

lemma addAirdropsLoop_pending:
  assumes "addAirdropsLoop S P as tot s = Ok (tot', s')" "airdrops_ok S s"
  shows "airdrops_ok S s' \<and> tot \<le> tot' \<and> pending s' d - pending s d \<le> tot' - tot \<and>
    vs_allocation s' = vs_allocation s \<and> vs_airdrops_total s' = vs_airdrops_total s"
  using assms
proof (induction as arbitrary: tot s)
  case (Cons a as)
  from Cons.prems(1) obtain t amt where h: "accAddress S (ad_TargetAddr a) = Ok t" "P (ad_Amount a) = Ok amt"
      "addAirdropsLoop S P as (tot + Amount amt) (SetAirdrop t (a\<lparr>ad_Amount := amt\<rparr>) s) = Ok (tot', s')"
    by (auto simp: res_simps)
  have "AccAddressFromBech32 S (ad_TargetAddr (a\<lparr>ad_Amount := amt\<rparr>)) = Some t"
    using h(1) by (auto simp: accAddress_def split: option.splits)
  note set = airdrops_ok_set [OF Cons.prems(2) this]
  from Cons.IH [OF h(3)] set(1) set(2) [of d] ParseCoin_nonneg [OF h(2)] show ?case by (simp add: SetAirdrop_def)
qed simp

text \<open>Executing moves an amount from the pending airdrops into the supply.\<close>

lemma executeLoop_pending:
  assumes "executeLoop S B mx c es w = Ok w'" "airdrops_ok S (vss w)" "distinct (map fst es)"
    and "\<forall>(k, a) \<in> set es. (k, a) \<in> set (vs_airdrops (vss w))"
  shows "airdrops_ok S (vss w') \<and> supply_of B (vsb w') d + pending (vss w') d = supply_of B (vsb w) d + pending (vss w) d \<and>
    vs_allocation (vss w') = vs_allocation (vss w) \<and> vs_airdrops_total (vss w') = vs_airdrops_total (vss w)"
  using assms
proof (induction es arbitrary: c w)
  case (Cons e es)
  obtain k a where e: "e = (k, a)" by (cases e)
  from Cons.prems(1) obtain cs b1 target b2 where h: "NewCoins S [ad_Amount a] = Ok cs" "MintCoins B (vsb w) ''vesting'' cs = Ok b1"
      "Airdrop_GetTargetAddr S a = Ok target" "SendCoinsFromModuleToAccount B b1 ''vesting'' target cs = Ok b2"
    and run: "(if u64_add c 1 \<ge> mx then Ok (w\<lparr>vsb := b2, vss := SetAirdropCompleted target a (DeleteAirdrop target (vss w))\<rparr>)
       else executeLoop S B mx (u64_add c 1) es (w\<lparr>vsb := b2, vss := SetAirdropCompleted target a (DeleteAirdrop target (vss w))\<rparr>)) = Ok w'"
    unfolding e executeLoop.simps Let_def res_inv by blast
  define w1 where "w1 = w\<lparr>vsb := b2, vss := SetAirdropCompleted target a (DeleteAirdrop target (vss w))\<rparr>"
  have mem: "(k, a) \<in> set (vs_airdrops (vss w))" using Cons.prems(4) e by simp
  with Cons.prems(2) obtain t where t: "AccAddressFromBech32 S (ad_TargetAddr a) = Some t" "k = AirdropsKey t"
    and wf: "kv_wf (vs_airdrops (vss w))" by (auto simp: airdrops_ok_def)
  have "target = t" using h(3) t(1) AccAddress_empty
    by (auto simp: Airdrop_GetTargetAddr_def storedAddr_def split: if_splits)
  then have w1: "vsb w1 = b2" "vs_airdrops (vss w1) = kv_delete k (vs_airdrops (vss w))"
      "vs_allocation (vss w1) = vs_allocation (vss w)" "vs_airdrops_total (vss w1) = vs_airdrops_total (vss w)"
    by (simp_all add: w1_def SetAirdropCompleted_def DeleteAirdrop_def t(2))
  have ok: "airdrops_ok S (vss w1)" using Cons.prems(2) wf kvs.entries_remove [OF wf, of k] by (auto simp: airdrops_ok_def w1(2))
  have "supply_of B b2 d = supply_of B (vsb w) d + airdropAmt d k a"
    using Mint_issued [OF h(2)] SendM2A_moved [OF h(4)] NewCoins_amt [OF h(1), of d]
    by (simp add: issued_def moved_def cs_amt_single airdropAmt_def)
  moreover have "kv_get (vs_airdrops (vss w)) k = Some a" using mem kv_get_mem [OF wf] by simp
  then have "pending (vss w1) d = pending (vss w) d - airdropAmt d k a"
    by (simp add: pending_def w1(2) kv_sum_delete [OF wf] kv_at_def)
  ultimately have bal: "supply_of B (vsb w1) d + pending (vss w1) d = supply_of B (vsb w) d + pending (vss w) d" by (simp add: w1(1))
  show ?case
  proof (cases "u64_add c 1 \<ge> mx")
    case True
    with run [folded w1_def] have "w' = w1" by simp
    with ok bal w1 show ?thesis by simp
  next
    case False
    with run [folded w1_def] have run1: "executeLoop S B mx (u64_add c 1) es w1 = Ok w'" by simp
    have "\<forall>(j, a) \<in> set es. (j, a) \<in> set (vs_airdrops (vss w1))"
      using Cons.prems(3,4) kvs.entries_remove [OF wf, of k] by (force simp: e w1(2))
    with Cons.IH [OF run1 ok] Cons.prems(3) bal w1(3,4) show ?thesis by simp
  qed
qed simp

lemma claimVested_supply:
  "claimVestedLoop B K cs b = Ok b' \<Longrightarrow> supply_of B b' d = supply_of B b d"
proof (induction cs arbitrary: b)
  case (Cons c cs)
  from Cons.prems obtain b1 where b1: "claimVestedStep B K c b = Ok b1" "claimVestedLoop B K cs b1 = Ok b'" by (auto simp: res_simps)
  have "supply_of B b1 d = supply_of B b d"
    using b1(1)
    by (auto simp: claimVestedStep_def Let_def must_Ok moved_def split: prod.splits if_splits
        dest!: SendA2M_moved SendCoins_moved FundCommunityPool_moved)
  with Cons.IH [OF b1(2)] show ?case by simp
qed simp

end

text \<open>
  A history of the module's messages and blocks, from a state in which no airdrop has been added.
\<close>

inductive airdrop_step ::
  "sdk \<Rightarrow> (coin \<Rightarrow> coin res) \<Rightarrow> 'b bank \<Rightarrow> 'b vest_keepers \<Rightarrow> 'b vesting_world \<Rightarrow> 'b vesting_world \<Rightarrow> bool"
  for S :: sdk and P :: "coin \<Rightarrow> coin res" and B :: "'b bank" and K :: "'b vest_keepers" where
  add: "AddAirdrops S P m1 w = Ok w' \<Longrightarrow> airdrop_step S P B K w w'"
| execute: "ExecuteAirdrops S B m2 w = Ok w' \<Longrightarrow> airdrop_step S P B K w w'"
| set_address: "SetAllocationAddress S m3 w = Ok w' \<Longrightarrow> airdrop_step S P B K w w'"
| end_block: "vesting_EndBlocker S B K fee ctx w = Ok w' \<Longrightarrow> airdrop_step S P B K w w'"

inductive_cases airdrop_stepE: "airdrop_step S P B K w w'"

inductive airdrop_reach ::
  "sdk \<Rightarrow> (coin \<Rightarrow> coin res) \<Rightarrow> 'b bank \<Rightarrow> 'b vest_keepers \<Rightarrow> 'b vesting_world \<Rightarrow> 'b vesting_world \<Rightarrow> bool"
  for S :: sdk and P :: "coin \<Rightarrow> coin res" and B :: "'b bank" and K :: "'b vest_keepers" and w0 :: "'b vesting_world" where
  start: "vs_airdrops (vss w0) = [] \<Longrightarrow> vs_airdrops_total (vss w0) = None \<Longrightarrow> airdrop_reach S P B K w0 w0"
| step: "airdrop_reach S P B K w0 w \<Longrightarrow> airdrop_step S P B K w w' \<Longrightarrow> airdrop_reach S P B K w0 w'"

definition airdrop_inv :: "sdk \<Rightarrow> 'b bank \<Rightarrow> 'b vesting_world \<Rightarrow> denom \<Rightarrow> 'b vesting_world \<Rightarrow> bool" where
  "airdrop_inv S B w0 d w \<longleftrightarrow> airdrops_ok S (vss w) \<and>
     supply_of B (vsb w) d - supply_of B (vsb w0) d + pending (vss w) d \<le> GetAirdropTotalAmount (vss w) \<and>
     (vs_airdrops_total (vss w) = None \<or> GetAirdropTotalAmount (vss w) \<le> al_AirdropAmount (vs_allocation (vss w)))"

lemma SetAllocationAddress_frame:
  assumes "SetAllocationAddress S m w = Ok w'"
  obtains a where "w' = w\<lparr>vss := SetAllocationAddresses a (vss w)\<rparr>"
proof -
  from assms have "\<exists>r. rbind r (\<lambda>a. Ok (w\<lparr>vss := SetAllocationAddresses a (vss w)\<rparr>)) = Ok w'"
    unfolding SetAllocationAddress_def Let_def rbind_Ok_iff ensure_Ok_iff by blast
  then show thesis using that by (auto simp: rbind_Ok_iff)
qed

lemma airdrop_step_inv:
  assumes "vest_laws S B K P" "airdrop_step S P B K w w'" "airdrop_inv S B w0 d w"
  shows "airdrop_inv S B w0 d w'"
  using assms(2)
proof cases
  case (add m1)
  then obtain tot s where h: "addAirdropsLoop S P (maa_Airdrops m1) (GetAirdropTotalAmount (vss w)) (vss w) = Ok (tot, s)"
      "tot \<le> al_AirdropAmount (vs_allocation s)" "w' = w\<lparr>vss := SetAirdropTotalAmount tot s\<rparr>"
    unfolding AddAirdrops_def res_inv not_less by blast
  from vest_laws.addAirdropsLoop_pending [OF assms(1) h(1), of d] assms(3) h(2) show ?thesis
    by (simp add: airdrop_inv_def h(3) airdrops_ok_def pending_def SetAirdropTotalAmount_def GetAirdropTotalAmount_def)
next
  case (execute m2)
  then have "executeLoop S B (mea_MaxCount m2) 0 (vs_airdrops (vss w)) w = Ok w'" by (auto simp: ExecuteAirdrops_def res_simps)
  from vest_laws.executeLoop_pending [OF assms(1) this, of d] assms(3) show ?thesis
    by (simp add: airdrop_inv_def airdrops_ok_def kv_wf_distinct GetAirdropTotalAmount_def)
next
  case (set_address m3)
  then obtain a where "w' = w\<lparr>vss := SetAllocationAddresses a (vss w)\<rparr>"
    by (rule SetAllocationAddress_frame)
  with assms(3) show ?thesis
    by (simp add: airdrop_inv_def SetAllocationAddresses_def airdrops_ok_def pending_def GetAirdropTotalAmount_def)
next
  case (end_block fee ctx)
  then consider "w' = w" | "ClaimVested S B K fee w = Ok w'" by (auto simp: vesting_EndBlocker_def res_simps split: if_splits)
  then show ?thesis
  proof cases
    case 2
    then obtain cs b where "claimVestedLoop B K cs (vsb w) = Ok b" "w' = w\<lparr>vsb := b\<rparr>"
      unfolding ClaimVested_def res_inv by blast
    with vest_laws.claimVested_supply [OF assms(1), of cs "vsb w" b d] assms(3) show ?thesis by (simp add: airdrop_inv_def)
  qed (use assms(3) in simp)
qed

text \<open>
  C34: whatever the team adds, executes and changes, what the airdrops have issued of a coin and what is
  still pending of it together never exceed the recorded total, and the recorded total never exceeds the
  cap of the parameters.
\<close>

theorem airdrops_within_cap:
  assumes "vest_laws S B K P" "airdrop_reach S P B K w0 w"
  shows "0 \<le> pending (vss w) d \<and>
    supply_of B (vsb w) d - supply_of B (vsb w0) d + pending (vss w) d \<le> GetAirdropTotalAmount (vss w) \<and>
    GetAirdropTotalAmount (vss w) \<le> max 0 (al_AirdropAmount (vs_allocation (vss w)))"
proof -
  have "airdrop_inv S B w0 d w"
    using assms(2)
  proof induction
    case start
    then show ?case by (simp add: airdrop_inv_def airdrops_ok_def pending_def GetAirdropTotalAmount_def)
  next
    case (step w w')
    from airdrop_step_inv [OF assms(1) step(2,3)] show ?case .
  qed
  then show ?thesis using pending_nonneg [of S "vss w" d] by (auto simp: airdrop_inv_def GetAirdropTotalAmount_def)
qed

section \<open>A run\<close>

definition demo_alloc :: AllocationAmounts where
  "demo_alloc = \<lparr>al_TotalAmount = 100, al_AirdropAmount = 5, al_VeVestingAmount = 45, al_StakingRewardAmount = 5,
     al_CommunityPoolAmount = 5, al_StrategicReserveAmount = 20, al_TeamVestingAmount = 20\<rparr>"

definition demo_vgen :: vesting_genesis where
  "demo_vgen = \<lparr>vg_Allocation = demo_alloc,
     vg_Addresses = \<lparr>aa_TeamVestingAddr = ''team'', aa_StrategicReserveCustodianAddr = ''carol''\<rparr>\<rparr>"

definition demo_vest_world :: "ledger_state \<Rightarrow> int option \<Rightarrow> (airdrop_key, Airdrop) kv \<Rightarrow> ve_store \<Rightarrow> ledger_state vesting_world" where
  "demo_vest_world b t as v = \<lparr>vss = \<lparr>vs_allocation = demo_alloc, vs_addresses = Some (vg_Addresses demo_vgen),
     vs_airdrops_total = t, vs_airdrops = as, vs_completed = []\<rparr>, vsb = b, vsv = v\<rparr>"

lemma demo_emission: "\<exists>v. AddTotalEmission cosmos_sdk (\<lambda>x n. 5 * 10 ^ 17) 45 ve_empty = Ok v"
proof -
  have "\<exists>q. Dec_Quo cosmos_sdk a (dec_one - 5 * 10 ^ 17) = Ok q" for a
    by (subst cosmos.Quo_Ok_iff) (simp add: dec_one_def)
  then obtain q where "Dec_Quo cosmos_sdk (Dec_Mul cosmos_sdk (ToDec 45) (dec_one - EmissionRatio)) (dec_one - 5 * 10 ^ 17) = Ok q" by blast
  then show ?thesis by (simp add: AddTotalEmission_def Let_def)
qed

lemma demo_genesis_run:
  "\<exists>w'. vesting_InitGenesis cosmos_sdk (\<lambda>x n. 5 * 10 ^ 17) ledger demo_vest \<lparr>BlockHeight = 1, BlockTime = 0\<rparr> demo_vgen
     (demo_vest_world \<lparr>balances = [], supplies = []\<rparr> None [] ve_empty) = Ok w'"
proof -
  obtain v where v: "AddTotalEmission cosmos_sdk (\<lambda>x n. 5 * 10 ^ 17) 45 ve_empty = Ok v" using demo_emission ..
  show ?thesis
    using v
    by (simp add: vesting_InitGenesis_def vesting_SetParams_def validateAllocationAmounts_def AllocateAtGenesis_def
        createContinuousVestingAccount_def mintTo_def must_def demo_vgen_def demo_alloc_def demo_vest_world_def demo_vest_def
        SetAllocationAddresses_def GetAllocationAddresses_def GetStrategicReserveCustodianAddr_def storedAddr_def accAddress_def
        BaseDenom_def AttoIronDenom_def StakingRewardVestingName_def CommunityPoolVestingName_def TeamVestingName_def
        Let_def sdk_eval ledger_eval cong: eval_cong)
qed

theorem genesis_allocation_witness:
  "\<exists>w'. vesting_InitGenesis cosmos_sdk (\<lambda>x n. 5 * 10 ^ 17) ledger demo_vest \<lparr>BlockHeight = 1, BlockTime = 0\<rparr> demo_vgen
     (demo_vest_world \<lparr>balances = [], supplies = []\<rparr> None [] ve_empty) = Ok w' \<and> supply_of ledger (vsb w') BaseDenom = 50"
proof -
  obtain w' where w': "vesting_InitGenesis cosmos_sdk (\<lambda>x n. 5 * 10 ^ 17) ledger demo_vest \<lparr>BlockHeight = 1, BlockTime = 0\<rparr> demo_vgen
     (demo_vest_world \<lparr>balances = [], supplies = []\<rparr> None [] ve_empty) = Ok w'" using demo_genesis_run ..
  have "supply_of ledger (vsb (demo_vest_world \<lparr>balances = [], supplies = []\<rparr> None [] ve_empty)) BaseDenom = 0"
    by (simp add: demo_vest_world_def supply_of_def ledger_eval)
  with genesis_allocation [OF demo_vest.vest_laws_axioms w' _ refl] w' show ?thesis by (simp add: demo_vgen_def demo_alloc_def)
qed

definition demo_drop :: "int \<Rightarrow> Airdrop" where
  "demo_drop n = \<lparr>ad_TargetAddr = ''bob'', ad_Amount = \<lparr>Denom = ''airon'', Amount = n\<rparr>\<rparr>"

definition demo_add :: "int \<Rightarrow> MsgAddAirdrops" where
  "demo_add n = \<lparr>maa_Sender = ''team'', maa_Airdrops = [demo_drop n]\<rparr>"

definition demo_drops :: "int option \<Rightarrow> (airdrop_key, Airdrop) kv \<Rightarrow> ledger_state vesting_world" where
  "demo_drops t as = demo_vest_world \<lparr>balances = [], supplies = []\<rparr> t as ve_empty"

text \<open>Correcting a pending airdrop counts it twice: the cap is used up although less than half of it is pending.\<close>

lemma corrected_airdrop_counts_twice:
  "AddAirdrops cosmos_sdk demo_parse (demo_add 3) (demo_drops None []) = Ok (demo_drops (Some 3) [((3, ''bob''), demo_drop 3)])"
  "AddAirdrops cosmos_sdk demo_parse (demo_add 2) (demo_drops (Some 3) [((3, ''bob''), demo_drop 3)]) =
     Ok (demo_drops (Some 5) [((3, ''bob''), demo_drop 2)])"
  "AddAirdrops cosmos_sdk demo_parse (demo_add 1) (demo_drops (Some 5) [((3, ''bob''), demo_drop 2)]) = Err (SdkErr ErrInvalidRequest)"
  by (simp_all add: AddAirdrops_def fromTeam_def accAddress_def GetTeamVestingAddr_def storedAddr_def GetAllocationAddresses_def
      demo_drops_def demo_vest_world_def demo_vgen_def demo_alloc_def demo_add_def demo_drop_def demo_parse_def
      GetAirdropTotalAmount_def SetAirdropTotalAmount_def SetAirdrop_def AirdropsKey_def sdk_eval cong: eval_cong)

theorem airdrops_within_cap_witness:
  "airdrop_reach cosmos_sdk demo_parse ledger demo_vest (demo_drops None []) (demo_drops (Some 5) [((3, ''bob''), demo_drop 2)]) \<and>
   0 \<le> pending (vss (demo_drops (Some 5) [((3, ''bob''), demo_drop 2)])) ''airon'' \<and>
   GetAirdropTotalAmount (vss (demo_drops (Some 5) [((3, ''bob''), demo_drop 2)])) \<le> 5"
proof -
  have "airdrop_reach cosmos_sdk demo_parse ledger demo_vest (demo_drops None []) (demo_drops None [])"
    by (rule airdrop_reach.start) (simp_all add: demo_drops_def demo_vest_world_def)
  from airdrop_reach.step [OF airdrop_reach.step [OF this airdrop_step.add] airdrop_step.add, OF corrected_airdrop_counts_twice(1,2)]
  have r: "airdrop_reach cosmos_sdk demo_parse ledger demo_vest (demo_drops None []) (demo_drops (Some 5) [((3, ''bob''), demo_drop 2)])" .
  with airdrops_within_cap [OF demo_vest.vest_laws_axioms r, of "''airon''"] show ?thesis
    by (simp add: demo_drops_def demo_vest_world_def demo_alloc_def)
qed

end
