(* ===== verification/Gauge.thy ===== *)
theory Gauge
  imports VeMsg
begin

text \<open>
  The gauge module, \<open>x/gauge\<close>: gauges hold deposits of a pool's coin, bribes hold the votes for a pool, and
  both pay rewards to the ve tokens in proportion to their tickets.  \<open>Base\<close> is what the two share; a value
  of it names the pool's coin and the prefix of its keys.

  The keys of the store are kept as the bytes the source concatenates, up to a trailing 64-bit number of
  fixed width, which is a component of its own.  An amount that was never set is a nil pointer in the
  source and \<open>None\<close> here; using it panics.
\<close>

section \<open>Data (gauge.pb.go)\<close>

record gCheckpoint =
  gc_Timestamp :: nat
  gc_Amount :: "int option"

record Reward =
  rw_Denom :: denom
  rw_Rate :: int
  rw_FinishTime :: nat
  rw_LastUpdateTime :: nat
  rw_CumulativePerTicket :: int
  rw_AccruedAmount :: int

record UserReward =
  ur_Denom :: denom
  ur_VeId :: nat
  ur_LastClaimTime :: nat
  ur_CumulativePerTicket :: int

record gauge_store =
  gs_gauges :: "(denom, denom) kv"
  gs_total_deposited :: "(string, int) kv"
  gs_deposited :: "(string \<times> nat, int) kv"
  gs_total_derived :: "(string, int) kv"
  gs_derived :: "(string \<times> nat, int) kv"
  gs_rewards :: "(string, Reward) kv"
  gs_user_rewards :: "(string \<times> nat, UserReward) kv"
  gs_user_ve :: "(string, nat) kv"
  gs_epoch :: "(string, nat) kv"
  gs_points :: "(string \<times> nat, gCheckpoint) kv"
  gs_user_epoch :: "(string \<times> nat, nat) kv"
  gs_user_points :: "(string \<times> nat \<times> nat, gCheckpoint) kv"
  gs_reward_epoch :: "(string, nat) kv"
  gs_reward_points :: "(string \<times> nat, gCheckpoint) kv"

text \<open>A gauge or bribe: the coin deposited, the prefix of its keys, and which of the two it is.\<close>

record gbase =
  gb_denom :: denom
  gb_prefix :: string
  gb_isGauge :: bool

text \<open>The world: the module's store and the world of the ve module with the bank and the tokens.\<close>

record ('b, 'n) gauge_world =
  gws :: gauge_store
  gve :: "('b, 'n) ve_world"

definition gw_paid :: "gauge_store \<Rightarrow> 'b \<Rightarrow> ('b, 'n) gauge_world \<Rightarrow> ('b, 'n) gauge_world" where
  "gw_paid s bk w = w\<lparr>gws := s, gve := (gve w)\<lparr>vbk := bk\<rparr>\<rparr>"

definition gauge_empty :: gauge_store where
  "gauge_empty = \<lparr>gs_gauges = [], gs_total_deposited = [], gs_deposited = [], gs_total_derived = [], gs_derived = [],
     gs_rewards = [], gs_user_rewards = [], gs_user_ve = [], gs_epoch = [], gs_points = [], gs_user_epoch = [],
     gs_user_points = [], gs_reward_epoch = [], gs_reward_points = []\<rparr>"

section \<open>Keys (keys.go)\<close>

definition GaugeKey :: "denom \<Rightarrow> string" where
  "GaugeKey d = CHR 0x01 # d"

definition BribeKey :: "denom \<Rightarrow> string" where
  "BribeKey d = CHR 0x02 # d"

definition RewardKey :: "string \<Rightarrow> denom \<Rightarrow> string" where
  "RewardKey gaugeOrBribe rewardDenom = gaugeOrBribe @ rewardDenom"

definition UserVeIDByAddressKey :: "string \<Rightarrow> addr \<Rightarrow> string" where
  "UserVeIDByAddressKey gaugeKey acc = gaugeKey @ acc"

section \<open>The store (store.go)\<close>

definition SetGauge :: "denom \<Rightarrow> gauge_store \<Rightarrow> gauge_store" where
  "SetGauge d s = s\<lparr>gs_gauges := kv_set d d (gs_gauges s)\<rparr>"

definition HasGauge :: "gauge_store \<Rightarrow> denom \<Rightarrow> bool" where
  "HasGauge s d \<longleftrightarrow> kv_get (gs_gauges s) d \<noteq> None"

definition GetGauges :: "gauge_store \<Rightarrow> denom list" where
  "GetGauges s = map fst (gs_gauges s)"

definition SetTotalDepositedAmount :: "gbase \<Rightarrow> int \<Rightarrow> gauge_store \<Rightarrow> gauge_store" where
  "SetTotalDepositedAmount b amount s = s\<lparr>gs_total_deposited := kv_set (gb_prefix b) amount (gs_total_deposited s)\<rparr>"

definition GetTotalDepositedAmount :: "gbase \<Rightarrow> gauge_store \<Rightarrow> int" where
  "GetTotalDepositedAmount b s = or_zero (kv_get (gs_total_deposited s) (gb_prefix b))"

definition SetDepositedAmountByUser :: "gbase \<Rightarrow> nat \<Rightarrow> int \<Rightarrow> gauge_store \<Rightarrow> gauge_store" where
  "SetDepositedAmountByUser b veID amount s = s\<lparr>gs_deposited := kv_set (gb_prefix b, veID) amount (gs_deposited s)\<rparr>"

definition GetDepositedAmountByUser :: "gbase \<Rightarrow> gauge_store \<Rightarrow> nat \<Rightarrow> int" where
  "GetDepositedAmountByUser b s veID = or_zero (kv_get (gs_deposited s) (gb_prefix b, veID))"

definition DeleteDepositedAmountByUser :: "gbase \<Rightarrow> nat \<Rightarrow> gauge_store \<Rightarrow> gauge_store" where
  "DeleteDepositedAmountByUser b veID s = s\<lparr>gs_deposited := kv_delete (gb_prefix b, veID) (gs_deposited s)\<rparr>"

definition SetTotalDerivedAmount :: "gbase \<Rightarrow> int \<Rightarrow> gauge_store \<Rightarrow> gauge_store" where
  "SetTotalDerivedAmount b amount s = s\<lparr>gs_total_derived := kv_set (gb_prefix b) amount (gs_total_derived s)\<rparr>"

definition GetTotalDerivedAmount :: "gbase \<Rightarrow> gauge_store \<Rightarrow> int" where
  "GetTotalDerivedAmount b s = or_zero (kv_get (gs_total_derived s) (gb_prefix b))"

definition SetDerivedAmountByUser :: "gbase \<Rightarrow> nat \<Rightarrow> int \<Rightarrow> gauge_store \<Rightarrow> gauge_store" where
  "SetDerivedAmountByUser b veID amount s = s\<lparr>gs_derived := kv_set (gb_prefix b, veID) amount (gs_derived s)\<rparr>"

definition GetDerivedAmountByUser :: "gbase \<Rightarrow> gauge_store \<Rightarrow> nat \<Rightarrow> int" where
  "GetDerivedAmountByUser b s veID = or_zero (kv_get (gs_derived s) (gb_prefix b, veID))"

definition SetReward :: "gbase \<Rightarrow> denom \<Rightarrow> Reward \<Rightarrow> gauge_store \<Rightarrow> gauge_store" where
  "SetReward b rewardDenom reward s = s\<lparr>gs_rewards := kv_set (RewardKey (gb_prefix b) rewardDenom) reward (gs_rewards s)\<rparr>"

definition newReward :: "denom \<Rightarrow> Reward" where
  "newReward d = \<lparr>rw_Denom = d, rw_Rate = 0, rw_FinishTime = 0, rw_LastUpdateTime = 0,
     rw_CumulativePerTicket = 0, rw_AccruedAmount = 0\<rparr>"

definition GetReward :: "gbase \<Rightarrow> gauge_store \<Rightarrow> denom \<Rightarrow> Reward" where
  "GetReward b s rewardDenom =
     (case kv_get (gs_rewards s) (RewardKey (gb_prefix b) rewardDenom) of None \<Rightarrow> newReward rewardDenom | Some r \<Rightarrow> r)"

text \<open>The iteration is over the keys that start with the prefix, in their order.\<close>

definition IterateRewards :: "gbase \<Rightarrow> gauge_store \<Rightarrow> Reward list" where
  "IterateRewards b s = map snd (filter (\<lambda>e. take (length (gb_prefix b)) (fst e) = gb_prefix b) (gs_rewards s))"

definition SetUserReward :: "gbase \<Rightarrow> denom \<Rightarrow> nat \<Rightarrow> UserReward \<Rightarrow> gauge_store \<Rightarrow> gauge_store" where
  "SetUserReward b rewardDenom veID reward s =
     s\<lparr>gs_user_rewards := kv_set (RewardKey (gb_prefix b) rewardDenom, veID) reward (gs_user_rewards s)\<rparr>"

definition GetUserReward :: "gbase \<Rightarrow> gauge_store \<Rightarrow> denom \<Rightarrow> nat \<Rightarrow> UserReward" where
  "GetUserReward b s rewardDenom veID =
     (case kv_get (gs_user_rewards s) (RewardKey (gb_prefix b) rewardDenom, veID) of
        None \<Rightarrow> \<lparr>ur_Denom = rewardDenom, ur_VeId = veID, ur_LastClaimTime = 0, ur_CumulativePerTicket = 0\<rparr>
      | Some r \<Rightarrow> r)"

definition SetUserVeIDByAddress :: "gbase \<Rightarrow> addr \<Rightarrow> nat \<Rightarrow> gauge_store \<Rightarrow> gauge_store" where
  "SetUserVeIDByAddress b acc veID s = s\<lparr>gs_user_ve := kv_set (UserVeIDByAddressKey (gb_prefix b) acc) veID (gs_user_ve s)\<rparr>"

definition GetUserVeIDByAddress :: "gbase \<Rightarrow> gauge_store \<Rightarrow> addr \<Rightarrow> nat" where
  "GetUserVeIDByAddress b s acc =
     (case kv_get (gs_user_ve s) (UserVeIDByAddressKey (gb_prefix b) acc) of None \<Rightarrow> EmptyVeID | Some i \<Rightarrow> i)"

definition DeleteUserVeIDByAddress :: "gbase \<Rightarrow> addr \<Rightarrow> gauge_store \<Rightarrow> gauge_store" where
  "DeleteUserVeIDByAddress b acc s = s\<lparr>gs_user_ve := kv_delete (UserVeIDByAddressKey (gb_prefix b) acc) (gs_user_ve s)\<rparr>"

text \<open>The epochs are zero, and the checkpoints have no amount, when absent.\<close>

definition noPoint :: gCheckpoint where
  "noPoint = \<lparr>gc_Timestamp = 0, gc_Amount = None\<rparr>"

definition point_at :: "('k :: linorder, gCheckpoint) kv \<Rightarrow> 'k \<Rightarrow> gCheckpoint" where
  "point_at ps k = (case kv_get ps k of None \<Rightarrow> noPoint | Some p \<Rightarrow> p)"

definition Base_SetEpoch :: "gbase \<Rightarrow> nat \<Rightarrow> gauge_store \<Rightarrow> gauge_store" where
  "Base_SetEpoch b epoch s = s\<lparr>gs_epoch := kv_set (gb_prefix b) epoch (gs_epoch s)\<rparr>"

definition Base_GetEpoch :: "gbase \<Rightarrow> gauge_store \<Rightarrow> nat" where
  "Base_GetEpoch b s = or_zero (kv_get (gs_epoch s) (gb_prefix b))"

definition Base_SetCheckpoint :: "gbase \<Rightarrow> nat \<Rightarrow> gCheckpoint \<Rightarrow> gauge_store \<Rightarrow> gauge_store" where
  "Base_SetCheckpoint b epoch point s = s\<lparr>gs_points := kv_set (gb_prefix b, epoch) point (gs_points s)\<rparr>"

definition Base_GetCheckpoint :: "gbase \<Rightarrow> gauge_store \<Rightarrow> nat \<Rightarrow> gCheckpoint" where
  "Base_GetCheckpoint b s epoch = point_at (gs_points s) (gb_prefix b, epoch)"

definition Base_SetUserEpoch :: "gbase \<Rightarrow> nat \<Rightarrow> nat \<Rightarrow> gauge_store \<Rightarrow> gauge_store" where
  "Base_SetUserEpoch b veID epoch s = s\<lparr>gs_user_epoch := kv_set (gb_prefix b, veID) epoch (gs_user_epoch s)\<rparr>"

definition Base_GetUserEpoch :: "gbase \<Rightarrow> gauge_store \<Rightarrow> nat \<Rightarrow> nat" where
  "Base_GetUserEpoch b s veID = or_zero (kv_get (gs_user_epoch s) (gb_prefix b, veID))"

definition Base_SetUserCheckpoint :: "gbase \<Rightarrow> nat \<Rightarrow> nat \<Rightarrow> gCheckpoint \<Rightarrow> gauge_store \<Rightarrow> gauge_store" where
  "Base_SetUserCheckpoint b veID epoch point s =
     s\<lparr>gs_user_points := kv_set (gb_prefix b, veID, epoch) point (gs_user_points s)\<rparr>"

definition Base_GetUserCheckpoint :: "gbase \<Rightarrow> gauge_store \<Rightarrow> nat \<Rightarrow> nat \<Rightarrow> gCheckpoint" where
  "Base_GetUserCheckpoint b s veID epoch = point_at (gs_user_points s) (gb_prefix b, veID, epoch)"

definition SetRewardEpoch :: "gbase \<Rightarrow> denom \<Rightarrow> nat \<Rightarrow> gauge_store \<Rightarrow> gauge_store" where
  "SetRewardEpoch b rewardDenom epoch s =
     s\<lparr>gs_reward_epoch := kv_set (RewardKey (gb_prefix b) rewardDenom) epoch (gs_reward_epoch s)\<rparr>"

definition GetRewardEpoch :: "gbase \<Rightarrow> gauge_store \<Rightarrow> denom \<Rightarrow> nat" where
  "GetRewardEpoch b s rewardDenom = or_zero (kv_get (gs_reward_epoch s) (RewardKey (gb_prefix b) rewardDenom))"

definition SetRewardCheckpoint :: "gbase \<Rightarrow> denom \<Rightarrow> nat \<Rightarrow> gCheckpoint \<Rightarrow> gauge_store \<Rightarrow> gauge_store" where
  "SetRewardCheckpoint b rewardDenom epoch point s =
     s\<lparr>gs_reward_points := kv_set (RewardKey (gb_prefix b) rewardDenom, epoch) point (gs_reward_points s)\<rparr>"

definition GetRewardCheckpoint :: "gbase \<Rightarrow> gauge_store \<Rightarrow> denom \<Rightarrow> nat \<Rightarrow> gCheckpoint" where
  "GetRewardCheckpoint b s rewardDenom epoch = point_at (gs_reward_points s) (RewardKey (gb_prefix b) rewardDenom, epoch)"

section \<open>Pools and reward coins (base.go)\<close>

definition PoolName :: "gbase \<Rightarrow> string" where
  "PoolName b = (if gb_isGauge b then ''gauge'' else ''bribe'') @ ''_'' @ gb_denom b"

text \<open>The address of the escrow account; that the account is created on first use changes no balance.\<close>

definition EscrowPool :: "'b bank \<Rightarrow> gbase \<Rightarrow> addr" where
  "EscrowPool B b = GetModuleAddress B (PoolName b)"

definition isRewardDenom :: "gbase \<Rightarrow> gauge_store \<Rightarrow> denom \<Rightarrow> bool" where
  "isRewardDenom b s d = list_ex (\<lambda>r. rw_Denom r = d) (IterateRewards b s)"

definition getRewardDenoms :: "gbase \<Rightarrow> gauge_store \<Rightarrow> denom list" where
  "getRewardDenoms b s = map rw_Denom (IterateRewards b s)"

section \<open>Searching the history (base.go)\<close>

text \<open>The middle is computed in unsigned 64-bit arithmetic, as in the searches of the ve module.\<close>

partial_function (option) priorSearch :: "(nat \<Rightarrow> nat) \<Rightarrow> nat \<Rightarrow> nat \<Rightarrow> nat \<Rightarrow> nat option" where
  [code]: "priorSearch ts timestamp lower upper =
     (if upper > lower then
        let mid = u64_add (u64_add lower upper) 1 div 2 in
        if ts mid = timestamp then Some mid
        else if ts mid < timestamp then priorSearch ts timestamp mid upper
        else priorSearch ts timestamp lower (u64_sub mid 1)
      else Some lower)"

definition findPriorEpoch :: "gbase \<Rightarrow> gauge_store \<Rightarrow> nat \<Rightarrow> denom \<Rightarrow> nat \<Rightarrow> nat res" where
  "findPriorEpoch b s veID rewardDenom timestamp =
     (if veID \<noteq> EmptyVeID \<and> rewardDenom \<noteq> [] then Panic
      else
        let epoch = (if veID \<noteq> EmptyVeID then Base_GetUserEpoch b s veID
                     else if rewardDenom \<noteq> [] then GetRewardEpoch b s rewardDenom
                     else Base_GetEpoch b s);
            getCheckpoint = (\<lambda>e. if veID \<noteq> EmptyVeID then Base_GetUserCheckpoint b s veID e
                     else if rewardDenom \<noteq> [] then GetRewardCheckpoint b s rewardDenom e
                     else Base_GetCheckpoint b s e);
            ts = (\<lambda>e. gc_Timestamp (getCheckpoint e)) in
        if epoch = 0 then Ok 0
        else if ts epoch \<le> timestamp then Ok epoch
        else if ts 1 > timestamp then Ok 0
        else ended (priorSearch ts timestamp 0 epoch))"

definition findPriorRewardPerTicket :: "gbase \<Rightarrow> gauge_store \<Rightarrow> denom \<Rightarrow> nat \<Rightarrow> int option res" where
  "findPriorRewardPerTicket b s rewardDenom timestamp =
     rbind (findPriorEpoch b s EmptyVeID rewardDenom timestamp) (\<lambda>epoch.
     Ok (gc_Amount (GetRewardCheckpoint b s rewardDenom epoch)))"

section \<open>Checkpoints (base.go)\<close>

text \<open>A checkpoint of the same time is overwritten, otherwise a new epoch begins.\<close>

definition writeUserCheckpoint :: "gbase \<Rightarrow> ctx \<Rightarrow> nat \<Rightarrow> int \<Rightarrow> gauge_store \<Rightarrow> gauge_store" where
  "writeUserCheckpoint b ctx veID amount s =
     (let now = now_of ctx;
          epoch = Base_GetUserEpoch b s veID;
          point = (Base_GetUserCheckpoint b s veID epoch)\<lparr>gc_Amount := Some amount\<rparr> in
      if epoch > 0 \<and> gc_Timestamp point = now then Base_SetUserCheckpoint b veID epoch point s
      else Base_SetUserCheckpoint b veID (u64_add epoch 1) (point\<lparr>gc_Timestamp := now\<rparr>)
             (Base_SetUserEpoch b veID (u64_add epoch 1) s))"

definition writeRewardPerTicketCheckpoint :: "gbase \<Rightarrow> denom \<Rightarrow> int \<Rightarrow> nat \<Rightarrow> gauge_store \<Rightarrow> gauge_store" where
  "writeRewardPerTicketCheckpoint b rewardDenom reward timestamp s =
     (let epoch = GetRewardEpoch b s rewardDenom;
          point = (GetRewardCheckpoint b s rewardDenom epoch)\<lparr>gc_Amount := Some reward\<rparr> in
      if epoch > 0 \<and> gc_Timestamp point = timestamp then SetRewardCheckpoint b rewardDenom epoch point s
      else SetRewardCheckpoint b rewardDenom (u64_add epoch 1) (point\<lparr>gc_Timestamp := timestamp\<rparr>)
             (SetRewardEpoch b rewardDenom (u64_add epoch 1) s))"

definition writeCheckpoint :: "gbase \<Rightarrow> ctx \<Rightarrow> gauge_store \<Rightarrow> gauge_store" where
  "writeCheckpoint b ctx s =
     (let now = now_of ctx;
          epoch = Base_GetEpoch b s;
          amount = (if gb_isGauge b then GetTotalDerivedAmount b s else GetTotalDepositedAmount b s);
          point = (Base_GetCheckpoint b s epoch)\<lparr>gc_Amount := Some amount\<rparr> in
      if epoch > 0 \<and> gc_Timestamp point = now then Base_SetCheckpoint b epoch point s
      else Base_SetCheckpoint b (u64_add epoch 1) (point\<lparr>gc_Timestamp := now\<rparr>) (Base_SetEpoch b (u64_add epoch 1) s))"

section \<open>Rewards (base.go)\<close>

definition lastTimeRewardAvailable :: "gbase \<Rightarrow> ctx \<Rightarrow> gauge_store \<Rightarrow> denom \<Rightarrow> nat" where
  "lastTimeRewardAvailable b ctx s rewardDenom = min (now_of ctx) (rw_FinishTime (GetReward b s rewardDenom))"

definition rewardPerTicket :: "gbase \<Rightarrow> ctx \<Rightarrow> gauge_store \<Rightarrow> denom \<Rightarrow> int" where
  "rewardPerTicket b ctx s rewardDenom =
     (let totalAmount = (if gb_isGauge b then GetTotalDerivedAmount b s else GetTotalDepositedAmount b s);
          reward = GetReward b s rewardDenom in
      if totalAmount = 0 then rw_CumulativePerTicket reward
      else
        let timeFromLast = u64_sub (lastTimeRewardAvailable b ctx s rewardDenom)
              (min (rw_LastUpdateTime reward) (rw_FinishTime reward)) in
        rw_CumulativePerTicket reward + (rw_Rate reward * i64_of_u64 timeFromLast) sdiv totalAmount)"

definition derivedTickets :: "gbase \<Rightarrow> ctx \<Rightarrow> ve_store \<Rightarrow> gauge_store \<Rightarrow> nat \<Rightarrow> int res" where
  "derivedTickets b ctx v s veID =
     (if \<not> gb_isGauge b then Ok 0
      else
        let totalDeposited = GetTotalDepositedAmount b s;
            deposited = GetDepositedAmountByUser b s veID;
            derived = (deposited * 40) sdiv 100 in
        rbind (GetTotalVotingPower ctx v (now_of ctx) 0) (\<lambda>totalPower.
        rbind (if totalPower > 0 then
                 rbind (GetVotingPower ctx v veID (now_of ctx) 0) (\<lambda>votes.
                 Ok (((totalDeposited * votes) sdiv totalPower * 60) sdiv 100))
               else Ok 0) (\<lambda>adjusted.
        let tickets = derived + adjusted in
        Ok (if tickets < deposited then tickets else deposited))))"

definition calculateRewardPerTicket ::
  "gbase \<Rightarrow> gauge_store \<Rightarrow> denom \<Rightarrow> nat \<Rightarrow> nat \<Rightarrow> nat \<Rightarrow> int \<Rightarrow> (int \<times> nat) res" where
  "calculateRewardPerTicket b s rewardDenom timestamp0 timestamp1 startTimestamp totalAmount =
     (let reward = GetReward b s rewardDenom;
          endTimestamp = max timestamp1 startTimestamp;
          duration = u64_sub (min endTimestamp (rw_FinishTime reward))
            (min (max timestamp0 startTimestamp) (rw_FinishTime reward)) in
      if totalAmount = 0 then Panic
      else Ok ((rw_Rate reward * i64_of_u64 duration) sdiv totalAmount, endTimestamp))"

text \<open>The loop over the earlier epochs, with the cumulative reward and the time reached.\<close>

fun updateRewardLoop ::
  "gbase \<Rightarrow> denom \<Rightarrow> nat list \<Rightarrow> int \<Rightarrow> nat \<Rightarrow> gauge_store \<Rightarrow> (int \<times> nat \<times> gauge_store) res" where
  "updateRewardLoop b d [] cum startTimestamp s = Ok (cum, startTimestamp, s)"
| "updateRewardLoop b d (i # is) cum startTimestamp s =
     (let point = Base_GetCheckpoint b s i in
      rbind (deref (gc_Amount point)) (\<lambda>amount.
      if amount > 0 then
        let nextPoint = Base_GetCheckpoint b s (u64_add i 1) in
        rbind (calculateRewardPerTicket b s d (gc_Timestamp point) (gc_Timestamp nextPoint) startTimestamp amount)
          (\<lambda>(perTicket, endTimestamp).
        updateRewardLoop b d is (cum + perTicket) endTimestamp
          (writeRewardPerTicketCheckpoint b d (cum + perTicket) endTimestamp s))
      else updateRewardLoop b d is cum startTimestamp s))"

definition updateRewardPerTicket :: "gbase \<Rightarrow> ctx \<Rightarrow> denom \<Rightarrow> gauge_store \<Rightarrow> gauge_store res" where
  "updateRewardPerTicket b ctx rewardDenom s =
     (let epoch = Base_GetEpoch b s;
          now = now_of ctx;
          reward = GetReward b s rewardDenom in
      if epoch = 0 then Ok s
      else if rw_Rate reward = 0 then Ok (SetReward b rewardDenom (reward\<lparr>rw_LastUpdateTime := now\<rparr>) s)
      else
        rbind (findPriorEpoch b s 0 [] (rw_LastUpdateTime reward)) (\<lambda>startEpoch.
        rbind (updateRewardLoop b rewardDenom [startEpoch..<epoch - 1] (rw_CumulativePerTicket reward) (rw_LastUpdateTime reward) s)
          (\<lambda>(cum, startTimestamp, s1).
        let point = Base_GetCheckpoint b s1 epoch in
        rbind (deref (gc_Amount point)) (\<lambda>amount.
        rbind (if amount > 0 then
                 rbind (calculateRewardPerTicket b s1 rewardDenom (max (gc_Timestamp point) startTimestamp)
                          (lastTimeRewardAvailable b ctx s1 rewardDenom) startTimestamp amount) (\<lambda>(perTicket, _).
                 Ok (cum + perTicket, now, writeRewardPerTicketCheckpoint b rewardDenom (cum + perTicket) now s1))
               else Ok (cum, startTimestamp, s1)) (\<lambda>(cum2, start2, s2).
        Ok (SetReward b rewardDenom (reward\<lparr>rw_CumulativePerTicket := cum2, rw_LastUpdateTime := start2\<rparr>) s2))))))"

text \<open>Differences and products of amounts panic when one of them was never set.\<close>

fun userRewardLoop :: "gbase \<Rightarrow> gauge_store \<Rightarrow> denom \<Rightarrow> nat \<Rightarrow> nat list \<Rightarrow> int \<Rightarrow> int res" where
  "userRewardLoop b s d veID [] reward = Ok reward"
| "userRewardLoop b s d veID (i # is) reward =
     (let point = Base_GetUserCheckpoint b s veID i;
          nextPoint = Base_GetUserCheckpoint b s veID (u64_add i 1) in
      rbind (findPriorRewardPerTicket b s d (gc_Timestamp point)) (\<lambda>perTicket.
      rbind (findPriorRewardPerTicket b s d (gc_Timestamp nextPoint)) (\<lambda>nextPerTicket.
      rbind (deref nextPerTicket) (\<lambda>n.
      rbind (deref perTicket) (\<lambda>p.
      rbind (deref (gc_Amount point)) (\<lambda>amount.
      userRewardLoop b s d veID is (reward + amount * (n - p))))))))"

definition userReward :: "gbase \<Rightarrow> ctx \<Rightarrow> gauge_store \<Rightarrow> denom \<Rightarrow> nat \<Rightarrow> int res" where
  "userReward b ctx s rewardDenom veID =
     (let epoch = Base_GetUserEpoch b s veID in
      if epoch = 0 then Ok 0
      else
        let ur = GetUserReward b s rewardDenom veID;
            startTimestamp = max (ur_LastClaimTime ur) (gc_Timestamp (GetRewardCheckpoint b s rewardDenom 1)) in
        rbind (findPriorEpoch b s veID [] startTimestamp) (\<lambda>startEpoch.
        rbind (userRewardLoop b s rewardDenom veID [startEpoch..<epoch - 1] 0) (\<lambda>reward.
        let point = Base_GetUserCheckpoint b s veID epoch in
        rbind (findPriorRewardPerTicket b s rewardDenom (gc_Timestamp point)) (\<lambda>perTicket.
        rbind (deref perTicket) (\<lambda>p.
        rbind (deref (gc_Amount point)) (\<lambda>amount.
        Ok (reward + amount * (rewardPerTicket b ctx s rewardDenom - max p (ur_CumulativePerTicket ur)))))))))"

definition deriveAmountForUser :: "gbase \<Rightarrow> ctx \<Rightarrow> ve_store \<Rightarrow> nat \<Rightarrow> gauge_store \<Rightarrow> gauge_store res" where
  "deriveAmountForUser b ctx v veID s =
     (if gb_isGauge b then
        let totalDerived = GetTotalDerivedAmount b s - GetDerivedAmountByUser b s veID in
        rbind (derivedTickets b ctx v s veID) (\<lambda>derived.
        Ok (writeCheckpoint b ctx (writeUserCheckpoint b ctx veID derived
              (SetTotalDerivedAmount b (totalDerived + derived) (SetDerivedAmountByUser b veID derived s)))))
      else Ok s)"

text \<open>
  The claim of one reward coin.  The record of the user's claim is changed in a local copy only and never
  written back, so it has no effect here either.
\<close>

definition sendCoin :: "sdk \<Rightarrow> 'b bank \<Rightarrow> addr \<Rightarrow> addr \<Rightarrow> denom \<Rightarrow> int \<Rightarrow> 'b \<Rightarrow> 'b res" where
  "sendCoin S B x y d amount b =
     rbind (NewCoin S d amount) (\<lambda>coin. rbind (NewCoins S [coin]) (\<lambda>cs. SendCoins B b x y cs))"

definition claimRewardStep ::
  "sdk \<Rightarrow> 'b bank \<Rightarrow> gbase \<Rightarrow> ctx \<Rightarrow> nat \<Rightarrow> addr \<Rightarrow> denom \<Rightarrow> ('b, 'n) gauge_world \<Rightarrow> ('b, 'n) gauge_world res" where
  "claimRewardStep S B b ctx veID owner rewardDenom w =
     rbind (updateRewardPerTicket b ctx rewardDenom (gws w)) (\<lambda>s1.
     rbind (userReward b ctx s1 rewardDenom veID) (\<lambda>rewardAmount.
     if rewardAmount > 0 then
       rbind (sendCoin S B (EscrowPool B b) owner rewardDenom rewardAmount (vbk (gve w))) (\<lambda>bk.
       Ok (gw_paid s1 bk w))
     else Ok (w\<lparr>gws := s1\<rparr>)))"

fun claimRewardLoop ::
  "sdk \<Rightarrow> 'b bank \<Rightarrow> gbase \<Rightarrow> ctx \<Rightarrow> nat \<Rightarrow> addr \<Rightarrow> denom list \<Rightarrow> ('b, 'n) gauge_world \<Rightarrow> ('b, 'n) gauge_world res" where
  "claimRewardLoop S B b ctx veID owner [] w = Ok w"
| "claimRewardLoop S B b ctx veID owner (d # ds) w =
     rbind (claimRewardStep S B b ctx veID owner d w) (claimRewardLoop S B b ctx veID owner ds)"

definition claimReward ::
  "sdk \<Rightarrow> 'b bank \<Rightarrow> 'n nft \<Rightarrow> gbase \<Rightarrow> ctx \<Rightarrow> nat \<Rightarrow> ('b, 'n) gauge_world \<Rightarrow> ('b, 'n) gauge_world res" where
  "claimReward S B N b ctx veID w =
     (let owner = nft_GetOwner N (vnf (gve w)) VeNftClass (VeIDFromUint64 veID) in
      rbind (claimRewardLoop S B b ctx veID owner (getRewardDenoms b (gws w)) w) (\<lambda>w1.
      rbind (deriveAmountForUser b ctx (vst (gve w1)) veID (gws w1)) (\<lambda>s. Ok (w1\<lparr>gws := s\<rparr>))))"

definition RemainingReward :: "gbase \<Rightarrow> ctx \<Rightarrow> gauge_store \<Rightarrow> denom \<Rightarrow> int" where
  "RemainingReward b ctx s rewardDenom =
     (let now = now_of ctx; reward = GetReward b s rewardDenom in
      if rw_FinishTime reward \<le> now then 0
      else rw_Rate reward * i64_of_u64 (u64_sub (rw_FinishTime reward) now))"

definition depositReward ::
  "sdk \<Rightarrow> 'b bank \<Rightarrow> gbase \<Rightarrow> ctx \<Rightarrow> addr \<Rightarrow> denom \<Rightarrow> int \<Rightarrow> ('b, 'n) gauge_world \<Rightarrow> ('b, 'n) gauge_world res" where
  "depositReward S B b ctx sender rewardDenom amount w =
     ensure (rewardDenom \<noteq> gb_denom b) (GaugeErr ErrInvalidDepositDenom) (
     ensure (amount > 0) (GaugeErr ErrInvalidAmount) (
     let now = now_of ctx;
         s0 = (if rw_Rate (GetReward b (gws w) rewardDenom) = 0
               then writeRewardPerTicketCheckpoint b rewardDenom 0 now (gws w) else gws w) in
     rbind (updateRewardPerTicket b ctx rewardDenom s0) (\<lambda>s1.
     let reward = GetReward b s1 rewardDenom in
     rbind (sendCoin S B sender (EscrowPool B b) rewardDenom amount (vbk (gve w))) (\<lambda>bk.
     rbind (if rw_FinishTime reward > now then
              let remaining = rw_Rate reward * i64_of_u64 (u64_sub (rw_FinishTime reward) now) in
              ensure (\<not> amount \<le> remaining) (GaugeErr ErrTooSmallRewardAmount) (Ok (amount + remaining))
            else Ok amount) (\<lambda>rewardAmount.
     let reward1 = reward\<lparr>rw_Rate := rewardAmount sdiv int RegulatedPeriod, rw_FinishTime := u64_add now RegulatedPeriod\<rparr> in
     ensure (rw_Rate reward1 > 0) (GaugeErr ErrTooSmallRewardAmount) (
     if Amount (GetBalance B bk (EscrowPool B b) rewardDenom) < rewardAmount then Panic
     else Ok (gw_paid (SetReward b rewardDenom reward1 s1) bk w)))))))"

section \<open>Gauges (gauge.go)\<close>

definition gauge_CreateGauge :: "denom \<Rightarrow> gauge_store \<Rightarrow> gauge_store res" where
  "gauge_CreateGauge d s = (if HasGauge s d then Panic else Ok (SetGauge d s))"

definition gaugeOf :: "denom \<Rightarrow> gbase" where
  "gaugeOf d = \<lparr>gb_denom = d, gb_prefix = GaugeKey d, gb_isGauge = True\<rparr>"

definition Keeper_Gauge :: "gauge_store \<Rightarrow> denom \<Rightarrow> gbase res" where
  "Keeper_Gauge s d = (if HasGauge s d then Ok (gaugeOf d) else Panic)"

definition Gauge_Deposit ::
  "sdk \<Rightarrow> 'b bank \<Rightarrow> 'n nft \<Rightarrow> gbase \<Rightarrow> ctx \<Rightarrow> nat \<Rightarrow> int \<Rightarrow> ('b, 'n) gauge_world \<Rightarrow> ('b, 'n) gauge_world res" where
  "Gauge_Deposit S B N g ctx veID amount w =
     (let owner = nft_GetOwner N (vnf (gve w)) VeNftClass (VeIDFromUint64 veID) in
      rbind (sendCoin S B owner (EscrowPool B g) (gb_denom g) amount (vbk (gve w))) (\<lambda>bk.
      let totalDeposited = GetTotalDepositedAmount g (gws w) + amount;
          deposited = GetDepositedAmountByUser g (gws w) veID + amount;
          s1 = SetDepositedAmountByUser g veID deposited (SetTotalDepositedAmount g totalDeposited (gws w));
          first = (GetUserVeIDByAddress g s1 owner = EmptyVeID);
          s2 = (if first then SetUserVeIDByAddress g owner veID s1 else s1);
          v = (if first then IncVeAttached veID (vst (gve w)) else vst (gve w)) in
      rbind (deriveAmountForUser g ctx v veID s2) (\<lambda>s3. Ok (w\<lparr>gws := s3, gve := (gve w)\<lparr>vst := v, vbk := bk\<rparr>\<rparr>))))"

definition Gauge_Withdraw ::
  "sdk \<Rightarrow> 'b bank \<Rightarrow> 'n nft \<Rightarrow> gbase \<Rightarrow> ctx \<Rightarrow> nat \<Rightarrow> int \<Rightarrow> ('b, 'n) gauge_world \<Rightarrow> ('b, 'n) gauge_world res" where
  "Gauge_Withdraw S B N g ctx veID amount w =
     (let owner = nft_GetOwner N (vnf (gve w)) VeNftClass (VeIDFromUint64 veID);
          totalDeposited = GetTotalDepositedAmount g (gws w);
          deposited = GetDepositedAmountByUser g (gws w) veID in
      ensure (\<not> amount > deposited) (GaugeErr ErrTooLargeAmount) (
      let s1 = SetTotalDepositedAmount g (totalDeposited - amount) (gws w) in
      rbind (if deposited - amount > 0 then Ok (SetDepositedAmountByUser g veID (deposited - amount) s1, vst (gve w))
             else rbind (DecVeAttached veID (vst (gve w))) (\<lambda>v.
                  Ok (DeleteUserVeIDByAddress g owner (DeleteDepositedAmountByUser g veID s1), v))) (\<lambda>(s2, v).
      rbind (sendCoin S B (EscrowPool B g) owner (gb_denom g) amount (vbk (gve w))) (\<lambda>bk.
      rbind (deriveAmountForUser g ctx v veID s2) (\<lambda>s3. Ok (w\<lparr>gws := s3, gve := (gve w)\<lparr>vst := v, vbk := bk\<rparr>\<rparr>))))))"

definition Gauge_DepositReward ::
  "sdk \<Rightarrow> 'b bank \<Rightarrow> gbase \<Rightarrow> ctx \<Rightarrow> addr \<Rightarrow> denom \<Rightarrow> int \<Rightarrow> ('b, 'n) gauge_world \<Rightarrow> ('b, 'n) gauge_world res" where
  "Gauge_DepositReward S B g ctx sender rewardDenom amount w = depositReward S B g ctx sender rewardDenom amount w"

text \<open>
  The field \<open>bribe\<close> of a gauge: \<open>Gauge\<close>, the only place that makes one, leaves it at its zero value, which has no
  store key, so that every method of it panics.
\<close>

definition gauge_bribe :: "gbase \<Rightarrow> gbase option" where
  "gauge_bribe g = None"

text \<open>\<open>DepositFees\<close>; the claim of the fees is an argument.\<close>

fun depositFeesLoop ::
  "sdk \<Rightarrow> 'b bank \<Rightarrow> gbase \<Rightarrow> ctx \<Rightarrow> addr \<Rightarrow> coin list \<Rightarrow> ('b, 'n) gauge_world \<Rightarrow> ('b, 'n) gauge_world res" where
  "depositFeesLoop S B g ctx acc [] w = Ok w"
| "depositFeesLoop S B g ctx acc (fee # fees) w =
     (let reward = GetReward g (gws w) (Denom fee);
          feeAmount = rw_AccruedAmount reward + Amount fee in
      rbind (deref (gauge_bribe g)) (\<lambda>bribe.
      rbind (if feeAmount > RemainingReward bribe ctx (gws w) (Denom fee) \<and> feeAmount sdiv int RegulatedPeriod > 0 then
               rbind (depositReward S B bribe ctx acc (Denom fee) feeAmount w) (\<lambda>w1. Ok (w1, reward\<lparr>rw_AccruedAmount := 0\<rparr>))
             else Ok (w, reward\<lparr>rw_AccruedAmount := feeAmount\<rparr>)) (\<lambda>(w1, reward1).
      depositFeesLoop S B g ctx acc fees (w1\<lparr>gws := SetReward g (Denom fee) reward1 (gws w1)\<rparr>))))"

definition DepositFees ::
  "sdk \<Rightarrow> 'b bank \<Rightarrow> ('b \<Rightarrow> addr \<Rightarrow> coin list \<times> 'b) \<Rightarrow> gbase \<Rightarrow> ctx \<Rightarrow> ('b, 'n) gauge_world \<Rightarrow> ('b, 'n) gauge_world res" where
  "DepositFees S B ClaimFees g ctx w =
     (let (claimed, bk) = ClaimFees (vbk (gve w)) (EscrowPool B g) in
      depositFeesLoop S B g ctx (EscrowPool B g) claimed (gw_paid (gws w) bk w))"

section \<open>Bribes (bribe.go)\<close>

definition bribeOf :: "denom \<Rightarrow> gbase" where
  "bribeOf d = \<lparr>gb_denom = d, gb_prefix = BribeKey d, gb_isGauge = False\<rparr>"

definition Keeper_Bribe :: "gauge_store \<Rightarrow> denom \<Rightarrow> gbase res" where
  "Keeper_Bribe s d = (if HasGauge s d then Ok (bribeOf d) else Panic)"

definition Bribe_ClaimReward ::
  "sdk \<Rightarrow> 'b bank \<Rightarrow> 'n nft \<Rightarrow> gbase \<Rightarrow> ctx \<Rightarrow> nat \<Rightarrow> ('b, 'n) gauge_world \<Rightarrow> ('b, 'n) gauge_world res" where
  "Bribe_ClaimReward S B N b ctx veID w = claimReward S B N b ctx veID w"

definition Bribe_Deposit :: "gbase \<Rightarrow> ctx \<Rightarrow> nat \<Rightarrow> int \<Rightarrow> gauge_store \<Rightarrow> gauge_store" where
  "Bribe_Deposit b ctx veID amount s =
     (let totalDeposited = GetTotalDepositedAmount b s + amount;
          deposited = GetDepositedAmountByUser b s veID + amount in
      writeCheckpoint b ctx (writeUserCheckpoint b ctx veID deposited
        (SetDepositedAmountByUser b veID deposited (SetTotalDepositedAmount b totalDeposited s))))"

definition Bribe_Withdraw :: "gbase \<Rightarrow> ctx \<Rightarrow> nat \<Rightarrow> int \<Rightarrow> gauge_store \<Rightarrow> gauge_store res" where
  "Bribe_Withdraw b ctx veID amount s =
     (let totalDeposited = GetTotalDepositedAmount b s;
          deposited = GetDepositedAmountByUser b s veID in
      ensure (\<not> amount > deposited) (GaugeErr ErrTooLargeAmount) (
      let s1 = SetTotalDepositedAmount b (totalDeposited - amount) s;
          s2 = (if deposited - amount > 0 then SetDepositedAmountByUser b veID (deposited - amount) s1
                else DeleteDepositedAmountByUser b veID s1) in
      Ok (writeCheckpoint b ctx (writeUserCheckpoint b ctx veID (deposited - amount) s2))))"

end
