(* ===== verification/Voter.thy ===== *)
theory Voter
  imports Gauge
begin

text \<open>
  The voter module, \<open>x/voter\<close>: the owners of ve tokens distribute their voting power over the pools that
  have a gauge, and the reward coins deposited with the module are shared among the gauges in proportion to
  their votes.

  The votes of a pool and the votes of a user for a pool share one section of the store, since
  \<open>PoolWeightedVotesByUserKey\<close> uses the prefix of the former, and the section is keyed by the bytes after
  that prefix.
\<close>

section \<open>Keys (keys.go)\<close>

text \<open>The 8 bytes of a number, the most significant first.\<close>

primrec bigEndian :: "nat \<Rightarrow> nat \<Rightarrow> string" where
  "bigEndian 0 n = []"
| "bigEndian (Suc k) n = bigEndian k (n div 256) @ [char_of n]"

definition Uint64ToBigEndian :: "nat \<Rightarrow> string" where
  "Uint64ToBigEndian n = bigEndian 8 n"

definition PoolWeightedVotesKey :: "denom \<Rightarrow> string" where
  "PoolWeightedVotesKey poolDenom = poolDenom"

definition PoolWeightedVotesByUserKey :: "nat \<Rightarrow> denom \<Rightarrow> string" where
  "PoolWeightedVotesByUserKey veID poolDenom = Uint64ToBigEndian veID @ poolDenom"

section \<open>State and store (store.go)\<close>

record voter_store =
  vo_total :: "int option"
  vo_total_by_user :: "(nat, int) kv"
  vo_pool_votes :: "(string, int) kv"
  vo_index :: "int option"
  vo_index_last :: "(denom, int) kv"
  vo_claimable :: "(denom, int) kv"

record ('b, 'n) voter_world =
  vos :: voter_store
  vog :: "('b, 'n) gauge_world"

definition voter_empty :: voter_store where
  "voter_empty = \<lparr>vo_total = None, vo_total_by_user = [], vo_pool_votes = [], vo_index = None,
     vo_index_last = [], vo_claimable = []\<rparr>"

definition SetTotalVotes :: "int \<Rightarrow> voter_store \<Rightarrow> voter_store" where
  "SetTotalVotes votes s = s\<lparr>vo_total := Some votes\<rparr>"

definition GetTotalVotes :: "voter_store \<Rightarrow> int" where
  "GetTotalVotes s = or_zero (vo_total s)"

definition SetTotalVotesByUser :: "nat \<Rightarrow> int \<Rightarrow> voter_store \<Rightarrow> voter_store" where
  "SetTotalVotesByUser veID votes s = s\<lparr>vo_total_by_user := kv_set veID votes (vo_total_by_user s)\<rparr>"

definition GetTotalVotesByUser :: "voter_store \<Rightarrow> nat \<Rightarrow> int" where
  "GetTotalVotesByUser s veID = or_zero (kv_get (vo_total_by_user s) veID)"

definition DeleteTotalVotesByUser :: "nat \<Rightarrow> voter_store \<Rightarrow> voter_store" where
  "DeleteTotalVotesByUser veID s = s\<lparr>vo_total_by_user := kv_delete veID (vo_total_by_user s)\<rparr>"

definition SetPoolWeightedVotes :: "denom \<Rightarrow> int \<Rightarrow> voter_store \<Rightarrow> voter_store" where
  "SetPoolWeightedVotes poolDenom votes s =
     s\<lparr>vo_pool_votes := kv_set (PoolWeightedVotesKey poolDenom) votes (vo_pool_votes s)\<rparr>"

definition GetPoolWeightedVotes :: "voter_store \<Rightarrow> denom \<Rightarrow> int" where
  "GetPoolWeightedVotes s poolDenom = or_zero (kv_get (vo_pool_votes s) (PoolWeightedVotesKey poolDenom))"

definition SetPoolWeightedVotesByUser :: "nat \<Rightarrow> denom \<Rightarrow> int \<Rightarrow> voter_store \<Rightarrow> voter_store" where
  "SetPoolWeightedVotesByUser veID poolDenom votes s =
     s\<lparr>vo_pool_votes := kv_set (PoolWeightedVotesByUserKey veID poolDenom) votes (vo_pool_votes s)\<rparr>"

definition GetPoolWeightedVotesByUser :: "voter_store \<Rightarrow> nat \<Rightarrow> denom \<Rightarrow> int" where
  "GetPoolWeightedVotesByUser s veID poolDenom =
     or_zero (kv_get (vo_pool_votes s) (PoolWeightedVotesByUserKey veID poolDenom))"

definition DeletePoolWeightedVotesByUser :: "nat \<Rightarrow> denom \<Rightarrow> voter_store \<Rightarrow> voter_store" where
  "DeletePoolWeightedVotesByUser veID poolDenom s =
     s\<lparr>vo_pool_votes := kv_delete (PoolWeightedVotesByUserKey veID poolDenom) (vo_pool_votes s)\<rparr>"

definition SetIndex :: "int \<Rightarrow> voter_store \<Rightarrow> voter_store" where
  "SetIndex i s = s\<lparr>vo_index := Some i\<rparr>"

definition GetIndex :: "voter_store \<Rightarrow> int" where
  "GetIndex s = or_zero (vo_index s)"

definition SetIndexAtLastUpdatedByGauge :: "denom \<Rightarrow> int \<Rightarrow> voter_store \<Rightarrow> voter_store" where
  "SetIndexAtLastUpdatedByGauge poolDenom i s = s\<lparr>vo_index_last := kv_set poolDenom i (vo_index_last s)\<rparr>"

definition GetIndexAtLastUpdatedByGauge :: "voter_store \<Rightarrow> denom \<Rightarrow> int" where
  "GetIndexAtLastUpdatedByGauge s poolDenom = or_zero (kv_get (vo_index_last s) poolDenom)"

definition SetClaimableRewardByGauge :: "denom \<Rightarrow> int \<Rightarrow> voter_store \<Rightarrow> voter_store" where
  "SetClaimableRewardByGauge poolDenom claimable s = s\<lparr>vo_claimable := kv_set poolDenom claimable (vo_claimable s)\<rparr>"

definition GetClaimableRewardByGauge :: "voter_store \<Rightarrow> denom \<Rightarrow> int" where
  "GetClaimableRewardByGauge s poolDenom = or_zero (kv_get (vo_claimable s) poolDenom)"

lemmas voter_get_defs = GetTotalVotes_def GetTotalVotesByUser_def GetPoolWeightedVotes_def
  GetPoolWeightedVotesByUser_def GetIndex_def GetIndexAtLastUpdatedByGauge_def GetClaimableRewardByGauge_def

lemmas voter_set_defs = SetTotalVotes_def SetTotalVotesByUser_def DeleteTotalVotesByUser_def SetPoolWeightedVotes_def
  SetPoolWeightedVotesByUser_def DeletePoolWeightedVotesByUser_def SetIndex_def SetIndexAtLastUpdatedByGauge_def
  SetClaimableRewardByGauge_def

text \<open>A change of the voter's, the gauges' or the ve module's store within the world.\<close>

definition on_vos :: "(voter_store \<Rightarrow> voter_store) \<Rightarrow> ('b, 'n) voter_world \<Rightarrow> ('b, 'n) voter_world" where
  "on_vos f w = w\<lparr>vos := f (vos w)\<rparr>"

definition on_gauges :: "(gauge_store \<Rightarrow> gauge_store res) \<Rightarrow> ('b, 'n) voter_world \<Rightarrow> ('b, 'n) voter_world res" where
  "on_gauges f w = rbind (f (gws (vog w))) (\<lambda>s. Ok (w\<lparr>vog := (vog w)\<lparr>gws := s\<rparr>\<rparr>))"

definition on_ve :: "(ve_store \<Rightarrow> ve_store) \<Rightarrow> ('b, 'n) voter_world \<Rightarrow> ('b, 'n) voter_world" where
  "on_ve f w = w\<lparr>vog := (vog w)\<lparr>gve := on_store f (gve (vog w))\<rparr>\<rparr>"

section \<open>Rewards (voter.go)\<close>

definition updateClaimableForGauge :: "denom \<Rightarrow> voter_store \<Rightarrow> voter_store" where
  "updateClaimableForGauge poolDenom s =
     (let votes = GetPoolWeightedVotes s poolDenom;
          ind = GetIndex s;
          s1 = (if votes > 0 then
                  let delta = ind - GetIndexAtLastUpdatedByGauge s poolDenom in
                  if delta > 0
                  then SetClaimableRewardByGauge poolDenom (GetClaimableRewardByGauge s poolDenom + delta * votes) s
                  else s
                else s) in
      SetIndexAtLastUpdatedByGauge poolDenom ind s1)"

definition voter_CreateGauge :: "denom \<Rightarrow> ('b, 'n) voter_world \<Rightarrow> ('b, 'n) voter_world res" where
  "voter_CreateGauge d w =
     rbind (if \<not> HasGauge (gws (vog w)) d then on_gauges (gauge_CreateGauge d) w else Ok w) (\<lambda>w1.
     Ok (on_vos (updateClaimableForGauge d) w1))"

definition voter_DepositReward ::
  "sdk \<Rightarrow> 'b bank \<Rightarrow> addr \<Rightarrow> int \<Rightarrow> ('b, 'n) voter_world \<Rightarrow> ('b, 'n) voter_world res" where
  "voter_DepositReward S B sender amount w =
     (let v = gve (vog w) in
      rbind (NewCoin S (ve_lock_denom (vst v)) amount) (\<lambda>coin.
      rbind (NewCoins S [coin]) (\<lambda>cs.
      rbind (must (SendCoinsFromAccountToModule B (vbk v) sender ''voter'' cs)) (\<lambda>bk.
      let w1 = w\<lparr>vog := (vog w)\<lparr>gve := v\<lparr>vbk := bk\<rparr>\<rparr>\<rparr>;
          ind = GetIndex (vos w);
          totalVotes = GetTotalVotes (vos w) in
      if totalVotes = 0 then Ok w1
      else Ok (on_vos (SetIndex (ind + amount sdiv totalVotes)) w1)))))"

definition EmitReward :: "sdk \<Rightarrow> 'b bank \<Rightarrow> ctx \<Rightarrow> ('b, 'n) voter_world \<Rightarrow> ('b, 'n) voter_world res" where
  "EmitReward S B ctx w =
     rbind (Emit ctx (gve (vog w))) (\<lambda>(v, emission).
     let w1 = w\<lparr>vog := (vog w)\<lparr>gve := v\<rparr>\<rparr> in
     if emission > 0 then voter_DepositReward S B (GetModuleAddress B EmissionPoolName) emission w1 else Ok w1)"

definition DistributeReward ::
  "sdk \<Rightarrow> 'b bank \<Rightarrow> ctx \<Rightarrow> denom \<Rightarrow> ('b, 'n) voter_world \<Rightarrow> ('b, 'n) voter_world res" where
  "DistributeReward S B ctx poolDenom w =
     rbind (Keeper_Gauge (gws (vog w)) poolDenom) (\<lambda>gauge.
     rbind (EmitReward S B ctx w) (\<lambda>w1.
     let w2 = on_vos (updateClaimableForGauge poolDenom) w1;
         claimable = GetClaimableRewardByGauge (vos w2) poolDenom in
     if claimable > RemainingReward gauge ctx (gws (vog w2)) poolDenom \<and> claimable sdiv int RegulatedPeriod > 0 then
       let w3 = on_vos (SetClaimableRewardByGauge poolDenom 0) w2 in
       rbind (must (Gauge_DepositReward S B gauge ctx (GetModuleAddress B ''voter'') poolDenom claimable (vog w3))) (\<lambda>g.
       Ok (w3\<lparr>vog := g\<rparr>))
     else Ok w2))"

text \<open>\<open>Gauge.ClaimReward\<close> of \<open>x/gauge/keeper/gauge.go\<close>, which distributes first.\<close>

definition Gauge_ClaimReward ::
  "sdk \<Rightarrow> 'b bank \<Rightarrow> 'n nft \<Rightarrow> gbase \<Rightarrow> ctx \<Rightarrow> nat \<Rightarrow> ('b, 'n) voter_world \<Rightarrow> ('b, 'n) voter_world res" where
  "Gauge_ClaimReward S B N g ctx veID w =
     rbind (DistributeReward S B ctx (gb_denom g) w) (\<lambda>w1.
     rbind (claimReward S B N g ctx veID (vog w1)) (\<lambda>gw. Ok (w1\<lparr>vog := gw\<rparr>)))"

section \<open>Votes (voter.go)\<close>

fun abstainLoop ::
  "ctx \<Rightarrow> nat \<Rightarrow> denom list \<Rightarrow> int \<Rightarrow> ('b, 'n) voter_world \<Rightarrow> (int \<times> ('b, 'n) voter_world) res" where
  "abstainLoop ctx veID [] totalVotes w = Ok (totalVotes, w)"
| "abstainLoop ctx veID (poolDenom # ds) totalVotes w =
     (let w1 = on_vos (updateClaimableForGauge poolDenom) w;
          weightedVotes = GetPoolWeightedVotesByUser (vos w1) veID poolDenom in
      if weightedVotes = 0 then abstainLoop ctx veID ds totalVotes w1
      else
        let w2 = on_vos (\<lambda>s. let s1 = DeletePoolWeightedVotesByUser veID poolDenom s in
                   SetPoolWeightedVotes poolDenom (GetPoolWeightedVotes s1 poolDenom - weightedVotes) s1) w1 in
        rbind (if weightedVotes > 0 then
                 rbind (Keeper_Bribe (gws (vog w2)) poolDenom) (\<lambda>bribe.
                 must (on_gauges (Bribe_Withdraw bribe ctx veID weightedVotes) w2))
               else Ok w2) (\<lambda>w3.
        abstainLoop ctx veID ds (totalVotes - \<bar>weightedVotes\<bar>) w3))"

definition Abstain :: "ctx \<Rightarrow> nat \<Rightarrow> ('b, 'n) voter_world \<Rightarrow> ('b, 'n) voter_world res" where
  "Abstain ctx veID w =
     rbind (abstainLoop ctx veID (GetGauges (gws (vog w))) (GetTotalVotes (vos w)) w) (\<lambda>(totalVotes, w1).
     Ok (on_ve (SetVeVoted veID False) (on_vos (\<lambda>s. SetTotalVotes totalVotes (DeleteTotalVotesByUser veID s)) w1)))"

text \<open>The loop over the weights, in the order in which the map is walked.\<close>

fun voteLoop ::
  "sdk \<Rightarrow> ctx \<Rightarrow> nat \<Rightarrow> int \<Rightarrow> (denom \<times> dec) list \<Rightarrow> int \<Rightarrow> int \<Rightarrow> dec \<Rightarrow> ('b, 'n) voter_world \<Rightarrow>
     (int \<times> int \<times> dec \<times> ('b, 'n) voter_world) res" where
  "voteLoop S ctx veID votingPower [] totalVotesByUser totalVotes totalWeights w =
     Ok (totalVotesByUser, totalVotes, totalWeights, w)"
| "voteLoop S ctx veID votingPower ((poolDenom, weight) # ws) totalVotesByUser totalVotes totalWeights w =
     (if \<not> HasGauge (gws (vog w)) poolDenom then Panic
      else
        let w1 = on_vos (updateClaimableForGauge poolDenom) w;
            weightedVotes = Dec_TruncateInt S (Dec_Mul S (ToDec votingPower) weight) in
        if weightedVotes = 0 then Panic
        else
          let w2 = on_vos (\<lambda>s. let s1 = SetPoolWeightedVotesByUser veID poolDenom weightedVotes s in
                     SetPoolWeightedVotes poolDenom (GetPoolWeightedVotes s1 poolDenom + weightedVotes) s1) w1 in
          rbind (if weightedVotes > 0 then
                   rbind (Keeper_Bribe (gws (vog w2)) poolDenom) (\<lambda>bribe.
                   on_gauges (\<lambda>s. Ok (Bribe_Deposit bribe ctx veID weightedVotes s)) w2)
                 else Ok w2) (\<lambda>w3.
          voteLoop S ctx veID votingPower ws (totalVotesByUser + \<bar>weightedVotes\<bar>) (totalVotes + \<bar>weightedVotes\<bar>)
            (totalWeights + \<bar>weight\<bar>) w3))"

definition Vote :: "sdk \<Rightarrow> ctx \<Rightarrow> nat \<Rightarrow> (denom \<times> dec) list \<Rightarrow> ('b, 'n) voter_world \<Rightarrow> ('b, 'n) voter_world res" where
  "Vote S ctx veID poolWeights w =
     rbind (Abstain ctx veID w) (\<lambda>w1.
     rbind (GetVotingPower ctx (vst (gve (vog w1))) veID (now_of ctx) 0) (\<lambda>votingPower.
     rbind (voteLoop S ctx veID votingPower poolWeights (GetTotalVotesByUser (vos w1) veID) (GetTotalVotes (vos w1)) 0 w1)
       (\<lambda>(totalVotesByUser, totalVotes, totalWeights, w2).
     if totalWeights \<noteq> dec_one then Panic
     else Ok (on_ve (SetVeVoted veID True)
            (on_vos (\<lambda>s. SetTotalVotes totalVotes (SetTotalVotesByUser veID totalVotesByUser s)) w2)))))"

text \<open>
  \<open>Poke\<close>: the weights the user's votes amount to now, and the pool last seen, to be fine-tuned.  The
  argument \<open>walk\<close> is the order in which the map of the weights is walked.
\<close>

fun pokeLoop ::
  "sdk \<Rightarrow> voter_store \<Rightarrow> nat \<Rightarrow> int \<Rightarrow> denom list \<Rightarrow> dec \<Rightarrow> (denom, dec) kv \<Rightarrow> denom \<Rightarrow>
     (dec \<times> (denom, dec) kv \<times> denom) res" where
  "pokeLoop S s veID totalVotesByUser [] totalWeights poolWeights fineTuning = Ok (totalWeights, poolWeights, fineTuning)"
| "pokeLoop S s veID totalVotesByUser (poolDenom # ds) totalWeights poolWeights fineTuning =
     (let weightedVotes = GetPoolWeightedVotesByUser s veID poolDenom in
      if weightedVotes = 0 then pokeLoop S s veID totalVotesByUser ds totalWeights poolWeights fineTuning
      else
        rbind (Dec_QuoInt S (ToDec weightedVotes) totalVotesByUser) (\<lambda>weight.
        pokeLoop S s veID totalVotesByUser ds (totalWeights + weight) (kv_set poolDenom weight poolWeights) poolDenom))"

definition Poke ::
  "sdk \<Rightarrow> ((denom, dec) kv \<Rightarrow> (denom \<times> dec) list) \<Rightarrow> ctx \<Rightarrow> nat \<Rightarrow> ('b, 'n) voter_world \<Rightarrow> ('b, 'n) voter_world res" where
  "Poke S walk ctx veID w =
     (let totalVotesByUser = GetTotalVotesByUser (vos w) veID in
      if \<not> totalVotesByUser > 0 then Ok w
      else
        rbind (pokeLoop S (vos w) veID totalVotesByUser (GetGauges (gws (vog w))) 0 [] [])
          (\<lambda>(totalWeights, poolWeights, fineTuning).
        rbind (if totalWeights = dec_one then
                 rbind (deref (kv_get poolWeights fineTuning)) (\<lambda>weight.
                 Ok (kv_set fineTuning (weight + (dec_one - totalWeights)) poolWeights))
               else Ok poolWeights) (\<lambda>poolWeights1.
        Vote S ctx veID (walk poolWeights1) w)))"

section \<open>End of block (abci.go)\<close>

definition voter_EndBlocker :: "sdk \<Rightarrow> 'b bank \<Rightarrow> ctx \<Rightarrow> ('b, 'n) voter_world \<Rightarrow> ('b, 'n) voter_world res" where
  "voter_EndBlocker S B ctx w = EmitReward S B ctx w"

end
