(* ===== verification/GaugeInv.thy ===== *)
theory GaugeInv
  imports Gauge "HOL-Library.Sublist"
begin

text \<open>
  What the operations of the gauges keep: rewards are never paid in the coin of their own pool as long as no
  pool's coin is a prefix of another's, the deposits of a gauge add up to its total, and the escrow account
  holds that total.
\<close>

section \<open>Frames\<close>

lemmas gauge_defs = SetTotalDepositedAmount_def SetDepositedAmountByUser_def DeleteDepositedAmountByUser_def
  SetTotalDerivedAmount_def SetDerivedAmountByUser_def SetReward_def SetUserVeIDByAddress_def DeleteUserVeIDByAddress_def
  Base_SetEpoch_def Base_SetCheckpoint_def Base_SetUserEpoch_def Base_SetUserCheckpoint_def SetRewardEpoch_def
  SetRewardCheckpoint_def GetTotalDepositedAmount_def GetDepositedAmountByUser_def

definition same_deposits :: "gauge_store \<Rightarrow> gauge_store \<Rightarrow> bool" where
  "same_deposits s s' \<longleftrightarrow> gs_gauges s' = gs_gauges s \<and> gs_total_deposited s' = gs_total_deposited s \<and>
     gs_deposited s' = gs_deposited s \<and> gs_user_rewards s' = gs_user_rewards s"

lemma same_deposits_trans: "same_deposits s s' \<Longrightarrow> same_deposits s' s'' \<Longrightarrow> same_deposits s s''"
  by (simp add: same_deposits_def)

lemma same_deposits_refl [simp]: "same_deposits s s"
  by (simp add: same_deposits_def)

lemma checkpoint_frames:
  "same_deposits s (writeRewardPerTicketCheckpoint b d r t s)" "gs_rewards (writeRewardPerTicketCheckpoint b d r t s) = gs_rewards s"
  "same_deposits s (writeUserCheckpoint b ctx i a s)" "gs_rewards (writeUserCheckpoint b ctx i a s) = gs_rewards s"
  "same_deposits s (writeCheckpoint b ctx s)" "gs_rewards (writeCheckpoint b ctx s) = gs_rewards s"
  by (simp_all add: same_deposits_def writeRewardPerTicketCheckpoint_def writeUserCheckpoint_def writeCheckpoint_def
      gauge_defs Let_def)

lemma updateRewardLoop_frame:
  "updateRewardLoop b d is cum t s = Ok (c, t', s') \<Longrightarrow> same_deposits s s' \<and> gs_rewards s' = gs_rewards s"
proof (induction "is" arbitrary: cum t s)
  case (Cons i "is")
  then show ?case
    by (auto simp: Let_def res_simps checkpoint_frames split: if_splits prod.splits
        intro: same_deposits_trans [OF checkpoint_frames(1)] dest!: Cons.IH)
qed simp

lemma updateRewardPerTicket_frame:
  assumes "updateRewardPerTicket b ctx d s = Ok s'"
  shows "same_deposits s s'"
    and "gs_rewards s' = gs_rewards s \<or>
      (\<exists>r. rw_Denom r = rw_Denom (GetReward b s d) \<and> gs_rewards s' = kv_set (RewardKey (gb_prefix b) d) r (gs_rewards s))"
proof -
  define r where "r = GetReward b s d"
  have "same_deposits s s' \<and> (gs_rewards s' = gs_rewards s \<or>
      (\<exists>x. rw_Denom x = rw_Denom r \<and> gs_rewards s' = kv_set (RewardKey (gb_prefix b) d) x (gs_rewards s)))"
  proof (cases "Base_GetEpoch b s = 0 \<or> rw_Rate r = 0")
    case True
    then show ?thesis using assms
      by (auto simp: updateRewardPerTicket_def r_def SetReward_def same_deposits_def Let_def split: if_splits
          intro: exI [where x = "GetReward b s d\<lparr>rw_LastUpdateTime := now_of ctx\<rparr>"])
  next
    case False
    then obtain e c1 t1 s1 a c2 t2 s2 where
      u: "updateRewardLoop b d [e..<Base_GetEpoch b s - 1] (rw_CumulativePerTicket r) (rw_LastUpdateTime r) s = Ok (c1, t1, s1)"
      and l: "(if a > 0 then
                 rbind (calculateRewardPerTicket b s1 d (max (gc_Timestamp (Base_GetCheckpoint b s1 (Base_GetEpoch b s))) t1)
                          (lastTimeRewardAvailable b ctx s1 d) t1 a) (\<lambda>(perTicket, _).
                 Ok (c1 + perTicket, now_of ctx, writeRewardPerTicketCheckpoint b d (c1 + perTicket) (now_of ctx) s1))
               else Ok (c1, t1, s1)) = Ok (c2, t2, s2)"
      and s': "SetReward b d (r\<lparr>rw_CumulativePerTicket := c2, rw_LastUpdateTime := t2\<rparr>) s2 = s'"
      using assms unfolding updateRewardPerTicket_def r_def [symmetric] by (simp only: de_Morgan_disj if_False res_inv) blast
    from l have "same_deposits s1 s2 \<and> gs_rewards s2 = gs_rewards s1"
      by (auto simp: res_simps checkpoint_frames split: if_splits prod.splits)
    then have "same_deposits s s' \<and>
        gs_rewards s' = kv_set (RewardKey (gb_prefix b) d) (r\<lparr>rw_CumulativePerTicket := c2, rw_LastUpdateTime := t2\<rparr>) (gs_rewards s)"
      using updateRewardLoop_frame [OF u] s' by (auto simp: SetReward_def same_deposits_def)
    moreover have "rw_Denom (r\<lparr>rw_CumulativePerTicket := c2, rw_LastUpdateTime := t2\<rparr>) = rw_Denom r" by simp
    ultimately show ?thesis by blast
  qed
  then show "same_deposits s s'"
    and "gs_rewards s' = gs_rewards s \<or>
      (\<exists>r. rw_Denom r = rw_Denom (GetReward b s d) \<and> gs_rewards s' = kv_set (RewardKey (gb_prefix b) d) r (gs_rewards s))"
    unfolding r_def by blast+
qed

lemma deriveAmountForUser_frame:
  assumes "deriveAmountForUser b ctx v i s = Ok s'"
  shows "same_deposits s s' \<and> gs_rewards s' = gs_rewards s"
  using assms unfolding deriveAmountForUser_def
  by (auto simp: Let_def res_simps checkpoint_frames split: if_splits
      intro!: same_deposits_trans [OF _ checkpoint_frames(5)] same_deposits_trans [OF _ checkpoint_frames(3)])
     (simp_all add: same_deposits_def gauge_defs)

lemma deposit_fees_panics:
  "ClaimFees (vbk (gve w)) (EscrowPool B g) = (fee # fees, bk) \<Longrightarrow> DepositFees S B ClaimFees g ctx w = Panic"
  by (simp add: DepositFees_def gauge_bribe_def deref_def Let_def)

section \<open>The coins of the rewards\<close>

definition of_pool :: "gauge_store \<Rightarrow> gbase \<Rightarrow> bool" where
  "of_pool s b \<longleftrightarrow> (\<exists>d\<in>set (GetGauges s). b = gaugeOf d \<or> b = bribeOf d)"

definition pools_apart :: "gauge_store \<Rightarrow> bool" where
  "pools_apart s \<longleftrightarrow> (\<forall>d\<in>set (GetGauges s). \<forall>g\<in>set (GetGauges s). prefix d g \<longrightarrow> d = g)"

definition rewards_ok :: "gauge_store \<Rightarrow> bool" where
  "rewards_ok s \<longleftrightarrow> (\<forall>k r. (k, r) \<in> set (gs_rewards s) \<longrightarrow> (\<exists>b. of_pool s b \<and> k = RewardKey (gb_prefix b) (rw_Denom r) \<and>
     rw_Denom r \<noteq> gb_denom b))"

lemma of_pool_frame: "gs_gauges s' = gs_gauges s \<Longrightarrow> of_pool s' b = of_pool s b"
  "gs_gauges s' = gs_gauges s \<Longrightarrow> pools_apart s' = pools_apart s"
  by (simp_all add: of_pool_def pools_apart_def GetGauges_def)

lemma pool_of_key:
  assumes "pools_apart s" "of_pool s b" "of_pool s b'" "prefix (gb_prefix b) (gb_prefix b' @ r)"
  shows "b = b'"
proof -
  obtain d d' where d: "d \<in> set (GetGauges s)" "d' \<in> set (GetGauges s)"
    and b: "b = gaugeOf d \<or> b = bribeOf d" "b' = gaugeOf d' \<or> b' = bribeOf d'"
    using assms(2,3) unfolding of_pool_def by blast
  have p: "prefix d (d' @ r)"
    using b assms(4) by (elim disjE) (simp_all add: gaugeOf_def bribeOf_def GaugeKey_def BribeKey_def)
  have k: "(b = gaugeOf d \<and> b' = gaugeOf d') \<or> (b = bribeOf d \<and> b' = bribeOf d')"
    using b assms(4) by (elim disjE) (simp_all add: gaugeOf_def bribeOf_def GaugeKey_def BribeKey_def)
  from p have "prefix d d' \<or> prefix d' d" by (rule prefix_same_cases [OF _ prefixI [OF refl]])
  then have "d = d'" using assms(1) d unfolding pools_apart_def by blast
  with k show ?thesis by blast
qed

lemma GetReward_denom:
  assumes "rewards_ok s" "pools_apart s" "of_pool s b"
  shows "rw_Denom (GetReward b s d) = d"
proof (cases "kv_get (gs_rewards s) (RewardKey (gb_prefix b) d)")
  case None
  then show ?thesis by (simp add: GetReward_def newReward_def)
next
  case (Some r)
  then have "(RewardKey (gb_prefix b) d, r) \<in> set (gs_rewards s)" by (simp add: kv_get_def map_of_SomeD)
  then obtain b' where b': "of_pool s b'" "RewardKey (gb_prefix b) d = RewardKey (gb_prefix b') (rw_Denom r)"
    using assms(1) unfolding rewards_ok_def by blast
  then have "prefix (gb_prefix b) (gb_prefix b' @ rw_Denom r)"
    unfolding RewardKey_def by (metis prefixI)
  then have "b = b'" by (rule pool_of_key [OF assms(2,3) b'(1)])
  with b'(2) Some show ?thesis by (simp add: GetReward_def RewardKey_def)
qed

lemma reward_denom_apart:
  assumes "rewards_ok s" "pools_apart s" "of_pool s b" "d \<in> set (getRewardDenoms b s)"
  shows "d \<noteq> gb_denom b"
proof -
  obtain k r where r: "(k, r) \<in> set (gs_rewards s)" "take (length (gb_prefix b)) k = gb_prefix b" "d = rw_Denom r"
    using assms(4) by (auto simp: getRewardDenoms_def IterateRewards_def)
  then obtain b' where b': "of_pool s b'" "k = RewardKey (gb_prefix b') (rw_Denom r)" "rw_Denom r \<noteq> gb_denom b'"
    using assms(1) unfolding rewards_ok_def by blast
  have "prefix (gb_prefix b) k" by (metis r(2) take_is_prefix)
  then have "prefix (gb_prefix b) (gb_prefix b' @ rw_Denom r)" using b'(2) by (simp add: RewardKey_def)
  then have "b = b'" by (rule pool_of_key [OF assms(2,3) b'(1)])
  with b'(3) r(3) show ?thesis by simp
qed

lemma kv_set_subset: "set (kv_set k v s) \<subseteq> insert (k, v) (set s)"
  by (induction k v s rule: kv_set.induct) auto

lemma rewards_ok_set:
  assumes "rewards_ok s" "of_pool s b" "rw_Denom r = d" "d \<noteq> gb_denom b" "gs_gauges s' = gs_gauges s"
    "gs_rewards s' = kv_set (RewardKey (gb_prefix b) d) r (gs_rewards s)"
  shows "rewards_ok s'"
proof (unfold rewards_ok_def of_pool_frame(1) [OF assms(5)], intro allI impI)
  fix k x
  assume "(k, x) \<in> set (gs_rewards s')"
  then have "(k, x) = (RewardKey (gb_prefix b) d, r) \<or> (k, x) \<in> set (gs_rewards s)"
    using kv_set_subset [of "RewardKey (gb_prefix b) d" r "gs_rewards s"] unfolding assms(6) by blast
  then show "\<exists>b. of_pool s b \<and> k = RewardKey (gb_prefix b) (rw_Denom x) \<and> rw_Denom x \<noteq> gb_denom b"
  proof
    assume "(k, x) = (RewardKey (gb_prefix b) d, r)"
    then show ?thesis using assms(2-4) by (intro exI [of _ b]) simp
  next
    assume "(k, x) \<in> set (gs_rewards s)"
    then show ?thesis using assms(1) unfolding rewards_ok_def by blast
  qed
qed

lemma rewards_ok_frame: "rewards_ok s \<Longrightarrow> gs_gauges s' = gs_gauges s \<Longrightarrow> gs_rewards s' = gs_rewards s \<Longrightarrow> rewards_ok s'"
  by (simp add: rewards_ok_def of_pool_def GetGauges_def)

lemma updateRewardPerTicket_rewards:
  assumes "updateRewardPerTicket b ctx d s = Ok s'" "rewards_ok s" "pools_apart s" "of_pool s b" "d \<noteq> gb_denom b"
  shows "rewards_ok s'"
proof -
  have g: "gs_gauges s' = gs_gauges s" using updateRewardPerTicket_frame(1) [OF assms(1)] by (simp add: same_deposits_def)
  from updateRewardPerTicket_frame(2) [OF assms(1)] show ?thesis
  proof
    assume "gs_rewards s' = gs_rewards s"
    then show ?thesis by (rule rewards_ok_frame [OF assms(2) g])
  next
    assume "\<exists>r. rw_Denom r = rw_Denom (GetReward b s d) \<and> gs_rewards s' = kv_set (RewardKey (gb_prefix b) d) r (gs_rewards s)"
    then obtain r where "rw_Denom r = d" "gs_rewards s' = kv_set (RewardKey (gb_prefix b) d) r (gs_rewards s)"
      using GetReward_denom [OF assms(2-4), of d] by auto
    then show ?thesis by (intro rewards_ok_set [OF assms(2,4) _ assms(5) g])
  qed
qed

section \<open>Deposits\<close>

definition gaugeShare :: "denom \<Rightarrow> string \<times> nat \<Rightarrow> int \<Rightarrow> int" where
  "gaugeShare d k v = (if fst k = GaugeKey d then v else 0)"

definition pool_deposits :: "gauge_store \<Rightarrow> denom \<Rightarrow> int" where
  "pool_deposits s d = kv_sum (gaugeShare d) (gs_deposited s)"

text \<open>The deposit of one token in one pool changes by an amount and its total with it; nothing else changes.\<close>

definition deposit_change :: "gbase \<Rightarrow> nat \<Rightarrow> int \<Rightarrow> gauge_store \<Rightarrow> gauge_store \<Rightarrow> bool" where
  "deposit_change b i delta s s' \<longleftrightarrow> gs_gauges s' = gs_gauges s \<and> gs_rewards s' = gs_rewards s \<and>
     (\<forall>b'. GetTotalDepositedAmount b' s' = GetTotalDepositedAmount b' s + (if gb_prefix b' = gb_prefix b then delta else 0)) \<and>
     (\<forall>b' j. GetDepositedAmountByUser b' s' j =
        GetDepositedAmountByUser b' s j + (if gb_prefix b' = gb_prefix b \<and> j = i then delta else 0)) \<and>
     (kv_wf (gs_deposited s) \<longrightarrow> kv_wf (gs_deposited s') \<and>
       (\<forall>d. pool_deposits s' d = pool_deposits s d + (if gb_prefix b = GaugeKey d then delta else 0)))"

lemma gaugeShare_at:
  "kv_at (gaugeShare d) s (gb_prefix b, i) = (if gb_prefix b = GaugeKey d then or_zero (kv_get s (gb_prefix b, i)) else 0)"
  by (auto simp: kv_at_def gaugeShare_def split: option.splits)

lemma deposit_change_set:
  "deposit_change b i delta s (SetDepositedAmountByUser b i (GetDepositedAmountByUser b s i + delta)
     (SetTotalDepositedAmount b (GetTotalDepositedAmount b s + delta) s))"
  by (auto simp: deposit_change_def gauge_defs pool_deposits_def kv_sum_set gaugeShare_at gaugeShare_def gbase.equality)

lemma deposit_change_delete:
  "GetDepositedAmountByUser b s i + delta = 0 \<Longrightarrow>
   deposit_change b i delta s (DeleteDepositedAmountByUser b i (SetTotalDepositedAmount b (GetTotalDepositedAmount b s + delta) s))"
  by (auto simp: deposit_change_def gauge_defs pool_deposits_def kv_sum_delete gaugeShare_at)

lemma deposit_change_frame:
  "deposit_change b i delta s s' \<Longrightarrow> same_deposits s' s'' \<Longrightarrow> gs_rewards s'' = gs_rewards s' \<Longrightarrow> deposit_change b i delta s s''"
  by (simp add: deposit_change_def same_deposits_def pool_deposits_def GetTotalDepositedAmount_def GetDepositedAmountByUser_def)

lemma Bribe_Deposit_change: "deposit_change b i amount s (Bribe_Deposit b ctx i amount s)"
  unfolding Bribe_Deposit_def Let_def
  by (intro deposit_change_frame [OF deposit_change_set]) (simp_all add: checkpoint_frames same_deposits_trans [OF checkpoint_frames(3,5)])

lemma Bribe_Withdraw_change:
  assumes "Bribe_Withdraw b ctx i amount s = Ok s'"
  shows "deposit_change b i (- amount) s s'" "amount \<le> GetDepositedAmountByUser b s i"
proof -
  let ?s = "SetTotalDepositedAmount b (GetTotalDepositedAmount b s - amount) s"
  let ?d = "GetDepositedAmountByUser b s i - amount"
  from assms have a: "amount \<le> GetDepositedAmountByUser b s i" and
    s': "s' = writeCheckpoint b ctx (writeUserCheckpoint b ctx i ?d
      (if ?d > 0 then SetDepositedAmountByUser b i ?d ?s else DeleteDepositedAmountByUser b i ?s))"
    by (auto simp: Bribe_Withdraw_def Let_def res_simps)
  have "deposit_change b i (- amount) s (if ?d > 0 then SetDepositedAmountByUser b i ?d ?s else DeleteDepositedAmountByUser b i ?s)"
    using deposit_change_set [of b i "- amount" s] deposit_change_delete [of b s i "- amount"] a by auto
  then show "deposit_change b i (- amount) s s'"
    unfolding s' by (rule deposit_change_frame) (simp_all add: checkpoint_frames same_deposits_trans [OF checkpoint_frames(3,5)])
  show "amount \<le> GetDepositedAmountByUser b s i" by (rule a)
qed

section \<open>The coins moved\<close>

text \<open>
  A claim leaves the deposits alone, keeps the rewards in order, changes the bank only, and takes coins from
  no account but the pool's own, and none of the pool's own coin.
\<close>

definition claim_effect :: "'b bank \<Rightarrow> gbase \<Rightarrow> ('b, 'n) gauge_world \<Rightarrow> ('b, 'n) gauge_world \<Rightarrow> bool" where
  "claim_effect B b w w' \<longleftrightarrow> same_deposits (gws w) (gws w') \<and> vst (gve w') = vst (gve w) \<and> vnf (gve w') = vnf (gve w) \<and>
     (\<forall>a x. a \<noteq> EscrowPool B b \<or> x = gb_denom b \<longrightarrow> bal B (vbk (gve w)) a x \<le> bal B (vbk (gve w')) a x)"

lemma claim_effect_trans:
  assumes "claim_effect B b w w'" "claim_effect B b w' w''"
  shows "claim_effect B b w w''"
proof -
  have "same_deposits (gws w) (gws w'')"
    using assms unfolding claim_effect_def by (blast intro: same_deposits_trans)
  moreover have "vst (gve w'') = vst (gve w)" "vnf (gve w'') = vnf (gve w)"
    using assms unfolding claim_effect_def by simp_all
  moreover have "bal B (vbk (gve w)) a x \<le> bal B (vbk (gve w'')) a x" if "a \<noteq> EscrowPool B b \<or> x = gb_denom b" for a x
  proof -
    have "bal B (vbk (gve w)) a x \<le> bal B (vbk (gve w')) a x" using assms(1) that unfolding claim_effect_def by blast
    also have "\<dots> \<le> bal B (vbk (gve w'')) a x" using assms(2) that unfolding claim_effect_def by blast
    finally show ?thesis .
  qed
  ultimately show ?thesis unfolding claim_effect_def by blast
qed

lemma gb_denom_of [simp]: "gb_denom (gaugeOf d) = d" "gb_denom (bribeOf d) = d"
  by (simp_all add: gaugeOf_def bribeOf_def)

lemma gauge_pool_accounts [simp]: "pool_account (PoolName (gaugeOf d))" "pool_account (PoolName (bribeOf d))" "pool_account ''voter''"
  by (simp_all add: pool_account_def PoolName_def gaugeOf_def bribeOf_def)

lemma gauge_pools_apart: "PoolName (gaugeOf d) = PoolName (gaugeOf g) \<longleftrightarrow> d = g" "PoolName (bribeOf d) \<noteq> PoolName (gaugeOf g)"
  "PoolName (gaugeOf d) \<noteq> ''voter''" "PoolName (bribeOf d) \<noteq> ''voter''"
  by (simp_all add: PoolName_def gaugeOf_def bribeOf_def)

context chain_laws
begin

lemma sendCoin_moved:
  assumes "sendCoin S B x y d amount b = Ok b'"
  shows "0 \<le> amount"
    and "bal B b' a e = bal B b a e - (if a = x \<and> e = d then amount else 0) + (if a = y \<and> e = d then amount else 0)"
proof -
  from assms obtain c cs where h: "NewCoin S d amount = Ok c" "NewCoins S [c] = Ok cs" "SendCoins B b x y cs = Ok b'"
    unfolding sendCoin_def res_inv by blast
  from h(1) have c: "c = \<lparr>Denom = d, Amount = amount\<rparr> \<and> 0 \<le> amount" by (auto simp: NewCoin_eq split: if_splits)
  then show "0 \<le> amount" by simp
  show "bal B b' a e = bal B b a e - (if a = x \<and> e = d then amount else 0) + (if a = y \<and> e = d then amount else 0)"
    using SendCoins_moved [OF h(3)] NewCoins_amt [OF h(2), of e] c by (auto simp: moved_def cs_amt_single)
qed

lemma claimRewardStep_effect:
  assumes "claimRewardStep S B b ctx i owner d w = Ok w'" "d \<noteq> gb_denom b"
  shows "claim_effect B b w w'"
proof -
  from assms(1) obtain s1 r where s1: "updateRewardPerTicket b ctx d (gws w) = Ok s1" and
    r: "(if r > 0 then rbind (sendCoin S B (EscrowPool B b) owner d r (vbk (gve w))) (\<lambda>bk. Ok (gw_paid s1 bk w))
         else Ok (w\<lparr>gws := s1\<rparr>)) = Ok w'"
    unfolding claimRewardStep_def res_inv by blast
  have f: "same_deposits (gws w) s1" by (rule updateRewardPerTicket_frame(1) [OF s1])
  show ?thesis
  proof (cases "r > 0")
    case True
    then obtain bk where "sendCoin S B (EscrowPool B b) owner d r (vbk (gve w)) = Ok bk" "w' = gw_paid s1 bk w"
      using r by (auto simp: res_simps)
    then show ?thesis using f sendCoin_moved assms(2) by (auto simp: claim_effect_def gw_paid_def)
  next
    case False
    then have "w' = w\<lparr>gws := s1\<rparr>" using r by simp
    then show ?thesis using f by (simp add: claim_effect_def)
  qed
qed

lemma claimRewardStep_rewards:
  assumes "claimRewardStep S B b ctx i owner d w = Ok w'" "rewards_ok (gws w)" "pools_apart (gws w)" "of_pool (gws w) b" "d \<noteq> gb_denom b"
  shows "rewards_ok (gws w')"
proof -
  from assms(1) obtain s1 where s1: "updateRewardPerTicket b ctx d (gws w) = Ok s1" and w': "gws w' = s1"
    by (auto simp: claimRewardStep_def res_simps gw_paid_def split: if_splits)
  show ?thesis using updateRewardPerTicket_rewards [OF s1 assms(2-5)] w' by simp
qed

lemma claimRewardLoop_effect:
  assumes "claimRewardLoop S B b ctx i owner ds w = Ok w'" "\<forall>d\<in>set ds. d \<noteq> gb_denom b"
    "rewards_ok (gws w)" "pools_apart (gws w)" "of_pool (gws w) b"
  shows "claim_effect B b w w' \<and> rewards_ok (gws w')"
  using assms
proof (induction ds arbitrary: w)
  case Nil
  then show ?case by (simp add: claim_effect_def)
next
  case (Cons d ds)
  then obtain w1 where w1: "claimRewardStep S B b ctx i owner d w = Ok w1" "claimRewardLoop S B b ctx i owner ds w1 = Ok w'"
    by (auto simp: res_simps)
  have e: "claim_effect B b w w1" using claimRewardStep_effect [OF w1(1)] Cons.prems(2) by simp
  then have g: "gs_gauges (gws w1) = gs_gauges (gws w)" by (simp add: claim_effect_def same_deposits_def)
  have "rewards_ok (gws w1)" using claimRewardStep_rewards [OF w1(1) Cons.prems(3-5)] Cons.prems(2) by simp
  then have "claim_effect B b w1 w' \<and> rewards_ok (gws w')"
    using Cons.IH [OF w1(2)] Cons.prems of_pool_frame [OF g] by simp
  then show ?case using claim_effect_trans [OF e] by blast
qed

lemma claimReward_effect:
  assumes "claimReward S B N b ctx i w = Ok w'" "rewards_ok (gws w)" "pools_apart (gws w)" "of_pool (gws w) b"
  shows "claim_effect B b w w' \<and> rewards_ok (gws w')"
proof -
  from assms(1) obtain w1 s where
    w1: "claimRewardLoop S B b ctx i (nft_GetOwner N (vnf (gve w)) VeNftClass (VeIDFromUint64 i)) (getRewardDenoms b (gws w)) w = Ok w1"
    and s: "deriveAmountForUser b ctx (vst (gve w1)) i (gws w1) = Ok s" and w': "w1\<lparr>gws := s\<rparr> = w'"
    unfolding claimReward_def res_inv by blast
  have "\<forall>d\<in>set (getRewardDenoms b (gws w)). d \<noteq> gb_denom b"
    using reward_denom_apart [OF assms(2-4)] by blast
  then have 1: "claim_effect B b w w1 \<and> rewards_ok (gws w1)"
    using claimRewardLoop_effect [OF w1 _ assms(2-4)] by blast
  have 2: "same_deposits (gws w1) s \<and> gs_rewards s = gs_rewards (gws w1)"
    by (rule deriveAmountForUser_frame [OF s])
  have "rewards_ok s" using rewards_ok_frame [of "gws w1" s] 1 2 by (simp add: same_deposits_def)
  moreover have "claim_effect B b w w'" using 1 2 w' by (auto simp: claim_effect_def intro: same_deposits_trans)
  ultimately show ?thesis using w' by auto
qed

text \<open>No claim is recorded: the user's time of the last claim is never written.\<close>

lemma claim_not_recorded:
  assumes "claimReward S B N b ctx i w = Ok w'" "rewards_ok (gws w)" "pools_apart (gws w)" "of_pool (gws w) b"
  shows "GetUserReward b (gws w') d j = GetUserReward b (gws w) d j"
  using claimReward_effect [OF assms] by (simp add: claim_effect_def same_deposits_def GetUserReward_def)

lemma depositReward_effect:
  assumes "depositReward S B b ctx sender d amount w = Ok w'" "rewards_ok (gws w)" "pools_apart (gws w)" "of_pool (gws w) b"
  shows "same_deposits (gws w) (gws w')" "rewards_ok (gws w')" "vst (gve w') = vst (gve w) \<and> vnf (gve w') = vnf (gve w)"
    and "a \<noteq> sender \<Longrightarrow> bal B (vbk (gve w)) a x \<le> bal B (vbk (gve w')) a x"
proof -
  let ?s0 = "if rw_Rate (GetReward b (gws w) d) = 0 then writeRewardPerTicketCheckpoint b d 0 (now_of ctx) (gws w) else gws w"
  from assms(1) obtain s1 bk ra where d: "d \<noteq> gb_denom b" and s1: "updateRewardPerTicket b ctx d ?s0 = Ok s1" and
    bk: "sendCoin S B sender (EscrowPool B b) d amount (vbk (gve w)) = Ok bk" and
    w': "w' = gw_paid (SetReward b d ((GetReward b s1 d)\<lparr>rw_Rate := ra sdiv int RegulatedPeriod,
           rw_FinishTime := u64_add (now_of ctx) RegulatedPeriod\<rparr>) s1) bk w"
    unfolding depositReward_def by (auto simp: Let_def res_simps split: if_splits)
  have 0: "same_deposits (gws w) ?s0" "gs_rewards ?s0 = gs_rewards (gws w)" by (simp_all add: checkpoint_frames)
  then have g: "gs_gauges ?s0 = gs_gauges (gws w)" by (simp add: same_deposits_def)
  have r0: "rewards_ok ?s0" by (rule rewards_ok_frame [OF assms(2) g 0(2)])
  have 1: "same_deposits (gws w) s1" by (rule same_deposits_trans [OF 0(1) updateRewardPerTicket_frame(1) [OF s1]])
  then have g1: "gs_gauges s1 = gs_gauges (gws w)" by (simp add: same_deposits_def)
  have p: "pools_apart s1" "of_pool s1 b" using assms(3,4) of_pool_frame [OF g1] by simp_all
  have r1: "rewards_ok s1"
    using updateRewardPerTicket_rewards [OF s1 r0 _ _ d] assms(3,4) of_pool_frame [OF g] by simp
  show "same_deposits (gws w) (gws w')" using 1 by (simp add: w' gw_paid_def SetReward_def same_deposits_def)
  show "rewards_ok (gws w')"
    by (rule rewards_ok_set [OF r1 p(2) _ d, where r = "(GetReward b s1 d)\<lparr>rw_Rate := ra sdiv int RegulatedPeriod,
           rw_FinishTime := u64_add (now_of ctx) RegulatedPeriod\<rparr>"])
       (simp_all add: w' gw_paid_def SetReward_def GetReward_denom [OF r1 p])
  show "vst (gve w') = vst (gve w) \<and> vnf (gve w') = vnf (gve w)" by (simp add: w' gw_paid_def)
  show "bal B (vbk (gve w)) a x \<le> bal B (vbk (gve w')) a x" if "a \<noteq> sender"
    using that sendCoin_moved [OF bk] by (simp add: w' gw_paid_def)
qed

lemma Gauge_Deposit_effect:
  assumes "Gauge_Deposit S B N g ctx i amount w = Ok w'"
  shows "deposit_change g i amount (gws w) (gws w')" "0 \<le> amount"
    "\<exists>bk. sendCoin S B (nft_GetOwner N (vnf (gve w)) VeNftClass (VeIDFromUint64 i)) (EscrowPool B g) (gb_denom g) amount
       (vbk (gve w)) = Ok bk \<and> vbk (gve w') = bk"
    "ve_lock_denom (vst (gve w')) = ve_lock_denom (vst (gve w))"
proof -
  let ?o = "nft_GetOwner N (vnf (gve w)) VeNftClass (VeIDFromUint64 i)"
  let ?s1 = "SetDepositedAmountByUser g i (GetDepositedAmountByUser g (gws w) i + amount)
     (SetTotalDepositedAmount g (GetTotalDepositedAmount g (gws w) + amount) (gws w))"
  let ?first = "GetUserVeIDByAddress g ?s1 ?o = EmptyVeID"
  let ?s2 = "if ?first then SetUserVeIDByAddress g ?o i ?s1 else ?s1"
  let ?v = "if ?first then IncVeAttached i (vst (gve w)) else vst (gve w)"
  from assms obtain bk s3 where bk: "sendCoin S B ?o (EscrowPool B g) (gb_denom g) amount (vbk (gve w)) = Ok bk" and
    s3: "deriveAmountForUser g ctx ?v i ?s2 = Ok s3" and w': "w\<lparr>gws := s3, gve := (gve w)\<lparr>vst := ?v, vbk := bk\<rparr>\<rparr> = w'"
    unfolding Gauge_Deposit_def res_inv by blast
  have 2: "same_deposits ?s1 ?s2" "gs_rewards ?s2 = gs_rewards ?s1" by (simp_all add: same_deposits_def gauge_defs)
  note 3 = deriveAmountForUser_frame [OF s3]
  have "deposit_change g i amount (gws w) s3"
    by (rule deposit_change_frame [OF deposit_change_set same_deposits_trans [OF 2(1) 3 [THEN conjunct1]]]) (simp only: 2 3)
  then show "deposit_change g i amount (gws w) (gws w')" using w' by auto
  show "0 \<le> amount" by (rule sendCoin_moved(1) [OF bk])
  show "\<exists>bk. sendCoin S B ?o (EscrowPool B g) (gb_denom g) amount (vbk (gve w)) = Ok bk \<and> vbk (gve w') = bk"
    using bk w' by auto
  show "ve_lock_denom (vst (gve w')) = ve_lock_denom (vst (gve w))" using w' by (auto simp: IncVeAttached_def SetVeAttached_def)
qed

lemma Gauge_Withdraw_effect:
  assumes "Gauge_Withdraw S B N g ctx i amount w = Ok w'"
  shows "deposit_change g i (- amount) (gws w) (gws w')" "0 \<le> amount" "amount \<le> GetDepositedAmountByUser g (gws w) i"
    "\<exists>bk. sendCoin S B (EscrowPool B g) (nft_GetOwner N (vnf (gve w)) VeNftClass (VeIDFromUint64 i)) (gb_denom g) amount
       (vbk (gve w)) = Ok bk \<and> vbk (gve w') = bk"
    "ve_lock_denom (vst (gve w')) = ve_lock_denom (vst (gve w))"
proof -
  let ?o = "nft_GetOwner N (vnf (gve w)) VeNftClass (VeIDFromUint64 i)"
  let ?d = "GetDepositedAmountByUser g (gws w) i - amount"
  let ?s1 = "SetTotalDepositedAmount g (GetTotalDepositedAmount g (gws w) - amount) (gws w)"
  from assms obtain s2 v bk s3 where a: "\<not> amount > GetDepositedAmountByUser g (gws w) i" and
    s2: "(if ?d > 0 then Ok (SetDepositedAmountByUser g i ?d ?s1, vst (gve w))
       else rbind (DecVeAttached i (vst (gve w))) (\<lambda>v.
         Ok (DeleteUserVeIDByAddress g ?o (DeleteDepositedAmountByUser g i ?s1), v))) = Ok (s2, v)" and
    bk: "sendCoin S B (EscrowPool B g) ?o (gb_denom g) amount (vbk (gve w)) = Ok bk" and
    s3: "deriveAmountForUser g ctx v i s2 = Ok s3" and w': "w\<lparr>gws := s3, gve := (gve w)\<lparr>vst := v, vbk := bk\<rparr>\<rparr> = w'"
    unfolding Gauge_Withdraw_def res_inv by blast
  have "deposit_change g i (- amount) (gws w) s2"
  proof (cases "?d > 0")
    case True
    then show ?thesis using s2 deposit_change_set [of g i "- amount" "gws w"] by simp
  next
    case False
    then have "s2 = DeleteUserVeIDByAddress g ?o (DeleteDepositedAmountByUser g i ?s1)" using s2 by (auto simp: res_simps)
    then have "same_deposits (DeleteDepositedAmountByUser g i ?s1) s2 \<and> gs_rewards s2 = gs_rewards (DeleteDepositedAmountByUser g i ?s1)"
      by (simp add: same_deposits_def gauge_defs)
    then show ?thesis
      using False a deposit_change_frame [OF deposit_change_delete [of g "gws w" i "- amount"]] by simp
  qed
  then have "deposit_change g i (- amount) (gws w) s3"
    by (rule deposit_change_frame) (simp_all add: deriveAmountForUser_frame [OF s3])
  then show "deposit_change g i (- amount) (gws w) (gws w')" using w' by auto
  show "0 \<le> amount" by (rule sendCoin_moved(1) [OF bk])
  show "amount \<le> GetDepositedAmountByUser g (gws w) i" using a by simp
  show "\<exists>bk. sendCoin S B (EscrowPool B g) ?o (gb_denom g) amount (vbk (gve w)) = Ok bk \<and> vbk (gve w') = bk"
    using bk w' by auto
  have "ve_lock_denom v = ve_lock_denom (vst (gve w))"
    using s2 by (auto simp: res_simps DecVeAttached_def SetVeAttached_def Let_def split: if_splits)
  then show "ve_lock_denom (vst (gve w')) = ve_lock_denom (vst (gve w))" using w' by auto
qed

end

section \<open>The invariant\<close>

definition gauge_inv :: "'b bank \<Rightarrow> 'b \<Rightarrow> gauge_store \<Rightarrow> bool" where
  "gauge_inv B bk s \<longleftrightarrow> kv_wf (gs_deposited s) \<and> pools_apart s \<and> rewards_ok s \<and>
     (\<forall>d i. 0 \<le> GetDepositedAmountByUser (gaugeOf d) s i) \<and>
     (\<forall>d. GetTotalDepositedAmount (gaugeOf d) s = pool_deposits s d) \<and>
     (\<forall>d. pool_deposits s d \<le> bal B bk (EscrowPool B (gaugeOf d)) d)"

text \<open>The accounts of the gauges and of the voter module.\<close>

definition escrow :: "'b bank \<Rightarrow> addr \<Rightarrow> bool" where
  "escrow B a \<longleftrightarrow> a = GetModuleAddress B ''voter'' \<or> (\<exists>d. a = EscrowPool B (gaugeOf d))"

lemma gauge_inv_frame:
  assumes "gauge_inv B bk s" "same_deposits s s'" "rewards_ok s'"
    "\<And>d. bal B bk (EscrowPool B (gaugeOf d)) d \<le> bal B bk' (EscrowPool B (gaugeOf d)) d"
  shows "gauge_inv B bk' s'"
proof -
  have g: "gs_gauges s' = gs_gauges s" using assms(2) by (simp add: same_deposits_def)
  have "pool_deposits s' d \<le> bal B bk' (EscrowPool B (gaugeOf d)) d" for d
  proof -
    have "pool_deposits s' d = pool_deposits s d"
      using assms(2) by (simp add: same_deposits_def pool_deposits_def)
    also have "\<dots> \<le> bal B bk (EscrowPool B (gaugeOf d)) d" using assms(1) unfolding gauge_inv_def by blast
    also have "\<dots> \<le> bal B bk' (EscrowPool B (gaugeOf d)) d" by (rule assms(4))
    finally show ?thesis .
  qed
  then show ?thesis using assms(1-3) of_pool_frame(2) [OF g] unfolding gauge_inv_def
    by (simp add: same_deposits_def pool_deposits_def GetTotalDepositedAmount_def GetDepositedAmountByUser_def)
qed

lemma gauge_inv_change:
  assumes "gauge_inv B bk s" "deposit_change (gaugeOf d) i delta s s'" "0 \<le> GetDepositedAmountByUser (gaugeOf d) s i + delta"
    "\<And>e. bal B bk (EscrowPool B (gaugeOf e)) e + (if e = d then delta else 0) \<le> bal B bk' (EscrowPool B (gaugeOf e)) e"
  shows "gauge_inv B bk' s'"
proof -
  have k: "gb_prefix (gaugeOf e) = gb_prefix (gaugeOf d) \<longleftrightarrow> e = d" "gb_prefix (gaugeOf d) = GaugeKey e \<longleftrightarrow> e = d" for e
    by (auto simp: gaugeOf_def GaugeKey_def)
  have g: "gs_gauges s' = gs_gauges s" and r: "gs_rewards s' = gs_rewards s" using assms(2) by (simp_all add: deposit_change_def)
  have t: "GetTotalDepositedAmount (gaugeOf e) s' = GetTotalDepositedAmount (gaugeOf e) s + (if e = d then delta else 0)" for e
    using assms(2) unfolding deposit_change_def by (simp add: k)
  have u: "0 \<le> GetDepositedAmountByUser (gaugeOf e) s' j" for e j
    using assms(1-3) unfolding deposit_change_def gauge_inv_def by (simp add: k)
  have p: "pool_deposits s' e = pool_deposits s e + (if e = d then delta else 0)" "kv_wf (gs_deposited s')" for e
    using assms(1,2) unfolding deposit_change_def gauge_inv_def by (simp_all add: k)
  have "pool_deposits s' e \<le> bal B bk' (EscrowPool B (gaugeOf e)) e" for e
  proof -
    have "pool_deposits s e \<le> bal B bk (EscrowPool B (gaugeOf e)) e"
      using assms(1) unfolding gauge_inv_def by blast
    then show ?thesis using assms(4) [of e] p(1) [of e] by linarith
  qed
  then show ?thesis using assms(1) t u p of_pool_frame(2) [OF g] rewards_ok_frame [OF _ g r] unfolding gauge_inv_def by simp
qed

lemma gauge_inv_bribe:
  assumes "gauge_inv B bk s" "deposit_change (bribeOf d) i delta s s'"
  shows "gauge_inv B bk s'"
proof -
  have k: "gb_prefix (gaugeOf e) \<noteq> gb_prefix (bribeOf d)" "gb_prefix (bribeOf d) \<noteq> GaugeKey e" for e
    by (simp_all add: gaugeOf_def bribeOf_def GaugeKey_def BribeKey_def)
  have g: "gs_gauges s' = gs_gauges s" and r: "gs_rewards s' = gs_rewards s" using assms(2) by (simp_all add: deposit_change_def)
  show ?thesis using assms of_pool_frame(2) [OF g] rewards_ok_frame [OF _ g r]
    unfolding gauge_inv_def deposit_change_def by (simp add: k)
qed

context chain_laws
begin

lemma escrow_pools:
  "EscrowPool B (gaugeOf d) = EscrowPool B (gaugeOf e) \<longleftrightarrow> d = e" "EscrowPool B (bribeOf d) \<noteq> EscrowPool B (gaugeOf e)"
  "EscrowPool B (gaugeOf d) \<noteq> GetModuleAddress B ''voter''" "EscrowPool B (bribeOf d) \<noteq> GetModuleAddress B ''voter''"
  using GetModuleAddress_inj [OF gauge_pool_accounts(1) gauge_pool_accounts(1)]
    GetModuleAddress_inj [OF gauge_pool_accounts(2) gauge_pool_accounts(1)]
    GetModuleAddress_inj [OF gauge_pool_accounts(1) gauge_pool_accounts(3)]
    GetModuleAddress_inj [OF gauge_pool_accounts(2) gauge_pool_accounts(3)]
    gauge_pools_apart unfolding EscrowPool_def by metis+

lemma claim_keeps:
  assumes "claimReward S B N b ctx i w = Ok w'" "gauge_inv B (vbk (gve w)) (gws w)" "of_pool (gws w) b"
  shows "gauge_inv B (vbk (gve w')) (gws w')" "claim_effect B b w w'"
proof -
  have i: "rewards_ok (gws w)" "pools_apart (gws w)" using assms(2) by (simp_all add: gauge_inv_def)
  note e = claimReward_effect [OF assms(1) i assms(3)]
  show c: "claim_effect B b w w'" using e by blast
  have "bal B (vbk (gve w)) (EscrowPool B (gaugeOf d)) d \<le> bal B (vbk (gve w')) (EscrowPool B (gaugeOf d)) d" for d
  proof -
    have "EscrowPool B (gaugeOf d) \<noteq> EscrowPool B b \<or> d = gb_denom b"
      using assms(3) escrow_pools(1,2) unfolding of_pool_def by (metis gb_denom_of)
    then show ?thesis using c unfolding claim_effect_def by blast
  qed
  then show "gauge_inv B (vbk (gve w')) (gws w')"
    using gauge_inv_frame [OF assms(2)] e unfolding claim_effect_def by blast
qed

lemma reward_keeps:
  assumes "depositReward S B b ctx sender d amount w = Ok w'" "gauge_inv B (vbk (gve w)) (gws w)" "of_pool (gws w) b"
    "\<not> escrow B sender"
  shows "gauge_inv B (vbk (gve w')) (gws w')"
proof -
  have i: "rewards_ok (gws w)" "pools_apart (gws w)" using assms(2) by (simp_all add: gauge_inv_def)
  note e = depositReward_effect [OF assms(1) i assms(3)]
  have "EscrowPool B (gaugeOf g) \<noteq> sender" for g using assms(4) unfolding escrow_def by blast
  then show ?thesis using gauge_inv_frame [OF assms(2) e(1,2) e(4)] by blast
qed

lemma deposit_keeps:
  assumes "Gauge_Deposit S B N (gaugeOf d) ctx i amount w = Ok w'" "gauge_inv B (vbk (gve w)) (gws w)"
    "\<not> escrow B (nft_GetOwner N (vnf (gve w)) VeNftClass (VeIDFromUint64 i))"
  shows "gauge_inv B (vbk (gve w')) (gws w')"
proof -
  let ?o = "nft_GetOwner N (vnf (gve w)) VeNftClass (VeIDFromUint64 i)"
  note e = Gauge_Deposit_effect [OF assms(1)]
  have s: "sendCoin S B ?o (EscrowPool B (gaugeOf d)) d amount (vbk (gve w)) = Ok (vbk (gve w'))"
    using e(3) by (simp add: gaugeOf_def)
  have o: "EscrowPool B (gaugeOf g) \<noteq> ?o" for g using assms(3) unfolding escrow_def by metis
  show ?thesis
    by (rule gauge_inv_change [OF assms(2) e(1)])
       (use assms(2) e(2) o sendCoin_moved(2) [OF s] escrow_pools(1) in \<open>auto simp: gauge_inv_def\<close>)
qed

lemma withdraw_keeps:
  assumes "Gauge_Withdraw S B N (gaugeOf d) ctx i amount w = Ok w'" "gauge_inv B (vbk (gve w)) (gws w)"
    "\<not> escrow B (nft_GetOwner N (vnf (gve w)) VeNftClass (VeIDFromUint64 i))"
  shows "gauge_inv B (vbk (gve w')) (gws w')"
proof -
  let ?o = "nft_GetOwner N (vnf (gve w)) VeNftClass (VeIDFromUint64 i)"
  note e = Gauge_Withdraw_effect [OF assms(1)]
  have s: "sendCoin S B (EscrowPool B (gaugeOf d)) ?o d amount (vbk (gve w)) = Ok (vbk (gve w'))"
    using e(4) by (simp add: gaugeOf_def)
  have o: "EscrowPool B (gaugeOf g) \<noteq> ?o" for g using assms(3) unfolding escrow_def by metis
  show ?thesis
    by (rule gauge_inv_change [OF assms(2) e(1)])
       (use e(3) o sendCoin_moved(2) [OF s] escrow_pools(1) in auto)
qed

end

end
