(* ===== verification/VoterInv.thy ===== *)
theory VoterInv
  imports Voter GaugeInv "HOL-Library.Multiset"
begin

text \<open>
  What the votes keep: the totals and the deposits with the bribes follow the single votes, and the rewards
  owed to the gauges do not change when votes do.
\<close>

section \<open>The section of the votes\<close>

text \<open>The two kinds of keys do not meet for coins whose name does not start with a zero byte and numbers below \<open>2\<^sup>5\<^sup>6\<close>.\<close>

definition plain :: "denom \<Rightarrow> bool" where
  "plain d \<longleftrightarrow> d \<noteq> [] \<and> hd d \<noteq> CHR 0x00"

definition maxVoter :: nat where
  "maxVoter = 2 ^ 56"

lemma length_bigEndian: "length (bigEndian k n) = k"
  by (induction k arbitrary: n) simp_all

lemma bigEndian_eq: "bigEndian k n = bigEndian k m \<Longrightarrow> n mod 256 ^ k = m mod 256 ^ k"
proof (induction k arbitrary: n m)
  case (Suc k)
  from Suc.prems have e: "bigEndian k (n div 256) = bigEndian k (m div 256)" "(char_of n :: char) = char_of m"
    by (simp_all only: bigEndian.simps append1_eq_conv)
  have "n mod 256 = m mod 256" using arg_cong [OF e(2), of "of_char :: char \<Rightarrow> nat"] by simp
  then show ?case using Suc.IH [OF e(1)] by (simp add: mod_mult2_eq)
qed simp

lemma hd_bigEndian: "hd (bigEndian (Suc k) n) = char_of (n div 256 ^ k)"
proof (induction k arbitrary: n)
  case (Suc k)
  have "hd (bigEndian (Suc (Suc k)) n) = hd (bigEndian (Suc k) (n div 256))"
    by (simp only: bigEndian.simps(2) [of "Suc k"] hd_append) (simp add: length_bigEndian flip: length_0_conv)
  then show ?case by (simp only: Suc.IH) (simp add: div_mult2_eq)
qed simp

lemma user_key_inj:
  assumes "i < maxVoter" "j < maxVoter" "PoolWeightedVotesByUserKey i d = PoolWeightedVotesByUserKey j e"
  shows "i = j \<and> d = e"
proof -
  have "bigEndian 8 i = bigEndian 8 j \<and> d = e"
    using assms(3) by (simp add: PoolWeightedVotesByUserKey_def Uint64ToBigEndian_def length_bigEndian)
  then show ?thesis using bigEndian_eq [of 8 i j] assms(1,2) by (simp add: maxVoter_def)
qed

lemma user_key_apart:
  assumes "i < maxVoter" "plain e"
  shows "PoolWeightedVotesByUserKey i d \<noteq> PoolWeightedVotesKey e"
proof
  assume "PoolWeightedVotesByUserKey i d = PoolWeightedVotesKey e"
  then have e: "e = bigEndian 8 i @ d"
    by (simp only: PoolWeightedVotesByUserKey_def PoolWeightedVotesKey_def Uint64ToBigEndian_def)
  have z: "i div 256 ^ 7 = 0" using assms(1) by (simp add: maxVoter_def)
  have "bigEndian 8 i \<noteq> []" by (metis length_bigEndian length_0_conv zero_neq_numeral)
  then have "hd e = hd (bigEndian (Suc 7) i)" using e by simp
  also have "\<dots> = char_of (0 :: nat)" unfolding hd_bigEndian z ..
  also have "\<dots> = CHR 0x00" by (simp add: char_of_def)
  finally show False using assms(2) by (simp add: plain_def)
qed

lemma PoolWeightedVotesKey_eq: "PoolWeightedVotesKey d = PoolWeightedVotesKey e \<longleftrightarrow> d = e"
  by (simp add: PoolWeightedVotesKey_def)

text \<open>A change of the votes of a user for a pool, and of the pool's, reads back as expected.\<close>

lemma votes_set:
  assumes "i < maxVoter" "plain d"
  shows "j < maxVoter \<Longrightarrow> GetPoolWeightedVotesByUser (SetPoolWeightedVotes d p (SetPoolWeightedVotesByUser i d v s)) j e =
      (if j = i \<and> e = d then v else GetPoolWeightedVotesByUser s j e)"
    and "plain e \<Longrightarrow> GetPoolWeightedVotes (SetPoolWeightedVotes d p (SetPoolWeightedVotesByUser i d v s)) e =
      (if e = d then p else GetPoolWeightedVotes s e)"
    and "GetPoolWeightedVotes (SetPoolWeightedVotesByUser i d v s) d = GetPoolWeightedVotes s d"
  using assms
  by (auto simp: voter_get_defs voter_set_defs PoolWeightedVotesKey_eq user_key_apart user_key_apart [THEN not_sym]
      dest: user_key_inj)

lemma votes_deleted:
  assumes "i < maxVoter" "plain d"
  shows "j < maxVoter \<Longrightarrow> GetPoolWeightedVotesByUser (SetPoolWeightedVotes d p (DeletePoolWeightedVotesByUser i d s)) j e =
      (if j = i \<and> e = d then 0 else GetPoolWeightedVotesByUser s j e)"
    and "plain e \<Longrightarrow> GetPoolWeightedVotes (SetPoolWeightedVotes d p (DeletePoolWeightedVotesByUser i d s)) e =
      (if e = d then p else GetPoolWeightedVotes s e)"
    and "GetPoolWeightedVotes (DeletePoolWeightedVotesByUser i d s) d = GetPoolWeightedVotes s d"
  using assms
  by (auto simp: voter_get_defs voter_set_defs PoolWeightedVotesKey_eq user_key_apart user_key_apart [THEN not_sym]
      dest: user_key_inj)

lemma pool_votes_fields:
  "vo_total (SetPoolWeightedVotes d v s) = vo_total s" "vo_total_by_user (SetPoolWeightedVotes d v s) = vo_total_by_user s" "vo_index (SetPoolWeightedVotes d v s) = vo_index s" "vo_index_last (SetPoolWeightedVotes d v s) = vo_index_last s" "vo_claimable (SetPoolWeightedVotes d v s) = vo_claimable s"
  "vo_total (SetPoolWeightedVotesByUser i d v s) = vo_total s" "vo_total_by_user (SetPoolWeightedVotesByUser i d v s) = vo_total_by_user s" "vo_index (SetPoolWeightedVotesByUser i d v s) = vo_index s" "vo_index_last (SetPoolWeightedVotesByUser i d v s) = vo_index_last s" "vo_claimable (SetPoolWeightedVotesByUser i d v s) = vo_claimable s"
  "vo_total (DeletePoolWeightedVotesByUser i d s) = vo_total s" "vo_total_by_user (DeletePoolWeightedVotesByUser i d s) = vo_total_by_user s" "vo_index (DeletePoolWeightedVotesByUser i d s) = vo_index s" "vo_index_last (DeletePoolWeightedVotesByUser i d s) = vo_index_last s" "vo_claimable (DeletePoolWeightedVotesByUser i d s) = vo_claimable s"
  by (simp_all add: voter_set_defs)

section \<open>Rewards owed\<close>

text \<open>What is recorded as claimable for a gauge and what the index has added since.\<close>

definition owedTo :: "voter_store \<Rightarrow> denom \<Rightarrow> int" where
  "owedTo s d = GetClaimableRewardByGauge s d +
     (GetIndex s - GetIndexAtLastUpdatedByGauge s d) * max 0 (GetPoolWeightedVotes s d)"

definition index_ok :: "voter_store \<Rightarrow> bool" where
  "index_ok s \<longleftrightarrow> (\<forall>d. GetIndexAtLastUpdatedByGauge s d \<le> GetIndex s)"

lemma update_frame:
  "GetPoolWeightedVotesByUser (updateClaimableForGauge d s) = GetPoolWeightedVotesByUser s"
  "GetPoolWeightedVotes (updateClaimableForGauge d s) = GetPoolWeightedVotes s"
  "vo_total (updateClaimableForGauge d s) = vo_total s"
  "vo_total_by_user (updateClaimableForGauge d s) = vo_total_by_user s"
  "vo_index (updateClaimableForGauge d s) = vo_index s"
  "GetIndexAtLastUpdatedByGauge (updateClaimableForGauge d s) e = (if e = d then GetIndex s else GetIndexAtLastUpdatedByGauge s e)"
  by (auto simp: updateClaimableForGauge_def Let_def voter_get_defs voter_set_defs fun_eq_iff)

lemma update_owed:
  assumes "index_ok s"
  shows "owedTo (updateClaimableForGauge d s) e = owedTo s e" "index_ok (updateClaimableForGauge d s)"
proof -
  have i: "GetIndex (updateClaimableForGauge d s) = GetIndex s" by (simp add: GetIndex_def update_frame)
  have l: "GetIndexAtLastUpdatedByGauge s d \<le> GetIndex s" using assms by (simp add: index_ok_def)
  have "GetClaimableRewardByGauge (updateClaimableForGauge d s) e =
      GetClaimableRewardByGauge s e + (if e = d then (GetIndex s - GetIndexAtLastUpdatedByGauge s d) * max 0 (GetPoolWeightedVotes s d) else 0)"
    using l by (auto simp: updateClaimableForGauge_def Let_def voter_get_defs voter_set_defs)
  then show "owedTo (updateClaimableForGauge d s) e = owedTo s e"
    by (auto simp: owedTo_def i update_frame)
  show "index_ok (updateClaimableForGauge d s)" using assms by (simp add: index_ok_def i update_frame)
qed

section \<open>Changes of votes\<close>

text \<open>
  The votes of a user change by \<open>V\<close>, pool by pool.  The pools' votes and the deposits with the bribes follow;
  totals, the index, the gauges and the ve module stay; what is owed to the gauges stays; and the gauges keep
  their invariant.
\<close>

definition votes_change ::
  "'b bank \<Rightarrow> nat \<Rightarrow> (denom \<Rightarrow> int) \<Rightarrow> ('b, 'n) voter_world \<Rightarrow> ('b, 'n) voter_world \<Rightarrow> bool" where
  "votes_change B i V w w' \<longleftrightarrow>
     (\<forall>j e. j < maxVoter \<longrightarrow> GetPoolWeightedVotesByUser (vos w') j e =
        GetPoolWeightedVotesByUser (vos w) j e + (if j = i then V e else 0)) \<and>
     (\<forall>e. plain e \<longrightarrow> GetPoolWeightedVotes (vos w') e = GetPoolWeightedVotes (vos w) e + V e) \<and>
     vo_total (vos w') = vo_total (vos w) \<and> vo_total_by_user (vos w') = vo_total_by_user (vos w) \<and>
     vo_index (vos w') = vo_index (vos w) \<and> gve (vog w') = gve (vog w) \<and>
     gs_gauges (gws (vog w')) = gs_gauges (gws (vog w)) \<and>
     (\<forall>e j. GetDepositedAmountByUser (bribeOf e) (gws (vog w')) j = GetDepositedAmountByUser (bribeOf e) (gws (vog w)) j +
        (if j = i then max 0 (GetPoolWeightedVotesByUser (vos w) i e + V e) - max 0 (GetPoolWeightedVotesByUser (vos w) i e) else 0)) \<and>
     (\<forall>e. GetTotalDepositedAmount (bribeOf e) (gws (vog w')) = GetTotalDepositedAmount (bribeOf e) (gws (vog w)) +
        max 0 (GetPoolWeightedVotesByUser (vos w) i e + V e) - max 0 (GetPoolWeightedVotesByUser (vos w) i e)) \<and>
     (\<forall>bk. gauge_inv B bk (gws (vog w)) \<longrightarrow> gauge_inv B bk (gws (vog w'))) \<and>
     (index_ok (vos w) \<longrightarrow> index_ok (vos w') \<and> (\<forall>e. plain e \<longrightarrow> owedTo (vos w') e = owedTo (vos w) e))"

lemma votes_change_compose:
  assumes "i < maxVoter" "votes_change B i V w w1" "votes_change B i V' w1 w'"
  shows "votes_change B i (\<lambda>e. V e + V' e) w w'"
  using assms unfolding votes_change_def by (simp add: add.assoc)

text \<open>One pool: the claimable reward is brought up to date, the votes change, and a deposit follows.\<close>

lemma one_pool_change:
  assumes i: "i < maxVoter" and d: "plain d"
    and s: "index_ok (vos w) \<Longrightarrow> index_ok s" "\<And>e. index_ok (vos w) \<Longrightarrow> plain e \<Longrightarrow> owedTo s e = owedTo (vos w) e"
      "vo_total s = vo_total (vos w)" "vo_total_by_user s = vo_total_by_user (vos w)" "vo_index s = vo_index (vos w)"
    and u: "\<And>j e. j < maxVoter \<Longrightarrow> GetPoolWeightedVotesByUser s j e =
        GetPoolWeightedVotesByUser (vos w) j e + (if j = i \<and> e = d then v else 0)"
    and p: "\<And>e. plain e \<Longrightarrow> GetPoolWeightedVotes s e = GetPoolWeightedVotes (vos w) e + (if e = d then v else 0)"
    and g: "deposit_change (bribeOf d) i (max 0 (GetPoolWeightedVotesByUser (vos w) i d + v) - max 0 (GetPoolWeightedVotesByUser (vos w) i d))
        (gws (vog w)) gs"
  shows "votes_change B i (\<lambda>e. if e = d then v else 0) w (w\<lparr>vos := s, vog := (vog w)\<lparr>gws := gs\<rparr>\<rparr>)"
proof -
  have k: "gb_prefix (bribeOf e) = gb_prefix (bribeOf d) \<longleftrightarrow> e = d" for e by (simp add: bribeOf_def BribeKey_def)
  have "gs_gauges gs = gs_gauges (gws (vog w))" using g by (simp add: deposit_change_def)
  moreover have "GetDepositedAmountByUser (bribeOf e) gs j = GetDepositedAmountByUser (bribeOf e) (gws (vog w)) j +
      (if e = d \<and> j = i then max 0 (GetPoolWeightedVotesByUser (vos w) i d + v) - max 0 (GetPoolWeightedVotesByUser (vos w) i d) else 0)" for e j
    using g unfolding deposit_change_def by (simp add: k)
  moreover have "GetTotalDepositedAmount (bribeOf e) gs = GetTotalDepositedAmount (bribeOf e) (gws (vog w)) +
      (if e = d then max 0 (GetPoolWeightedVotesByUser (vos w) i d + v) - max 0 (GetPoolWeightedVotesByUser (vos w) i d) else 0)" for e
    using g unfolding deposit_change_def by (simp add: k)
  moreover have "gauge_inv B bk (gws (vog w)) \<Longrightarrow> gauge_inv B bk gs" for bk by (rule gauge_inv_bribe [OF _ g])
  ultimately show ?thesis using s u p unfolding votes_change_def by simp
qed

text \<open>Changing the votes of a pool right after its update does not change what is owed to it.\<close>

lemma owed_after_update:
  assumes "index_ok s" "vo_index s' = vo_index s" "vo_index_last s' = vo_index_last (updateClaimableForGauge d s)"
    "vo_claimable s' = vo_claimable (updateClaimableForGauge d s)"
    "\<And>e. plain e \<Longrightarrow> e \<noteq> d \<Longrightarrow> GetPoolWeightedVotes s' e = GetPoolWeightedVotes s e"
  shows "index_ok s'" "plain e \<Longrightarrow> owedTo s' e = owedTo s e"
proof -
  have i: "GetIndex s' = GetIndex s" "GetIndex (updateClaimableForGauge d s) = GetIndex s"
    using assms(2) by (simp_all add: GetIndex_def update_frame)
  have l: "GetIndexAtLastUpdatedByGauge s' e = (if e = d then GetIndex s else GetIndexAtLastUpdatedByGauge s e)" for e
    using assms(3) update_frame(6) [of d s e] by (simp add: GetIndexAtLastUpdatedByGauge_def)
  show "index_ok s'" using assms(1) by (simp add: index_ok_def i l)
  have c: "GetClaimableRewardByGauge s' e = GetClaimableRewardByGauge (updateClaimableForGauge d s) e" for e
    using assms(4) by (simp add: GetClaimableRewardByGauge_def)
  have "owedTo (updateClaimableForGauge d s) e = owedTo s e" by (rule update_owed(1) [OF assms(1)])
  then show "owedTo s' e = owedTo s e" if "plain e"
    using assms(5) [OF that] by (cases "e = d") (simp_all add: owedTo_def i l c update_frame)
qed

lemma deposit_change_zero: "deposit_change b i 0 s s"
  by (simp add: deposit_change_def)

lemma HasGauge_iff: "HasGauge s d \<longleftrightarrow> d \<in> set (GetGauges s)"
  by (force simp: HasGauge_def GetGauges_def kv_get_def map_of_eq_None_iff)

lemma abstainLoop_change:
  assumes "abstainLoop ctx i ds tot0 w = Ok (tot1, w')" "i < maxVoter" "distinct ds" "\<forall>d\<in>set ds. plain d"
  shows "votes_change B i (\<lambda>e. if e \<in> set ds then - GetPoolWeightedVotesByUser (vos w) i e else 0) w w'"
    and "tot1 = tot0 - (\<Sum>d\<in>set ds. \<bar>GetPoolWeightedVotesByUser (vos w) i d\<bar>)"
proof -
  let ?u = "\<lambda>w. GetPoolWeightedVotesByUser (vos w) i"
  have "votes_change B i (\<lambda>e. if e \<in> set ds then - ?u w e else 0) w w' \<and> tot1 = tot0 - (\<Sum>d\<in>set ds. \<bar>?u w d\<bar>)"
    using assms
  proof (induction ds arbitrary: tot0 w)
    case Nil
    then show ?case by (auto simp: votes_change_def)
  next
    case (Cons d ds)
    have d: "plain d" "d \<notin> set ds" using Cons.prems by simp_all
    let ?s = "updateClaimableForGauge d (vos w)"
    let ?V = "\<lambda>e. if e = d then - ?u w d else 0"
    obtain w1 where w1: "votes_change B i ?V w w1" "abstainLoop ctx i ds (tot0 - \<bar>?u w d\<bar>) w1 = Ok (tot1, w')"
    proof (cases "?u w d = 0")
      case True
      let ?w1 = "on_vos (updateClaimableForGauge d) w"
      have eq: "?w1 = w\<lparr>vos := ?s, vog := (vog w)\<lparr>gws := gws (vog w)\<rparr>\<rparr>" by (simp add: on_vos_def)
      have "votes_change B i ?V w ?w1" unfolding eq
        using True by (intro one_pool_change [OF Cons.prems(2) d(1)]) (simp_all add: update_frame update_owed deposit_change_zero)
      moreover have "abstainLoop ctx i ds (tot0 - \<bar>?u w d\<bar>) ?w1 = Ok (tot1, w')"
        using Cons.prems(1) True by (simp add: on_vos_def update_frame)
      ultimately show ?thesis by (rule that)
    next
      case False
      let ?s1 = "DeletePoolWeightedVotesByUser i d ?s"
      let ?s2 = "SetPoolWeightedVotes d (GetPoolWeightedVotes ?s1 d - ?u w d) ?s1"
      obtain gs where gs: "deposit_change (bribeOf d) i (- max 0 (?u w d)) (gws (vog w)) gs"
          "abstainLoop ctx i ds (tot0 - \<bar>?u w d\<bar>) (w\<lparr>vos := ?s2, vog := (vog w)\<lparr>gws := gs\<rparr>\<rparr>) = Ok (tot1, w')"
      proof (cases "?u w d > 0")
        case True
        then show ?thesis using that Cons.prems(1)
          by (auto simp: Let_def on_vos_def update_frame res_simps on_gauges_def Keeper_Bribe_def
              split: if_splits dest!: Bribe_Withdraw_change(1))
      next
        case neg: False
        then show ?thesis using that [of "gws (vog w)"] Cons.prems(1) False
          by (simp add: Let_def on_vos_def update_frame deposit_change_zero)
      qed
      have "votes_change B i ?V w (w\<lparr>vos := ?s2, vog := (vog w)\<lparr>gws := gs\<rparr>\<rparr>)"
      proof (rule one_pool_change [OF Cons.prems(2) d(1)])
        show "index_ok ?s2" if "index_ok (vos w)"
          by (rule owed_after_update(1) [OF that]) (auto simp: pool_votes_fields update_frame votes_deleted [OF Cons.prems(2) d(1)])
        show "owedTo ?s2 e = owedTo (vos w) e" if "index_ok (vos w)" "plain e" for e
          by (rule owed_after_update(2) [OF that(1) _ _ _ _ that(2)])
             (auto simp: pool_votes_fields update_frame votes_deleted [OF Cons.prems(2) d(1)])
      qed (use gs(1) in \<open>simp_all add: votes_deleted [OF Cons.prems(2) d(1)] update_frame pool_votes_fields\<close>)
      then show ?thesis using that gs(2) by blast
    qed
    have u: "?u w1 e = ?u w e" if "e \<in> set ds" for e
      using w1(1) Cons.prems(2) that d(2) unfolding votes_change_def by auto
    have IH: "votes_change B i (\<lambda>e. if e \<in> set ds then - ?u w1 e else 0) w1 w'"
      "tot1 = tot0 - \<bar>?u w d\<bar> - (\<Sum>e\<in>set ds. \<bar>?u w1 e\<bar>)"
      using Cons.IH [OF w1(2)] Cons.prems by simp_all
    have "(\<lambda>e. ?V e + (if e \<in> set ds then - ?u w1 e else 0)) = (\<lambda>e. if e \<in> set (d # ds) then - ?u w e else 0)"
      using d(2) u by auto
    then have "votes_change B i (\<lambda>e. if e \<in> set (d # ds) then - ?u w e else 0) w w'"
      using votes_change_compose [OF Cons.prems(2) w1(1) IH(1)] by simp
    moreover have "(\<Sum>e\<in>set ds. \<bar>?u w1 e\<bar>) = (\<Sum>e\<in>set ds. \<bar>?u w e\<bar>)" using u by (intro sum.cong) simp_all
    ultimately show ?case using IH(2) d(2) by simp
  qed
  then show "votes_change B i (\<lambda>e. if e \<in> set ds then - ?u w e else 0) w w'"
    and "tot1 = tot0 - (\<Sum>d\<in>set ds. \<bar>?u w d\<bar>)" by blast+
qed

lemma voteLoop_change:
  assumes "voteLoop S ctx i pw ws tbu0 tot0 wt0 w = Ok (tbu1, tot1, wt1, w')" "i < maxVoter" "distinct (map fst ws)"
    "\<forall>d\<in>set (GetGauges (gws (vog w))). plain d" "\<forall>d\<in>set (map fst ws). GetPoolWeightedVotesByUser (vos w) i d = 0"
  shows "\<exists>V. votes_change B i V w w' \<and> (\<forall>e. e \<notin> set (map fst ws) \<longrightarrow> V e = 0) \<and>
     set (map fst ws) \<subseteq> set (GetGauges (gws (vog w))) \<and> tbu1 = tbu0 + (\<Sum>e\<in>set (map fst ws). \<bar>V e\<bar>) \<and>
     tot1 = tot0 + (\<Sum>e\<in>set (map fst ws). \<bar>V e\<bar>)"
  using assms
proof (induction ws arbitrary: tbu0 tot0 wt0 w)
  case Nil
  then show ?case by (intro exI [of _ "\<lambda>e. 0"]) (auto simp: votes_change_def)
next
  case (Cons x ws)
  obtain d wt where x: "x = (d, wt)" by (cases x)
  let ?u = "\<lambda>w. GetPoolWeightedVotesByUser (vos w) i"
  define v where "v = Dec_TruncateInt S (Dec_Mul S (ToDec pw) wt)"
  have g: "d \<in> set (GetGauges (gws (vog w)))" using Cons.prems(1) by (auto simp: x HasGauge_iff split: if_splits)
  then have d: "plain d" "d \<notin> set (map fst ws)" "?u w d = 0" using Cons.prems(3-5) by (simp_all add: x)
  let ?s = "updateClaimableForGauge d (vos w)"
  let ?s1 = "SetPoolWeightedVotesByUser i d v ?s"
  let ?s2 = "SetPoolWeightedVotes d (GetPoolWeightedVotes ?s1 d + v) ?s1"
  let ?w1 = "\<lambda>gs. w\<lparr>vos := ?s2, vog := (vog w)\<lparr>gws := gs\<rparr>\<rparr>"
  obtain gs where gs: "deposit_change (bribeOf d) i (max 0 v) (gws (vog w)) gs"
      "voteLoop S ctx i pw ws (tbu0 + \<bar>v\<bar>) (tot0 + \<bar>v\<bar>) (wt0 + \<bar>wt\<bar>) (?w1 gs) = Ok (tbu1, tot1, wt1, w')"
  proof (cases "v > 0")
    case True
    then show ?thesis using that [of "Bribe_Deposit (bribeOf d) ctx i v (gws (vog w))"] Cons.prems(1)
      by (auto simp: x v_def [symmetric] Let_def on_vos_def on_gauges_def Keeper_Bribe_def Bribe_Deposit_change split: if_splits)
  next
    case False
    then show ?thesis using that [of "gws (vog w)"] Cons.prems(1)
      by (auto simp: x v_def [symmetric] Let_def on_vos_def deposit_change_zero split: if_splits)
  qed
  have c: "votes_change B i (\<lambda>e. if e = d then v else 0) w (?w1 gs)"
  proof (rule one_pool_change [OF Cons.prems(2) d(1)])
    show "index_ok ?s2" if "index_ok (vos w)"
      by (rule owed_after_update(1) [OF that]) (auto simp: pool_votes_fields update_frame votes_set [OF Cons.prems(2) d(1)])
    show "owedTo ?s2 e = owedTo (vos w) e" if "index_ok (vos w)" "plain e" for e
      by (rule owed_after_update(2) [OF that(1) _ _ _ _ that(2)])
         (auto simp: pool_votes_fields update_frame votes_set [OF Cons.prems(2) d(1)])
  qed (use gs(1) d(3) in \<open>simp_all add: votes_set [OF Cons.prems(2) d(1)] update_frame pool_votes_fields\<close>)
  have gg: "GetGauges (gws (vog (?w1 gs))) = GetGauges (gws (vog w))"
    using gs(1) by (simp add: deposit_change_def GetGauges_def)
  have "\<forall>e\<in>set (map fst ws). ?u (?w1 gs) e = 0"
    using c Cons.prems(2,5) d(2) unfolding votes_change_def by (auto simp: x)
  then obtain V where V: "votes_change B i V (?w1 gs) w'" "\<forall>e. e \<notin> set (map fst ws) \<longrightarrow> V e = 0"
      "set (map fst ws) \<subseteq> set (GetGauges (gws (vog w)))" "tbu1 = tbu0 + \<bar>v\<bar> + (\<Sum>e\<in>set (map fst ws). \<bar>V e\<bar>)"
      "tot1 = tot0 + \<bar>v\<bar> + (\<Sum>e\<in>set (map fst ws). \<bar>V e\<bar>)"
    using Cons.IH [OF gs(2) Cons.prems(2)] Cons.prems(3,4) unfolding gg by (auto simp: x)
  let ?V = "\<lambda>e. (if e = d then v else 0) + V e"
  have "(\<Sum>e\<in>set (map fst ws). \<bar>?V e\<bar>) = (\<Sum>e\<in>set (map fst ws). \<bar>V e\<bar>)" using d(2) by (intro sum.cong) auto
  moreover have "?V d = v" using V(2) d(2) by simp
  ultimately have "(\<Sum>e\<in>set (map fst (x # ws)). \<bar>?V e\<bar>) = \<bar>v\<bar> + (\<Sum>e\<in>set (map fst ws). \<bar>V e\<bar>)"
    using d(2) by (simp add: x)
  then show ?case using votes_change_compose [OF Cons.prems(2) c V(1)] V(2-5) g
    by (intro exI [of _ ?V]) (simp add: x)
qed

section \<open>The ballots\<close>

definition voters :: "voter_store \<Rightarrow> nat set" where
  "voters s = set (map fst (vo_total_by_user s))"

definition ballots_ok :: "voter_store \<Rightarrow> gauge_store \<Rightarrow> bool" where
  "ballots_ok s g \<longleftrightarrow> kv_wf (vo_total_by_user s) \<and> kv_wf (gs_gauges g) \<and> (\<forall>d\<in>set (GetGauges g). plain d) \<and>
     (\<forall>i\<in>voters s. i < maxVoter) \<and>
     (\<forall>i d. i < maxVoter \<longrightarrow> i \<notin> voters s \<or> d \<notin> set (GetGauges g) \<longrightarrow> GetPoolWeightedVotesByUser s i d = 0) \<and>
     (\<forall>d. plain d \<longrightarrow> GetPoolWeightedVotes s d = (\<Sum>i\<in>voters s. GetPoolWeightedVotesByUser s i d)) \<and>
     (\<forall>i<maxVoter. GetTotalVotesByUser s i = (\<Sum>d\<in>set (GetGauges g). \<bar>GetPoolWeightedVotesByUser s i d\<bar>)) \<and>
     GetTotalVotes s = (\<Sum>i\<in>voters s. GetTotalVotesByUser s i) \<and>
     (\<forall>i d. i < maxVoter \<longrightarrow> GetDepositedAmountByUser (bribeOf d) g i = max 0 (GetPoolWeightedVotesByUser s i d)) \<and>
     (\<forall>d. GetTotalDepositedAmount (bribeOf d) g = (\<Sum>i\<in>voters s. max 0 (GetPoolWeightedVotesByUser s i d)))"

lemma sum_swap:
  fixes f f' :: "'a \<Rightarrow> int"
  assumes "finite A" "finite A'" "insert i A' = insert i A" "i \<notin> A \<Longrightarrow> f i = 0" "i \<notin> A' \<Longrightarrow> f' i = 0"
    "\<And>j. j \<in> A \<Longrightarrow> j \<noteq> i \<Longrightarrow> f' j = f j"
  shows "sum f' A' = sum f A - f i + f' i"
proof -
  have "A' - {i} = A - {i}" using assms(3) by blast
  moreover have "sum f' (A' - {i}) = sum f' A' - f' i" using assms(2,5) by (cases "i \<in> A'") (simp_all add: sum_diff1)
  moreover have "sum f (A - {i}) = sum f A - f i" using assms(1,4) by (cases "i \<in> A") (simp_all add: sum_diff1)
  moreover have "sum f' (A - {i}) = sum f (A - {i})" using assms(6) by (intro sum.cong) auto
  ultimately show ?thesis by simp
qed

lemma ballots_ok_change:
  assumes ok: "ballots_ok (vos w) (gws (vog w))" and i: "i < maxVoter" and c: "votes_change B i V w w1"
    and V: "\<And>e. e \<notin> set (GetGauges (gws (vog w))) \<Longrightarrow> V e = 0"
    and s: "GetPoolWeightedVotesByUser s = GetPoolWeightedVotesByUser (vos w1)" "GetPoolWeightedVotes s = GetPoolWeightedVotes (vos w1)"
      "kv_wf (vo_total_by_user s)" "insert i (voters s) = insert i (voters (vos w))"
      "\<And>e. i \<notin> voters s \<Longrightarrow> GetPoolWeightedVotesByUser (vos w) i e + V e = 0"
      "GetTotalVotesByUser s i = (\<Sum>d\<in>set (GetGauges (gws (vog w))). \<bar>GetPoolWeightedVotesByUser (vos w) i d + V d\<bar>)"
      "\<And>j. j \<noteq> i \<Longrightarrow> GetTotalVotesByUser s j = GetTotalVotesByUser (vos w) j"
      "GetTotalVotes s = GetTotalVotes (vos w) - GetTotalVotesByUser (vos w) i + GetTotalVotesByUser s i"
  shows "ballots_ok s (gws (vog w1))"
proof -
  let ?U = "GetPoolWeightedVotesByUser (vos w)" and ?U' = "GetPoolWeightedVotesByUser s"
  let ?A = "voters (vos w)" and ?A' = "voters s"
  have g: "GetGauges (gws (vog w1)) = GetGauges (gws (vog w))" "gs_gauges (gws (vog w1)) = gs_gauges (gws (vog w))"
    using c by (simp_all add: votes_change_def GetGauges_def)
  have fin: "finite ?A" "finite ?A'" by (simp_all add: voters_def)
  have U': "?U' j e = ?U j e + (if j = i then V e else 0)" if "j < maxVoter" for j e
    using c that s(1) unfolding votes_change_def by simp
  have less: "j < maxVoter" if "j \<in> ?A" for j using ok that unfolding ballots_ok_def by blast
  have less': "j < maxVoter" if "j \<in> ?A'" for j
  proof -
    have "j \<in> insert i ?A" using that s(4) by blast
    then show ?thesis using i less by blast
  qed
  have zero: "?U j e = 0" if "j < maxVoter" "j \<notin> ?A \<or> e \<notin> set (GetGauges (gws (vog w)))" for j e
    using ok that unfolding ballots_ok_def by blast
  have zero': "?U' j e = 0" if "j < maxVoter" "j \<notin> ?A' \<or> e \<notin> set (GetGauges (gws (vog w)))" for j e
  proof (cases "j = i")
    case True
    then show ?thesis using U' [OF that(1)] that s(5) [of e] V zero by fastforce
  next
    case False
    then show ?thesis using U' [OF that(1)] that s(4) zero [of j e] by auto
  qed
  have sums: "(\<Sum>j\<in>?A'. f (?U' j e)) = (\<Sum>j\<in>?A. f (?U j e)) - f (?U i e) + f (?U i e + V e)" if "f 0 = 0" for f :: "int \<Rightarrow> int" and e
    using sum_swap [OF fin s(4), of "\<lambda>j. f (?U j e)" "\<lambda>j. f (?U' j e)"] zero [OF i, of e] s(5) [of e] U' i less that by simp
  have tz: "GetTotalVotesByUser t j = 0" if "j \<notin> voters t" for t j
    using that kv_get_notin [of j "vo_total_by_user t"] by (simp add: GetTotalVotesByUser_def voters_def)
  have "(\<Sum>j\<in>?A'. GetTotalVotesByUser s j) = (\<Sum>j\<in>?A. GetTotalVotesByUser (vos w) j) - GetTotalVotesByUser (vos w) i + GetTotalVotesByUser s i"
    by (rule sum_swap [OF fin s(4)]) (use tz s(7) in auto)
  then have total_ok: "GetTotalVotes s = (\<Sum>j\<in>?A'. GetTotalVotesByUser s j)"
    using ok s(8) unfolding ballots_ok_def by simp
  have user_ok: "GetTotalVotesByUser s j = (\<Sum>d\<in>set (GetGauges (gws (vog w))). \<bar>?U' j d\<bar>)" if "j < maxVoter" for j
    using ok that s(6,7) U' unfolding ballots_ok_def by (cases "j = i") simp_all
  have pool_ok: "GetPoolWeightedVotes s e = (\<Sum>j\<in>?A'. ?U' j e)" if "plain e" for e
  proof -
    have "GetPoolWeightedVotes s e = GetPoolWeightedVotes (vos w) e + V e" using c that s(2) by (simp add: votes_change_def)
    also have "GetPoolWeightedVotes (vos w) e = (\<Sum>j\<in>?A. ?U j e)" using ok that by (simp add: ballots_ok_def)
    finally show ?thesis using sums [of "\<lambda>x. x" e] by simp
  qed
  have dep_ok: "GetDepositedAmountByUser (bribeOf e) (gws (vog w1)) j = max 0 (?U' j e)" if "j < maxVoter" for j e
    using ok c that U' [OF that] unfolding ballots_ok_def votes_change_def by simp
  have "GetTotalDepositedAmount (bribeOf e) (gws (vog w1)) = (\<Sum>j\<in>?A'. max 0 (?U' j e))" for e
  proof -
    have "GetTotalDepositedAmount (bribeOf e) (gws (vog w1)) =
        GetTotalDepositedAmount (bribeOf e) (gws (vog w)) + max 0 (?U i e + V e) - max 0 (?U i e)"
      using c by (simp add: votes_change_def)
    also have "GetTotalDepositedAmount (bribeOf e) (gws (vog w)) = (\<Sum>j\<in>?A. max 0 (?U j e))" using ok by (simp add: ballots_ok_def)
    finally show ?thesis using sums [of "\<lambda>x. max 0 x" e] by simp
  qed
  then show ?thesis using ok s(3) g less' zero' total_ok user_ok pool_ok dep_ok unfolding ballots_ok_def by (simp only: simp_thms) blast
qed

text \<open>What stays when votes change.\<close>

definition votes_keep :: "'b bank \<Rightarrow> ('b, 'n) voter_world \<Rightarrow> ('b, 'n) voter_world \<Rightarrow> bool" where
  "votes_keep B w w' \<longleftrightarrow> gs_gauges (gws (vog w')) = gs_gauges (gws (vog w)) \<and> vo_index (vos w') = vo_index (vos w) \<and>
     vbk (gve (vog w')) = vbk (gve (vog w)) \<and> ve_lock_denom (vst (gve (vog w'))) = ve_lock_denom (vst (gve (vog w))) \<and>
     (\<forall>bk. gauge_inv B bk (gws (vog w)) \<longrightarrow> gauge_inv B bk (gws (vog w'))) \<and>
     (index_ok (vos w) \<longrightarrow> index_ok (vos w') \<and> (\<forall>e. plain e \<longrightarrow> owedTo (vos w') e = owedTo (vos w) e))"

lemma votes_keep_trans: "votes_keep B w w1 \<Longrightarrow> votes_keep B w1 w' \<Longrightarrow> votes_keep B w w'"
  unfolding votes_keep_def by simp

lemma total_fields:
  "GetPoolWeightedVotesByUser (SetTotalVotes v s) = GetPoolWeightedVotesByUser s"
  "GetPoolWeightedVotesByUser (SetTotalVotesByUser i u s) = GetPoolWeightedVotesByUser s"
  "GetPoolWeightedVotesByUser (DeleteTotalVotesByUser i s) = GetPoolWeightedVotesByUser s"
  "GetPoolWeightedVotes (SetTotalVotes v s) = GetPoolWeightedVotes s"
  "GetPoolWeightedVotes (SetTotalVotesByUser i u s) = GetPoolWeightedVotes s"
  "GetPoolWeightedVotes (DeleteTotalVotesByUser i s) = GetPoolWeightedVotes s"
  "owedTo (SetTotalVotes v s) = owedTo s" "owedTo (SetTotalVotesByUser i u s) = owedTo s"
  "owedTo (DeleteTotalVotesByUser i s) = owedTo s"
  "index_ok (SetTotalVotes v s) = index_ok s" "index_ok (SetTotalVotesByUser i u s) = index_ok s"
  "index_ok (DeleteTotalVotesByUser i s) = index_ok s"
  "vo_index (SetTotalVotes v s) = vo_index s" "vo_index (SetTotalVotesByUser i u s) = vo_index s"
  "vo_index (DeleteTotalVotesByUser i s) = vo_index s"
  by (simp_all add: fun_eq_iff owedTo_def index_ok_def voter_get_defs voter_set_defs)

lemma kv_keys_delete: "set (map fst (kv_delete k s)) = set (map fst s) - {k}"
  by (force simp: kv_delete_def)

lemma GetGauges_distinct: "kv_wf (gs_gauges g) \<Longrightarrow> distinct (GetGauges g)"
  unfolding GetGauges_def by (rule kv_wf_distinct)

lemma Abstain_keeps:
  assumes "Abstain ctx i w = Ok w'" "ballots_ok (vos w) (gws (vog w))" "i < maxVoter"
  shows "ballots_ok (vos w') (gws (vog w'))" "i \<notin> voters (vos w')" "votes_keep B w w'"
proof -
  let ?G = "GetGauges (gws (vog w))"
  from assms(1) obtain tot1 w1 where l: "abstainLoop ctx i ?G (GetTotalVotes (vos w)) w = Ok (tot1, w1)"
    and w': "w' = on_ve (SetVeVoted i False) (on_vos (\<lambda>s. SetTotalVotes tot1 (DeleteTotalVotesByUser i s)) w1)"
    by (auto simp: Abstain_def res_simps)
  let ?s = "SetTotalVotes tot1 (DeleteTotalVotesByUser i (vos w1))"
  have vw: "vos w' = ?s" "gws (vog w') = gws (vog w1)" by (simp_all add: w' on_ve_def on_vos_def)
  have G: "distinct ?G" "\<forall>d\<in>set ?G. plain d"
    using assms(2) GetGauges_distinct by (simp_all add: ballots_ok_def)
  let ?V = "\<lambda>e. if e \<in> set ?G then - GetPoolWeightedVotesByUser (vos w) i e else 0"
  note c = abstainLoop_change(1) [OF l assms(3) G] and tot1 = abstainLoop_change(2) [OF l assms(3) G]
  have by_user: "vo_total_by_user (vos w1) = vo_total_by_user (vos w)" using c [of B] by (simp add: votes_change_def)
  have z: "GetPoolWeightedVotesByUser (vos w) i e + ?V e = 0" for e
    using assms(2,3) by (auto simp: ballots_ok_def)
  have "ballots_ok ?s (gws (vog w1))"
  proof (rule ballots_ok_change [OF assms(2,3) c [of B]])
    show "kv_wf (vo_total_by_user ?s)" using assms(2) by_user by (simp add: voter_set_defs ballots_ok_def)
    show "insert i (voters ?s) = insert i (voters (vos w))" using by_user
      by (auto simp: voters_def voter_set_defs kv_keys_delete simp del: set_map)
    have u: "GetTotalVotesByUser ?s j = (if j = i then 0 else GetTotalVotesByUser (vos w) j)" for j
      using by_user by (simp add: voter_get_defs voter_set_defs)
    show "GetTotalVotesByUser ?s i = (\<Sum>d\<in>set ?G. \<bar>GetPoolWeightedVotesByUser (vos w) i d + ?V d\<bar>)" using u z by simp
    show "GetTotalVotesByUser ?s j = GetTotalVotesByUser (vos w) j" if "j \<noteq> i" for j using u that by simp
    show "GetTotalVotes ?s = GetTotalVotes (vos w) - GetTotalVotesByUser (vos w) i + GetTotalVotesByUser ?s i"
      using u [of i] tot1 assms(2,3) by (simp add: ballots_ok_def GetTotalVotes_def SetTotalVotes_def)
  qed (use z in \<open>simp_all add: total_fields\<close>)
  then show "ballots_ok (vos w') (gws (vog w'))" by (simp only: vw)
  show "i \<notin> voters (vos w')" unfolding vw by (simp add: voters_def voter_set_defs kv_keys_delete del: set_map)
  show "votes_keep B w w'" using c [of B]
    by (simp add: votes_keep_def votes_change_def w' on_ve_def on_vos_def on_store_def SetVeVoted_def total_fields)
qed

lemma Vote_keeps:
  assumes "Vote S ctx i ws w = Ok w'" "ballots_ok (vos w) (gws (vog w))" "i < maxVoter" "distinct (map fst ws)"
  shows "ballots_ok (vos w') (gws (vog w'))" "votes_keep B w w'"
proof -
  from assms(1) obtain w1 pw tbu tot wt w2 where a: "Abstain ctx i w = Ok w1"
    and l: "voteLoop S ctx i pw ws (GetTotalVotesByUser (vos w1) i) (GetTotalVotes (vos w1)) 0 w1 = Ok (tbu, tot, wt, w2)"
    and w': "w' = on_ve (SetVeVoted i True) (on_vos (\<lambda>s. SetTotalVotes tot (SetTotalVotesByUser i tbu s)) w2)"
    unfolding Vote_def by (auto simp: res_simps split: if_splits)
  note k = Abstain_keeps [OF a assms(2,3)]
  let ?G = "GetGauges (gws (vog w1))"
  let ?s = "SetTotalVotes tot (SetTotalVotesByUser i tbu (vos w2))"
  have vw: "vos w' = ?s" "gws (vog w') = gws (vog w2)" by (simp_all add: w' on_ve_def on_vos_def)
  have u0: "GetPoolWeightedVotesByUser (vos w1) i e = 0" for e using k(1,2) assms(3) by (simp add: ballots_ok_def)
  then have t0: "GetTotalVotesByUser (vos w1) i = 0" using k(1) assms(3) by (simp add: ballots_ok_def)
  have "\<forall>d\<in>set ?G. plain d" using k(1) by (simp add: ballots_ok_def)
  then obtain V where c: "votes_change B i V w1 w2" and V: "\<forall>e. e \<notin> set (map fst ws) \<longrightarrow> V e = 0"
      "set (map fst ws) \<subseteq> set ?G" "tbu = (\<Sum>e\<in>set (map fst ws). \<bar>V e\<bar>)"
      "tot = GetTotalVotes (vos w1) + (\<Sum>e\<in>set (map fst ws). \<bar>V e\<bar>)"
    using voteLoop_change [OF l assms(3,4), of B] u0 t0 by auto
  have sum: "(\<Sum>e\<in>set (map fst ws). \<bar>V e\<bar>) = (\<Sum>e\<in>set ?G. \<bar>V e\<bar>)"
    using V(1,2) by (intro sum.mono_neutral_left) auto
  have by_user: "vo_total_by_user (vos w2) = vo_total_by_user (vos w1)" using c by (simp add: votes_change_def)
  have "ballots_ok ?s (gws (vog w2))"
  proof (rule ballots_ok_change [OF k(1) assms(3) c])
    show "V e = 0" if "e \<notin> set ?G" for e using that V(1,2) by blast
    show "kv_wf (vo_total_by_user ?s)" using k(1) by_user by (simp add: voter_set_defs ballots_ok_def)
    show v: "insert i (voters ?s) = insert i (voters (vos w1))" using by_user
      by (auto simp: voters_def voter_set_defs kv_keys_set simp del: set_map)
    show "GetPoolWeightedVotesByUser (vos w1) i e + V e = 0" if "i \<notin> voters ?s" for e
      using that by (simp add: voters_def voter_set_defs kv_keys_set del: set_map)
    have u: "GetTotalVotesByUser ?s j = (if j = i then tbu else GetTotalVotesByUser (vos w1) j)" for j
      using by_user by (simp add: voter_get_defs voter_set_defs)
    show "GetTotalVotesByUser ?s i = (\<Sum>d\<in>set ?G. \<bar>GetPoolWeightedVotesByUser (vos w1) i d + V d\<bar>)" using u u0 V(3) sum by simp
    show "GetTotalVotesByUser ?s j = GetTotalVotesByUser (vos w1) j" if "j \<noteq> i" for j using u that by simp
    show "GetTotalVotes ?s = GetTotalVotes (vos w1) - GetTotalVotesByUser (vos w1) i + GetTotalVotesByUser ?s i"
      using u [of i] t0 V(3,4) by (simp add: GetTotalVotes_def SetTotalVotes_def)
  qed (simp_all add: total_fields)
  then show "ballots_ok (vos w') (gws (vog w'))" by (simp only: vw)
  have "votes_keep B w1 w'" using c
    by (simp add: votes_keep_def votes_change_def w' on_ve_def on_vos_def on_store_def SetVeVoted_def total_fields)
  then show "votes_keep B w w'" by (rule votes_keep_trans [OF k(3)])
qed

lemma pokeLoop_wf:
  "pokeLoop S s i t ds wt m ft = Ok (wt', m', ft') \<Longrightarrow> kv_wf m \<Longrightarrow> kv_wf m'"
  by (induction ds arbitrary: wt m ft) (auto simp: Let_def res_simps split: if_splits)

lemma Poke_keeps:
  assumes "Poke S walk ctx i w = Ok w'" "ballots_ok (vos w) (gws (vog w))" "i < maxVoter" "\<And>m. mset (walk m) = mset m"
  shows "ballots_ok (vos w') (gws (vog w'))" "votes_keep B w w'"
proof -
  have "w' = w \<or> (\<exists>m. kv_wf m \<and> Vote S ctx i (walk m) w = Ok w')"
    using assms(1) unfolding Poke_def by (auto simp: Let_def res_simps split: if_splits dest: pokeLoop_wf)
  then have "ballots_ok (vos w') (gws (vog w')) \<and> votes_keep B w w'"
  proof
    assume "w' = w"
    then show ?thesis using assms(2) by (simp add: votes_keep_def)
  next
    assume "\<exists>m. kv_wf m \<and> Vote S ctx i (walk m) w = Ok w'"
    then obtain m where m: "kv_wf m" "Vote S ctx i (walk m) w = Ok w'" by blast
    have "mset (map fst (walk m)) = mset (map fst m)" using assms(4) [of m] by (metis mset_map)
    then have "distinct (map fst (walk m))" using kv_wf_distinct [OF m(1)] by (metis mset_eq_imp_distinct_iff)
    then show ?thesis using Vote_keeps [OF m(2) assms(2,3)] by blast
  qed
  then show "ballots_ok (vos w') (gws (vog w'))" "votes_keep B w w'" by blast+
qed

end
