(* ===== verification/VoterProps.thy ===== *)
theory VoterProps
  imports VoterInv VeDemo
begin

text \<open>
  Histories of the gauges and the voter together, and their properties: the votes add up, the rewards owed to
  the gauges and the deposits are covered by the accounts that hold them, and a distribution pays nothing.
\<close>

section \<open>Steps\<close>

text \<open>
  The operations of the two keepers, each with its own block.  Coins of pools start with a letter and none is a
  prefix of another; tokens have numbers below \<open>2\<^sup>5\<^sup>6\<close>; nobody acts in the name of an escrow account of the
  gauges or of the voter module.  Everything else may change the bank, the tokens and the ve module, but takes
  no coin from those accounts.
\<close>

inductive incentive_step :: "sdk \<Rightarrow> 'b bank \<Rightarrow> 'n nft \<Rightarrow> ('b, 'n) voter_world \<Rightarrow> ('b, 'n) voter_world \<Rightarrow> bool"
  for S B N where
  create: "plain d \<Longrightarrow> \<forall>g\<in>set (GetGauges (gws (vog w))). g = d \<or> \<not> prefix g d \<and> \<not> prefix d g \<Longrightarrow>
     voter_CreateGauge d w = Ok w' \<Longrightarrow> incentive_step S B N w w'"
| abstain: "i < maxVoter \<Longrightarrow> Abstain ctx i w = Ok w' \<Longrightarrow> incentive_step S B N w w'"
| vote: "i < maxVoter \<Longrightarrow> distinct (map fst ws) \<Longrightarrow> Vote S ctx i ws w = Ok w' \<Longrightarrow> incentive_step S B N w w'"
| poke: "i < maxVoter \<Longrightarrow> \<forall>m. mset (walk m) = mset m \<Longrightarrow> Poke S walk ctx i w = Ok w' \<Longrightarrow> incentive_step S B N w w'"
| reward: "\<not> escrow B sender \<Longrightarrow> voter_DepositReward S B sender amount w = Ok w' \<Longrightarrow> incentive_step S B N w w'"
| distribute: "DistributeReward S B ctx d w = Ok w' \<Longrightarrow> incentive_step S B N w w'"
| end_block: "voter_EndBlocker S B ctx w = Ok w' \<Longrightarrow> incentive_step S B N w w'"
| gauge_deposit: "Keeper_Gauge (gws (vog w)) d = Ok g \<Longrightarrow>
     \<not> escrow B (nft_GetOwner N (vnf (gve (vog w))) VeNftClass (VeIDFromUint64 i)) \<Longrightarrow>
     Gauge_Deposit S B N g ctx i amount (vog w) = Ok gw \<Longrightarrow> incentive_step S B N w (w\<lparr>vog := gw\<rparr>)"
| gauge_withdraw: "Keeper_Gauge (gws (vog w)) d = Ok g \<Longrightarrow>
     \<not> escrow B (nft_GetOwner N (vnf (gve (vog w))) VeNftClass (VeIDFromUint64 i)) \<Longrightarrow>
     Gauge_Withdraw S B N g ctx i amount (vog w) = Ok gw \<Longrightarrow> incentive_step S B N w (w\<lparr>vog := gw\<rparr>)"
| gauge_claim: "Keeper_Gauge (gws (vog w)) d = Ok g \<Longrightarrow> Gauge_ClaimReward S B N g ctx i w = Ok w' \<Longrightarrow>
     incentive_step S B N w w'"
| gauge_reward: "Keeper_Gauge (gws (vog w)) d = Ok g \<Longrightarrow> \<not> escrow B sender \<Longrightarrow>
     Gauge_DepositReward S B g ctx sender x amount (vog w) = Ok gw \<Longrightarrow> incentive_step S B N w (w\<lparr>vog := gw\<rparr>)"
| bribe_claim: "Keeper_Bribe (gws (vog w)) d = Ok g \<Longrightarrow> Bribe_ClaimReward S B N g ctx i (vog w) = Ok gw \<Longrightarrow>
     incentive_step S B N w (w\<lparr>vog := gw\<rparr>)"
| others: "ve_lock_denom (vst v) = ve_lock_denom (vst (gve (vog w))) \<Longrightarrow>
     \<forall>a x. escrow B a \<longrightarrow> bal B (vbk (gve (vog w))) a x \<le> bal B (vbk v) a x \<Longrightarrow>
     incentive_step S B N w (w\<lparr>vog := (vog w)\<lparr>gve := v\<rparr>\<rparr>)"

inductive_cases incentive_stepE: "incentive_step S B N w w'"

inductive incentive_reach :: "sdk \<Rightarrow> 'b bank \<Rightarrow> 'n nft \<Rightarrow> ('b, 'n) voter_world \<Rightarrow> bool" for S B N where
  start: "vos w = voter_empty \<Longrightarrow> gws (vog w) = gauge_empty \<Longrightarrow> incentive_reach S B N w"
| step: "incentive_reach S B N w \<Longrightarrow> incentive_step S B N w w' \<Longrightarrow> incentive_reach S B N w'"

section \<open>The invariant\<close>

definition incentive_inv :: "'b bank \<Rightarrow> ('b, 'n) voter_world \<Rightarrow> bool" where
  "incentive_inv B w \<longleftrightarrow> ballots_ok (vos w) (gws (vog w)) \<and> gauge_inv B (vbk (gve (vog w))) (gws (vog w)) \<and>
     index_ok (vos w) \<and> (\<forall>d. plain d \<longrightarrow> d \<notin> set (GetGauges (gws (vog w))) \<longrightarrow> owedTo (vos w) d = 0) \<and>
     (\<Sum>d\<in>set (GetGauges (gws (vog w))). owedTo (vos w) d) \<le>
       bal B (vbk (gve (vog w))) (GetModuleAddress B ''voter'') (ve_lock_denom (vst (gve (vog w))))"

lemma incentive_inv_votes:
  assumes "incentive_inv B w" "ballots_ok (vos w') (gws (vog w'))" "votes_keep B w w'"
  shows "incentive_inv B w'"
proof -
  have g: "GetGauges (gws (vog w')) = GetGauges (gws (vog w))" using assms(3) by (simp add: votes_keep_def GetGauges_def)
  have i: "index_ok (vos w)" and p: "\<forall>d\<in>set (GetGauges (gws (vog w))). plain d"
    using assms(1) by (simp_all add: incentive_inv_def ballots_ok_def)
  have o: "owedTo (vos w') e = owedTo (vos w) e" if "plain e" for e using assms(3) i that by (simp add: votes_keep_def)
  have "(\<Sum>d\<in>set (GetGauges (gws (vog w))). owedTo (vos w') d) = (\<Sum>d\<in>set (GetGauges (gws (vog w))). owedTo (vos w) d)"
    using o p by (intro sum.cong) simp_all
  then show ?thesis using assms o g by (simp add: incentive_inv_def votes_keep_def)
qed

lemma ballots_ok_deposits: "ballots_ok s g \<Longrightarrow> same_deposits g g' \<Longrightarrow> ballots_ok s g'"
  by (simp add: ballots_ok_def same_deposits_def GetGauges_def GetDepositedAmountByUser_def GetTotalDepositedAmount_def)

lemma ballots_ok_gauge:
  assumes "ballots_ok s g" "deposit_change (gaugeOf d) i x g g'"
  shows "ballots_ok s g'"
proof -
  have k: "gb_prefix (bribeOf e) \<noteq> gb_prefix (gaugeOf d)" for e by (simp add: gaugeOf_def bribeOf_def GaugeKey_def BribeKey_def)
  show ?thesis using assms unfolding ballots_ok_def deposit_change_def by (simp add: k GetGauges_def)
qed

text \<open>A step of the gauges: the votes stay, and the voter's account does not lose coins.\<close>

lemma incentive_inv_gauges:
  assumes "incentive_inv B w" "ballots_ok (vos w) (gws gw)" "gauge_inv B (vbk (gve gw)) (gws gw)"
    "gs_gauges (gws gw) = gs_gauges (gws (vog w))" "ve_lock_denom (vst (gve gw)) = ve_lock_denom (vst (gve (vog w)))"
    "bal B (vbk (gve (vog w))) (GetModuleAddress B ''voter'') (ve_lock_denom (vst (gve (vog w)))) \<le>
     bal B (vbk (gve gw)) (GetModuleAddress B ''voter'') (ve_lock_denom (vst (gve (vog w))))"
  shows "incentive_inv B (w\<lparr>vog := gw\<rparr>)"
  using assms by (simp add: incentive_inv_def GetGauges_def)

lemma ballots_ok_fields:
  assumes "ballots_ok s g" "GetPoolWeightedVotesByUser s' = GetPoolWeightedVotesByUser s" "GetPoolWeightedVotes s' = GetPoolWeightedVotes s"
    "vo_total s' = vo_total s" "vo_total_by_user s' = vo_total_by_user s"
  shows "ballots_ok s' g"
  using assms by (simp add: ballots_ok_def voters_def GetTotalVotes_def GetTotalVotesByUser_def)

lemma incentive_inv_update:
  assumes "incentive_inv B w"
  shows "incentive_inv B (w\<lparr>vos := updateClaimableForGauge d (vos w)\<rparr>)"
proof -
  have "votes_keep B w (w\<lparr>vos := updateClaimableForGauge d (vos w)\<rparr>)"
    by (simp add: votes_keep_def update_frame update_owed)
  moreover have b: "ballots_ok (vos w) (gws (vog w))" using assms unfolding incentive_inv_def by blast
  have "ballots_ok (updateClaimableForGauge d (vos w)) (gws (vog w))"
    by (rule ballots_ok_fields [OF b]) (simp_all add: update_frame)
  ultimately show ?thesis using incentive_inv_votes [OF assms] by simp
qed

lemma EmitReward_eq: "EmitReward S B ctx w = Ok w"
  by (simp add: EmitReward_def Emit_def Let_def)

lemma DistributeReward_eq:
  "DistributeReward S B ctx d w =
     (let s = updateClaimableForGauge d (vos w); claimable = GetClaimableRewardByGauge s d in
      if HasGauge (gws (vog w)) d \<and> (claimable \<le> RemainingReward (gaugeOf d) ctx (gws (vog w)) d \<or> claimable sdiv int RegulatedPeriod \<le> 0)
      then Ok (w\<lparr>vos := s\<rparr>) else Panic)"
  by (simp add: DistributeReward_def EmitReward_eq Keeper_Gauge_def on_vos_def Gauge_DepositReward_def depositReward_def
      ensure_def must_def gaugeOf_def Let_def not_less)

lemma incentive_inv_create:
  assumes "incentive_inv B w" "plain d" "\<forall>g\<in>set (GetGauges (gws (vog w))). g = d \<or> \<not> prefix g d \<and> \<not> prefix d g"
    "voter_CreateGauge d w = Ok w'"
  shows "incentive_inv B w'"
proof (cases "HasGauge (gws (vog w)) d")
  case True
  then have "w' = w\<lparr>vos := updateClaimableForGauge d (vos w)\<rparr>" using assms(4) by (simp add: voter_CreateGauge_def on_vos_def)
  then show ?thesis using incentive_inv_update [OF assms(1)] by simp
next
  case False
  let ?g = "gws (vog w)" and ?g' = "SetGauge d (gws (vog w))"
  let ?w = "w\<lparr>vog := (vog w)\<lparr>gws := ?g'\<rparr>\<rparr>"
  have w': "w' = ?w\<lparr>vos := updateClaimableForGauge d (vos ?w)\<rparr>"
    using assms(4) False by (simp add: voter_CreateGauge_def on_vos_def on_gauges_def gauge_CreateGauge_def)
  have G: "set (GetGauges ?g') = insert d (set (GetGauges ?g))" "d \<notin> set (GetGauges ?g)"
    using False by (simp_all add: GetGauges_def SetGauge_def kv_keys_set HasGauge_iff del: set_map)
  have same: "GetTotalDepositedAmount b ?g' = GetTotalDepositedAmount b ?g" "GetDepositedAmountByUser b ?g' = GetDepositedAmountByUser b ?g" for b
    by (simp_all add: SetGauge_def GetTotalDepositedAmount_def GetDepositedAmountByUser_def fun_eq_iff)
  have b: "ballots_ok (vos w) ?g'"
    using assms(1,2) G same unfolding incentive_inv_def ballots_ok_def by (simp add: SetGauge_def)
  have mono: "of_pool ?g x \<Longrightarrow> of_pool ?g' x" for x using G(1) unfolding of_pool_def by blast
  have r: "rewards_ok ?g'"
    using assms(1) mono unfolding incentive_inv_def gauge_inv_def rewards_ok_def by (metis SetGauge_def gauge_store.ext_inject gauge_store.surjective gauge_store.update_convs(1))
  have a: "pools_apart ?g'"
    using assms(1,3) unfolding incentive_inv_def gauge_inv_def pools_apart_def G(1) by auto
  have i: "gauge_inv B (vbk (gve (vog w))) ?g'"
    using assms(1) r a same unfolding incentive_inv_def gauge_inv_def by (simp add: SetGauge_def pool_deposits_def)
  have "owedTo (vos w) d = 0" using assms(1,2) G(2) by (simp add: incentive_inv_def)
  then have "incentive_inv B ?w" using assms(1) b i G unfolding incentive_inv_def by simp
  then show ?thesis unfolding w' by (rule incentive_inv_update)
qed

lemma votes_below_total:
  assumes "ballots_ok s g"
  shows "(\<Sum>d\<in>set (GetGauges g). max 0 (GetPoolWeightedVotes s d)) \<le> GetTotalVotes s" "0 \<le> GetTotalVotes s"
proof -
  let ?U = "GetPoolWeightedVotesByUser s"
  have "(\<Sum>d\<in>set (GetGauges g). max 0 (GetPoolWeightedVotes s d)) \<le> (\<Sum>d\<in>set (GetGauges g). \<Sum>i\<in>voters s. \<bar>?U i d\<bar>)"
  proof (rule sum_mono)
    fix d assume "d \<in> set (GetGauges g)"
    then have "GetPoolWeightedVotes s d = (\<Sum>i\<in>voters s. ?U i d)" using assms by (simp add: ballots_ok_def)
    then show "max 0 (GetPoolWeightedVotes s d) \<le> (\<Sum>i\<in>voters s. \<bar>?U i d\<bar>)"
      using sum_mono [of "voters s" "\<lambda>i. ?U i d" "\<lambda>i. \<bar>?U i d\<bar>"] by (simp add: sum_nonneg)
  qed
  also have "\<dots> = (\<Sum>i\<in>voters s. \<Sum>d\<in>set (GetGauges g). \<bar>?U i d\<bar>)" by (rule sum.swap)
  also have "\<dots> = (\<Sum>i\<in>voters s. GetTotalVotesByUser s i)" using assms by (intro sum.cong) (simp_all add: ballots_ok_def)
  also have "\<dots> = GetTotalVotes s" using assms unfolding ballots_ok_def by simp
  finally show 1: "(\<Sum>d\<in>set (GetGauges g). max 0 (GetPoolWeightedVotes s d)) \<le> GetTotalVotes s" .
  have "0 \<le> (\<Sum>d\<in>set (GetGauges g). max 0 (GetPoolWeightedVotes s d))" by (simp add: sum_nonneg)
  with 1 show "0 \<le> GetTotalVotes s" by linarith
qed

text \<open>A rise of the index owes the gauges at most what was paid for it.\<close>

lemma index_rise:
  assumes "ballots_ok s g" "0 \<le> amount" "GetTotalVotes s \<noteq> 0"
  defines "s' \<equiv> SetIndex (GetIndex s + amount sdiv GetTotalVotes s) s"
  shows "(\<Sum>d\<in>set (GetGauges g). owedTo s' d) \<le> (\<Sum>d\<in>set (GetGauges g). owedTo s d) + amount"
    and "index_ok s \<Longrightarrow> index_ok s'" and "plain d \<Longrightarrow> d \<notin> set (GetGauges g) \<Longrightarrow> owedTo s' d = owedTo s d"
proof -
  let ?T = "GetTotalVotes s" and ?q = "amount sdiv GetTotalVotes s"
  have T: "0 < ?T" using votes_below_total(2) [OF assms(1)] assms(3) by simp
  have q: "0 \<le> ?q" "?q * ?T \<le> amount"
    using assms(2) T int_div_mult_le [of ?T amount] by (simp_all add: sdiv_div pos_imp_zdiv_nonneg_iff)
  have o: "owedTo s' d = owedTo s d + ?q * max 0 (GetPoolWeightedVotes s d)" for d
    by (simp add: s'_def owedTo_def voter_get_defs voter_set_defs algebra_simps)
  have "(\<Sum>d\<in>set (GetGauges g). owedTo s' d) =
      (\<Sum>d\<in>set (GetGauges g). owedTo s d) + ?q * (\<Sum>d\<in>set (GetGauges g). max 0 (GetPoolWeightedVotes s d))"
    by (simp add: o sum.distrib sum_distrib_left)
  also have "?q * (\<Sum>d\<in>set (GetGauges g). max 0 (GetPoolWeightedVotes s d)) \<le> ?q * ?T"
    by (rule mult_left_mono [OF votes_below_total(1) [OF assms(1)] q(1)])
  finally show "(\<Sum>d\<in>set (GetGauges g). owedTo s' d) \<le> (\<Sum>d\<in>set (GetGauges g). owedTo s d) + amount" using q(2) by simp
  show "index_ok s'" if "index_ok s"
    unfolding index_ok_def
  proof
    fix d
    have "GetIndexAtLastUpdatedByGauge s' d = GetIndexAtLastUpdatedByGauge s d" "GetIndex s' = GetIndex s + ?q"
      by (simp_all add: s'_def voter_get_defs voter_set_defs)
    then show "GetIndexAtLastUpdatedByGauge s' d \<le> GetIndex s'" using that q(1) unfolding index_ok_def by (metis add_increasing2)
  qed
  show "owedTo s' d = owedTo s d" if "plain d" "d \<notin> set (GetGauges g)"
  proof -
    have "GetPoolWeightedVotes s d = (\<Sum>i\<in>voters s. GetPoolWeightedVotesByUser s i d)" using assms(1) that by (simp add: ballots_ok_def)
    also have "\<dots> = 0" using assms(1) that by (intro sum.neutral) (simp add: ballots_ok_def)
    finally show ?thesis by (simp add: o)
  qed
qed

context chain_laws
begin

lemma incentive_inv_reward:
  assumes "incentive_inv B w" "\<not> escrow B sender" "voter_DepositReward S B sender amount w = Ok w'"
  shows "incentive_inv B w'"
proof -
  let ?v = "gve (vog w)"
  let ?x = "ve_lock_denom (vst ?v)" and ?a = "GetModuleAddress B ''voter''"
  from assms(3) obtain c cs bk where h: "NewCoin S ?x amount = Ok c" "NewCoins S [c] = Ok cs"
      "SendCoinsFromAccountToModule B (vbk ?v) sender ''voter'' cs = Ok bk"
    and w': "w' = (if GetTotalVotes (vos w) = 0 then w\<lparr>vog := (vog w)\<lparr>gve := ?v\<lparr>vbk := bk\<rparr>\<rparr>\<rparr>
       else w\<lparr>vog := (vog w)\<lparr>gve := ?v\<lparr>vbk := bk\<rparr>\<rparr>, vos := SetIndex (GetIndex (vos w) + amount sdiv GetTotalVotes (vos w)) (vos w)\<rparr>)"
    by (auto simp: voter_DepositReward_def Let_def res_simps on_vos_def split: if_splits)
  have c: "c = \<lparr>Denom = ?x, Amount = amount\<rparr> \<and> 0 \<le> amount" using h(1) by (auto simp: NewCoin_eq split: if_splits)
  have m: "bal B bk a x = bal B (vbk ?v) a x - (if a = sender \<and> x = ?x then amount else 0) + (if a = ?a \<and> x = ?x then amount else 0)" for a x
    using SendA2M_moved [OF h(3)] NewCoins_amt [OF h(2), of x] c by (auto simp: moved_def cs_amt_single)
  have s: "sender \<noteq> ?a" "\<And>d. EscrowPool B (gaugeOf d) \<noteq> sender" using assms(2) unfolding escrow_def by metis+
  have b: "ballots_ok (vos w) (gws (vog w))" and g: "gauge_inv B (vbk ?v) (gws (vog w))" and i: "index_ok (vos w)"
    and z: "\<And>d. plain d \<Longrightarrow> d \<notin> set (GetGauges (gws (vog w))) \<Longrightarrow> owedTo (vos w) d = 0"
    and o: "(\<Sum>d\<in>set (GetGauges (gws (vog w))). owedTo (vos w) d) \<le> bal B (vbk ?v) ?a ?x"
    using assms(1) unfolding incentive_inv_def by blast+
  have g': "gauge_inv B bk (gws (vog w))"
    by (rule gauge_inv_frame [OF g]) (use g m s(2) c in \<open>auto simp: gauge_inv_def\<close>)
  have v: "bal B bk ?a ?x = bal B (vbk ?v) ?a ?x + amount" using m [of ?a ?x] s(1) by auto
  show ?thesis
  proof (cases "GetTotalVotes (vos w) = 0")
    case True
    then show ?thesis using w' b g' i z o v c by (simp add: incentive_inv_def)
  next
    case False
    let ?s = "SetIndex (GetIndex (vos w) + amount sdiv GetTotalVotes (vos w)) (vos w)"
    have b': "ballots_ok ?s (gws (vog w))"
      by (rule ballots_ok_fields [OF b]) (simp_all add: fun_eq_iff voter_get_defs voter_set_defs)
    note r = index_rise [OF b _ False, of amount]
    have "(\<Sum>d\<in>set (GetGauges (gws (vog w))). owedTo ?s d) \<le> bal B bk ?a ?x" using r(1) c o v by simp
    then show ?thesis using w' False b' g' r(2) [OF _ i] r(3) z c by (simp add: incentive_inv_def)
  qed
qed

lemma incentive_inv_deposit:
  assumes "incentive_inv B w" "Gauge_Deposit S B N (gaugeOf d) ctx i amount (vog w) = Ok gw"
    "\<not> escrow B (nft_GetOwner N (vnf (gve (vog w))) VeNftClass (VeIDFromUint64 i))"
  shows "incentive_inv B (w\<lparr>vog := gw\<rparr>)"
proof -
  have b: "ballots_ok (vos w) (gws (vog w))" "gauge_inv B (vbk (gve (vog w))) (gws (vog w))"
    using assms(1) unfolding incentive_inv_def by blast+
  note e = Gauge_Deposit_effect [OF assms(2)]
  obtain bk where s: "sendCoin S B (nft_GetOwner N (vnf (gve (vog w))) VeNftClass (VeIDFromUint64 i)) (EscrowPool B (gaugeOf d))
      (gb_denom (gaugeOf d)) amount (vbk (gve (vog w))) = Ok bk" "vbk (gve gw) = bk" using e(3) by blast
  have "GetModuleAddress B ''voter'' \<noteq> nft_GetOwner N (vnf (gve (vog w))) VeNftClass (VeIDFromUint64 i)"
    using assms(3) unfolding escrow_def by metis
  then show ?thesis
    using incentive_inv_gauges [OF assms(1) ballots_ok_gauge [OF b(1) e(1)] deposit_keeps [OF assms(2) b(2) assms(3)] _ e(4)]
      e(1,2) sendCoin_moved(2) [OF s(1)] s(2) by (simp add: deposit_change_def)
qed

lemma incentive_inv_withdraw:
  assumes "incentive_inv B w" "Gauge_Withdraw S B N (gaugeOf d) ctx i amount (vog w) = Ok gw"
    "\<not> escrow B (nft_GetOwner N (vnf (gve (vog w))) VeNftClass (VeIDFromUint64 i))"
  shows "incentive_inv B (w\<lparr>vog := gw\<rparr>)"
proof -
  have b: "ballots_ok (vos w) (gws (vog w))" "gauge_inv B (vbk (gve (vog w))) (gws (vog w))"
    using assms(1) unfolding incentive_inv_def by blast+
  note e = Gauge_Withdraw_effect [OF assms(2)]
  obtain bk where s: "sendCoin S B (EscrowPool B (gaugeOf d)) (nft_GetOwner N (vnf (gve (vog w))) VeNftClass (VeIDFromUint64 i))
      (gb_denom (gaugeOf d)) amount (vbk (gve (vog w))) = Ok bk" "vbk (gve gw) = bk" using e(4) by blast
  show ?thesis
    using incentive_inv_gauges [OF assms(1) ballots_ok_gauge [OF b(1) e(1)] withdraw_keeps [OF assms(2) b(2) assms(3)] _ e(5)]
      e(1,2) sendCoin_moved(2) [OF s(1)] s(2) escrow_pools(3) [of d, THEN not_sym] by (simp add: deposit_change_def)
qed

lemma incentive_inv_claim:
  assumes "incentive_inv B w" "claimReward S B N g ctx i (vog w) = Ok gw" "of_pool (gws (vog w)) g"
  shows "incentive_inv B (w\<lparr>vog := gw\<rparr>)"
proof -
  have b: "ballots_ok (vos w) (gws (vog w))" "gauge_inv B (vbk (gve (vog w))) (gws (vog w))"
    using assms(1) unfolding incentive_inv_def by blast+
  note k = claim_keeps [OF assms(2) b(2) assms(3)]
  have "GetModuleAddress B ''voter'' \<noteq> EscrowPool B g" using assms(3) escrow_pools(3,4) unfolding of_pool_def by metis
  then have "bal B (vbk (gve (vog w))) (GetModuleAddress B ''voter'') x \<le> bal B (vbk (gve gw)) (GetModuleAddress B ''voter'') x" for x
    using k(2) unfolding claim_effect_def by blast
  then show ?thesis
    using incentive_inv_gauges [OF assms(1) ballots_ok_deposits [OF b(1)] k(1)] k(2) by (simp add: claim_effect_def same_deposits_def)
qed

lemma incentive_inv_gauge_reward:
  assumes "incentive_inv B w" "depositReward S B g ctx sender x amount (vog w) = Ok gw" "of_pool (gws (vog w)) g" "\<not> escrow B sender"
  shows "incentive_inv B (w\<lparr>vog := gw\<rparr>)"
proof -
  have b: "ballots_ok (vos w) (gws (vog w))" "gauge_inv B (vbk (gve (vog w))) (gws (vog w))"
    using assms(1) unfolding incentive_inv_def by blast+
  have i: "rewards_ok (gws (vog w))" "pools_apart (gws (vog w))" using b(2) by (simp_all add: gauge_inv_def)
  note e = depositReward_effect [OF assms(2) i assms(3)]
  have "GetModuleAddress B ''voter'' \<noteq> sender" using assms(4) unfolding escrow_def by blast
  then show ?thesis
    using incentive_inv_gauges [OF assms(1) ballots_ok_deposits [OF b(1) e(1)] reward_keeps [OF assms(2) b(2) assms(3,4)]] e(1,3,4)
    by (simp add: same_deposits_def)
qed

lemma incentive_step_inv:
  assumes "incentive_step S B N w w'" "incentive_inv B w"
  shows "incentive_inv B w'"
  using assms(1)
proof cases
  case (create d)
  then show ?thesis using incentive_inv_create [OF assms(2)] by blast
next
  case (abstain i ctx)
  then show ?thesis using incentive_inv_votes [OF assms(2)] Abstain_keeps [of ctx i w w'] assms(2) unfolding incentive_inv_def by blast
next
  case (vote i ws ctx)
  then show ?thesis using incentive_inv_votes [OF assms(2)] Vote_keeps [of S ctx i ws w w'] assms(2) unfolding incentive_inv_def by blast
next
  case (poke i walk ctx)
  then show ?thesis using incentive_inv_votes [OF assms(2)] Poke_keeps [of S walk ctx i w w'] assms(2) unfolding incentive_inv_def by blast
next
  case (reward sender amount)
  then show ?thesis using incentive_inv_reward [OF assms(2)] by blast
next
  case (distribute ctx d)
  then show ?thesis using incentive_inv_update [OF assms(2)] by (auto simp: DistributeReward_eq Let_def split: if_splits)
next
  case (end_block ctx)
  then show ?thesis using assms(2) by (simp add: voter_EndBlocker_def EmitReward_eq)
next
  case (gauge_deposit d g i ctx amount gw)
  then have "Gauge_Deposit S B N (gaugeOf d) ctx i amount (vog w) = Ok gw" by (simp add: Keeper_Gauge_def split: if_splits)
  then show ?thesis using incentive_inv_deposit [OF assms(2)] gauge_deposit by blast
next
  case (gauge_withdraw d g i ctx amount gw)
  then have "Gauge_Withdraw S B N (gaugeOf d) ctx i amount (vog w) = Ok gw" by (simp add: Keeper_Gauge_def split: if_splits)
  then show ?thesis using incentive_inv_withdraw [OF assms(2)] gauge_withdraw by blast
next
  case (gauge_claim d g ctx i)
  let ?w = "w\<lparr>vos := updateClaimableForGauge d (vos w)\<rparr>"
  have g: "g = gaugeOf d" "d \<in> set (GetGauges (gws (vog ?w)))"
    using gauge_claim(1) by (auto simp: Keeper_Gauge_def HasGauge_iff split: if_splits)
  then obtain gw where "claimReward S B N g ctx i (vog ?w) = Ok gw" "w' = ?w\<lparr>vog := gw\<rparr>"
    using gauge_claim(2) by (auto simp: Gauge_ClaimReward_def DistributeReward_eq Let_def res_simps split: if_splits)
  then show ?thesis using incentive_inv_claim [OF incentive_inv_update [OF assms(2)]] g unfolding of_pool_def by blast
next
  case (gauge_reward d g sender ctx x amount gw)
  have "of_pool (gws (vog w)) g"
    using gauge_reward(2) by (auto simp: Keeper_Gauge_def HasGauge_iff of_pool_def split: if_splits)
  then show ?thesis using incentive_inv_gauge_reward [OF assms(2)] gauge_reward unfolding Gauge_DepositReward_def by blast
next
  case (bribe_claim d g ctx i gw)
  have "of_pool (gws (vog w)) g"
    using bribe_claim(2) by (auto simp: Keeper_Bribe_def HasGauge_iff of_pool_def split: if_splits)
  then show ?thesis using incentive_inv_claim [OF assms(2)] bribe_claim unfolding Bribe_ClaimReward_def by blast
next
  case (others v)
  have e: "escrow B (GetModuleAddress B ''voter'')" "escrow B (EscrowPool B (gaugeOf d))" for d by (auto simp: escrow_def)
  have g: "gauge_inv B (vbk v) (gws (vog w))"
    by (rule gauge_inv_frame [of B "vbk (gve (vog w))" "gws (vog w)"])
       (use assms(2) others(3) e in \<open>auto simp: incentive_inv_def gauge_inv_def\<close>)
  then have "incentive_inv B (w\<lparr>vog := (vog w)\<lparr>gve := v\<rparr>\<rparr>)"
    using assms(2) others(2,3) e(1) by (intro incentive_inv_gauges) (auto simp: incentive_inv_def)
  then show ?thesis using others(1) by simp
qed

lemma incentive_reach_inv:
  assumes "incentive_reach S B N w"
  shows "incentive_inv B w"
  using assms
proof induction
  case (start w)
  have "pool_deposits gauge_empty d = 0" for d by (simp add: pool_deposits_def gauge_empty_def)
  then show ?case using start bal_nonneg
    by (simp add: incentive_inv_def ballots_ok_def gauge_inv_def index_ok_def voters_def owedTo_def voter_get_defs voter_empty_def
        gauge_empty_def GetGauges_def GetTotalDepositedAmount_def GetDepositedAmountByUser_def pools_apart_def rewards_ok_def)
next
  case (step w w')
  from incentive_step_inv [OF step.hyps(2) step.IH] show ?case .
qed

end

section \<open>Votes again\<close>

text \<open>
  \<open>Poke\<close> compensates the loss of accuracy only where there is none: the weights it passes on are those it has
  computed, and \<open>Vote\<close> panics unless their absolute values add up to one.
\<close>

lemma kv_set_same: "kv_wf m \<Longrightarrow> kv_get m k = Some v \<Longrightarrow> kv_set k v m = m"
proof (induction m)
  case (Cons e m)
  obtain k' v' where e: "e = (k', v')" by (cases e)
  show ?case
  proof (cases "k = k'")
    case True
    then show ?thesis using Cons.prems e by simp
  next
    case False
    then have m: "kv_get m k = Some v" "kv_wf m" using Cons.prems e by (simp_all add: kv_wf_Cons)
    then have "k \<in> set (map fst m)" using kv_get_notin [of k m] by auto
    then have "k' < k" using Cons.prems(1) e by (auto simp: kv_wf_Cons)
    then show ?thesis using Cons.IH m e by auto
  qed
qed simp

lemma pokeLoop_tuned:
  "pokeLoop S s i t ds wt m ft = Ok (wt', m', ft') \<Longrightarrow> wt = 0 \<or> kv_get m ft \<noteq> None \<Longrightarrow> wt' = 0 \<or> kv_get m' ft' \<noteq> None"
proof (induction ds arbitrary: wt m ft)
  case (Cons d ds)
  from Cons.prems(1) show ?case
    by (auto simp: Let_def res_simps split: if_splits dest: Cons.IH [OF _ Cons.prems(2)])
       (metis Cons.IH kv_get_set option.distinct(1))
qed simp

lemma poke_compensates_nothing:
  assumes "0 < GetTotalVotesByUser (vos w) i"
  shows "Poke S walk ctx i w = rbind (pokeLoop S (vos w) i (GetTotalVotesByUser (vos w) i) (GetGauges (gws (vog w))) 0 [] [])
     (\<lambda>(_, poolWeights, _). Vote S ctx i (walk poolWeights) w)"
proof (cases "pokeLoop S (vos w) i (GetTotalVotesByUser (vos w) i) (GetGauges (gws (vog w))) 0 [] []")
  case (Ok r)
  obtain wt m ft where r: "r = (wt, m, ft)" by (cases r)
  have m: "kv_wf m" "wt = 0 \<or> kv_get m ft \<noteq> None" using pokeLoop_wf [of S] pokeLoop_tuned [of S] Ok r by auto
  show ?thesis
  proof (cases "wt = dec_one")
    case True
    then obtain x where "kv_get m ft = Some x" using m(2) by (auto simp: dec_one_def)
    then show ?thesis using assms Ok r True kv_set_same [OF m(1)] by (simp add: Poke_def deref_def)
  qed (use assms Ok r in \<open>simp add: Poke_def\<close>)
qed (use assms in \<open>simp_all add: Poke_def\<close>)

lemma voteLoop_weights:
  "voteLoop S ctx i pw ws tbu tot wt w = Ok (tbu', tot', wt', w') \<Longrightarrow> wt' = wt + (\<Sum>x\<leftarrow>ws. \<bar>snd x\<bar>)"
proof (induction ws arbitrary: tbu tot wt w)
  case (Cons x ws)
  obtain d y where x: "x = (d, y)" by (cases x)
  from Cons.prems obtain tbu1 tot1 w1 where "voteLoop S ctx i pw ws tbu1 tot1 (wt + \<bar>y\<bar>) w1 = Ok (tbu', tot', wt', w')"
    by (auto simp: x Let_def res_simps split: if_splits)
  from Cons.IH [OF this] show ?case by (simp add: x)
qed simp

lemma vote_weights_one: "Vote S ctx i ws w = Ok w' \<Longrightarrow> (\<Sum>x\<leftarrow>ws. \<bar>snd x\<bar>) = dec_one"
  by (auto simp: Vote_def res_simps split: if_splits dest!: voteLoop_weights)

section \<open>A history\<close>

text \<open>
  A gauge for the base coin, the votes of the first token, a reward deposited with the voter, and a deposit in
  the gauge, all in one block of the run of the ve module.
\<close>

definition demo_gs :: "(string, int) kv \<Rightarrow> (string \<times> nat, int) kv \<Rightarrow> (string \<times> nat, gCheckpoint) kv \<Rightarrow> (string, nat) kv \<Rightarrow>
    (string \<times> nat, nat) kv \<Rightarrow> (string \<times> nat \<times> nat, gCheckpoint) kv \<Rightarrow> gauge_store" where
  "demo_gs t ds ps es ue us = gauge_empty\<lparr>gs_gauges := [(''airon'', ''airon'')], gs_total_deposited := t, gs_deposited := ds,
     gs_points := ps, gs_epoch := es, gs_user_epoch := ue, gs_user_points := us\<rparr>"

definition demo_vos :: "int option \<Rightarrow> (nat, int) kv \<Rightarrow> (string, int) kv \<Rightarrow> int option \<Rightarrow> voter_store" where
  "demo_vos t u ps i = \<lparr>vo_total = t, vo_total_by_user = u, vo_pool_votes = ps, vo_index = i,
     vo_index_last = [(''airon'', 0)], vo_claimable = []\<rparr>"

definition demo_vkey :: string where
  "demo_vkey = PoolWeightedVotesByUserKey 1 ''airon''"

definition demo_gpoint :: "int \<Rightarrow> gCheckpoint" where
  "demo_gpoint n = \<lparr>gc_Timestamp = 1000001, gc_Amount = Some n\<rparr>"

definition demo_voter0 :: "(ledger_state, nft_state) voter_world" where
  "demo_voter0 = \<lparr>vos = voter_empty, vog = \<lparr>gws = gauge_empty, gve = demo_ve2\<rparr>\<rparr>"

definition demo_voter1 :: "(ledger_state, nft_state) voter_world" where
  "demo_voter1 = \<lparr>vos = demo_vos None [] [] None, vog = \<lparr>gws = demo_gs [] [] [] [] [] [], gve = demo_ve2\<rparr>\<rparr>"

definition demo_voted :: "('b, 'n) ve_world \<Rightarrow> ('b, 'n) ve_world" where
  "demo_voted v = on_store (SetVeVoted 1 True) (on_store (SetVeVoted 1 False) v)"

abbreviation demo_bribe :: string where
  "demo_bribe \<equiv> CHR 0x02 # ''airon''"

definition demo_gs2 :: gauge_store where
  "demo_gs2 = demo_gs [(demo_bribe, 4071995)] [((demo_bribe, 1), 4071995)]
     [((demo_bribe, 1), demo_gpoint 4071995)] [(demo_bribe, 1)] [((demo_bribe, 1), 1)] [((demo_bribe, 1, 1), demo_gpoint 4071995)]"

definition demo_voter2 :: "(ledger_state, nft_state) voter_world" where
  "demo_voter2 = \<lparr>vos = demo_vos (Some 4071995) [(1, 4071995)] [(demo_vkey, 4071995), (''airon'', 4071995)] None,
     vog = \<lparr>gws = demo_gs2, gve = demo_voted demo_ve2\<rparr>\<rparr>"

lemma gb_fields: "gb_prefix (gaugeOf d) = GaugeKey d" "gb_isGauge (gaugeOf d)" "gb_prefix (bribeOf d) = BribeKey d" "\<not> gb_isGauge (bribeOf d)"
  by (simp_all add: gaugeOf_def bribeOf_def)

lemmas voter_eval = voter_get_defs voter_set_defs on_vos_def on_gauges_def on_ve_def on_store_def voter_empty_def demo_vos_def
lemmas gauge_eval = gauge_defs gauge_empty_def demo_gs_def HasGauge_def GetGauges_def Keeper_Bribe_def Keeper_Gauge_def
  Base_GetEpoch_def Base_GetCheckpoint_def Base_GetUserEpoch_def Base_GetUserCheckpoint_def point_at_def noPoint_def
  gb_fields BribeKey_def GaugeKey_def demo_gpoint_def

definition demo_vote_ctx :: ctx where
  "demo_vote_ctx = \<lparr>BlockHeight = 8, BlockTime = 1000001\<rparr>"

lemma demo_power:
  "GetVotingPower demo_vote_ctx (SetVeVoted 1 b (vst demo_ve2)) 1 1000001 0 = Ok 4071995"
  by (simp add: GetVotingPower_def demo_ve2_def demo_ve_state_def ve_store_defs kv_get_def i64_of_diff not_below_zero_def Let_def)

lemma demo_now: "now_of demo_vote_ctx = 1000001"
  by (simp add: demo_vote_ctx_def now_of_def u64_of_int_def)

lemma demo_vkey_eq: "demo_vkey = replicate 7 (CHR 0x00) @ CHR 0x01 # ''airon''"
  by code_simp

lemma demo_vkey_order: "demo_vkey \<noteq> ''airon''" "''airon'' \<noteq> demo_vkey" "demo_vkey \<le> ''airon''" "\<not> ''airon'' \<le> demo_vkey"
  "\<not> ''airon'' < demo_vkey"
  by code_simp+

lemma demo_create_gauge: "voter_CreateGauge ''airon'' demo_voter0 = Ok demo_voter1"
  by (simp add: voter_CreateGauge_def demo_voter0_def demo_voter1_def voter_eval gauge_eval gauge_CreateGauge_def SetGauge_def
      updateClaimableForGauge_def Let_def)


lemma demo_weight: "Dec_TruncateInt cosmos_sdk (ToDec 4071995) = 4071995"
  "Dec_TruncateInt cosmos_sdk (Dec_Mul cosmos_sdk (ToDec 4071995) dec_one) = 4071995"
  by (simp_all add: ToDec_def cosmos.Mul_one cosmos.TruncateInt_div)

lemma demo_vote: "Vote cosmos_sdk demo_vote_ctx 1 [(''airon'', dec_one)] demo_voter1 = Ok demo_voter2"
  by (simp add: Vote_def Abstain_def demo_voter1_def demo_voter2_def voter_eval gauge_eval updateClaimableForGauge_def
      PoolWeightedVotesKey_def demo_vkey_def [symmetric] demo_vkey_order Let_def demo_power demo_weight demo_now
      Bribe_Deposit_def writeUserCheckpoint_def writeCheckpoint_def demo_gs2_def demo_voted_def u64_add_def u64_mod_def kv_delete_def del: One_nat_def)

definition demo_voter_bank :: "nat \<Rightarrow> ledger_state" where
  "demo_voter_bank n = \<lparr>balances = [((''alice'', ''airon''), 9107033609 - n)] @
     (if n = 0 then [] else [((''module/gauge_airon'', ''airon''), n)]) @
     [((''module/ve'', ''airon''), 884822400), ((''module/voter'', ''airon''), 8143991)], supplies = [(''airon'', 10 ^ 10)]\<rparr>"

definition demo_voter3 :: "(ledger_state, nft_state) voter_world" where
  "demo_voter3 = \<lparr>vos = demo_vos (Some 4071995) [(1, 4071995)] [(demo_vkey, 4071995), (''airon'', 4071995)] (Some 2),
     vog = \<lparr>gws = demo_gs2, gve = (demo_voted demo_ve2)\<lparr>vbk := demo_voter_bank 0\<rparr>\<rparr>\<rparr>"

lemma demo_voted_fields: "vbk (demo_voted v) = vbk v" "vnf (demo_voted v) = vnf v" "ve_lock_denom (vst (demo_voted v)) = ve_lock_denom (vst v)"
  by (simp_all add: demo_voted_def on_store_def SetVeVoted_def)

lemma demo_ve2_fields: "ve_lock_denom (vst demo_ve2) = ''airon''" "vbk demo_ve2 = demo_ve_bank 884822400"
  "vnf demo_ve2 = ([''veNFT''], [((''veNFT'', ''ve-2''), ''alice''), ((''veNFT'', ''ve-1''), ''alice'')])"
  by (simp_all add: demo_ve2_def demo_ve_state_def)

lemma demo_reward: "voter_DepositReward cosmos_sdk ledger ''alice'' 8143991 demo_voter2 = Ok demo_voter3"
  by (simp add: voter_DepositReward_def demo_voter2_def demo_voter3_def voter_eval demo_voted_fields demo_ve2_fields
      demo_ve_bank_def demo_voter_bank_def sdk_eval ledger_eval sdiv_div must_def Let_def cong: eval_cong)

abbreviation demo_gauge :: string where
  "demo_gauge \<equiv> CHR 0x01 # ''airon''"

definition demo_gs4 :: gauge_store where
  "demo_gs4 = demo_gs2\<lparr>gs_total_deposited := [(demo_gauge, 1000), (demo_bribe, 4071995)],
     gs_deposited := [((demo_gauge, 1), 1000), ((demo_bribe, 1), 4071995)],
     gs_total_derived := [(demo_gauge, 828)], gs_derived := [((demo_gauge, 1), 828)],
     gs_user_ve := [(demo_gauge @ ''alice'', 1)],
     gs_epoch := [(demo_gauge, 1), (demo_bribe, 1)],
     gs_points := [((demo_gauge, 1), demo_gpoint 828), ((demo_bribe, 1), demo_gpoint 4071995)],
     gs_user_epoch := [((demo_gauge, 1), 1), ((demo_bribe, 1), 1)],
     gs_user_points := [((demo_gauge, 1, 1), demo_gpoint 828), ((demo_bribe, 1, 1), demo_gpoint 4071995)]\<rparr>"

definition demo_voter4 :: "(ledger_state, nft_state) voter_world" where
  "demo_voter4 = demo_voter3\<lparr>vog := \<lparr>gws = demo_gs4,
     gve = (on_store (IncVeAttached 1) (demo_voted demo_ve2))\<lparr>vbk := demo_voter_bank 1000\<rparr>\<rparr>\<rparr>"

lemma demo_powers:
  "GetUserEpoch s 1 = 1 \<Longrightarrow> GetUserCheckpoint s 1 1 = demo_point 4072000 5 \<Longrightarrow> GetVotingPower demo_vote_ctx s 1 1000001 0 = Ok 4071995"
  "GetEpoch s = 2 \<Longrightarrow> GetCheckpoint s 2 = demo_point 5700800 7 \<Longrightarrow> GetTotalVotingPower demo_vote_ctx s 1000001 0 = Ok 5700793"
  by (simp_all add: GetVotingPower_def GetTotalVotingPower_def i64_of_diff not_below_zero_def demo_times futurePower.simps Let_def)

lemma demo_store: "GetUserEpoch (vst (demo_voted demo_ve2)) 1 = 1" "GetUserCheckpoint (vst (demo_voted demo_ve2)) 1 1 = demo_point 4072000 5"
  "GetEpoch (vst (demo_voted demo_ve2)) = 2" "GetCheckpoint (vst (demo_voted demo_ve2)) 2 = demo_point 5700800 7"
  "GetUserEpoch (IncVeAttached i s) = GetUserEpoch s" "GetUserCheckpoint (IncVeAttached i s) = GetUserCheckpoint s"
  "GetEpoch (IncVeAttached i s) = GetEpoch s" "GetCheckpoint (IncVeAttached i s) = GetCheckpoint s"
  by (simp_all add: demo_voted_def on_store_def demo_ve2_def demo_ve_state_def ve_store_defs kv_get_def fun_eq_iff IncVeAttached_def)

lemma demo_derived: "derivedTickets (gaugeOf d) demo_vote_ctx (IncVeAttached 1 (vst (demo_voted demo_ve2))) s 1 =
    (let tickets = (GetDepositedAmountByUser (gaugeOf d) s 1 * 40) sdiv 100 +
       ((GetTotalDepositedAmount (gaugeOf d) s * 4071995) sdiv 5700793 * 60) sdiv 100 in
     Ok (if tickets < GetDepositedAmountByUser (gaugeOf d) s 1 then tickets else GetDepositedAmountByUser (gaugeOf d) s 1))"
  by (simp add: derivedTickets_def demo_now demo_powers demo_store Let_def del: One_nat_def) (simp add: gaugeOf_def)

lemma demo_gauge_deposit:
  "Gauge_Deposit cosmos_sdk ledger demo_nft (gaugeOf ''airon'') demo_vote_ctx 1 1000 (vog demo_voter3) = Ok (vog demo_voter4)"
  by (simp add: Gauge_Deposit_def demo_voter3_def demo_voter4_def demo_voted_fields demo_ve2_fields demo_nft_fields demo_ids VeNftClass_def
      sendCoin_def EscrowPool_def PoolName_def demo_voter_bank_def sdk_eval ledger_eval Let_def
      GetUserVeIDByAddress_def UserVeIDByAddressKey_def EmptyVeID_def deriveAmountForUser_def demo_derived
      GetTotalDerivedAmount_def GetDerivedAmountByUser_def writeUserCheckpoint_def writeCheckpoint_def demo_now on_store_def sdiv_div
      u64_add_def u64_mod_def demo_gs4_def demo_gs2_def gauge_eval cong: eval_cong del: One_nat_def)

lemma demo_incentive_reach: "incentive_reach cosmos_sdk ledger demo_nft demo_voter4"
proof -
  have 0: "incentive_reach cosmos_sdk ledger demo_nft demo_voter0"
    by (rule incentive_reach.start) (simp_all add: demo_voter0_def)
  have 1: "incentive_reach cosmos_sdk ledger demo_nft demo_voter1"
    by (rule incentive_reach.step [OF 0 incentive_step.create [OF _ _ demo_create_gauge]])
       (simp_all add: plain_def demo_voter0_def gauge_empty_def GetGauges_def)
  have 2: "incentive_reach cosmos_sdk ledger demo_nft demo_voter2"
    by (rule incentive_reach.step [OF 1 incentive_step.vote [OF _ _ demo_vote]]) (simp_all add: maxVoter_def)
  have e: "\<not> escrow ledger ''alice''" by (simp add: escrow_def EscrowPool_def PoolName_def ledger_eval)
  have 3: "incentive_reach cosmos_sdk ledger demo_nft demo_voter3"
    by (rule incentive_reach.step [OF 2 incentive_step.reward [OF e demo_reward]])
  have g: "Keeper_Gauge (gws (vog demo_voter3)) ''airon'' = Ok (gaugeOf ''airon'')"
    by (simp add: demo_voter3_def demo_gs2_def demo_gs_def Keeper_Gauge_def HasGauge_def)
  have o: "nft_GetOwner demo_nft (vnf (gve (vog demo_voter3))) VeNftClass (VeIDFromUint64 1) = ''alice''"
    by (simp add: demo_voter3_def demo_voted_fields demo_ve2_fields demo_nft_fields demo_ids VeNftClass_def)
  have "incentive_step cosmos_sdk ledger demo_nft demo_voter3 (demo_voter3\<lparr>vog := vog demo_voter4\<rparr>)"
    by (rule incentive_step.gauge_deposit [OF g _ demo_gauge_deposit]) (simp only: o e not_False_eq_True)
  moreover have "demo_voter3\<lparr>vog := vog demo_voter4\<rparr> = demo_voter4" by (simp add: demo_voter4_def)
  ultimately show ?thesis using incentive_reach.step [OF 3] by simp
qed

section \<open>Properties\<close>

text \<open>
  C36: the recorded totals of the votes are the sums of the single votes, up to their sign, the votes of a pool
  are the sum of its users' votes, and each user's deposit with a pool's bribe is what that user votes for the pool.
\<close>

theorem votes_add_up:
  assumes "chain_laws S B" "incentive_reach S B N w"
  shows "GetTotalVotes (vos w) = (\<Sum>i\<in>voters (vos w). GetTotalVotesByUser (vos w) i) \<and>
    (\<forall>i<maxVoter. GetTotalVotesByUser (vos w) i = (\<Sum>d\<in>set (GetGauges (gws (vog w))). \<bar>GetPoolWeightedVotesByUser (vos w) i d\<bar>)) \<and>
    (\<forall>d\<in>set (GetGauges (gws (vog w))). GetPoolWeightedVotes (vos w) d = (\<Sum>i\<in>voters (vos w). GetPoolWeightedVotesByUser (vos w) i d) \<and>
       GetTotalDepositedAmount (bribeOf d) (gws (vog w)) = (\<Sum>i\<in>voters (vos w). GetDepositedAmountByUser (bribeOf d) (gws (vog w)) i)) \<and>
    (\<forall>i<maxVoter. \<forall>d. GetDepositedAmountByUser (bribeOf d) (gws (vog w)) i = max 0 (GetPoolWeightedVotesByUser (vos w) i d))"
proof -
  have b: "ballots_ok (vos w) (gws (vog w))"
    using chain_laws.incentive_reach_inv [OF assms] unfolding incentive_inv_def by blast
  then have "(\<Sum>i\<in>voters (vos w). GetDepositedAmountByUser (bribeOf d) (gws (vog w)) i) =
      (\<Sum>i\<in>voters (vos w). max 0 (GetPoolWeightedVotesByUser (vos w) i d))" for d
    by (intro sum.cong) (simp_all add: ballots_ok_def)
  with b show ?thesis unfolding ballots_ok_def by simp
qed

theorem votes_add_up_witness:
  "GetTotalVotes (vos demo_voter4) = GetTotalVotesByUser (vos demo_voter4) 1 \<and>
   GetDepositedAmountByUser (bribeOf ''airon'') (gws (vog demo_voter4)) 1 = 4071995"
proof -
  have v: "voters (vos demo_voter4) = {1}" by (simp add: voters_def demo_voter4_def demo_voter3_def demo_vos_def)
  have u: "GetPoolWeightedVotesByUser (vos demo_voter4) 1 ''airon'' = 4071995"
    by (simp add: demo_voter4_def demo_voter3_def demo_vos_def GetPoolWeightedVotesByUser_def demo_vkey_def)
  show ?thesis using votes_add_up [OF plain_chain.chain_laws_axioms demo_incentive_reach] u
    by (simp add: v maxVoter_def)
qed

text \<open>
  C37: what the gauges are owed, as recorded for each and as the index has added since, is covered by what the
  account of the voter module holds of the coin of the locks.
\<close>

theorem voter_rewards_covered:
  assumes "chain_laws S B" "incentive_reach S B N w"
  shows "(\<Sum>d\<in>set (GetGauges (gws (vog w))). owedTo (vos w) d) \<le>
    bal B (vbk (gve (vog w))) (GetModuleAddress B ''voter'') (ve_lock_denom (vst (gve (vog w))))"
  using chain_laws.incentive_reach_inv [OF assms] unfolding incentive_inv_def by blast

theorem voter_rewards_covered_witness:
  "8143990 \<le> bal ledger (vbk (gve (vog demo_voter4))) (GetModuleAddress ledger ''voter'') ''airon''"
proof -
  have "owedTo (vos demo_voter4) ''airon'' = 8143990"
    by (simp add: owedTo_def demo_voter4_def demo_voter3_def demo_vos_def voter_get_defs PoolWeightedVotesKey_def demo_vkey_order)
  moreover have "GetGauges (gws (vog demo_voter4)) = [''airon'']"
    by (simp add: demo_voter4_def demo_gs4_def demo_gs2_def demo_gs_def GetGauges_def)
  moreover have "ve_lock_denom (vst (gve (vog demo_voter4))) = ''airon''"
    by (simp add: demo_voter4_def on_store_def IncVeAttached_def SetVeAttached_def demo_voted_fields demo_ve2_fields)
  ultimately show ?thesis using voter_rewards_covered [OF plain_chain.chain_laws_axioms demo_incentive_reach] by simp
qed






end
