(* ===== verification/Spec2Isabelle.thy ===== *)
theory Spec2Isabelle
  imports AppEnd VeProps VestingProps VoterProps
begin

text \<open>
  A verification development of the chain's modules.
\<close>

text \<open>
  C40: when a vote period closes without a vote on the stablecoin and the cooldown of the maker has
  elapsed, no block can end: the oracle drops the rate and the maker, which runs next, panics.
\<close>

theorem silent_oracle_halts_chain:
  assumes "IsPeriodLastBlock ctx (op_VotePeriod (oracle_params (orc w))) = Ok True"
    and "\<not> voted MicroUSMDenom (orc w)"
    and "BackingRatioStep (mk w) \<noteq> 0"
    and "BackingRatioCooldownPeriod (mk w) \<le> BlockHeight ctx - GetBackingRatioLastBlock (mk w)"
  shows "EndBlockers S B K D fsqrt ords ctx (w, k, d) \<noteq> Ok st"
proof (cases "oracle_EndBlocker S B K D fsqrt ords ctx \<lparr>ost = orc w, stk = k, dst = d, obk = bnk w\<rparr>")
  case (Ok ow)
  with oracle_EndBlocker_rates [OF Ok, of MicroUSMDenom] assms
  have "maker_EndBlocker S ctx (w\<lparr>orc := ost ow, bnk := obk ow\<rparr>) = Panic"
    by (intro end_block_panics_without_price) simp_all
  with Ok show ?thesis by (simp add: EndBlockers_def)
qed (simp_all add: EndBlockers_def)

theorem silent_oracle_halts_chain_witness:
  "EndBlockers cosmos_sdk ledger demo_staking demo_distr Some (walk rev) \<lparr>BlockHeight = 1009, BlockTime = 6000\<rparr>
     (demo_swap, [(''val'', demo_val ''val'' 5)], \<lambda>_ _. 0) \<noteq> Ok (demo_swap, [], \<lambda>_ _. 0)"
  by (rule silent_oracle_halts_chain)
    (simp_all add: run_eval voted_def BackingRatioStep_def BackingRatioCooldownPeriod_def GetBackingRatioLastBlock_def
      blocks_defs IsPeriodLastBlock_def u64_of_int_def u64_mod_def u64_add_def OracleDefaultParams_def)

end
